(* ===== verification/Prelude.thy ===== *)
theory Prelude
  imports Main "HOL-Library.Sublist" "HOL-Library.State_Monad" "HOL-Library.Word"
begin

text \<open>
  Shared base of the development.

  Part 1 models the C and C++ library operations the sources use on strings and numbers:
  \<open>c_str\<close> (a \<^verbatim>\<open>std::string\<close> read up to its first NUL), \<open>find_str\<close>
  (\<^verbatim>\<open>std::string::find\<close>), \<open>substr\<close>, \<open>scan_num\<close> with \<open>stoi\<close> and
  \<open>sscanf_u\<close>, \<open>show_int\<close> (\<^verbatim>\<open>%d\<close>), the C strings of a buffer. They are
  the language's standard library, so they are written out and executable.

  Part 2 is the calculus in which stateful code is written and verified. A stateful function of
  the sources is a value of the library's state monad \<open>('s, 'a) state\<close>; a function that may
  crash returns \<open>fault + 'a\<close>. \<open>wp m Q s\<close> says that running \<open>m\<close> in \<open>s\<close> ends with a
  result and a state that satisfy \<open>Q\<close>; \<open>keeps f m\<close> says that \<open>m\<close> does not change the
  observation \<open>f\<close> of the state. Both come with one rule per construct, in the collections
  \<open>wp\<close> and \<open>keeps\<close>, so that the component theories prove their contracts by rewriting.
\<close>

named_theorems wp \<open>equations for the weakest precondition of each construct and operation\<close>
named_theorems keeps \<open>introduction rules for frame conditions\<close>

section \<open>Strings and numbers of the C and C++ library\<close>

definition NUL :: char where
  "NUL = CHR 0x00"

definition c_str :: "string \<Rightarrow> string" where
  "c_str s = takeWhile (\<lambda>c. c \<noteq> NUL) s"

lemma c_str_id: "NUL \<notin> set s \<Longrightarrow> c_str s = s"
  by (simp add: c_str_def takeWhile_eq_all_conv) blast

lemma c_str_no_NUL [simp]: "NUL \<notin> set (c_str s)"
  by (auto simp: c_str_def dest: set_takeWhileD)

lemma c_str_idem [simp]: "c_str (c_str s) = c_str s"
  by (simp add: c_str_id)

fun find_str :: "string \<Rightarrow> string \<Rightarrow> nat option" where
  "find_str [] n = (if n = [] then Some 0 else None)"
| "find_str (c # cs) n = (if prefix n (c # cs) then Some 0 else map_option Suc (find_str cs n))"

definition contains :: "string \<Rightarrow> string \<Rightarrow> bool" where
  "contains h n \<longleftrightarrow> find_str h n \<noteq> None"

lemma find_str_Some:
  "find_str h n = Some i \<Longrightarrow> i \<le> length h \<and> prefix n (drop i h)"
  by (induction h n arbitrary: i rule: find_str.induct) (auto split: if_splits)

lemma find_str_least:
  "find_str h n = Some i \<Longrightarrow> j < i \<Longrightarrow> \<not> prefix n (drop j h)"
proof (induction h n arbitrary: i j rule: find_str.induct)
  case (1 n)
  then show ?case by (auto split: if_splits)
next
  case (2 c cs n)
  then show ?case by (cases j) (auto split: if_splits)
qed

lemma find_str_None: "find_str h n = None \<longleftrightarrow> \<not> sublist n h"
  by (induction h n rule: find_str.induct) (auto simp: sublist_Cons_right)

lemma contains_sublist: "contains h n \<longleftrightarrow> sublist n h"
  by (simp add: contains_def find_str_None)

lemma find_char:
  "c \<notin> set xs \<Longrightarrow> find_str (xs @ c # ys) [c] = Some (length xs)"
  by (induction xs) auto

lemma find_char_None: "find_str xs [c] = None \<longleftrightarrow> c \<notin> set xs"
  by (induction xs) auto

definition substr :: "string \<Rightarrow> nat \<Rightarrow> nat \<Rightarrow> string" where
  \<comment> \<open>\<^verbatim>\<open>s.substr(pos, n)\<close> for \<^verbatim>\<open>pos <= s.size()\<close>\<close>
  "substr s pos n = take n (drop pos s)"

definition size_t_minus :: "nat \<Rightarrow> nat \<Rightarrow> nat" where
  \<comment> \<open>subtraction on \<^verbatim>\<open>size_t\<close> (64 bit) wraps around\<close>
  "size_t_minus a b = nat ((int a - int b) mod 2 ^ 64)"

lemma size_t_minus_le: "b \<le> a \<Longrightarrow> a < 2 ^ 64 \<Longrightarrow> size_t_minus a b = a - b"
  by (simp add: size_t_minus_def nat_diff_distrib' mod_pos_pos_trivial flip: of_nat_diff)

definition is_digit :: "char \<Rightarrow> bool" where
  "is_digit c \<longleftrightarrow> 48 \<le> (of_char c :: nat) \<and> (of_char c :: nat) \<le> 57"

definition digit_val :: "char \<Rightarrow> nat" where
  "digit_val c = of_char c - 48"

definition digit_char :: "nat \<Rightarrow> char" where
  "digit_char d = char_of (48 + d)"

definition dec_val :: "string \<Rightarrow> nat" where
  "dec_val s = foldl (\<lambda>a c. 10 * a + digit_val c) 0 s"

fun show_nat :: "nat \<Rightarrow> string" where
  "show_nat n = (if n < 10 then [digit_char n] else show_nat (n div 10) @ [digit_char (n mod 10)])"

declare show_nat.simps [simp del]

definition show_int :: "int \<Rightarrow> string" where
  \<comment> \<open>the \<^verbatim>\<open>%d\<close> conversion\<close>
  "show_int i = (if i < 0 then ''-'' @ show_nat (nat (- i)) else show_nat (nat i))"

lemma of_char_digit: "d < 10 \<Longrightarrow> (of_char (digit_char d) :: nat) = 48 + d"
  by (simp add: digit_char_def)

lemma digit_char_ok [simp]:
  "d < 10 \<Longrightarrow> is_digit (digit_char d)" "d < 10 \<Longrightarrow> digit_val (digit_char d) = d"
  by (simp_all add: is_digit_def digit_val_def of_char_digit)

lemma show_nat_digits: "\<forall>c \<in> set (show_nat n). is_digit c"
proof (induction n rule: show_nat.induct)
  case (1 n)
  then show ?case by (subst show_nat.simps) auto
qed

lemma show_nat_nonempty [simp]: "show_nat n \<noteq> []"
  by (subst show_nat.simps) simp

lemma dec_val_show_nat [simp]: "dec_val (show_nat n) = n"
proof (induction n rule: show_nat.induct)
  case (1 n)
  show ?case
  proof (cases "n < 10")
    case True
    then show ?thesis by (subst show_nat.simps) (simp add: dec_val_def)
  next
    case False
    then have "dec_val (show_nat n) = 10 * dec_val (show_nat (n div 10)) + n mod 10"
      by (subst show_nat.simps) (simp add: dec_val_def)
    also have "\<dots> = n"
      using False 1 by simp
    finally show ?thesis .
  qed
qed

lemma length_show_nat: "n < 10 ^ k \<Longrightarrow> 0 < k \<Longrightarrow> length (show_nat n) \<le> k"
proof (induction n arbitrary: k rule: show_nat.induct)
  case (1 n)
  show ?case
  proof (cases "n < 10")
    case True
    then show ?thesis using 1(3) by (subst show_nat.simps) simp
  next
    case False
    then have "k \<noteq> 1" using 1(2) by auto
    then obtain j where j: "k = Suc j" "0 < j"
      using 1(3) by (cases k) auto
    then have "n div 10 < 10 ^ j"
      using 1(2) by (simp add: less_mult_imp_div_less mult.commute)
    then have "length (show_nat (n div 10)) \<le> j"
      using 1(1) False j(2) by blast
    then show ?thesis
      using False j(1) by (subst show_nat.simps) simp
  qed
qed

definition isspace :: "char \<Rightarrow> bool" where
  "isspace c \<longleftrightarrow> c = CHR '' '' \<or> (9 \<le> (of_char c :: nat) \<and> (of_char c :: nat) \<le> 13)"

definition scan_num :: "string \<Rightarrow> (bool \<times> nat) option" where
  \<comment> \<open>the subject sequence of \<^verbatim>\<open>strtol\<close> in base 10: blanks, an optional sign, digits\<close>
  "scan_num s =
     (let t = dropWhile isspace s;
          (neg, u) = (case t of
              [] \<Rightarrow> (False, [])
            | c # cs \<Rightarrow> if c = CHR ''-'' then (True, cs)
                        else if c = CHR ''+'' then (False, cs) else (False, t));
          ds = takeWhile is_digit u
      in if ds = [] then None else Some (neg, dec_val ds))"

lemma digit_not_special:
  "is_digit c \<Longrightarrow> \<not> isspace c" "is_digit c \<Longrightarrow> c \<noteq> CHR ''-''" "is_digit c \<Longrightarrow> c \<noteq> CHR ''+''"
  by (auto simp: is_digit_def isspace_def)

lemma scan_num_digits:
  assumes "ds \<noteq> []" "\<forall>c \<in> set ds. is_digit c"
  shows "scan_num ds = Some (False, dec_val ds)"
proof -
  obtain c cs where ds: "ds = c # cs" "is_digit c"
    using assms by (cases ds) auto
  then have "dropWhile isspace ds = ds"
    by (simp add: digit_not_special)
  moreover have "takeWhile is_digit ds = ds"
    using assms by (simp add: takeWhile_eq_all_conv)
  moreover have "c \<noteq> CHR ''-''" "c \<noteq> CHR ''+''"
    using ds(2) digit_not_special(2,3) by blast+
  ultimately show ?thesis
    unfolding scan_num_def Let_def ds(1) by simp
qed

lemma scan_num_show_nat: "scan_num (show_nat n) = Some (False, n)"
  using scan_num_digits [OF show_nat_nonempty show_nat_digits] by simp

section \<open>Crashes\<close>

text \<open>
  What ends the process instead of returning: an out-of-range \<^verbatim>\<open>operator[]\<close> on a vector
  (undefined behaviour), an uncaught exception of \<^verbatim>\<open>std::stoi\<close>, reading the wrong member of an
  AIDL union (a fatal assertion), reading a character buffer with no terminator, a call through a
  null pointer, a copy past the end of an array, a call of
  \<^verbatim>\<open>abort\<close>. \<open>Not_returned\<close> marks a wait that has not ended within the fuel given.
\<close>

datatype fault =
    Vector_out_of_range
  | Stoi_invalid_argument
  | Stoi_out_of_range
  | Union_bad_tag
  | Unterminated_buffer
  | Null_dereference
  | Buffer_overflow
  | Aborted
  | Not_returned

definition stoi :: "string \<Rightarrow> fault + int" where
  "stoi s = (case scan_num (c_str s) of
       None \<Rightarrow> Inl Stoi_invalid_argument
     | Some (neg, v) \<Rightarrow>
         (let i = (if neg then - int v else int v)
          in if i < - (2 ^ 31) \<or> 2 ^ 31 \<le> i then Inl Stoi_out_of_range else Inr i))"

definition sscanf_u :: "string \<Rightarrow> 32 word option" where
  \<comment> \<open>one \<^verbatim>\<open>%u\<close> conversion: \<^verbatim>\<open>strtoumax\<close> (saturating at 64 bit), stored in 32 bit\<close>
  "sscanf_u s = (case scan_num s of
       None \<Rightarrow> None
     | Some (neg, v) \<Rightarrow> Some (if 2 ^ 64 \<le> v then - 1 else if neg then - of_nat v else of_nat v))"

section \<open>The state monad: weakest preconditions and frames\<close>

abbreviation ret :: "'a \<Rightarrow> ('s, 'a) state" where
  "ret \<equiv> State_Monad.return"

definition modify :: "('s \<Rightarrow> 's) \<Rightarrow> ('s, unit) state" where
  "modify f = State (\<lambda>s. ((), f s))"

definition gets :: "('s \<Rightarrow> 'a) \<Rightarrow> ('s, 'a) state" where
  "gets f = State (\<lambda>s. (f s, s))"

definition on_ok :: "fault + 'a \<Rightarrow> ('a \<Rightarrow> ('s, fault + 'b) state) \<Rightarrow> ('s, fault + 'b) state" where
  \<comment> \<open>continue after a call that did not crash\<close>
  "on_ok r k = (case r of Inl e \<Rightarrow> ret (Inl e) | Inr x \<Rightarrow> k x)"

lemma on_ok_simps [simp]: "on_ok (Inl e) k = ret (Inl e)" "on_ok (Inr x) k = k x"
  by (simp_all add: on_ok_def)

definition only_if :: "bool \<Rightarrow> ('s, unit) state \<Rightarrow> ('s, unit) state" where
  "only_if b m = (if b then m else ret ())"

primrec for_each :: "'a list \<Rightarrow> ('a \<Rightarrow> ('s, unit) state) \<Rightarrow> ('s, unit) state" where
  "for_each [] f = ret ()"
| "for_each (x # xs) f = do { f x; for_each xs f }"

primrec for_each_ok :: "'a list \<Rightarrow> ('a \<Rightarrow> ('s, fault + unit) state) \<Rightarrow> ('s, fault + unit) state" where
  "for_each_ok [] f = ret (Inr ())"
| "for_each_ok (x # xs) f = do { r \<leftarrow> f x; on_ok r (\<lambda>_. for_each_ok xs f) }"

lemma run_modify [simp]: "run_state (modify f) s = ((), f s)"
  by (simp add: modify_def)

lemma run_gets [simp]: "run_state (gets f) s = (f s, s)"
  by (simp add: gets_def)

definition wp :: "('s, 'a) state \<Rightarrow> ('a \<Rightarrow> 's \<Rightarrow> bool) \<Rightarrow> 's \<Rightarrow> bool" where
  "wp m Q s = (case run_state m s of (a, s') \<Rightarrow> Q a s')"

lemma wp_run: "run_state m s = (a, s') \<Longrightarrow> wp m Q s \<longleftrightarrow> Q a s'"
  by (simp add: wp_def)

lemma wp_snd: "P (snd (run_state m s)) \<longleftrightarrow> wp m (\<lambda>_. P) s"
  by (simp add: wp_def case_prod_beta)

lemma wp_return [wp]: "wp (ret a) Q = Q a"
  by (simp add: wp_def fun_eq_iff)

lemma wp_bind [wp]: "wp (State_Monad.bind m f) Q = wp m (\<lambda>a. wp (f a) Q)"
  by (simp add: wp_def fun_eq_iff split: prod.split)

lemma wp_modify [wp]: "wp (modify f) Q = (\<lambda>s. Q () (f s))"
  by (simp add: wp_def fun_eq_iff)

lemma wp_gets [wp]: "wp (gets f) Q = (\<lambda>s. Q (f s) s)"
  by (simp add: wp_def fun_eq_iff)

text \<open>
  The branching constructs turn into implications, not into \<open>if\<close> and \<open>case\<close>: the simplifier does
  not look into the branches of those, but it does simplify both sides of an implication, also under
  the abstractions of the surrounding conditions.
\<close>

lemma wp_if [wp]:
  "wp (if b then m else n) Q = (\<lambda>s. (b \<longrightarrow> wp m Q s) \<and> (\<not> b \<longrightarrow> wp n Q s))"
  by simp

lemma wp_only_if [wp]: "wp (only_if b m) Q = (\<lambda>s. (b \<longrightarrow> wp m Q s) \<and> (\<not> b \<longrightarrow> Q () s))"
  by (simp add: only_if_def wp_return)

lemma wp_case_prod [wp]:
  "wp (case p of (x, y) \<Rightarrow> f x y) Q = (\<lambda>s. \<forall>x y. p = (x, y) \<longrightarrow> wp (f x y) Q s)"
  by (cases p) simp

lemma wp_case_option [wp]:
  "wp (case x of None \<Rightarrow> m | Some y \<Rightarrow> f y) Q =
    (\<lambda>s. (x = None \<longrightarrow> wp m Q s) \<and> (\<forall>y. x = Some y \<longrightarrow> wp (f y) Q s))"
  by (cases x) simp_all

lemma wp_case_list [wp]:
  "wp (case x of [] \<Rightarrow> m | y # ys \<Rightarrow> f y ys) Q =
    (\<lambda>s. (x = [] \<longrightarrow> wp m Q s) \<and> (\<forall>y ys. x = y # ys \<longrightarrow> wp (f y ys) Q s))"
  by (cases x) simp_all

lemma sum_cases_same [simp]:
  "((\<forall>e. r = Inl e \<longrightarrow> P) \<and> (\<forall>x. r = Inr x \<longrightarrow> P)) = P"
  "(((\<exists>e. r = Inl e) \<longrightarrow> P) \<and> ((\<exists>x. r = Inr x) \<longrightarrow> P)) = P"
  by (cases r, simp_all)+

lemma sum_cases_same_unit [simp]: "(((\<exists>e. r = Inl e) \<longrightarrow> P) \<and> (r = Inr () \<longrightarrow> P)) = P"
  by (cases r) simp_all

lemma wp_on_ok [wp]:
  "wp (on_ok r k) Q =
    (\<lambda>s. (\<forall>e. r = Inl e \<longrightarrow> Q (Inl e) s) \<and> (\<forall>x. r = Inr x \<longrightarrow> wp (k x) Q s))"
  by (cases r) (simp_all add: wp_return)

lemma wp_Let [wp]: "wp (let x = v in f x) Q = wp (f v) Q"
  by simp

lemma wp_mono: "wp m P s \<Longrightarrow> (\<And>a t. P a t \<Longrightarrow> Q a t) \<Longrightarrow> wp m Q s"
  by (auto simp: wp_def split: prod.splits)

lemma wp_conj: "wp m (\<lambda>a t. P a t \<and> Q a t) s \<longleftrightarrow> wp m P s \<and> wp m Q s"
  by (auto simp: wp_def split: prod.splits)

lemma wp_True [simp]: "wp m (\<lambda>_ _. True) s"
  by (simp add: wp_def split: prod.split)

text \<open>A loop keeps what its body keeps.\<close>

lemma wp_for_each:
  assumes "I s" and "\<And>x t. x \<in> set xs \<Longrightarrow> I t \<Longrightarrow> wp (f x) (\<lambda>_. I) t"
  shows "wp (for_each xs f) (\<lambda>_. I) s"
  using assms
proof (induction xs arbitrary: s)
  case Nil
  then show ?case by (simp add: wp)
next
  case (Cons x xs)
  have "wp (f x) (\<lambda>_. I) s" using Cons.prems by simp
  then have "wp (f x) (\<lambda>_. wp (for_each xs f) (\<lambda>_. I)) s"
    by (rule wp_mono) (simp add: Cons.IH Cons.prems(2))
  then show ?case by (simp add: wp)
qed

lemma wp_for_each_ok:
  assumes "I s" and "\<And>x t. x \<in> set xs \<Longrightarrow> I t \<Longrightarrow> wp (f x) (\<lambda>_. I) t"
  shows "wp (for_each_ok xs f) (\<lambda>_. I) s"
  using assms
proof (induction xs arbitrary: s)
  case Nil
  then show ?case by (simp add: wp)
next
  case (Cons x xs)
  have "wp (f x) (\<lambda>_. I) s" using Cons.prems by simp
  then have "wp (f x) (\<lambda>r. wp (on_ok r (\<lambda>_. for_each_ok xs f)) (\<lambda>_. I)) s"
    by (rule wp_mono) (simp add: Cons.IH Cons.prems(2) wp)
  then show ?case by (simp add: wp)
qed

definition keeps :: "('s \<Rightarrow> 'b) \<Rightarrow> ('s, 'a) state \<Rightarrow> bool" where
  "keeps f m \<longleftrightarrow> (\<forall>s. f (snd (run_state m s)) = f s)"

lemma keepsD: "keeps f m \<Longrightarrow> f (snd (run_state m s)) = f s"
  by (simp add: keeps_def)

lemma keeps_run: "keeps f m \<Longrightarrow> run_state m s = (a, s') \<Longrightarrow> f s' = f s"
  by (metis keepsD snd_conv)

lemma keeps_wp: "keeps f m \<Longrightarrow> wp m (\<lambda>_ t. f t = f s) s"
  by (simp add: wp_def keeps_def split: prod.split) (metis snd_conv)

lemma keeps_return [keeps]: "keeps f (ret a)"
  by (simp add: keeps_def)

lemma keeps_bind [keeps]: "keeps f m \<Longrightarrow> (\<And>a. keeps f (g a)) \<Longrightarrow> keeps f (State_Monad.bind m g)"
  by (simp add: keeps_def split: prod.split) (metis snd_conv)

lemma keeps_gets [keeps]: "keeps f (gets g)"
  by (simp add: keeps_def)

lemma keeps_modify [keeps]: "(\<And>s. f (g s) = f s) \<Longrightarrow> keeps f (modify g)"
  by (simp add: keeps_def)

lemma keeps_if [keeps]: "keeps f m \<Longrightarrow> keeps f n \<Longrightarrow> keeps f (if b then m else n)"
  by simp

lemma keeps_only_if [keeps]: "keeps f m \<Longrightarrow> keeps f (only_if b m)"
  by (simp add: only_if_def keeps)

lemma keeps_case_prod [keeps]: "(\<And>x y. keeps f (g x y)) \<Longrightarrow> keeps f (case p of (x, y) \<Rightarrow> g x y)"
  by (cases p) simp

lemma keeps_case_option [keeps]:
  "keeps f m \<Longrightarrow> (\<And>y. keeps f (g y)) \<Longrightarrow> keeps f (case x of None \<Rightarrow> m | Some y \<Rightarrow> g y)"
  by (cases x) simp_all

lemma keeps_case_list [keeps]:
  "keeps f m \<Longrightarrow> (\<And>y ys. keeps f (g y ys)) \<Longrightarrow> keeps f (case x of [] \<Rightarrow> m | y # ys \<Rightarrow> g y ys)"
  by (cases x) simp_all

lemma keeps_on_ok [keeps]: "(\<And>x. keeps f (k x)) \<Longrightarrow> keeps f (on_ok r k)"
  by (cases r) (simp_all add: keeps_return)

lemma keeps_Let [keeps]: "(\<And>x. keeps f (g x)) \<Longrightarrow> keeps f (let x = v in g x)"
  by simp

lemma keeps_for_each [keeps]: "(\<And>x. keeps f (g x)) \<Longrightarrow> keeps f (for_each xs g)"
  by (induction xs) (simp_all add: keeps_return keeps_bind)

lemma keeps_for_each_ok [keeps]: "(\<And>x. keeps f (g x)) \<Longrightarrow> keeps f (for_each_ok xs g)"
  by (induction xs) (simp_all add: keeps_return keeps_bind keeps_on_ok)

end
