(* ===== verification/Platform.thy ===== *)
theory Platform
  imports Prelude
begin

text \<open>
  The boundary of the services: the kernel, the C library's files, Binder and
  \<^verbatim>\<open>libbase\<close>. None of it is under \<^verbatim>\<open>src/\<close>, so it is a parameter of every
  operation: a record of functions over a kernel state of arbitrary type \<open>'k\<close>. Each call may
  change that state in any way, so a theorem that quantifies over the record holds whatever the
  kernel, the other processes and the peers do, including failing any call.

  The state every service extends is \<open>world\<close>: the kernel state and the trace of the calls made so
  far, in order. \<open>'n\<close> is the type of the messages the service sends over Binder and of the library
  calls it makes.

  The library functions of \<^verbatim>\<open>libbase\<close> are fields too; what a property needs of them is
  stated where it is needed, against the reference functions \<open>strip\<close> and \<open>split_tokens\<close>, which
  say what their documentation says.
\<close>

datatype dtype = DT_DIR | DT_LNK | DT_OTHER

record dirent =
  d_name :: string
  d_type :: dtype

datatype 'n io =
    FileRead string bool string      \<comment> \<open>\<^verbatim>\<open>ReadFileToString\<close>: path, result, the string left\<close>
  | FileWrite string string bool     \<comment> \<open>\<^verbatim>\<open>WriteStringToFile\<close>: path, data, result\<close>
  | FOpen string bool                \<comment> \<open>\<^verbatim>\<open>fopen(path, "w")\<close>\<close>
  | FPuts string string bool         \<comment> \<open>\<^verbatim>\<open>fputs\<close>: path, data, not \<^verbatim>\<open>EOF\<close>\<close>
  | FClose string
  | DirOpen string bool
  | FdOpen string int                \<comment> \<open>\<^verbatim>\<open>open(path, O_RDONLY)\<close>: the descriptor or -1\<close>
  | FdClose int
  | FdRead int string
  | EpollAdd int bool
  | EpollDel int
  | TimerSet nat bool
  | Slept nat
  | CondWait int bool                \<comment> \<open>deadline in seconds, timed out\<close>
  | ThreadCreate bool
  | ThreadSignal bool
  | ThreadJoin
  | Sent 'n bool                     \<comment> \<open>a Binder call and whether its status was ok\<close>
  | LibCall 'n                       \<comment> \<open>a call of a library that keeps a state of its own\<close>

record ('k, 'n) platform =
  sys_read :: "string \<Rightarrow> 'k \<Rightarrow> (bool \<times> string) \<times> 'k"
  sys_write :: "string \<Rightarrow> string \<Rightarrow> 'k \<Rightarrow> bool \<times> 'k"
  sys_fopen :: "string \<Rightarrow> 'k \<Rightarrow> bool \<times> 'k"
  sys_fputs :: "string \<Rightarrow> string \<Rightarrow> 'k \<Rightarrow> bool \<times> 'k"
  sys_fclose :: "string \<Rightarrow> 'k \<Rightarrow> unit \<times> 'k"
  sys_opendir :: "string \<Rightarrow> 'k \<Rightarrow> dirent list option \<times> 'k"
  sys_open :: "string \<Rightarrow> 'k \<Rightarrow> int \<times> 'k"
  sys_fdread :: "int \<Rightarrow> nat \<Rightarrow> 'k \<Rightarrow> string \<times> 'k"
  sys_epoll_add :: "int \<Rightarrow> 'k \<Rightarrow> bool \<times> 'k"
  sys_settimer :: "nat \<Rightarrow> 'k \<Rightarrow> bool \<times> 'k"
  sys_boot_now :: "'k \<Rightarrow> int \<times> 'k"          \<comment> \<open>\<^verbatim>\<open>CLOCK_BOOTTIME\<close> in nanoseconds\<close>
  sys_mono_now :: "'k \<Rightarrow> int \<times> 'k"          \<comment> \<open>\<^verbatim>\<open>CLOCK_MONOTONIC\<close> in seconds\<close>
  sys_getprop :: "string \<Rightarrow> string \<Rightarrow> 'k \<Rightarrow> string \<times> 'k"
  sys_send :: "'n \<Rightarrow> 'k \<Rightarrow> bool \<times> 'k"
  lib_trim :: "string \<Rightarrow> string"
  lib_tokenize :: "string \<Rightarrow> string \<Rightarrow> string list"

record ('k, 'n) world =
  kern :: 'k
  trace :: "'n io list"

section \<open>The calls\<close>

definition sys :: "('k \<Rightarrow> 'a \<times> 'k) \<Rightarrow> ('a \<Rightarrow> 'n io list) \<Rightarrow> (('k, 'n, 'z) world_scheme, 'a) state" where
  \<comment> \<open>one call: the kernel answers, and the call is recorded\<close>
  "sys f ev = State (\<lambda>s. case f (kern s) of
      (r, k) \<Rightarrow> (r, s\<lparr>kern := k, trace := trace s @ ev r\<rparr>))"

lemma run_sys:
  "run_state (sys f ev) s =
    (fst (f (kern s)), s\<lparr>kern := snd (f (kern s)), trace := trace s @ ev (fst (f (kern s)))\<rparr>)"
  by (simp add: sys_def split: prod.split)

lemma wp_sys [wp]:
  "wp (sys f ev) Q =
    (\<lambda>s. \<forall>r k. f (kern s) = (r, k) \<longrightarrow> Q r (s\<lparr>kern := k, trace := trace s @ ev r\<rparr>))"
  by (simp add: wp_def sys_def fun_eq_iff split: prod.split)

definition ReadFileToString ::
  "('k, 'n, 'p) platform_scheme \<Rightarrow> string \<Rightarrow> (('k, 'n, 'z) world_scheme, bool \<times> string) state" where
  "ReadFileToString K p = sys (sys_read K p) (\<lambda>(ok, c). [FileRead p ok c])"

definition WriteStringToFile ::
  "('k, 'n, 'p) platform_scheme \<Rightarrow> string \<Rightarrow> string \<Rightarrow> (('k, 'n, 'z) world_scheme, bool) state" where
  "WriteStringToFile K d p = sys (sys_write K p d) (\<lambda>ok. [FileWrite p d ok])"

definition fopen_w ::
  "('k, 'n, 'p) platform_scheme \<Rightarrow> string \<Rightarrow> (('k, 'n, 'z) world_scheme, bool) state" where
  "fopen_w K p = sys (sys_fopen K p) (\<lambda>ok. [FOpen p ok])"

definition fputs ::
  "('k, 'n, 'p) platform_scheme \<Rightarrow> string \<Rightarrow> string \<Rightarrow> (('k, 'n, 'z) world_scheme, bool) state" where
  "fputs K d p = sys (sys_fputs K p d) (\<lambda>ok. [FPuts p d ok])"

definition fclose ::
  "('k, 'n, 'p) platform_scheme \<Rightarrow> string \<Rightarrow> (('k, 'n, 'z) world_scheme, unit) state" where
  "fclose K p = sys (sys_fclose K p) (\<lambda>_. [FClose p])"

definition opendir ::
  "('k, 'n, 'p) platform_scheme \<Rightarrow> string \<Rightarrow> (('k, 'n, 'z) world_scheme, dirent list option) state" where
  \<comment> \<open>\<^verbatim>\<open>opendir\<close> with the entries the \<^verbatim>\<open>readdir\<close> loop would return, in their order\<close>
  "opendir K p = sys (sys_opendir K p) (\<lambda>r. [DirOpen p (r \<noteq> None)])"

definition boot_now :: "('k, 'n, 'p) platform_scheme \<Rightarrow> (('k, 'n, 'z) world_scheme, int) state" where
  "boot_now K = sys (sys_boot_now K) (\<lambda>_. [])"

definition mono_now :: "('k, 'n, 'p) platform_scheme \<Rightarrow> (('k, 'n, 'z) world_scheme, int) state" where
  "mono_now K = sys (sys_mono_now K) (\<lambda>_. [])"

definition GetProperty ::
  "('k, 'n, 'p) platform_scheme \<Rightarrow> string \<Rightarrow> string \<Rightarrow> (('k, 'n, 'z) world_scheme, string) state" where
  "GetProperty K p d = sys (sys_getprop K p d) (\<lambda>_. [])"

definition send ::
  "('k, 'n, 'p) platform_scheme \<Rightarrow> 'n \<Rightarrow> (('k, 'n, 'z) world_scheme, bool) state" where
  "send K n = sys (sys_send K n) (\<lambda>ok. [Sent n ok])"

definition lib_call :: "'n \<Rightarrow> (('k, 'n, 'z) world_scheme, unit) state" where
  "lib_call n = modify (\<lambda>s. s\<lparr>trace := trace s @ [LibCall n]\<rparr>)"

lemma wp_lib_call [wp]:
  "wp (lib_call n) Q = (\<lambda>s. Q () (s\<lparr>trace := trace s @ [LibCall n]\<rparr>))"
  by (simp add: lib_call_def wp)

lemmas io_defs [wp] = ReadFileToString_def WriteStringToFile_def fopen_w_def fputs_def fclose_def
  opendir_def boot_now_def mono_now_def GetProperty_def send_def

section \<open>What a trace shows\<close>

text \<open>The stores to files, in order: path, data, and whether the call succeeded.\<close>

fun store_of :: "'n io \<Rightarrow> (string \<times> string \<times> bool) list" where
  "store_of (FileWrite p d ok) = [(p, d, ok)]"
| "store_of (FPuts p d ok) = [(p, d, ok)]"
| "store_of _ = []"

definition stores :: "'n io list \<Rightarrow> (string \<times> string \<times> bool) list" where
  "stores tr = concat (map store_of tr)"

fun sent_of :: "'n io \<Rightarrow> 'n list" where
  "sent_of (Sent n ok) = [n]"
| "sent_of _ = []"

definition sends :: "'n io list \<Rightarrow> 'n list" where
  "sends tr = concat (map sent_of tr)"

fun call_of :: "'n io \<Rightarrow> 'n list" where
  "call_of (LibCall n) = [n]"
| "call_of _ = []"

definition calls :: "'n io list \<Rightarrow> 'n list" where
  "calls tr = concat (map call_of tr)"

lemma calls_simps [simp]:
  "calls [] = []" "calls (xs @ ys) = calls xs @ calls ys"
  "calls (e # ys) = call_of e @ calls ys"
  by (simp_all add: calls_def)

lemma stores_simps [simp]:
  "stores [] = []" "stores (xs @ ys) = stores xs @ stores ys"
  "stores (e # ys) = store_of e @ stores ys"
  by (simp_all add: stores_def)

lemma sends_simps [simp]:
  "sends [] = []" "sends (xs @ ys) = sends xs @ sends ys"
  "sends (e # ys) = sent_of e @ sends ys"
  by (simp_all add: sends_def)

abbreviation stored :: "('k, 'n, 'z) world_scheme \<Rightarrow> (string \<times> string \<times> bool) list" where
  "stored s \<equiv> stores (trace s)"

abbreviation called :: "('k, 'n, 'z) world_scheme \<Rightarrow> 'n list" where
  "called s \<equiv> calls (trace s)"

abbreviation sent :: "('k, 'n, 'z) world_scheme \<Rightarrow> 'n list" where
  "sent s \<equiv> sends (trace s)"

section \<open>Which observations the calls leave alone\<close>

text \<open>
  \<open>quiet_obs f\<close>: \<open>f\<close> does not see calls that neither store nor send. \<open>field_obs f\<close>: \<open>f\<close> sees
  neither the kernel nor the trace, only the service's own fields.
\<close>

definition quiet :: "'n io list \<Rightarrow> bool" where
  "quiet es \<longleftrightarrow> stores es = [] \<and> sends es = []"

definition quiet_obs :: "(('k, 'n, 'z) world_scheme \<Rightarrow> 'b) \<Rightarrow> bool" where
  "quiet_obs f \<longleftrightarrow> (\<forall>s k es. quiet es \<longrightarrow> f (s\<lparr>kern := k, trace := trace s @ es\<rparr>) = f s)"

definition field_obs :: "(('k, 'n, 'z) world_scheme \<Rightarrow> 'b) \<Rightarrow> bool" where
  "field_obs f \<longleftrightarrow> (\<forall>s k es. f (s\<lparr>kern := k, trace := es\<rparr>) = f s)"

lemma quiet_simps [simp]:
  "quiet []" "quiet (e # es) \<longleftrightarrow> store_of e = [] \<and> sent_of e = [] \<and> quiet es"
  by (auto simp: quiet_def)

lemma field_obs_quiet: "field_obs f \<Longrightarrow> quiet_obs f"
  by (simp add: field_obs_def quiet_obs_def)

lemma field_obsI: "(\<And>s k es. f (s\<lparr>kern := k, trace := es\<rparr>) = f s) \<Longrightarrow> field_obs f"
  by (simp add: field_obs_def)

lemma quiet_obs_stored [simp]: "quiet_obs stored"
  by (simp add: quiet_obs_def quiet_def)

lemma quiet_obs_sent [simp]: "quiet_obs sent"
  by (simp add: quiet_obs_def quiet_def)

lemma keeps_sys_quiet: "quiet_obs f \<Longrightarrow> (\<And>r. quiet (ev r)) \<Longrightarrow> keeps f (sys g ev)"
  by (simp add: keeps_def run_sys quiet_obs_def)

lemma keeps_sys_field: "field_obs f \<Longrightarrow> keeps f (sys g ev)"
  by (simp add: keeps_def run_sys field_obs_def)

lemma keeps_queries [keeps]:
  "quiet_obs f \<Longrightarrow> keeps f (ReadFileToString K p)"
  "quiet_obs f \<Longrightarrow> keeps f (fopen_w K p)"
  "quiet_obs f \<Longrightarrow> keeps f (fclose K p)"
  "quiet_obs f \<Longrightarrow> keeps f (opendir K p)"
  "quiet_obs f \<Longrightarrow> keeps f (boot_now K)"
  "quiet_obs f \<Longrightarrow> keeps f (mono_now K)"
  "quiet_obs f \<Longrightarrow> keeps f (GetProperty K p d)"
  by (auto simp: io_defs intro!: keeps_sys_quiet split: prod.split)

lemma keeps_stores [keeps]:
  "field_obs f \<Longrightarrow> keeps f (WriteStringToFile K d p)"
  "field_obs f \<Longrightarrow> keeps f (fputs K d p)"
  "field_obs f \<Longrightarrow> keeps f (send K n)"
  by (auto simp: io_defs intro!: keeps_sys_field)

section \<open>What libbase documents\<close>

definition strip :: "string \<Rightarrow> string" where
  \<comment> \<open>\<^verbatim>\<open>Trim\<close>: the blanks at both ends removed\<close>
  "strip s = rev (dropWhile isspace (rev (dropWhile isspace s)))"

fun split_tokens :: "string \<Rightarrow> string \<Rightarrow> string \<Rightarrow> string list" where
  \<comment> \<open>\<^verbatim>\<open>Tokenize\<close>: the maximal runs of characters that are not delimiters\<close>
  "split_tokens [] delims acc = (if acc = [] then [] else [rev acc])"
| "split_tokens (c # cs) delims acc =
     (if c \<in> set delims
      then (if acc = [] then split_tokens cs delims [] else rev acc # split_tokens cs delims [])
      else split_tokens cs delims (c # acc))"

lemma dropWhile_id: "xs = [] \<or> \<not> P (hd xs) \<Longrightarrow> dropWhile P xs = xs"
  by (cases xs) auto

lemma strip_id: "s = [] \<or> (\<not> isspace (hd s) \<and> \<not> isspace (last s)) \<Longrightarrow> strip s = s"
  by (cases "s = []") (simp_all add: strip_def dropWhile_id hd_rev)

end
