(* ===== verification/I2cClient.thy ===== *)
theory I2cClient
  imports Platform
begin

text \<open>
  The Type-C controller's I2C directory in sysfs: \<^verbatim>\<open>getI2cBusNumber\<close> and
  \<^verbatim>\<open>getI2cClientPath\<close>, which \<^verbatim>\<open>usb/usb/Usb.cpp\<close> and
  \<^verbatim>\<open>usb/gadget/UsbGadget.cpp\<close> carry in two identical copies over two fields each. The
  fields are the record \<open>i2c_world\<close>, which the states of both services extend, and the
  operations are polymorphic in the extension. The second copy is in \<open>UsbGadget\<close>, with the proof
  that it is the same function.

  Both operations cache what they find. The locale \<open>cached_lookup\<close> states that contract (a hit
  does no call and changes nothing, a result that was found is the cached one afterwards) and
  derives what the clients rely on.
\<close>

record ('k, 'n) i2c_world = "('k, 'n) world" +
  mI2cBusNumber :: int
  mI2cClientPath :: string

section \<open>Constants and formats\<close>

definition kHsi2cPath :: string where
  "kHsi2cPath = ''/sys/devices/platform/10d50000.hsi2c''"

definition kMax77759TcpcDevName :: string where
  "kMax77759TcpcDevName = ''i2c-max77759tcpc''"

definition kMax77759TcpcClientId :: nat where
  "kMax77759TcpcClientId = 0x25"

definition PATH_MAX :: nat where
  "PATH_MAX = 4096"

definition hex_char :: "nat \<Rightarrow> char" where
  "hex_char d = (if d < 10 then char_of (48 + d) else char_of (87 + d))"

fun show_hex :: "nat \<Rightarrow> string" where
  "show_hex n = (if n < 16 then [hex_char n] else show_hex (n div 16) @ [hex_char (n mod 16)])"

declare show_hex.simps [simp del]

definition pad0 :: "nat \<Rightarrow> string \<Rightarrow> string" where
  "pad0 k s = replicate (k - length s) (CHR ''0'') @ s"

definition snprintf :: "nat \<Rightarrow> string \<Rightarrow> string" where
  \<comment> \<open>what \<^verbatim>\<open>snprintf\<close> leaves in a buffer of the given size, as a C string\<close>
  "snprintf n s = take (n - 1) s"

definition labeled_path :: "int \<Rightarrow> string" where
  "labeled_path bus = kHsi2cPath @ ''/i2c-'' @ show_int bus @ ''/'' @ kMax77759TcpcDevName"

definition unlabeled_path :: "int \<Rightarrow> string" where
  "unlabeled_path bus = kHsi2cPath @ ''/i2c-'' @ show_int bus @ ''/'' @ show_int bus @ ''-''
     @ pad0 4 (show_hex kMax77759TcpcClientId)"

section \<open>The operations\<close>

definition sscanf_i2c :: "string \<Rightarrow> 32 word option" where
  \<comment> \<open>\<^verbatim>\<open>sscanf(d_name, "i2c-%u", &busNumber) == 1\<close>\<close>
  "sscanf_i2c s = (if prefix ''i2c-'' s then sscanf_u (drop 4 s) else None)"

fun scan_bus :: "dirent list \<Rightarrow> 32 word option" where
  "scan_bus [] = None"
| "scan_bus (ep # eps) =
     (if d_type ep = DT_DIR then
        (case sscanf_i2c (d_name ep) of Some n \<Rightarrow> Some n | None \<Rightarrow> scan_bus eps)
      else scan_bus eps)"

definition getI2cBusNumber ::
  "('k, 'n, 'p) platform_scheme \<Rightarrow> (('k, 'n, 'z) i2c_world_scheme, int) state" where
  "getI2cBusNumber K = do {
     n \<leftarrow> gets mI2cBusNumber;
     if 0 \<le> n then ret n
     else do {
       dp \<leftarrow> opendir K kHsi2cPath;
       (case dp of
          None \<Rightarrow> ret ()
        | Some eps \<Rightarrow>
            (case scan_bus eps of
               None \<Rightarrow> ret ()
             | Some busNumber \<Rightarrow> modify (\<lambda>s. s\<lparr>mI2cBusNumber := sint busNumber\<rparr>)));
       gets mI2cBusNumber
     }
   }"

definition getI2cClientPath ::
  "('k, 'n, 'p) platform_scheme \<Rightarrow> (('k, 'n, 'z) i2c_world_scheme, string) state" where
  "getI2cClientPath K = do {
     p \<leftarrow> gets mI2cClientPath;
     if p \<noteq> [] then ret p
     else do {
       n \<leftarrow> getI2cBusNumber K;
       if n < 0 then ret []
       else do {
         bus \<leftarrow> gets mI2cBusNumber;
         let i2cClientPathLabeled = snprintf PATH_MAX (labeled_path bus);
         let i2cClientPathUnLabeled = snprintf PATH_MAX (unlabeled_path bus);
         dp \<leftarrow> opendir K i2cClientPathLabeled;
         if dp \<noteq> None then do {
           modify (\<lambda>s. s\<lparr>mI2cClientPath := i2cClientPathLabeled\<rparr>);
           gets mI2cClientPath
         } else do {
           dp2 \<leftarrow> opendir K i2cClientPathUnLabeled;
           if dp2 \<noteq> None then do {
             modify (\<lambda>s. s\<lparr>mI2cClientPath := i2cClientPathUnLabeled\<rparr>);
             gets mI2cClientPath
           } else ret []
         }
       }
     }
   }"

section \<open>Bounds and round trips\<close>

lemma show_int_no_NUL: "NUL \<notin> set (show_nat n)"
  using show_nat_digits [of n] by (auto simp: is_digit_def NUL_def)

lemma length_show_int:
  assumes "0 \<le> bus" "bus < 2 ^ 31"
  shows "length (show_int bus) \<le> 10"
proof -
  have "nat bus < 10 ^ 10" using assms by (simp add: nat_less_iff)
  then show ?thesis using assms by (simp add: show_int_def length_show_nat)
qed

lemma client_id_hex: "pad0 4 (show_hex kMax77759TcpcClientId) = ''0025''"
  by code_simp

lemma snprintf_fits: "length s < n \<Longrightarrow> snprintf n s = s"
  by (simp add: snprintf_def)

lemma path_lengths:
  assumes "0 \<le> bus" "bus < 2 ^ 31"
  shows "length (labeled_path bus) < 80" "length (unlabeled_path bus) < 80"
  using length_show_int [OF assms]
  by (simp_all add: labeled_path_def unlabeled_path_def kHsi2cPath_def kMax77759TcpcDevName_def
      client_id_hex)

lemma snprintf_paths:
  assumes "0 \<le> bus" "bus < 2 ^ 31"
  shows "snprintf PATH_MAX (labeled_path bus) = labeled_path bus"
    and "snprintf PATH_MAX (unlabeled_path bus) = unlabeled_path bus"
  using path_lengths [OF assms] by (simp_all add: snprintf_fits PATH_MAX_def)

lemma paths_nonempty [simp]: "labeled_path bus \<noteq> []" "unlabeled_path bus \<noteq> []"
  by (simp_all add: labeled_path_def unlabeled_path_def kHsi2cPath_def)

lemma sscanf_i2c_roundtrip:
  "n < 2 ^ 64 \<Longrightarrow> sscanf_i2c (''i2c-'' @ show_nat n) = Some (of_nat n)"
  by (simp add: sscanf_i2c_def sscanf_u_def scan_num_show_nat)

lemma sint_of_nat_31: "n < 2 ^ 31 \<Longrightarrow> sint (of_nat n :: 32 word) = int n"
  by (simp add: signed_of_nat signed_take_bit_int_eq_self)

section \<open>The caching contract\<close>

locale cached_lookup =
  fixes lookup :: "('s, 'r) state"
    and cached :: "'s \<Rightarrow> 'r option"
    and found :: "'r \<Rightarrow> bool"
  assumes hit: "cached s = Some r \<Longrightarrow> run_state lookup s = (r, s)"
    and fill: "run_state lookup s = (r, s') \<Longrightarrow> found r \<Longrightarrow> cached s' = Some r"
begin

lemma second_lookup: "run_state lookup s = (r, s') \<Longrightarrow> found r \<Longrightarrow> run_state lookup s' = (r, s')"
  by (blast intro: hit fill)

lemma survives:
  assumes "run_state lookup s = (r, s')" "found r" "keeps cached m"
  shows "run_state lookup (snd (run_state m s')) = (r, snd (run_state m s'))"
  using assms by (metis fill hit keepsD)

lemma cached_forever: "cached s = Some r \<Longrightarrow> cached (snd (run_state lookup s)) = Some r"
  by (simp add: hit)

end

lemma bus_hit: "0 \<le> mI2cBusNumber s \<Longrightarrow> run_state (getI2cBusNumber K) s = (mI2cBusNumber s, s)"
  by (simp add: getI2cBusNumber_def)

lemma bus_returns_field: "wp (getI2cBusNumber K) (\<lambda>n t. mI2cBusNumber t = n) s"
  by (simp add: getI2cBusNumber_def wp opendir_def split: prod.split option.split)

lemma path_hit: "mI2cClientPath s \<noteq> [] \<Longrightarrow> run_state (getI2cClientPath K) s = (mI2cClientPath s, s)"
  by (simp add: getI2cClientPath_def)

lemma path_returns_field:
  "wp (getI2cClientPath K) (\<lambda>p t. p \<noteq> [] \<longrightarrow> mI2cClientPath t = p) s"
  by (simp add: getI2cClientPath_def wp opendir_def split: prod.split)

interpretation bus: cached_lookup "getI2cBusNumber K"
    "\<lambda>s. if 0 \<le> mI2cBusNumber s then Some (mI2cBusNumber s) else None" "\<lambda>n. 0 \<le> n"
  for K :: "('k, 'n, 'p) platform_scheme"
proof
  fix s :: "('k, 'n, 'z) i2c_world_scheme" and r s'
  show "run_state (getI2cBusNumber K) s = (r, s)"
    if "(if 0 \<le> mI2cBusNumber s then Some (mI2cBusNumber s) else None) = Some r"
    using that by (auto simp: bus_hit split: if_splits)
  show "(if 0 \<le> mI2cBusNumber s' then Some (mI2cBusNumber s') else None) = Some r"
    if "run_state (getI2cBusNumber K) s = (r, s')" "0 \<le> r"
    using bus_returns_field [of K s] that by (simp add: wp_def)
qed

interpretation path: cached_lookup "getI2cClientPath K"
    "\<lambda>s. if mI2cClientPath s \<noteq> [] then Some (mI2cClientPath s) else None" "\<lambda>p. p \<noteq> []"
  for K :: "('k, 'n, 'p) platform_scheme"
proof
  fix s :: "('k, 'n, 'z) i2c_world_scheme" and r s'
  show "run_state (getI2cClientPath K) s = (r, s)"
    if "(if mI2cClientPath s \<noteq> [] then Some (mI2cClientPath s) else None) = Some r"
    using that by (auto simp: path_hit split: if_splits)
  show "(if mI2cClientPath s' \<noteq> [] then Some (mI2cClientPath s') else None) = Some r"
    if "run_state (getI2cClientPath K) s = (r, s')" "r \<noteq> []"
    using path_returns_field [of K s] that by (simp add: wp_def)
qed

section \<open>Frame and invariant\<close>

lemma keeps_getI2cBusNumber [keeps]:
  assumes "quiet_obs f" "\<And>s n. f (s\<lparr>mI2cBusNumber := n\<rparr>) = f s"
  shows "keeps f (getI2cBusNumber K)"
  unfolding getI2cBusNumber_def by (intro keeps assms)

lemma keeps_getI2cClientPath [keeps]:
  assumes "quiet_obs f" "\<And>s n. f (s\<lparr>mI2cBusNumber := n\<rparr>) = f s"
    and "\<And>s p. f (s\<lparr>mI2cClientPath := p\<rparr>) = f s"
  shows "keeps f (getI2cClientPath K)"
  unfolding getI2cClientPath_def Let_def by (intro keeps assms)

text \<open>What the two fields can hold: nothing yet, or a bus number and one of its two directories.\<close>

definition i2c_inv :: "('k, 'n, 'z) i2c_world_scheme \<Rightarrow> bool" where
  "i2c_inv s \<longleftrightarrow> mI2cBusNumber s < 2 ^ 31 \<and>
     (mI2cClientPath s \<noteq> [] \<longrightarrow> 0 \<le> mI2cBusNumber s \<and>
        mI2cClientPath s \<in> {labeled_path (mI2cBusNumber s), unlabeled_path (mI2cBusNumber s)})"

lemma sint_less_31: "sint (w :: 32 word) < 2147483648"
  using sint_less [of w] by simp

lemma i2c_inv_bus: "i2c_inv s \<Longrightarrow> wp (getI2cBusNumber K) (\<lambda>n t. i2c_inv t \<and> mI2cBusNumber t = n \<and>
    mI2cClientPath t = mI2cClientPath s) s"
  by (auto simp: getI2cBusNumber_def wp opendir_def i2c_inv_def sint_less_31 split: prod.split option.split)

lemma i2c_inv_path: "i2c_inv s \<Longrightarrow> wp (getI2cClientPath K) (\<lambda>p t. i2c_inv t) s"
proof -
  assume inv: "i2c_inv s"
  have "wp (getI2cBusNumber K) (\<lambda>n t. i2c_inv t \<and> mI2cBusNumber t = n \<and>
      mI2cClientPath t = mI2cClientPath s) s"
    using inv by (rule i2c_inv_bus)
  from inv this show ?thesis
    unfolding getI2cClientPath_def wp Let_def
    by (auto simp: wp opendir_def snprintf_paths i2c_inv_def split: prod.split elim!: wp_mono)
qed

end
