(* ===== verification/UsbTypes.thy ===== *)
theory UsbTypes
  imports I2cClient
begin

text \<open>
  The data of the USB service (\<^verbatim>\<open>usb/usb\<close>): the AIDL enumerations and parcelables it
  uses, with the enumerators the sources name, the messages it sends (\<open>usb_note\<close>) and what it
  needs of the system beyond \<open>platform\<close> (\<open>usb_platform\<close>).

  Four fields of \<open>usb_platform\<close> stand for facts the sources leave to others. \<open>warn_key\<close> is the
  numeric value of an enumerator, which orders a \<^verbatim>\<open>std::set\<close>. \<open>names_order\<close> is the order in
  which a \<^verbatim>\<open>std::unordered_map\<close> is iterated, which the standard leaves open.
  \<open>default_PortStatus\<close> is a freshly constructed parcelable. \<open>PULLUP_PATH\<close> comes from a header that
  is not under \<^verbatim>\<open>src/\<close>.
\<close>

datatype Status = SUCCESS | ERROR | NOT_SUPPORTED | UNRECOGNIZED_ROLE

datatype PortPowerRole = PowerNONE | SOURCE | SINK

datatype PortDataRole = DataNONE | HOST | DEVICE

datatype PortMode = ModeNONE | UFP | DFP | DRP | AUDIO_ACCESSORY | DEBUG_ACCESSORY

text \<open>The union \<^verbatim>\<open>PortRole\<close>; \<open>otherRole\<close> is a tag the sources' \<^verbatim>\<open>default\<close> branches are for.\<close>

datatype PortRole = powerRole PortPowerRole | dataRole PortDataRole | mode PortMode | otherRole

datatype ContaminantProtectionMode = Mode_FORCE_DISABLE

datatype ContaminantProtectionStatus = Protection_NONE | Protection_FORCE_DISABLE

datatype ContaminantDetectionStatus = DISABLED | DETECTED | NOT_DETECTED

datatype UsbDataStatus = ENABLED | DISABLED_DOCK | DISABLED_FORCE

datatype PowerBrickStatus = CONNECTED | NOT_CONNECTED | UNKNOWN

datatype ComplianceWarning =
    OTHER | DEBUG_ACCESSORY_WARNING | BC_1_2 | MISSING_RP | INPUT_POWER_LIMITED
  | MISSING_DATA_LINES | ENUMERATION_FAIL | FLAKY_CONNECTION

record PortStatus =
  portName :: string
  currentDataRole :: PortDataRole
  currentPowerRole :: PortPowerRole
  currentMode :: PortMode
  canChangeMode :: bool
  canChangeDataRole :: bool
  canChangePowerRole :: bool
  supportedModes :: "PortMode list"
  supportedContaminantProtectionModes :: "ContaminantProtectionMode list"
  supportsEnableContaminantPresenceProtection :: bool
  contaminantProtectionStatus :: ContaminantProtectionStatus
  supportsEnableContaminantPresenceDetection :: bool
  contaminantDetectionStatus :: ContaminantDetectionStatus
  usbDataStatus :: "UsbDataStatus list"
  powerTransferLimited :: bool
  powerBrickStatus :: PowerBrickStatus
  supportsComplianceWarnings :: bool
  complianceWarnings :: "ComplianceWarning list"

text \<open>
  The record handed to \<^verbatim>\<open>reportUsbDataSessionEvent\<close>: the arguments of
  \<^verbatim>\<open>BuildVendorUsbDataSessionEvent\<close>, which is not under \<^verbatim>\<open>src/\<close>.
\<close>

record session_event =
  ev_is_host :: bool
  ev_end :: int
  ev_start :: int
  ev_states :: "string list"
  ev_timestamps :: "int list"

record overheat_info =
  plug_temperature_deci_c :: int
  max_temperature_deci_c :: int
  time_to_overheat_secs :: int
  time_to_hysteresis_secs :: int
  time_to_inactive_secs :: int

text \<open>Calls of the callback (its first argument says which one is registered) and of the stats service.\<close>

datatype usb_note =
    NotifyPortStatusChange nat "PortStatus list" Status
  | NotifyRoleSwitchStatus nat string PortRole Status int
  | NotifyEnableUsbDataStatus nat string bool Status int
  | NotifyEnableUsbDataWhileDockedStatus nat string Status int
  | NotifyContaminantEnabledStatus nat string bool Status int
  | NotifyQueryPortStatus nat string Status int
  | NotifyLimitPowerTransferStatus nat string bool Status int
  | NotifyResetUsbPortStatus nat string Status int
  | ReportUsbDataSessionEvent session_event
  | ReportUsbPortOverheat overheat_info

text \<open>Descriptors the monitor creates with \<^verbatim>\<open>epoll_create\<close>, \<^verbatim>\<open>uevent_open_socket\<close> and \<^verbatim>\<open>timerfd_create\<close>.\<close>

datatype fd_kind = EpollInstance | UeventSocket | BootTimer

record 'k usb_platform = "('k, usb_note) platform" +
  enable_report_usb_data_compliance_warning :: bool
  enable_usb_data_compliance_warning :: bool
  enable_input_power_limited_warning :: bool
  warn_key :: "ComplianceWarning \<Rightarrow> int"
  names_order :: "(string \<times> bool) list \<Rightarrow> (string \<times> bool) list"
  default_PortStatus :: PortStatus
  PULLUP_PATH :: string
    \<comment> \<open>a constant of \<^verbatim>\<open>pixelusb/UsbGadgetCommon.h\<close>\<close>
  sys_condwait :: "int \<Rightarrow> 'k \<Rightarrow> (bool \<times> bool) \<times> 'k"
    \<comment> \<open>\<^verbatim>\<open>pthread_cond_timedwait\<close>: timed out, and whether the uevent thread saw a partner meanwhile\<close>
  sys_trylock :: "'k \<Rightarrow> bool \<times> 'k"
    \<comment> \<open>\<^verbatim>\<open>pthread_mutex_trylock(&mRoleSwitchLock)\<close> took the lock\<close>
  sys_stats :: "'k \<Rightarrow> bool \<times> 'k"
    \<comment> \<open>\<^verbatim>\<open>getStatsService\<close> found the service\<close>
  sys_recv_uevent :: "'k \<Rightarrow> (int \<times> string) \<times> 'k"
    \<comment> \<open>\<^verbatim>\<open>uevent_kernel_multicast_recv\<close>: its result and the bytes received\<close>
  sys_newfd :: "fd_kind \<Rightarrow> 'k \<Rightarrow> int \<times> 'k"
  sys_close :: "int \<Rightarrow> 'k \<Rightarrow> unit \<times> 'k"
  sys_epoll_del :: "int \<Rightarrow> 'k \<Rightarrow> unit \<times> 'k"
  sys_cond_init :: "'k \<Rightarrow> bool \<times> 'k"
    \<comment> \<open>the four calls that set up \<^verbatim>\<open>mPartnerCV\<close> all succeeded\<close>
  sys_thread_create :: "'k \<Rightarrow> bool \<times> 'k"
  sys_thread_signal :: "'k \<Rightarrow> bool \<times> 'k"
    \<comment> \<open>\<^verbatim>\<open>pthread_kill\<close> of the worker with SIGUSR1 succeeded\<close>
  sys_thread_join :: "'k \<Rightarrow> unit \<times> 'k"
  sys_overheat :: "'k \<Rightarrow> (int \<times> int) \<times> 'k"
    \<comment> \<open>the plug temperature and the highest one seen, in tenths of a degree\<close>

section \<open>Uevents\<close>

definition UEVENT_MSG_LEN :: nat where
  "UEVENT_MSG_LEN = 2048"

function cstrings :: "string \<Rightarrow> string list" where
  \<comment> \<open>the strings \<^verbatim>\<open>while (*cp) { ... while (*cp++) {} }\<close> visits in a buffer that ends in two NULs\<close>
  "cstrings msg =
     (let cp = c_str msg
      in if cp = [] then [] else cp # cstrings (drop (Suc (length cp)) msg))"
  by pat_completeness auto
termination
proof (relation "measure length")
  show "wf (measure (length :: string \<Rightarrow> nat))" by simp
  fix msg cp
  assume "cp = c_str msg" "cp \<noteq> []"
  then show "(drop (Suc (length cp)) msg, msg) \<in> measure length"
    by (cases msg) (auto simp: c_str_def)
qed

declare cstrings.simps [simp del]

definition uevent_lines :: "int \<Rightarrow> string \<Rightarrow> string list" where
  "uevent_lines n buf =
     (if n \<le> 0 then [] else if int UEVENT_MSG_LEN \<le> n then []
      else cstrings (take (nat n) buf @ [NUL, NUL]))"

lemma c_str_append_NUL: "NUL \<notin> set xs \<Longrightarrow> c_str (xs @ NUL # ys) = xs"
  by (induction xs) (auto simp: c_str_def)

lemma cstrings_Cons:
  "xs \<noteq> [] \<Longrightarrow> NUL \<notin> set xs \<Longrightarrow> cstrings (xs @ NUL # ys) = xs # cstrings ys"
  by (subst cstrings.simps) (simp add: c_str_append_NUL)

lemma cstrings_NUL [simp]: "cstrings (NUL # ys) = []" "cstrings [] = []"
  by (subst cstrings.simps, simp add: c_str_def)+

lemma cstrings_nonempty: "l \<in> set (cstrings msg) \<Longrightarrow> l \<noteq> [] \<and> NUL \<notin> set l"
proof (induction msg rule: cstrings.induct)
  case (1 msg)
  then show ?case
    by (subst (asm) cstrings.simps) (auto simp: Let_def split: if_splits)
qed

text \<open>A uevent is its lines, each followed by a NUL: the loop visits exactly these lines.\<close>

definition encode_uevent :: "string list \<Rightarrow> string" where
  "encode_uevent ls = concat (map (\<lambda>l. l @ [NUL]) ls)"

lemma cstrings_encode:
  "\<forall>l \<in> set ls. l \<noteq> [] \<and> NUL \<notin> set l \<Longrightarrow> cstrings (encode_uevent ls @ [NUL, NUL]) = ls"
  by (induction ls) (simp_all add: encode_uevent_def cstrings_Cons)

end
