(* ===== verification/SessionMonitor.thy ===== *)
theory SessionMonitor
  imports UsbTypes
begin

text \<open>
  \<^verbatim>\<open>usb/usb/UsbDataSessionMonitor.cpp\<close>: the object that follows the state files of the
  device controller and of the two host ports, records the states of the current data session,
  derives compliance warnings from them and uploads a metric when a session ends.

  The record \<open>mon\<close> holds the object's fields. A \<^verbatim>\<open>std::set\<close> of warnings is the list of
  its elements in ascending order of \<open>warn_key\<close>; a \<^verbatim>\<open>unique_fd\<close> is its descriptor, -1 when
  it holds none. The handlers are the functions of the source, one definition each;
  \<open>monitor_dispatch\<close> is the loop over the events of one \<^verbatim>\<open>epoll_wait\<close>. The callback
  \<^verbatim>\<open>mUpdatePortStatusCb\<close> is an argument \<open>cb\<close> of the handlers that can reach it, \<open>None\<close>
  for an empty \<^verbatim>\<open>std::function\<close>; the locale \<open>status_callback\<close> says what is asked of it, and
  the service theory supplies it.
\<close>

section \<open>State\<close>

record usbDeviceState =
  fd :: int
  filePath :: string
  ueventRegex :: string
  states :: "string list"
  timestamps :: "int list"

record 'k mon = "('k, usb_note) i2c_world" +
  mEpollFd :: int
  mUeventFd :: int
  mTimerFd :: int
  mDataRoleFd :: int
  mDeviceState :: usbDeviceState
  mHost1State :: usbDeviceState
  mHost2State :: usbDeviceState
  mWarningSet :: "ComplianceWarning list"
  mDataRole :: PortDataRole
  mDataSessionStart :: int
  mUdcBind :: bool

text \<open>A \<^verbatim>\<open>struct usbDeviceState *\<close> argument names one of the three members.\<close>

datatype device_ptr = Device | Host1 | Host2

fun get_dev :: "device_ptr \<Rightarrow> ('k, 'z) mon_scheme \<Rightarrow> usbDeviceState" where
  "get_dev Device s = mDeviceState s"
| "get_dev Host1 s = mHost1State s"
| "get_dev Host2 s = mHost2State s"

fun put_dev :: "device_ptr \<Rightarrow> usbDeviceState \<Rightarrow> ('k, 'z) mon_scheme \<Rightarrow> ('k, 'z) mon_scheme" where
  "put_dev Device d s = s\<lparr>mDeviceState := d\<rparr>"
| "put_dev Host1 d s = s\<lparr>mHost1State := d\<rparr>"
| "put_dev Host2 d s = s\<lparr>mHost2State := d\<rparr>"

definition modify_dev ::
  "device_ptr \<Rightarrow> (usbDeviceState \<Rightarrow> usbDeviceState) \<Rightarrow> (('k, 'z) mon_scheme, unit) state" where
  "modify_dev p f = modify (\<lambda>s. put_dev p (f (get_dev p s)) s)"

definition newline :: char where
  "newline = CHR 0x0A"

definition kNotAttachedState :: string where "kNotAttachedState = ''not attached'' @ [newline]"
definition kAttachedState :: string where "kAttachedState = ''attached'' @ [newline]"
definition kPoweredState :: string where "kPoweredState = ''powered'' @ [newline]"
definition kDefaultState :: string where "kDefaultState = ''default'' @ [newline]"
definition kAddressedState :: string where "kAddressedState = ''addressed'' @ [newline]"
definition kConfiguredState :: string where "kConfiguredState = ''configured'' @ [newline]"
definition kSuspendedState :: string where "kSuspendedState = ''suspended'' @ [newline]"

definition kValidStates :: "string list" where
  "kValidStates = [kNotAttachedState, kAttachedState, kPoweredState, kDefaultState,
     kAddressedState, kConfiguredState, kSuspendedState]"

lemmas state_name_defs = kNotAttachedState_def kAttachedState_def kPoweredState_def
  kDefaultState_def kAddressedState_def kConfiguredState_def kSuspendedState_def

definition USB_STATE_MAX_LEN :: nat where "USB_STATE_MAX_LEN = 20"
definition DATA_ROLE_MAX_LEN :: nat where "DATA_ROLE_MAX_LEN = 10"
definition WARNING_SURFACE_DELAY_SEC :: nat where "WARNING_SURFACE_DELAY_SEC = 5"
definition ENUM_FAIL_DEFAULT_COUNT_THRESHOLD :: nat where
  "ENUM_FAIL_DEFAULT_COUNT_THRESHOLD = 3"
definition DEVICE_FLAKY_CONNECTION_CONFIGURED_COUNT_THRESHOLD :: nat where
  "DEVICE_FLAKY_CONNECTION_CONFIGURED_COUNT_THRESHOLD = 5"

lemmas threshold_defs = WARNING_SURFACE_DELAY_SEC_def ENUM_FAIL_DEFAULT_COUNT_THRESHOLD_def
  DEVICE_FLAKY_CONNECTION_CONFIGURED_COUNT_THRESHOLD_def

definition kUdcConfigfsPath :: string where
  "kUdcConfigfsPath = ''/config/usb_gadget/g1/UDC''"

section \<open>Descriptors\<close>

definition ufd_assign ::
  "'k usb_platform \<Rightarrow> int \<Rightarrow> (('k, usb_note, 'z) world_scheme, unit) state" where
  \<comment> \<open>what happens to the descriptor a \<^verbatim>\<open>unique_fd\<close> held when another is moved into it\<close>
  "ufd_assign K old = only_if (old \<noteq> - 1) (sys (sys_close K old) (\<lambda>_. [FdClose old]))"

definition addEpollFile ::
  "'k usb_platform \<Rightarrow> device_ptr \<Rightarrow> (('k, 'z) mon_scheme, int) state" where
  "addEpollFile K p = do {
     d \<leftarrow> gets (get_dev p);
     new \<leftarrow> sys (sys_open K (filePath d)) (\<lambda>r. [FdOpen (filePath d) r]);
     if new = - 1 then ret (- 1)
     else do {
       ok \<leftarrow> sys (sys_epoll_add K new) (\<lambda>r. [EpollAdd new r]);
       if \<not> ok then do {
         ufd_assign K new;
         ret (- 1)
       } else do {
         ufd_assign K (fd d);
         modify_dev p (\<lambda>d. d\<lparr>fd := new\<rparr>);
         ret 0
       }
     }
   }"

definition removeEpollFile ::
  "'k usb_platform \<Rightarrow> device_ptr \<Rightarrow> (('k, 'z) mon_scheme, unit) state" where
  \<comment> \<open>\<^verbatim>\<open>unique_fd::release\<close> gives up the descriptor and does not close it\<close>
  "removeEpollFile K p = do {
     d \<leftarrow> gets (get_dev p);
     sys (sys_epoll_del K (fd d)) (\<lambda>_. [EpollDel (fd d)]);
     modify_dev p (\<lambda>d. d\<lparr>fd := - 1\<rparr>)
   }"

section \<open>Metrics\<close>

definition build_event ::
  "'k usb_platform \<Rightarrow> bool \<Rightarrow> device_ptr \<Rightarrow> (('k, 'z) mon_scheme, session_event) state" where
  "build_event K is_host p = do {
     now \<leftarrow> boot_now K;
     start \<leftarrow> gets mDataSessionStart;
     d \<leftarrow> gets (get_dev p);
     ret \<lparr>ev_is_host = is_host, ev_end = now, ev_start = start,
          ev_states = states d, ev_timestamps = timestamps d\<rparr>
   }"

definition host_events ::
  "'k usb_platform \<Rightarrow> device_ptr \<Rightarrow> session_event list \<Rightarrow> (('k, 'z) mon_scheme, session_event list) state" where
  \<comment> \<open>one iteration of the loop over the host ports\<close>
  "host_events K p events = do {
     d \<leftarrow> gets (get_dev p);
     if 1 < length (states d) then do {
       event \<leftarrow> build_event K True p;
       ret (events @ [event])
     } else ret events
   }"

definition session_events ::
  "'k usb_platform \<Rightarrow> PortDataRole \<Rightarrow> (('k, 'z) mon_scheme, session_event list) state" where
  \<comment> \<open>the vector \<^verbatim>\<open>events\<close> that the branches on the data role fill\<close>
  "session_events K role =
     (if role = DEVICE then do {
        event \<leftarrow> build_event K False Device;
        ret [event]
      } else do {
        es1 \<leftarrow> host_events K Host1 [];
        es2 \<leftarrow> host_events K Host2 es1;
        if es2 = [] then do {
          event \<leftarrow> build_event K True Host1;
          ret [event]
        } else ret es2
      })"

definition reportUsbDataSessionMetrics ::
  "'k usb_platform \<Rightarrow> (('k, 'z) mon_scheme, unit) state" where
  "reportUsbDataSessionMetrics K = do {
     role \<leftarrow> gets mDataRole;
     if role = DataNONE then ret ()
     else do {
       events \<leftarrow> session_events K role;
       stats_client \<leftarrow> sys (sys_stats K) (\<lambda>_. []);
       only_if stats_client
         (for_each events (\<lambda>event. do { send K (ReportUsbDataSessionEvent event); ret () }))
     }
   }"

section \<open>Compliance warnings\<close>

definition set_insert :: "('a \<Rightarrow> int) \<Rightarrow> 'a \<Rightarrow> 'a list \<Rightarrow> 'a list" where
  \<comment> \<open>\<^verbatim>\<open>std::set::insert\<close>\<close>
  "set_insert key x xs = (if x \<in> set xs then xs else insort_key key x xs)"

definition getComplianceWarnings ::
  "'k usb_platform \<Rightarrow> PortDataRole \<Rightarrow> (('k, 'z) mon_scheme, ComplianceWarning list) state" where
  "getComplianceWarnings K role = do {
     current \<leftarrow> gets mDataRole;
     if \<not> enable_report_usb_data_compliance_warning K then ret []
     else if role \<noteq> current \<or> role = DataNONE then ret []
     else gets mWarningSet
   }"

definition notifyComplianceWarning ::
  "'k usb_platform \<Rightarrow> (('k, 'z) mon_scheme, fault + unit) state option \<Rightarrow>
   (('k, 'z) mon_scheme, fault + unit) state" where
  "notifyComplianceWarning K cb =
     (if \<not> enable_report_usb_data_compliance_warning K then ret (Inr ())
      else (case cb of None \<Rightarrow> ret (Inr ()) | Some f \<Rightarrow> f))"

definition to_int32 :: "int \<Rightarrow> int" where
  \<comment> \<open>conversion of a 64-bit value to \<^verbatim>\<open>int\<close>\<close>
  "to_int32 i = sint (word_of_int i :: 32 word)"

definition elapsed_sec :: "int \<Rightarrow> int \<Rightarrow> int" where
  \<comment> \<open>\<^verbatim>\<open>duration_cast<seconds>(now - start).count()\<close>, truncating towards zero, as an \<^verbatim>\<open>int\<close>\<close>
  "elapsed_sec now start = to_int32 (sgn (now - start) * (\<bar>now - start\<bar> div 1000000000))"

definition device_warnings ::
  "(ComplianceWarning \<Rightarrow> int) \<Rightarrow> string list \<Rightarrow> ComplianceWarning list" where
  "device_warnings key sts =
     (let configuredCount = count_list sts kConfiguredState;
          defaultCount = count_list sts kDefaultState;
          w1 = (if configuredCount = 0 \<and> ENUM_FAIL_DEFAULT_COUNT_THRESHOLD < defaultCount
                then set_insert key ENUMERATION_FAIL [] else [])
      in if DEVICE_FLAKY_CONNECTION_CONFIGURED_COUNT_THRESHOLD < configuredCount
         then set_insert key FLAKY_CONNECTION w1 else w1)"

definition host_warnings ::
  "(ComplianceWarning \<Rightarrow> int) \<Rightarrow> string list \<Rightarrow> string list \<Rightarrow> ComplianceWarning list" where
  "host_warnings key sts1 sts2 =
     (let host1StateCount = length sts1;
          host1ConfiguredCount = count_list sts1 kConfiguredState;
          host1DefaultCount = count_list sts1 kDefaultState;
          host2StateCount = length sts2;
          host2ConfiguredCount = count_list sts2 kConfiguredState;
          host2DefaultCount = count_list sts2 kDefaultState;
          w1 = (if host1ConfiguredCount = 0 \<and> host2ConfiguredCount = 0 \<and>
                   (ENUM_FAIL_DEFAULT_COUNT_THRESHOLD < host1DefaultCount \<or>
                    ENUM_FAIL_DEFAULT_COUNT_THRESHOLD < host2DefaultCount)
                then set_insert key ENUMERATION_FAIL [] else [])
      in if host1StateCount = 1 \<and> hd sts1 = kNotAttachedState \<and>
            host2StateCount = 1 \<and> hd sts2 = kNotAttachedState
         then set_insert key MISSING_DATA_LINES w1 else w1)"

definition new_warnings ::
  "'k usb_platform \<Rightarrow> int \<Rightarrow> ('k, 'z) mon_scheme \<Rightarrow> ComplianceWarning list" where
  "new_warnings K elapsedTimeSec s =
     (if int WARNING_SURFACE_DELAY_SEC \<le> elapsedTimeSec then
        (if mDataRole s = DEVICE \<and> mUdcBind s
         then device_warnings (warn_key K) (states (mDeviceState s))
         else if mDataRole s = HOST
         then host_warnings (warn_key K) (states (mHost1State s)) (states (mHost2State s))
         else [])
      else [])"

definition evaluateComplianceWarning ::
  "'k usb_platform \<Rightarrow> (('k, 'z) mon_scheme, fault + unit) state option \<Rightarrow>
   (('k, 'z) mon_scheme, fault + unit) state" where
  "evaluateComplianceWarning K cb = do {
     now \<leftarrow> boot_now K;
     newWarningSet \<leftarrow> gets (\<lambda>s. new_warnings K (elapsed_sec now (mDataSessionStart s)) s);
     old \<leftarrow> gets mWarningSet;
     if newWarningSet \<noteq> old then do {
       modify (\<lambda>s. s\<lparr>mWarningSet := newWarningSet\<rparr>);
       notifyComplianceWarning K cb
     } else ret (Inr ())
   }"

section \<open>Sessions\<close>

definition clearDeviceStateEvents :: "device_ptr \<Rightarrow> (('k, 'z) mon_scheme, unit) state" where
  "clearDeviceStateEvents p = modify_dev p (\<lambda>d. d\<lparr>states := [], timestamps := []\<rparr>)"

definition setupNewSession :: "'k usb_platform \<Rightarrow> (('k, 'z) mon_scheme, unit) state" where
  "setupNewSession K = do {
     modify (\<lambda>s. s\<lparr>mWarningSet := []\<rparr>);
     now \<leftarrow> boot_now K;
     modify (\<lambda>s. s\<lparr>mDataSessionStart := now\<rparr>);
     role \<leftarrow> gets mDataRole;
     (if role = DEVICE then clearDeviceStateEvents Device
      else if role = HOST then do {
        clearDeviceStateEvents Host1;
        clearDeviceStateEvents Host2
      } else ret ());
     only_if (role \<noteq> DataNONE) (do {
       sys (sys_settimer K WARNING_SURFACE_DELAY_SEC)
         (\<lambda>ok. [TimerSet WARNING_SURFACE_DELAY_SEC ok]);
       ret ()
     })
   }"

section \<open>Handlers\<close>

definition read_buffer ::
  "'k usb_platform \<Rightarrow> int \<Rightarrow> nat \<Rightarrow> (('k, 'z) mon_scheme, fault + string) state" where
  \<comment> \<open>\<^verbatim>\<open>char buf[len] = {0}; read(fd, &buf, len);\<close> and \<open>buf\<close> used as a C string, which a full
     buffer without a NUL is not\<close>
  "read_buffer K f len = do {
     bytes \<leftarrow> sys (sys_fdread K f len) (\<lambda>b. [FdRead f b]);
     let buf = take len bytes;
     if length buf = len \<and> NUL \<notin> set buf then ret (Inl Unterminated_buffer)
     else ret (Inr (c_str buf))
   }"

definition handleDeviceStateEvent ::
  "'k usb_platform \<Rightarrow> (('k, 'z) mon_scheme, fault + unit) state option \<Rightarrow> device_ptr \<Rightarrow>
   (('k, 'z) mon_scheme, fault + unit) state" where
  "handleDeviceStateEvent K cb p = do {
     d \<leftarrow> gets (get_dev p);
     r \<leftarrow> read_buffer K (fd d) USB_STATE_MAX_LEN;
     on_ok r (\<lambda>state.
       if state \<notin> set kValidStates then ret (Inr ())
       else do {
         modify_dev p (\<lambda>d. d\<lparr>states := states d @ [state]\<rparr>);
         now \<leftarrow> boot_now K;
         modify_dev p (\<lambda>d. d\<lparr>timestamps := timestamps d @ [now]\<rparr>);
         evaluateComplianceWarning K cb
       })
   }"

definition parse_data_role :: "string \<Rightarrow> PortDataRole" where
  "parse_data_role role =
     (if role = ''host'' then HOST else if role = ''device'' then DEVICE else DataNONE)"

definition handleDataRoleEvent ::
  "'k usb_platform \<Rightarrow> (('k, 'z) mon_scheme, fault + unit) state" where
  "handleDataRoleEvent K = do {
     f \<leftarrow> gets mDataRoleFd;
     r \<leftarrow> read_buffer K f DATA_ROLE_MAX_LEN;
     on_ok r (\<lambda>role. do {
       let newDataRole = parse_data_role role;
       old \<leftarrow> gets mDataRole;
       bound \<leftarrow> gets mUdcBind;
       only_if (newDataRole \<noteq> old) (do {
         only_if (old = HOST \<or> (old = DEVICE \<and> bound)) (reportUsbDataSessionMetrics K);
         modify (\<lambda>s. s\<lparr>mDataRole := newDataRole\<rparr>);
         setupNewSession K
       });
       ret (Inr ())
     })
   }"

definition updateUdcBindStatus ::
  "'k usb_platform \<Rightarrow> (('k, 'z) mon_scheme, fault + unit) state option \<Rightarrow> string \<Rightarrow>
   (('k, 'z) mon_scheme, fault + unit) state" where
  "updateUdcBindStatus K cb devname = do {
     (ok, function) \<leftarrow> ReadFileToString K (''/sys'' @ devname @ ''/function'');
     if \<not> ok then ret (Inr ())
     else do {
       let newUdcBind = (function \<noteq> []);
       old \<leftarrow> gets mUdcBind;
       role \<leftarrow> gets mDataRole;
       if newUdcBind = old then ret (Inr ())
       else do {
         r \<leftarrow> (if role = DEVICE then
                 (if old \<and> \<not> newUdcBind then do {
                    reportUsbDataSessionMetrics K;
                    evaluateComplianceWarning K cb
                  } else if \<not> old \<and> newUdcBind then do {
                    setupNewSession K;
                    ret (Inr ())
                  } else ret (Inr ()))
               else ret (Inr ()));
         on_ok r (\<lambda>_. do {
           modify (\<lambda>s. s\<lparr>mUdcBind := newUdcBind\<rparr>);
           ret (Inr ())
         })
       }
     }
   }"

text \<open>
  \<^verbatim>\<open>std::regex\<close> patterns, as far as the patterns of this service go: characters that stand for
  themselves, \<^verbatim>\<open>.\<close> (any character but a line terminator) and \<^verbatim>\<open>[0-9]\<close>. A pattern with
  any other operator is outside the model and matches nothing.
\<close>

datatype rx = RxChar char | RxAny | RxDigit

fun rx_parse :: "string \<Rightarrow> rx list option" where
  "rx_parse [] = Some []"
| "rx_parse (c # cs) =
     (if prefix ''[0-9]'' (c # cs) then map_option (Cons RxDigit) (rx_parse (drop 4 cs))
      else if c = CHR ''.'' then map_option (Cons RxAny) (rx_parse cs)
      else if c \<in> set ''*+?()[]{}|^$'' \<or> c = CHR 0x5C then None
      else map_option (Cons (RxChar c)) (rx_parse cs))"

fun rx_char :: "rx \<Rightarrow> char \<Rightarrow> bool" where
  "rx_char (RxChar c) d = (c = d)"
| "rx_char RxAny d = (d \<noteq> CHR 0x0A \<and> d \<noteq> CHR 0x0D)"
| "rx_char RxDigit d = is_digit d"

fun rx_prefix :: "rx list \<Rightarrow> string \<Rightarrow> bool" where
  "rx_prefix [] s = True"
| "rx_prefix (r # rs) [] = False"
| "rx_prefix (r # rs) (c # cs) = (rx_char r c \<and> rx_prefix rs cs)"

fun rx_search :: "rx list \<Rightarrow> string \<Rightarrow> bool" where
  "rx_search r [] = rx_prefix r []"
| "rx_search r (c # cs) = (rx_prefix r (c # cs) \<or> rx_search r cs)"

definition regex_search :: "string \<Rightarrow> string \<Rightarrow> bool" where
  "regex_search s pat = (case rx_parse pat of None \<Rightarrow> False | Some r \<Rightarrow> rx_search r s)"

definition host_uevent ::
  "'k usb_platform \<Rightarrow> string \<Rightarrow> device_ptr \<Rightarrow> (('k, 'z) mon_scheme, unit) state" where
  \<comment> \<open>the body of the loop over the host ports\<close>
  "host_uevent K cp e = do {
     d \<leftarrow> gets (get_dev e);
     only_if (regex_search cp (ueventRegex d))
       (if prefix ''bind@'' cp then do { addEpollFile K e; ret () }
        else only_if (prefix ''unbind@'' cp) (removeEpollFile K e))
   }"

definition uevent_line ::
  "'k usb_platform \<Rightarrow> (('k, 'z) mon_scheme, fault + unit) state option \<Rightarrow> string \<Rightarrow>
   (('k, 'z) mon_scheme, fault + unit) state" where
  "uevent_line K cb cp = do {
     host_uevent K cp Host1;
     host_uevent K cp Host2;
     d \<leftarrow> gets mDeviceState;
     if regex_search cp (ueventRegex d) \<and> prefix ''change@'' cp then do {
       sys (Pair ()) (\<lambda>_. [Slept 50000]);
       updateUdcBindStatus K cb (drop (length ''change@'') cp)
     } else ret (Inr ())
   }"

definition handleUevent ::
  "'k usb_platform \<Rightarrow> (('k, 'z) mon_scheme, fault + unit) state option \<Rightarrow>
   (('k, 'z) mon_scheme, fault + unit) state" where
  "handleUevent K cb = do {
     (n, buf) \<leftarrow> sys (sys_recv_uevent K) (\<lambda>_. []);
     for_each_ok (uevent_lines n buf) (uevent_line K cb)
   }"

definition handleTimerEvent ::
  "'k usb_platform \<Rightarrow> (('k, 'z) mon_scheme, fault + unit) state option \<Rightarrow>
   (('k, 'z) mon_scheme, fault + unit) state" where
  \<comment> \<open>the count read is only compared to be logged\<close>
  "handleTimerEvent K cb = do {
     f \<leftarrow> gets mTimerFd;
     sys (sys_fdread K f 8) (\<lambda>b. [FdRead f b]);
     evaluateComplianceWarning K cb
   }"

definition monitor_event ::
  "'k usb_platform \<Rightarrow> (('k, 'z) mon_scheme, fault + unit) state option \<Rightarrow> int \<Rightarrow>
   (('k, 'z) mon_scheme, fault + unit) state" where
  "monitor_event K cb f = do {
     s \<leftarrow> gets id;
     if f = mUeventFd s then handleUevent K cb
     else if f = mTimerFd s then handleTimerEvent K cb
     else if f = mDataRoleFd s then handleDataRoleEvent K
     else if f = fd (mDeviceState s) then handleDeviceStateEvent K cb Device
     else if f = fd (mHost1State s) then handleDeviceStateEvent K cb Host1
     else if f = fd (mHost2State s) then handleDeviceStateEvent K cb Host2
     else ret (Inr ())
   }"

definition monitor_dispatch ::
  "'k usb_platform \<Rightarrow> (('k, 'z) mon_scheme, fault + unit) state option \<Rightarrow> int list \<Rightarrow>
   (('k, 'z) mon_scheme, fault + unit) state" where
  \<comment> \<open>the descriptors one \<^verbatim>\<open>epoll_wait\<close> returned\<close>
  "monitor_dispatch K cb fds = for_each_ok fds (monitor_event K cb)"

section \<open>Construction\<close>

definition udc_bound :: "bool \<Rightarrow> string \<Rightarrow> bool" where
  "udc_bound ok udc \<longleftrightarrow> ok \<and> udc \<noteq> []"

definition UsbDataSessionMonitor ::
  "'k usb_platform \<Rightarrow> string \<Rightarrow> string \<Rightarrow> string \<Rightarrow> string \<Rightarrow> string \<Rightarrow> string \<Rightarrow> string \<Rightarrow>
   (('k, 'z) mon_scheme, fault + unit) state" where
  \<comment> \<open>the constructor, on a state whose monitor fields hold what the member initialisers leave:
     \<open>mDataRole\<close> has none\<close>
  "UsbDataSessionMonitor K deviceUeventRegex deviceStatePath host1UeventRegex host1StatePath
     host2UeventRegex host2StatePath dataRolePath = do {
     epollFd \<leftarrow> sys (sys_newfd K EpollInstance) (\<lambda>_. []);
     if epollFd = - 1 then ret (Inl Aborted) else do {
     ueventFd \<leftarrow> sys (sys_newfd K UeventSocket) (\<lambda>_. []);
     if ueventFd = - 1 then ret (Inl Aborted) else do {
     ok1 \<leftarrow> sys (sys_epoll_add K ueventFd) (\<lambda>r. [EpollAdd ueventFd r]);
     if \<not> ok1 then ret (Inl Aborted) else do {
     timerFd \<leftarrow> sys (sys_newfd K BootTimer) (\<lambda>_. []);
     if timerFd = - 1 then ret (Inl Aborted) else do {
     ok2 \<leftarrow> sys (sys_epoll_add K timerFd) (\<lambda>r. [EpollAdd timerFd r]);
     if \<not> ok2 then ret (Inl Aborted) else do {
     roleFd \<leftarrow> sys (sys_open K dataRolePath) (\<lambda>r. [FdOpen dataRolePath r]);
     ok3 \<leftarrow> (if roleFd = - 1 then ret False
             else sys (sys_epoll_add K roleFd) (\<lambda>r. [EpollAdd roleFd r]));
     if \<not> ok3 then ret (Inl Aborted) else do {
     modify (\<lambda>s. s\<lparr>mDataRoleFd := roleFd\<rparr>);
     modify_dev Device (\<lambda>d. d\<lparr>filePath := deviceStatePath, ueventRegex := deviceUeventRegex\<rparr>);
     addEpollFile K Device;
     modify_dev Host1 (\<lambda>d. d\<lparr>filePath := host1StatePath, ueventRegex := host1UeventRegex\<rparr>);
     addEpollFile K Host1;
     modify_dev Host2 (\<lambda>d. d\<lparr>filePath := host2StatePath, ueventRegex := host2UeventRegex\<rparr>);
     addEpollFile K Host2;
     modify (\<lambda>s. s\<lparr>mEpollFd := epollFd, mUeventFd := ueventFd, mTimerFd := timerFd\<rparr>);
     (ok, udc) \<leftarrow> ReadFileToString K kUdcConfigfsPath;
     modify (\<lambda>s. s\<lparr>mUdcBind := udc_bound ok udc\<rparr>);
     created \<leftarrow> sys (sys_thread_create K) (\<lambda>_. []);
     if created then ret (Inr ()) else ret (Inl Aborted) }}}}}}
   }"

section \<open>Devices\<close>

lemma get_put_dev [simp]:
  "get_dev p (put_dev q d s) = (if p = q then d else get_dev p s)"
  by (cases p; cases q) simp_all

lemma put_dev_world [simp]:
  "kern (put_dev p d s) = kern s" "trace (put_dev p d s) = trace s"
  "mDataRole (put_dev p d s) = mDataRole s" "mUdcBind (put_dev p d s) = mUdcBind s"
  "mWarningSet (put_dev p d s) = mWarningSet s"
  "mDataSessionStart (put_dev p d s) = mDataSessionStart s"
  "mUeventFd (put_dev p d s) = mUeventFd s" "mTimerFd (put_dev p d s) = mTimerFd s"
  "mDataRoleFd (put_dev p d s) = mDataRoleFd s" "mEpollFd (put_dev p d s) = mEpollFd s"
  "mI2cBusNumber (put_dev p d s) = mI2cBusNumber s"
  "mI2cClientPath (put_dev p d s) = mI2cClientPath s"
  by (cases p, simp_all)+

lemma get_dev_world [simp]:
  "get_dev p (s\<lparr>kern := k\<rparr>) = get_dev p s" "get_dev p (s\<lparr>trace := t\<rparr>) = get_dev p s"
  "get_dev p (s\<lparr>kern := k, trace := t\<rparr>) = get_dev p s"
  "get_dev p (s\<lparr>mWarningSet := w\<rparr>) = get_dev p s"
  "get_dev p (s\<lparr>mDataRole := r\<rparr>) = get_dev p s"
  "get_dev p (s\<lparr>mDataSessionStart := i\<rparr>) = get_dev p s"
  "get_dev p (s\<lparr>mUdcBind := b\<rparr>) = get_dev p s"
  by (cases p, simp_all)+

lemma put_dev_over [simp]:
  "put_dev p d (put_dev p d' s) = put_dev p d s"
  "put_dev p d (s\<lparr>kern := k\<rparr>) = put_dev p d s\<lparr>kern := k\<rparr>"
  "put_dev p d (s\<lparr>trace := t\<rparr>) = put_dev p d s\<lparr>trace := t\<rparr>"
  by (cases p, simp_all)+

declare get_dev.simps [simp del] put_dev.simps [simp del]

lemmas dev_simps = get_dev.simps put_dev.simps

lemma wp_modify_dev [wp]:
  "wp (modify_dev p f) Q = (\<lambda>s. Q () (put_dev p (f (get_dev p s)) s))"
  by (simp add: modify_dev_def wp)

section \<open>The warnings\<close>

lemma device_warnings_cases:
  "device_warnings key sts =
    (if count_list sts kConfiguredState = 0 \<and> 3 < count_list sts kDefaultState
     then [ENUMERATION_FAIL]
     else if 5 < count_list sts kConfiguredState then [FLAKY_CONNECTION] else [])"
  by (simp add: device_warnings_def threshold_defs set_insert_def)

lemma count_list_le_1: "length xs = 1 \<Longrightarrow> count_list xs x \<le> 1"
  using count_le_length [of xs x] by simp

lemma hd_single: "length xs = 1 \<and> hd xs = a \<longleftrightarrow> xs = [a]"
  by (cases xs) auto

lemma host_warnings_cases:
  "host_warnings key sts1 sts2 =
    (if sts1 = [kNotAttachedState] \<and> sts2 = [kNotAttachedState] then [MISSING_DATA_LINES]
     else if count_list sts1 kConfiguredState = 0 \<and> count_list sts2 kConfiguredState = 0 \<and>
             (3 < count_list sts1 kDefaultState \<or> 3 < count_list sts2 kDefaultState)
     then [ENUMERATION_FAIL] else [])"
proof (cases "sts1 = [kNotAttachedState] \<and> sts2 = [kNotAttachedState]")
  case True
  then show ?thesis
    by (simp add: host_warnings_def threshold_defs set_insert_def state_name_defs)
next
  case False
  then have "\<not> (length sts1 = 1 \<and> hd sts1 = kNotAttachedState \<and>
      length sts2 = 1 \<and> hd sts2 = kNotAttachedState)"
    by (metis hd_single)
  with False show ?thesis
    by (auto simp: host_warnings_def threshold_defs set_insert_def)
qed

lemma new_warnings_shape:
  "new_warnings K t s \<in> {[], [ENUMERATION_FAIL], [FLAKY_CONNECTION], [MISSING_DATA_LINES]}"
  by (simp add: new_warnings_def device_warnings_cases host_warnings_cases)

section \<open>Invariant\<close>

definition dev_ok :: "usbDeviceState \<Rightarrow> bool" where
  "dev_ok d \<longleftrightarrow> length (states d) = length (timestamps d) \<and> set (states d) \<subseteq> set kValidStates"

definition mon_inv :: "('k, 'z) mon_scheme \<Rightarrow> bool" where
  "mon_inv s \<longleftrightarrow> (\<forall>p. dev_ok (get_dev p s)) \<and>
     mWarningSet s \<in> {[], [ENUMERATION_FAIL], [FLAKY_CONNECTION], [MISSING_DATA_LINES]}"

definition mon_fields where
  "mon_fields s = (mEpollFd s, mUeventFd s, mTimerFd s, mDataRoleFd s, mDeviceState s,
     mHost1State s, mHost2State s, mWarningSet s, mDataRole s, mDataSessionStart s, mUdcBind s)"

lemma mon_fieldsD:
  "mon_fields s = mon_fields t \<Longrightarrow> get_dev p s = get_dev p t"
  "mon_fields s = mon_fields t \<Longrightarrow> mWarningSet s = mWarningSet t"
  "mon_fields s = mon_fields t \<Longrightarrow> mDataRole s = mDataRole t"
  "mon_fields s = mon_fields t \<Longrightarrow> mUdcBind s = mUdcBind t"
  by (cases p) (simp_all add: mon_fields_def dev_simps)

lemma mon_inv_cong: "mon_fields s = mon_fields t \<Longrightarrow> mon_inv s \<longleftrightarrow> mon_inv t"
  unfolding mon_inv_def using mon_fieldsD(1,2) [of s t] by auto

lemma mon_inv_world [simp]:
  "mon_inv (s\<lparr>kern := k\<rparr>) = mon_inv s" "mon_inv (s\<lparr>trace := t\<rparr>) = mon_inv s"
  "mon_inv (s\<lparr>kern := k, trace := t\<rparr>) = mon_inv s"
  "mon_inv (s\<lparr>mDataRole := r\<rparr>) = mon_inv s"
  "mon_inv (s\<lparr>mDataSessionStart := i\<rparr>) = mon_inv s"
  "mon_inv (s\<lparr>mUdcBind := b\<rparr>) = mon_inv s"
  by (simp_all add: mon_inv_def)

lemma mon_inv_put_dev: "mon_inv s \<Longrightarrow> dev_ok d \<Longrightarrow> mon_inv (put_dev p d s)"
  by (simp add: mon_inv_def)

lemma mon_inv_dev: "mon_inv s \<Longrightarrow> dev_ok (get_dev p s)"
  by (simp add: mon_inv_def)

lemma mon_inv_warnings: "mon_inv s \<Longrightarrow> mon_inv (s\<lparr>mWarningSet := new_warnings K t s'\<rparr>)"
  using new_warnings_shape [of K t s'] by (simp add: mon_inv_def)

lemma dev_ok_upd [simp]:
  "dev_ok (d\<lparr>fd := f\<rparr>) = dev_ok d" "dev_ok (d\<lparr>states := [], timestamps := []\<rparr>)"
  by (simp_all add: dev_ok_def)

lemma mon_inv_clear: "mon_inv s \<Longrightarrow> mon_inv (s\<lparr>mWarningSet := []\<rparr>)"
  by (simp add: mon_inv_def)

end
