(* ===== verification/ExampleKernel.thy ===== *)
theory ExampleKernel
  imports SessionMonitor "HOL-Library.AList"
begin

text \<open>
  A concrete kernel, on which the hypotheses of the properties are shown to hold: files and
  directories as association lists, a clock, the descriptors' contents, and libbase's functions as
  their documentation describes them. A write succeeds when the file exists. It is an instance of
  the parameters, used in witnesses only; no property is about it.
\<close>

record ekern =
  e_files :: "(string \<times> string) list"
  e_dirs :: "(string \<times> dirent list) list"
  e_fds :: "(int \<times> string) list"
  e_now :: int
  e_next_fd :: int
  e_uevents :: "(int \<times> string) list"
  e_waits :: "(bool \<times> bool) list"

definition ek0 :: ekern where
  "ek0 = \<lparr>e_files = [], e_dirs = [], e_fds = [], e_now = 0, e_next_fd = 100, e_uevents = [],
     e_waits = []\<rparr>"

definition e_read :: "string \<Rightarrow> ekern \<Rightarrow> (bool \<times> string) \<times> ekern" where
  "e_read p k = (case map_of (e_files k) p of Some c \<Rightarrow> ((True, c), k) | None \<Rightarrow> ((False, []), k))"

definition e_write :: "string \<Rightarrow> string \<Rightarrow> ekern \<Rightarrow> bool \<times> ekern" where
  "e_write p d k =
     (case map_of (e_files k) p of
        Some c \<Rightarrow> (True, k\<lparr>e_files := AList.update p d (e_files k)\<rparr>)
      | None \<Rightarrow> (False, k))"

definition e_open :: "string \<Rightarrow> ekern \<Rightarrow> int \<times> ekern" where
  "e_open p k =
     (case map_of (e_files k) p of
        Some c \<Rightarrow> (e_next_fd k, k\<lparr>e_fds := (e_next_fd k, c) # e_fds k, e_next_fd := e_next_fd k + 1\<rparr>)
      | None \<Rightarrow> (- 1, k))"

definition basic_platform :: "(ekern, 'n) platform" where
  "basic_platform = \<lparr>
     sys_read = e_read,
     sys_write = e_write,
     sys_fopen = (\<lambda>p k. (map_of (e_files k) p \<noteq> None, k)),
     sys_fputs = e_write,
     sys_fclose = (\<lambda>p k. ((), k)),
     sys_opendir = (\<lambda>p k. (map_of (e_dirs k) p, k)),
     sys_open = e_open,
     sys_fdread = (\<lambda>f n k. (case map_of (e_fds k) f of Some c \<Rightarrow> take n c | None \<Rightarrow> [], k)),
     sys_epoll_add = (\<lambda>f k. (True, k)),
     sys_settimer = (\<lambda>n k. (True, k)),
     sys_boot_now = (\<lambda>k. (e_now k, k)),
     sys_mono_now = (\<lambda>k. (e_now k div 1000000000, k)),
     sys_getprop = (\<lambda>p d k. (d, k)),
     sys_send = (\<lambda>n k. (True, k)),
     lib_trim = strip,
     lib_tokenize = (\<lambda>s d. split_tokens s d [])\<rparr>"

definition eK :: "ekern usb_platform" where
  "eK = \<lparr>
     sys_read = e_read,
     sys_write = e_write,
     sys_fopen = (\<lambda>p k. (map_of (e_files k) p \<noteq> None, k)),
     sys_fputs = e_write,
     sys_fclose = (\<lambda>p k. ((), k)),
     sys_opendir = (\<lambda>p k. (map_of (e_dirs k) p, k)),
     sys_open = e_open,
     sys_fdread = (\<lambda>f n k. (case map_of (e_fds k) f of Some c \<Rightarrow> take n c | None \<Rightarrow> [], k)),
     sys_epoll_add = (\<lambda>f k. (True, k)),
     sys_settimer = (\<lambda>n k. (True, k)),
     sys_boot_now = (\<lambda>k. (e_now k, k)),
     sys_mono_now = (\<lambda>k. (e_now k div 1000000000, k)),
     sys_getprop = (\<lambda>p d k. (d, k)),
     sys_send = (\<lambda>n k. (True, k)),
     lib_trim = strip,
     lib_tokenize = (\<lambda>s d. split_tokens s d []),
     enable_report_usb_data_compliance_warning = True,
     enable_usb_data_compliance_warning = True,
     enable_input_power_limited_warning = True,
     warn_key = case_ComplianceWarning 1 2 3 4 5 6 7 8,
     names_order = (\<lambda>xs. xs),
     default_PortStatus = \<lparr>portName = [], currentDataRole = DataNONE, currentPowerRole = PowerNONE,
       currentMode = ModeNONE, canChangeMode = False, canChangeDataRole = False,
       canChangePowerRole = False, supportedModes = [], supportedContaminantProtectionModes = [],
       supportsEnableContaminantPresenceProtection = False,
       contaminantProtectionStatus = Protection_NONE,
       supportsEnableContaminantPresenceDetection = False,
       contaminantDetectionStatus = DISABLED, usbDataStatus = [], powerTransferLimited = False,
       powerBrickStatus = UNKNOWN, supportsComplianceWarnings = False, complianceWarnings = []\<rparr>,
     PULLUP_PATH = ''/config/usb_gadget/g1/UDC'',
     sys_condwait = (\<lambda>d k. (case e_waits k of [] \<Rightarrow> ((True, False), k)
                                 | w # ws \<Rightarrow> (w, k\<lparr>e_waits := ws\<rparr>))),
     sys_trylock = (\<lambda>k. (True, k)),
     sys_stats = (\<lambda>k. (True, k)),
     sys_recv_uevent = (\<lambda>k. (case e_uevents k of [] \<Rightarrow> ((0, []), k)
                               | u # us \<Rightarrow> (u, k\<lparr>e_uevents := us\<rparr>))),
     sys_newfd = (\<lambda>_ k. (e_next_fd k, k\<lparr>e_next_fd := e_next_fd k + 1\<rparr>)),
     sys_close = (\<lambda>f k. ((), k)),
     sys_epoll_del = (\<lambda>f k. ((), k)),
     sys_cond_init = (\<lambda>k. (True, k)),
     sys_thread_create = (\<lambda>k. (True, k)),
     sys_thread_signal = (\<lambda>k. (True, k)),
     sys_thread_join = (\<lambda>k. ((), k)),
     sys_overheat = (\<lambda>k. ((0, 0), k))\<rparr>"

definition no_dev :: usbDeviceState where
  "no_dev = \<lparr>fd = - 1, filePath = [], ueventRegex = [], states = [], timestamps = []\<rparr>"

definition example_mon :: "ekern \<Rightarrow> ekern mon" where
  "example_mon k = \<lparr>kern = k, trace = [], mI2cBusNumber = - 1, mI2cClientPath = [],
     mEpollFd = 3, mUeventFd = 4, mTimerFd = 5, mDataRoleFd = 6,
     mDeviceState = no_dev, mHost1State = no_dev, mHost2State = no_dev,
     mWarningSet = [], mDataRole = DataNONE, mDataSessionStart = 0, mUdcBind = False\<rparr>"

end
