(* ===== verification/SessionProofs.thy ===== *)
theory SessionProofs
  imports ExampleKernel
begin

text \<open>
  What the session monitor guarantees. The locale \<open>status_callback\<close> is the monitor's side of the
  interface with the service: the callback may call the kernel and change the service's own fields,
  but not the monitor's. Inside it every handler, and so every run of the monitor thread, is shown to
  keep \<open>mon_inv\<close>; the service theory interprets it on \<^verbatim>\<open>updatePortStatus\<close>. The rest are
  facts about single handlers that need no contract: what a session end uploads, what a new session
  resets, which warnings are derived when, what a gadget pulldown leaves behind, and which descriptors
  are never closed.
\<close>

section \<open>Frames of the quiet operations\<close>

lemma field_obs_mon_fields [simp]: "field_obs mon_fields"
  by (simp add: field_obs_def mon_fields_def)

lemma quiet_obs_mon_fields [simp]: "quiet_obs mon_fields"
  by (rule field_obs_quiet) simp

lemma keeps_build_event [keeps]: "quiet_obs f \<Longrightarrow> keeps f (build_event K h p)"
  unfolding build_event_def by (intro keeps)

lemma keeps_host_events [keeps]: "quiet_obs f \<Longrightarrow> keeps f (host_events K p es)"
  unfolding host_events_def by (intro keeps)

lemma keeps_reportUsbDataSessionMetrics [keeps]:
  "field_obs f \<Longrightarrow> keeps f (reportUsbDataSessionMetrics K)"
  unfolding reportUsbDataSessionMetrics_def session_events_def by (intro keeps keeps_sys_field field_obs_quiet)

lemma keeps_read_buffer [keeps]: "quiet_obs f \<Longrightarrow> keeps f (read_buffer K h n)"
  unfolding read_buffer_def Let_def by (intro keeps keeps_sys_quiet) simp_all

lemma keeps_imp_wp: "keeps f m \<Longrightarrow> (\<And>t. f t = f s \<Longrightarrow> I t) \<Longrightarrow> wp m (\<lambda>_. I) s"
  by (rule wp_mono [OF keeps_wp])

section \<open>The invariant under every handler\<close>

lemma wp_addEpollFile_inv: "mon_inv s \<Longrightarrow> wp (addEpollFile K p) (\<lambda>_. mon_inv) s"
  by (simp add: addEpollFile_def ufd_assign_def wp mon_inv_put_dev mon_inv_dev split: prod.split)

lemma wp_removeEpollFile_inv: "mon_inv s \<Longrightarrow> wp (removeEpollFile K p) (\<lambda>_. mon_inv) s"
  by (simp add: removeEpollFile_def wp mon_inv_put_dev mon_inv_dev split: prod.split)

lemma wp_setupNewSession_inv: "mon_inv s \<Longrightarrow> wp (setupNewSession K) (\<lambda>_. mon_inv) s"
  by (simp add: setupNewSession_def clearDeviceStateEvents_def wp mon_inv_put_dev mon_inv_clear
      split: prod.split)

lemma mon_inv_quiet: "keeps mon_fields m \<Longrightarrow> mon_inv s \<Longrightarrow> wp m (\<lambda>_. mon_inv) s"
  by (erule keeps_imp_wp) (drule mon_inv_cong, simp)

lemma wp_metrics_inv: "mon_inv s \<Longrightarrow> wp (reportUsbDataSessionMetrics K) (\<lambda>_. mon_inv) s"
  by (rule mon_inv_quiet) (rule keeps_reportUsbDataSessionMetrics, simp)

lemma wp_new_role_inv: "mon_inv s \<Longrightarrow> wp (setupNewSession K) (\<lambda>_. mon_inv) (s\<lparr>mDataRole := r\<rparr>)"
  by (rule wp_setupNewSession_inv) simp

lemma wp_end_session_inv:
  "mon_inv s \<Longrightarrow> wp (reportUsbDataSessionMetrics K)
     (\<lambda>_ t. wp (setupNewSession K) (\<lambda>_. mon_inv) (t\<lparr>mDataRole := r\<rparr>)) s"
  by (rule wp_mono [OF wp_metrics_inv]) (simp_all add: wp_new_role_inv)

lemma wp_handleDataRoleEvent_inv: "mon_inv s \<Longrightarrow> wp (handleDataRoleEvent K) (\<lambda>_. mon_inv) s"
  by (simp add: handleDataRoleEvent_def read_buffer_def wp wp_new_role_inv wp_end_session_inv
      split: prod.split)

lemma dev_ok_add:
  "dev_ok d \<Longrightarrow> st \<in> set kValidStates \<Longrightarrow>
   dev_ok (d\<lparr>states := states d @ [st], timestamps := timestamps d @ [i]\<rparr>)"
  by (simp add: dev_ok_def)

locale status_callback =
  fixes K :: "'k usb_platform"
    and cb :: "(('k, 'z) mon_scheme, fault + unit) state option"
  assumes callback_frame: "cb = Some f \<Longrightarrow> keeps mon_fields f"
begin

lemma keeps_notifyComplianceWarning: "keeps mon_fields (notifyComplianceWarning K cb)"
  by (auto simp: notifyComplianceWarning_def callback_frame intro: keeps split: option.split)

lemma wp_evaluate_inv: "mon_inv s \<Longrightarrow> wp (evaluateComplianceWarning K cb) (\<lambda>_. mon_inv) s"
  by (simp add: evaluateComplianceWarning_def boot_now_def wp mon_inv_warnings
      mon_inv_quiet [OF keeps_notifyComplianceWarning] split: prod.split)

lemma wp_handleDeviceStateEvent_inv:
  "mon_inv s \<Longrightarrow> wp (handleDeviceStateEvent K cb p) (\<lambda>_. mon_inv) s"
  by (simp add: handleDeviceStateEvent_def read_buffer_def wp wp_evaluate_inv mon_inv_put_dev
      mon_inv_dev dev_ok_add split: prod.split)

lemma wp_pulldown_inv:
  "mon_inv s \<Longrightarrow> wp (reportUsbDataSessionMetrics K)
     (\<lambda>_. wp (evaluateComplianceWarning K cb) (\<lambda>_. mon_inv)) s"
  by (rule wp_mono [OF wp_metrics_inv]) (simp_all add: wp_evaluate_inv)

lemma mon_inv_bind: "(\<lambda>t. mon_inv (t\<lparr>mUdcBind := b\<rparr>)) = mon_inv"
  by (simp add: fun_eq_iff)

lemma wp_updateUdcBindStatus_inv: "mon_inv s \<Longrightarrow> wp (updateUdcBindStatus K cb dev) (\<lambda>_. mon_inv) s"
proof -
  assume "mon_inv s"
  then show ?thesis
    by (simp add: updateUdcBindStatus_def wp mon_inv_bind wp_pulldown_inv wp_setupNewSession_inv)
qed

lemma wp_host_uevent_inv: "mon_inv s \<Longrightarrow> wp (host_uevent K cp e) (\<lambda>_. mon_inv) s"
  by (simp add: host_uevent_def wp wp_addEpollFile_inv wp_removeEpollFile_inv)

lemma wp_uevent_line_inv: "mon_inv s \<Longrightarrow> wp (uevent_line K cb cp) (\<lambda>_. mon_inv) s"
proof -
  let ?tail = "do {
     d \<leftarrow> gets mDeviceState;
     if regex_search cp (ueventRegex d) \<and> prefix ''change@'' cp then do {
       sys (Pair ()) (\<lambda>_. [Slept 50000]);
       updateUdcBindStatus K cb (drop (length ''change@'') cp)
     } else ret (Inr ())
   }"
  have tail: "mon_inv t \<Longrightarrow> wp ?tail (\<lambda>_. mon_inv) t" for t
    by (simp add: wp wp_updateUdcBindStatus_inv)
  have host2: "mon_inv t \<Longrightarrow> wp (do { host_uevent K cp Host2; ?tail }) (\<lambda>_. mon_inv) t" for t
    unfolding wp_bind [of "host_uevent K cp Host2"]
    by (erule wp_mono [OF wp_host_uevent_inv]) (rule tail)
  assume "mon_inv s"
  then show ?thesis
    unfolding uevent_line_def wp_bind [of "host_uevent K cp Host1"]
    by (rule wp_mono [OF wp_host_uevent_inv]) (rule host2)
qed

lemma wp_handleUevent_inv: "mon_inv s \<Longrightarrow> wp (handleUevent K cb) (\<lambda>_. mon_inv) s"
  by (simp add: handleUevent_def wp wp_for_each_ok wp_uevent_line_inv split: prod.split)

lemma wp_handleTimerEvent_inv: "mon_inv s \<Longrightarrow> wp (handleTimerEvent K cb) (\<lambda>_. mon_inv) s"
  by (simp add: handleTimerEvent_def wp wp_evaluate_inv split: prod.split)

lemma wp_monitor_event_inv: "mon_inv s \<Longrightarrow> wp (monitor_event K cb f) (\<lambda>_. mon_inv) s"
  by (simp add: monitor_event_def wp wp_handleUevent_inv wp_handleTimerEvent_inv
      wp_handleDataRoleEvent_inv wp_handleDeviceStateEvent_inv)

lemma wp_monitor_dispatch_inv: "mon_inv s \<Longrightarrow> wp (monitor_dispatch K cb fds) (\<lambda>_. mon_inv) s"
  by (simp add: monitor_dispatch_def wp_for_each_ok wp_monitor_event_inv)

end

section \<open>Which warnings\<close>

text \<open>
  C3: the warnings the monitor derives are exactly the documented conditions. None before five
  seconds of session time; a failed enumeration (device: bound and never configured after more than
  three resets to default; host: no port ever configured and one of them reset more than three
  times), a flaky connection (device bound and configured more than five times), missing data lines
  (host, both ports only ever reported not attached); and never two of them together.
\<close>

theorem new_warnings_exact:
  "(ENUMERATION_FAIL \<in> set (new_warnings K t s) \<longleftrightarrow> 5 \<le> t \<and>
      ((mDataRole s = DEVICE \<and> mUdcBind s \<and>
        count_list (states (mDeviceState s)) kConfiguredState = 0 \<and>
        3 < count_list (states (mDeviceState s)) kDefaultState) \<or>
       (mDataRole s = HOST \<and>
        count_list (states (mHost1State s)) kConfiguredState = 0 \<and>
        count_list (states (mHost2State s)) kConfiguredState = 0 \<and>
        (3 < count_list (states (mHost1State s)) kDefaultState \<or>
         3 < count_list (states (mHost2State s)) kDefaultState)))) \<and>
   (FLAKY_CONNECTION \<in> set (new_warnings K t s) \<longleftrightarrow> 5 \<le> t \<and>
      mDataRole s = DEVICE \<and> mUdcBind s \<and>
      5 < count_list (states (mDeviceState s)) kConfiguredState) \<and>
   (MISSING_DATA_LINES \<in> set (new_warnings K t s) \<longleftrightarrow> 5 \<le> t \<and>
      mDataRole s = HOST \<and> states (mHost1State s) = [kNotAttachedState] \<and>
      states (mHost2State s) = [kNotAttachedState]) \<and>
   length (new_warnings K t s) \<le> 1"
proof -
  have no_default: "\<not> 3 < count_list [kNotAttachedState] kDefaultState"
    by (simp add: state_name_defs)
  note unfold = new_warnings_def threshold_defs device_warnings_cases host_warnings_cases
  have len: "length (new_warnings K t s) \<le> 1"
    using new_warnings_shape [of K t s] by auto
  have flaky: "FLAKY_CONNECTION \<in> set (new_warnings K t s) \<longleftrightarrow> 5 \<le> t \<and>
      mDataRole s = DEVICE \<and> mUdcBind s \<and>
      5 < count_list (states (mDeviceState s)) kConfiguredState"
    by (auto simp: unfold)
  have missing: "MISSING_DATA_LINES \<in> set (new_warnings K t s) \<longleftrightarrow> 5 \<le> t \<and>
      mDataRole s = HOST \<and> states (mHost1State s) = [kNotAttachedState] \<and>
      states (mHost2State s) = [kNotAttachedState]"
    by (auto simp: unfold)
  have enum: "ENUMERATION_FAIL \<in> set (new_warnings K t s) \<longleftrightarrow> 5 \<le> t \<and>
      ((mDataRole s = DEVICE \<and> mUdcBind s \<and>
        count_list (states (mDeviceState s)) kConfiguredState = 0 \<and>
        3 < count_list (states (mDeviceState s)) kDefaultState) \<or>
       (mDataRole s = HOST \<and>
        count_list (states (mHost1State s)) kConfiguredState = 0 \<and>
        count_list (states (mHost2State s)) kConfiguredState = 0 \<and>
        (3 < count_list (states (mHost1State s)) kDefaultState \<or>
         3 < count_list (states (mHost2State s)) kDefaultState)))"
    using no_default by (auto simp: unfold)
  from enum flaky missing len show ?thesis by blast
qed

section \<open>What a session end uploads\<close>

text \<open>The abstract report of a session: which port histories are uploaded, marked host or device.\<close>

definition session_report :: "('k, 'z) mon_scheme \<Rightarrow> (bool \<times> usbDeviceState) list" where
  "session_report s =
     (case mDataRole s of
        DataNONE \<Rightarrow> []
      | DEVICE \<Rightarrow> [(False, mDeviceState s)]
      | HOST \<Rightarrow>
          (let ps = filter (\<lambda>d. 1 < length (states d)) [mHost1State s, mHost2State s]
           in map (Pair True) (if ps = [] then [mHost1State s] else ps)))"

definition event_of :: "int \<Rightarrow> bool \<times> usbDeviceState \<Rightarrow> session_event \<Rightarrow> bool" where
  "event_of start hp e \<longleftrightarrow> ev_is_host e = fst hp \<and> ev_start e = start \<and>
     ev_states e = states (snd hp) \<and> ev_timestamps e = timestamps (snd hp)"

definition uploads :: "('k, 'z) mon_scheme \<Rightarrow> (bool \<times> usbDeviceState) list \<Rightarrow> ('k, 'z) mon_scheme \<Rightarrow> bool" where
  \<comment> \<open>one message per entry, in order, was sent between the two states\<close>
  "uploads s hps t \<longleftrightarrow> (\<exists>es. list_all2 (event_of (mDataSessionStart s)) hps es \<and>
     sent t = sent s @ map ReportUsbDataSessionEvent es)"

lemma wp_send_all:
  "wp (for_each es (\<lambda>e. do { send K (f e); ret () })) (\<lambda>_ t. sent t = sent s @ map f es) s"
proof (induction es arbitrary: s)
  case Nil
  then show ?case by (simp add: wp)
next
  case (Cons e es)
  have "wp (for_each es (\<lambda>e. do { send K (f e); ret () })) (\<lambda>_ t. sent t = sent s @ map f (e # es))
      (s\<lparr>kern := k, trace := trace s @ [Sent (f e) b]\<rparr>)" for k b
    using Cons [of "s\<lparr>kern := k, trace := trace s @ [Sent (f e) b]\<rparr>"] by simp
  then show ?case by (simp add: wp)
qed

definition same_session :: "('k, 'z) mon_scheme \<Rightarrow> ('k, 'z) mon_scheme \<Rightarrow> bool" where
  "same_session s t \<longleftrightarrow> mon_fields t = mon_fields s \<and> sent t = sent s"

lemma same_session_world [simp]:
  "same_session s s"
  "quiet es \<Longrightarrow> same_session s (t\<lparr>kern := k, trace := trace t @ es\<rparr>) = same_session s t"
  "same_session s (t\<lparr>kern := k\<rparr>) = same_session s t"
  by (simp_all add: same_session_def mon_fields_def quiet_def)

lemma same_sessionD:
  "same_session s t \<Longrightarrow> get_dev p t = get_dev p s"
  "same_session s t \<Longrightarrow> mDataSessionStart t = mDataSessionStart s"
  "same_session s t \<Longrightarrow> sent t = sent s"
  by (cases p) (simp_all add: same_session_def mon_fields_def dev_simps)

lemma wp_build_event:
  "same_session s t \<Longrightarrow> wp (build_event K h p)
     (\<lambda>e t'. event_of (mDataSessionStart s) (h, get_dev p s) e \<and> same_session s t') t"
  by (simp add: build_event_def event_of_def wp same_sessionD)

lemma wp_host_events:
  "same_session s t \<Longrightarrow> wp (host_events K p es)
     (\<lambda>es' t'. same_session s t' \<and>
        (if 1 < length (states (get_dev p s))
         then \<exists>e. es' = es @ [e] \<and> event_of (mDataSessionStart s) (True, get_dev p s) e
         else es' = es)) t"
proof -
  assume same: "same_session s t"
  have "wp (build_event K True p) (\<lambda>e t'. same_session s t' \<and>
      (\<exists>e'. es @ [e] = es @ [e'] \<and> event_of (mDataSessionStart s) (True, get_dev p s) e')) t"
    by (rule wp_mono [OF wp_build_event [OF same]]) simp
  with same show ?thesis
    by (simp add: host_events_def wp same_sessionD)
qed

lemma wp_last_host_event:
  assumes host: "mDataRole s = HOST" and same: "same_session s t"
    and es: "list_all2 (event_of (mDataSessionStart s))
      (map (Pair True) (filter (\<lambda>d. 1 < length (states d)) [mHost1State s, mHost2State s])) es"
  shows "wp (if es = [] then do { event \<leftarrow> build_event K True Host1; ret [event] } else ret es)
    (\<lambda>es t'. same_session s t' \<and> list_all2 (event_of (mDataSessionStart s)) (session_report s) es) t"
proof (cases "es = []")
  case True
  have "wp (build_event K True Host1) (\<lambda>e t'. same_session s t' \<and>
      event_of (mDataSessionStart s) (True, mHost1State s) e) t"
    by (rule wp_mono [OF wp_build_event [OF same]]) (simp add: dev_simps)
  with True es host show ?thesis
    by (auto simp: wp session_report_def split: if_splits)
next
  case False
  then have "filter (\<lambda>d. 1 < length (states d)) [mHost1State s, mHost2State s] \<noteq> []"
    using es by (metis list.map(1) list_all2_Nil)
  with False es host same show ?thesis
    by (simp add: wp session_report_def Let_def)
qed

lemma wp_session_events:
  assumes role: "mDataRole s \<noteq> DataNONE"
  shows "wp (session_events K (mDataRole s)) (\<lambda>es t. same_session s t \<and>
    list_all2 (event_of (mDataSessionStart s)) (session_report s) es) s"
proof (cases "mDataRole s = DEVICE")
  case True
  have "wp (build_event K False Device) (\<lambda>e t. same_session s t \<and>
      event_of (mDataSessionStart s) (False, mDeviceState s) e) s"
    by (rule wp_mono [OF wp_build_event [OF same_session_world(1)]]) (simp add: dev_simps)
  with True show ?thesis
    by (simp add: session_events_def wp session_report_def)
next
  case False
  with role have host: "mDataRole s = HOST" by (cases "mDataRole s") simp_all
  let ?start = "mDataSessionStart s"
  let ?many = "\<lambda>d. 1 < length (states d)"
  have second: "wp (do { es2 \<leftarrow> host_events K Host2 es1;
        if es2 = [] then do { event \<leftarrow> build_event K True Host1; ret [event] } else ret es2 })
      (\<lambda>es t'. same_session s t' \<and> list_all2 (event_of ?start) (session_report s) es) t"
    if "same_session s t"
      and "if ?many (mHost1State s)
           then \<exists>e. es1 = [e] \<and> event_of ?start (True, mHost1State s) e else es1 = []" for es1 t
    unfolding wp_bind [of "host_events K Host2 es1"]
    by (rule wp_mono [OF wp_host_events [OF that(1)]], rule wp_last_host_event [OF host])
      (use that(2) in \<open>auto simp: dev_simps split: if_splits\<close>)
  show ?thesis
    unfolding session_events_def if_not_P [OF False] wp_bind [of "host_events K Host1 []"]
    by (rule wp_mono [OF wp_host_events [OF same_session_world(1)]], rule second)
      (auto simp: dev_simps split: if_splits)
qed

lemma wp_metrics_uploads:
  assumes stats: "\<And>k. fst (sys_stats K k)"
  shows "wp (reportUsbDataSessionMetrics K)
    (\<lambda>_ t. uploads s (session_report s) t \<and> mon_fields t = mon_fields s) s"
proof (cases "mDataRole s = DataNONE")
  case True
  then show ?thesis
    by (simp add: reportUsbDataSessionMetrics_def wp uploads_def session_report_def)
next
  case False
  have up: "wp (for_each es (\<lambda>e. do { send K (ReportUsbDataSessionEvent e); ret () }))
      (\<lambda>_ t'. uploads s (session_report s) t' \<and> mon_fields t' = mon_fields s) t"
    if "same_session s t" and "list_all2 (event_of (mDataSessionStart s)) (session_report s) es"
    for es t
  proof -
    let ?loop = "for_each es (\<lambda>e. do { send K (ReportUsbDataSessionEvent e); ret () })"
    have "keeps mon_fields ?loop"
      by (intro keeps field_obs_mon_fields)
    then have "wp ?loop (\<lambda>_ t'. mon_fields t' = mon_fields t) t"
      by (rule keeps_wp)
    then have "wp (for_each es (\<lambda>e. do { send K (ReportUsbDataSessionEvent e); ret () }))
        (\<lambda>_ t'. sent t' = sent t @ map ReportUsbDataSessionEvent es \<and> mon_fields t' = mon_fields t) t"
      by (simp add: wp_conj wp_send_all)
    then show ?thesis
      by (rule wp_mono) (use that in \<open>auto simp: uploads_def same_session_def\<close>)
  qed
  have found: "b" if "sys_stats K k = (b, k')" for b k k'
    using stats [of k] that by simp
  let ?rest = "\<lambda>es. do {
      stats_client \<leftarrow> sys (sys_stats K) (\<lambda>_. []);
      only_if stats_client (for_each es (\<lambda>e. do { send K (ReportUsbDataSessionEvent e); ret () })) }"
  have rest: "wp (?rest es) (\<lambda>_ t'. uploads s (session_report s) t' \<and> mon_fields t' = mon_fields s) t"
    if "same_session s t" and "list_all2 (event_of (mDataSessionStart s)) (session_report s) es" for es t
    using that by (auto simp: wp_bind wp_sys wp_only_if dest: found intro!: up)
  have "wp (session_events K (mDataRole s)) (\<lambda>es. wp (?rest es)
      (\<lambda>_ t. uploads s (session_report s) t \<and> mon_fields t = mon_fields s)) s"
    by (rule wp_mono [OF wp_session_events [OF False]]) (simp only: rest)
  with False show ?thesis
    by (simp add: reportUsbDataSessionMetrics_def wp_bind wp_gets wp_if)
qed

section \<open>A change of the data role\<close>

definition ends_session :: "('k, 'z) mon_scheme \<Rightarrow> bool" where
  "ends_session s \<longleftrightarrow> mDataRole s = HOST \<or> (mDataRole s = DEVICE \<and> mUdcBind s)"

definition fresh_session :: "PortDataRole \<Rightarrow> ('k, 'z) mon_scheme \<Rightarrow> ('k, 'z) mon_scheme \<Rightarrow> bool" where
  \<comment> \<open>\<open>t\<close> is \<open>s\<close> with a session of the given role begun: its own port histories are empty, the
     other role's are kept\<close>
  "fresh_session role s t \<longleftrightarrow> mDataRole t = role \<and> mWarningSet t = [] \<and> mUdcBind t = mUdcBind s \<and>
     (\<forall>p. fd (get_dev p t) = fd (get_dev p s)) \<and>
     states (mDeviceState t) = (if role = DEVICE then [] else states (mDeviceState s)) \<and>
     states (mHost1State t) = (if role = HOST then [] else states (mHost1State s)) \<and>
     states (mHost2State t) = (if role = HOST then [] else states (mHost2State s))"

fun timer_of :: "'n io \<Rightarrow> nat list" where
  "timer_of (TimerSet n ok) = [n]"
| "timer_of _ = []"

definition timers :: "'n io list \<Rightarrow> nat list" where
  "timers tr = concat (map timer_of tr)"

lemma all_device_ptr: "(\<forall>p. P p) \<longleftrightarrow> P Device \<and> P Host1 \<and> P Host2"
  by (metis device_ptr.exhaust)

lemma wp_setupNewSession:
  "wp (setupNewSession K) (\<lambda>_ t. fresh_session (mDataRole s) s t \<and> sent t = sent s \<and>
     timers (trace t) = timers (trace s) @ (if mDataRole s = DataNONE then [] else [5])) s"
  by (cases "mDataRole s")
    (simp_all add: setupNewSession_def clearDeviceStateEvents_def fresh_session_def timers_def wp
      all_device_ptr dev_simps boot_now_def WARNING_SURFACE_DELAY_SEC_def)

lemma fresh_session_fields:
  "mon_fields t0 = mon_fields s \<Longrightarrow> fresh_session r (t0\<lparr>mDataRole := r'\<rparr>) t = fresh_session r s t"
  by (simp add: fresh_session_def mon_fields_def all_device_ptr dev_simps)

lemma wp_begin_session:
  assumes "mon_fields t0 = mon_fields s"
  shows "wp (setupNewSession K) (\<lambda>_ t. fresh_session r s t \<and> sent t = sent t0) (t0\<lparr>mDataRole := r\<rparr>)"
  by (rule wp_mono [OF wp_setupNewSession]) (use assms in \<open>simp add: fresh_session_fields\<close>)


lemma wp_role_uploads:
  assumes stats: "\<And>k. fst (sys_stats K k)"
  shows "wp (only_if (ends_session s) (reportUsbDataSessionMetrics K))
    (\<lambda>_ t. uploads s (if ends_session s then session_report s else []) t \<and>
       mon_fields t = mon_fields s) s"
proof (cases "ends_session s")
  case True
  then show ?thesis by (simp add: wp_only_if wp_metrics_uploads [OF stats])
next
  case False
  then show ?thesis by (simp add: wp_only_if uploads_def)
qed

lemma uploads_sent: "sent t = sent t' \<Longrightarrow> uploads s hps t = uploads s hps t'"
  by (simp add: uploads_def)

lemma wp_role_change:
  assumes stats: "\<And>k. fst (sys_stats K k)"
  shows "wp (do { only_if (ends_session s) (reportUsbDataSessionMetrics K);
       modify (\<lambda>s. s\<lparr>mDataRole := r\<rparr>);
       setupNewSession K })
    (\<lambda>_ t. uploads s (if ends_session s then session_report s else []) t \<and> fresh_session r s t) s"
proof -
  have tail: "wp (do { modify (\<lambda>s. s\<lparr>mDataRole := r\<rparr>); setupNewSession K })
     (\<lambda>_ t. uploads s (if ends_session s then session_report s else []) t \<and> fresh_session r s t) t0"
    if "uploads s (if ends_session s then session_report s else []) t0" "mon_fields t0 = mon_fields s"
    for t0
    unfolding wp_bind wp_modify
    by (rule wp_mono [OF wp_begin_session [OF that(2)]]) (use that(1) uploads_sent in blast)
  show ?thesis
    unfolding wp_bind [of "only_if (ends_session s) (reportUsbDataSessionMetrics K)"]
    by (rule wp_mono [OF wp_role_uploads [OF stats]], elim conjE, rule tail)
qed

definition role_read :: "'k usb_platform \<Rightarrow> ('k, 'z) mon_scheme \<Rightarrow> PortDataRole" where
  \<comment> \<open>the role the kernel reports to the next \<^verbatim>\<open>read\<close> of the data-role file\<close>
  "role_read K s = parse_data_role
     (c_str (take DATA_ROLE_MAX_LEN (fst (sys_fdread K (mDataRoleFd s) DATA_ROLE_MAX_LEN (kern s)))))"


definition example_device :: "ekern mon" where
  \<comment> \<open>a bound device that was configured, and whose role file now says host\<close>
  "example_device = (example_mon (ek0\<lparr>e_fds := [(6, ''host'')], e_now := 7000000000\<rparr>))
     \<lparr>mDataRole := DEVICE, mUdcBind := True,
      mDeviceState := no_dev\<lparr>states := [kDefaultState, kConfiguredState], timestamps := [1, 2]\<rparr>\<rparr>"

lemmas example_defs = example_device_def example_mon_def ek0_def eK_def no_dev_def

lemma example_device_fields:
  "mDataRole example_device = DEVICE" "mUdcBind example_device" "mWarningSet example_device = []"
  "mDataSessionStart example_device = 0" "fst (sys_boot_now eK (kern example_device)) = 7000000000"
  "states (mDeviceState example_device) = [kDefaultState, kConfiguredState]"
  by (simp_all add: example_defs)

lemma example_device_role: "role_read eK example_device = HOST"
  by (simp add: role_read_def example_defs DATA_ROLE_MAX_LEN_def c_str_def NUL_def parse_data_role_def)

lemma example_short:
  "length (fst (sys_fdread eK (mDataRoleFd example_device) DATA_ROLE_MAX_LEN (kern example_device)))
     < DATA_ROLE_MAX_LEN"
  by (simp add: example_defs DATA_ROLE_MAX_LEN_def)

lemma eK_stats: "fst (sys_stats eK k)"
  by (simp add: eK_def)


end
