(* ===== verification/MonitorProps.thy ===== *)
theory MonitorProps
  imports SessionProofs
begin

text \<open>
  Facts about the session monitor that need no contract: the descriptors it never closes, the
  decoding of uevents, and what its constructor establishes.
\<close>

section \<open>Evaluation\<close>



section \<open>A soft pulldown\<close>

text \<open>
  C22: when the gadget is unbound during a device session the warnings that held stay on display: the
  re-evaluation runs while \<open>mUdcBind\<close> is still set, so it derives the same warnings again, and only
  then is the flag cleared. (The comment in \<^verbatim>\<open>updateUdcBindStatus\<close> says that it clears
  them.)
\<close>

theorem soft_pulldown_keeps_warnings:
  assumes device: "mDataRole s = DEVICE" "mUdcBind s"
    and unbound: "fst (sys_read K (''/sys'' @ devname @ ''/function'') (kern s)) = (True, [])"
    and late: "\<And>k. 5 \<le> elapsed_sec (fst (sys_boot_now K k)) (mDataSessionStart s)"
    and held: "mWarningSet s = device_warnings (warn_key K) (states (mDeviceState s))"
    and stats: "\<And>k. fst (sys_stats K k)"
  shows "wp (updateUdcBindStatus K cb devname)
    (\<lambda>r t. r = Inr () \<and> \<not> mUdcBind t \<and> mWarningSet t = mWarningSet s \<and>
       uploads s [(False, mDeviceState s)] t) s"
proof -
  have late': "5 \<le> elapsed_sec now (mDataSessionStart s)" if "sys_boot_now K k = (now, k')" for now k k'
    using late [of k] that by simp
  have read: "b" "f = []" if "sys_read K (''/sys'' @ devname @ ''/function'') (kern s) = ((b, f), k)" for b f k
    using unbound that by simp_all
  have eval: "wp (evaluateComplianceWarning K cb) (\<lambda>r t'. r = Inr () \<and> mWarningSet t' = mWarningSet s \<and>
      sent t' = sent t) t" if "mon_fields t = mon_fields s" for t
  proof -
    have "new_warnings K i (t\<lparr>kern := k\<rparr>) = mWarningSet t" if "5 \<le> i" for i k
      using that device held \<open>mon_fields t = mon_fields s\<close>
      by (simp add: new_warnings_def mon_fields_def WARNING_SURFACE_DELAY_SEC_def)
    moreover have "mDataSessionStart t = mDataSessionStart s" "mWarningSet t = mWarningSet s"
      using that by (simp_all add: mon_fields_def)
    ultimately show ?thesis
      by (simp add: evaluateComplianceWarning_def boot_now_def wp late')
  qed
  define s' where "s' k = s\<lparr>kern := k, trace := trace s @
    [FileRead (''/sys'' @ devname @ ''/function'') True []]\<rparr>" for k
  have s': "mon_fields (s' k) = mon_fields s" "uploads (s' k) = uploads s"
    "session_report (s' k) = [(False, mDeviceState s)]" for k
    using device by (simp_all add: s'_def mon_fields_def uploads_def fun_eq_iff session_report_def)
  have "wp (reportUsbDataSessionMetrics K) (\<lambda>_. wp (evaluateComplianceWarning K cb) (\<lambda>r t. r = Inr () \<and>
      mWarningSet t = mWarningSet s \<and> uploads s [(False, mDeviceState s)] t)) (s' k)" for k
    by (rule wp_mono [OF wp_metrics_uploads [OF stats]], rule wp_mono [OF eval])
      (auto simp: s' uploads_def)
  then have pulldown: "wp (reportUsbDataSessionMetrics K) (\<lambda>_. wp (evaluateComplianceWarning K cb)
      (\<lambda>r t. (\<forall>e. r \<noteq> Inl e) \<and> (r = Inr () \<longrightarrow>
         mWarningSet t = mWarningSet s \<and> uploads s [(False, mDeviceState s)] t))) (s' k)" for k
    by (rule wp_mono) (erule wp_mono, simp)
  obtain k where "sys_read K (''/sys'' @ devname @ ''/function'') (kern s) = ((True, []), k)"
    using unbound by (metis prod.collapse)
  then show ?thesis
    using device pulldown [of k]
    by (simp add: updateUdcBindStatus_def wp uploads_def s'_def)
qed

definition example_pulldown :: "ekern mon" where
  "example_pulldown = (example_mon (ek0\<lparr>e_files := [(''/sys/udc/function'', [])], e_now := 7000000000\<rparr>))
     \<lparr>mDataRole := DEVICE, mUdcBind := True, mWarningSet := [ENUMERATION_FAIL],
      mDeviceState := no_dev\<lparr>states := [kDefaultState, kDefaultState, kDefaultState, kDefaultState], timestamps := [1, 2, 3, 4]\<rparr>\<rparr>"

lemma example_pulldown_fields:
  "mDataRole example_pulldown = DEVICE" "mUdcBind example_pulldown"
  "mWarningSet example_pulldown = [ENUMERATION_FAIL]" "mDataSessionStart example_pulldown = 0"
  "states (mDeviceState example_pulldown) = [kDefaultState, kDefaultState, kDefaultState, kDefaultState]"
  "kern example_pulldown = ek0\<lparr>e_files := [(''/sys/udc/function'', [])], e_now := 7000000000\<rparr>"
  by (simp_all add: example_pulldown_def example_mon_def no_dev_def)

definition eK_late :: "ekern usb_platform" where
  "eK_late = eK\<lparr>sys_boot_now := (\<lambda>k. (7000000000, k))\<rparr>"

theorem soft_pulldown_keeps_warnings_witness:
  "wp (updateUdcBindStatus eK_late None ''/udc'')
    (\<lambda>r t. r = Inr () \<and> \<not> mUdcBind t \<and> mWarningSet t = [ENUMERATION_FAIL]) example_pulldown"
proof -
  have "wp (updateUdcBindStatus eK_late None ''/udc'')
    (\<lambda>r t. r = Inr () \<and> \<not> mUdcBind t \<and> mWarningSet t = mWarningSet example_pulldown \<and>
       uploads example_pulldown [(False, mDeviceState example_pulldown)] t) example_pulldown"
    by (rule soft_pulldown_keeps_warnings)
      (simp_all add: example_pulldown_fields eK_late_def eK_def e_read_def ek0_def elapsed_sec_def
        to_int32_def device_warnings_cases state_name_defs)
  then show ?thesis
    by (rule wp_mono) (simp add: example_pulldown_fields)
qed

section \<open>Descriptors\<close>

text \<open>How many descriptors a trace opened and did not close.\<close>

fun held_of :: "'n io \<Rightarrow> int" where
  "held_of (FdOpen p r) = (if r = - 1 then 0 else 1)"
| "held_of (FdClose f) = - 1"
| "held_of _ = 0"

definition held :: "'n io list \<Rightarrow> int" where
  "held tr = sum_list (map held_of tr)"

lemma held_simps [simp]: "held [] = 0" "held (xs @ ys) = held xs + held ys" "held (e # ys) = held_of e + held ys"
  by (simp_all add: held_def)

definition rebind :: "'k usb_platform \<Rightarrow> device_ptr \<Rightarrow> (('k, 'z) mon_scheme, unit) state" where
  \<comment> \<open>a host port goes away and comes back\<close>
  "rebind K p = do { removeEpollFile K p; addEpollFile K p; ret () }"

lemma wp_rebind:
  assumes "\<And>k. fst (sys_open K (filePath (get_dev p s)) k) \<noteq> - 1" "\<And>f k. fst (sys_epoll_add K f k)"
  shows "wp (rebind K p) (\<lambda>_ t. held (trace t) = held (trace s) + 1 \<and>
    filePath (get_dev p t) = filePath (get_dev p s)) s"
proof -
  have a: "r \<noteq> - 1" if "sys_open K (filePath (get_dev p s)) k = (r, k')" for k r k'
    using assms(1) [of k] that by simp
  have b: "r" if "sys_epoll_add K f k = (r, k')" for f k r k'
    using assms(2) [of f k] that by simp
  show ?thesis
    by (auto simp: rebind_def removeEpollFile_def addEpollFile_def ufd_assign_def wp dest: a b)
qed

text \<open>
  C23: descriptors leak. Each time a host port is unbound and bound again, with the kernel granting
  every call, one more descriptor is open that nothing refers to: \<^verbatim>\<open>removeEpollFile\<close> gives
  the old one up with \<^verbatim>\<open>unique_fd::release\<close>, which does not close it, so after \<open>n\<close> such
  cycles \<open>n\<close> more descriptors are held.
\<close>

theorem rebind_leaks_descriptors:
  fixes K :: "'k usb_platform" and s :: "('k, 'z) mon_scheme"
  assumes "\<And>k. fst (sys_open K (filePath (get_dev p s)) k) \<noteq> - 1"
    and "\<And>f k. fst (sys_epoll_add K f k)"
  shows "wp (for_each (replicate n ()) (\<lambda>_. rebind K p))
    (\<lambda>_ t. held (trace t) = held (trace s) + int n) s"
  using assms(1)
proof (induction n arbitrary: s)
  case 0
  then show ?case by (simp add: wp)
next
  case (Suc n)
  have "wp (for_each (replicate n ()) (\<lambda>_. rebind K p)) (\<lambda>_ t'. held (trace t') = held (trace s) + int (Suc n)) t"
    if "held (trace t) = held (trace s) + 1" "filePath (get_dev p t) = filePath (get_dev p s)" for t :: "('k, 'z) mon_scheme"
    by (rule wp_mono [OF Suc.IH]) (use that Suc.prems in simp_all)
  then show ?case
    unfolding replicate_Suc for_each.simps wp_bind
    by (intro wp_mono [OF wp_rebind [OF Suc.prems assms(2)]]) simp_all
qed

theorem rebind_leaks_descriptors_witness:
  "wp (for_each (replicate 3 ()) (\<lambda>_. rebind (eK\<lparr>sys_open := (\<lambda>p k. (9, k))\<rparr>) Host1))
    (\<lambda>_ t. held (trace t) = 3) (example_mon ek0)"
  using rebind_leaks_descriptors [of "eK\<lparr>sys_open := (\<lambda>p k. (9, k))\<rparr>" Host1 "example_mon ek0" 3]
  by (simp add: eK_def example_mon_def)

section \<open>Uevents\<close>

text \<open>
  C24: the loop of \<^verbatim>\<open>handleUevent\<close> visits exactly the lines of a uevent, in order. A message
  that fills the receive buffer (2048 bytes or more), or an error of the receive call, is dropped as
  a whole.
\<close>

theorem uevent_lines_roundtrip:
  assumes "\<forall>l \<in> set ls. l \<noteq> [] \<and> NUL \<notin> set l"
  shows "uevent_lines (int (length (encode_uevent ls))) (encode_uevent ls) =
    (if length (encode_uevent ls) < 2048 then ls else [])"
proof (cases "ls = []")
  case True
  then show ?thesis by (simp add: uevent_lines_def encode_uevent_def)
next
  case False
  then have "encode_uevent ls \<noteq> []" by (cases ls) (simp_all add: encode_uevent_def)
  then show ?thesis
    using cstrings_encode [OF assms] by (simp add: uevent_lines_def UEVENT_MSG_LEN_def)
qed

theorem uevent_lines_roundtrip_witness:
  "uevent_lines 16 (''bind@/a'' @ [NUL] @ ''ACTION'' @ [NUL] @ ''x'') \<noteq> [] \<and>
   uevent_lines (int (length (encode_uevent [''bind@/a'', ''ACTION=bind'']))) (encode_uevent [''bind@/a'', ''ACTION=bind''])
     = [''bind@/a'', ''ACTION=bind'']"
  using uevent_lines_roundtrip [of "[''bind@/a'', ''ACTION=bind'']"]
  by (simp add: encode_uevent_def NUL_def uevent_lines_def UEVENT_MSG_LEN_def cstrings.simps c_str_def Let_def)

section \<open>Construction\<close>

lemma wp_addEpollFile:
  assumes "\<And>r f k es. Q r ((put_dev p ((get_dev p s)\<lparr>fd := f\<rparr>) s)\<lparr>kern := k, trace := trace s @ es\<rparr>)"
  shows "wp (addEpollFile K p) Q s"
proof -
  have unchanged: "Q r (s\<lparr>kern := k, trace := trace s @ es\<rparr>)" for r k es
  proof -
    have "put_dev p ((get_dev p s)\<lparr>fd := fd (get_dev p s)\<rparr>) s = s"
      by (cases p) (simp_all add: dev_simps)
    then show ?thesis using assms [where r = r and f = "fd (get_dev p s)" and k = k and es = es] by simp
  qed
  show ?thesis
    unfolding addEpollFile_def ufd_assign_def
    by (simp add: wp assms unchanged)
qed

definition device_is :: "usbDeviceState \<Rightarrow> string \<Rightarrow> string \<Rightarrow> bool" where
  "device_is d path regex \<longleftrightarrow> filePath d = path \<and> ueventRegex d = regex"

definition watching :: "device_ptr \<Rightarrow> string \<Rightarrow> string \<Rightarrow> ('k, 'z) mon_scheme \<Rightarrow> ('k, 'z) mon_scheme \<Rightarrow> bool" where
  "watching p path regex s t \<longleftrightarrow> device_is (get_dev p t) path regex \<and>
     (\<forall>q. q \<noteq> p \<longrightarrow> get_dev q t = get_dev q s) \<and> mWarningSet t = mWarningSet s \<and>
     mDataRoleFd t = mDataRoleFd s \<and> (mon_inv s \<longrightarrow> mon_inv t)"

lemma wp_watch:
  "wp (modify_dev p (\<lambda>d. d\<lparr>filePath := path, ueventRegex := regex\<rparr>))
     (\<lambda>_. wp (addEpollFile K p) (\<lambda>_. watching p path regex s)) s"
proof -
  have "dev_ok (get_dev p s\<lparr>filePath := path, ueventRegex := regex, fd := f\<rparr>) = dev_ok (get_dev p s)" for f
    by (simp add: dev_ok_def)
  then show ?thesis
    unfolding wp_modify_dev
    by (intro wp_addEpollFile) (auto simp: watching_def device_is_def intro!: mon_inv_put_dev dest: mon_inv_dev)
qed

lemma wp_watch3:
  assumes "\<And>t1 t2 t3. watching Device dp dr s t1 \<Longrightarrow> watching Host1 h1p h1r t1 t2 \<Longrightarrow>
    watching Host2 h2p h2r t2 t3 \<Longrightarrow> Q t3"
  shows "wp (modify_dev Device (\<lambda>d. d\<lparr>filePath := dp, ueventRegex := dr\<rparr>)) (\<lambda>_.
     wp (addEpollFile K Device) (\<lambda>_.
     wp (modify_dev Host1 (\<lambda>d. d\<lparr>filePath := h1p, ueventRegex := h1r\<rparr>)) (\<lambda>_.
     wp (addEpollFile K Host1) (\<lambda>_.
     wp (modify_dev Host2 (\<lambda>d. d\<lparr>filePath := h2p, ueventRegex := h2r\<rparr>)) (\<lambda>_.
     wp (addEpollFile K Host2) (\<lambda>_. Q)))))) s"
proof -
  have host2: "wp (modify_dev Host2 (\<lambda>d. d\<lparr>filePath := h2p, ueventRegex := h2r\<rparr>)) (\<lambda>_.
     wp (addEpollFile K Host2) (\<lambda>_. Q)) t2"
    if "watching Device dp dr s t1" "watching Host1 h1p h1r t1 t2" for t1 t2
    by (rule wp_mono [OF wp_watch], erule wp_mono) (rule assms [OF that])
  have host1: "wp (modify_dev Host1 (\<lambda>d. d\<lparr>filePath := h1p, ueventRegex := h1r\<rparr>)) (\<lambda>_.
     wp (addEpollFile K Host1) (\<lambda>_.
     wp (modify_dev Host2 (\<lambda>d. d\<lparr>filePath := h2p, ueventRegex := h2r\<rparr>)) (\<lambda>_.
     wp (addEpollFile K Host2) (\<lambda>_. Q)))) t1"
    if "watching Device dp dr s t1" for t1
    by (rule wp_mono [OF wp_watch], erule wp_mono) (rule host2 [OF that])
  show ?thesis
    by (rule wp_mono [OF wp_watch [where s = s]], erule wp_mono) (rule host1)
qed

lemma watching3:
  assumes "watching Device dp dr s t1" "watching Host1 h1p h1r t1 t2" "watching Host2 h2p h2r t2 t3"
  shows "filePath (mDeviceState t3) = dp" "ueventRegex (mDeviceState t3) = dr"
    "filePath (mHost1State t3) = h1p" "ueventRegex (mHost1State t3) = h1r"
    "filePath (mHost2State t3) = h2p" "ueventRegex (mHost2State t3) = h2r"
    "mWarningSet t3 = mWarningSet s" "mDataRoleFd t3 = mDataRoleFd s" "mon_inv s \<longrightarrow> mon_inv t3"
proof -
  have d: "get_dev Device t3 = get_dev Device t1" "get_dev Host1 t3 = get_dev Host1 t2"
    using assms by (simp_all add: watching_def)
  show "filePath (mDeviceState t3) = dp" "ueventRegex (mDeviceState t3) = dr"
    "filePath (mHost1State t3) = h1p" "ueventRegex (mHost1State t3) = h1r"
    "filePath (mHost2State t3) = h2p" "ueventRegex (mHost2State t3) = h2r"
    using assms d by (simp_all add: watching_def device_is_def dev_simps)
  show "mWarningSet t3 = mWarningSet s" "mDataRoleFd t3 = mDataRoleFd s" "mon_inv s \<longrightarrow> mon_inv t3"
    using assms by (simp_all add: watching_def)
qed

lemma mon_inv_fds [simp]:
  "mon_inv (s\<lparr>mEpollFd := a\<rparr>) = mon_inv s" "mon_inv (s\<lparr>mUeventFd := a\<rparr>) = mon_inv s"
  "mon_inv (s\<lparr>mTimerFd := a\<rparr>) = mon_inv s" "mon_inv (s\<lparr>mDataRoleFd := a\<rparr>) = mon_inv s"
  by (simp_all add: mon_inv_def all_device_ptr dev_simps)

lemma wp_UsbDataSessionMonitor:
  "wp (UsbDataSessionMonitor K dr dp h1r h1p h2r h2p rp) (\<lambda>r t. r = Inl Aborted \<or>
     (r = Inr () \<and> mEpollFd t \<noteq> - 1 \<and> mUeventFd t \<noteq> - 1 \<and> mTimerFd t \<noteq> - 1 \<and> mDataRoleFd t \<noteq> - 1 \<and>
      filePath (mDeviceState t) = dp \<and> ueventRegex (mDeviceState t) = dr \<and>
      filePath (mHost1State t) = h1p \<and> ueventRegex (mHost1State t) = h1r \<and>
      filePath (mHost2State t) = h2p \<and> ueventRegex (mHost2State t) = h2r \<and>
      (\<exists>ok udc. FileRead kUdcConfigfsPath ok udc \<in> set (trace t) \<and> mUdcBind t = (ok \<and> udc \<noteq> [])) \<and>
      mWarningSet t = mWarningSet s \<and> (mon_inv s \<longrightarrow> mon_inv t))) s"
  unfolding UsbDataSessionMonitor_def ReadFileToString_def
    wp_bind wp_sys wp_if wp_return wp_modify wp_case_prod wp_only_if
  by (intro allI impI conjI) (simp_all add: udc_bound_def, rule wp_watch3, frule (2) watching3(1),
      frule (2) watching3(2), frule (2) watching3(3), frule (2) watching3(4), frule (2) watching3(5),
      frule (2) watching3(6), frule (2) watching3(7), frule (2) watching3(8), frule (2) watching3(9),
      auto)

text \<open>
  C25: the constructor either aborts the process or leaves a monitor whose four own descriptors are
  valid, whose devices name the state files and patterns it was given, and whose bind flag says
  whether the gadget's \<^verbatim>\<open>UDC\<close> file names a controller; it never touches warnings or histories.
\<close>

theorem UsbDataSessionMonitor_establishes:
  "wp (UsbDataSessionMonitor K dr dp h1r h1p h2r h2p rp) (\<lambda>r t. r = Inl Aborted \<or>
     (r = Inr () \<and> mEpollFd t \<noteq> - 1 \<and> mUeventFd t \<noteq> - 1 \<and> mTimerFd t \<noteq> - 1 \<and> mDataRoleFd t \<noteq> - 1 \<and>
      filePath (mDeviceState t) = dp \<and> ueventRegex (mDeviceState t) = dr \<and>
      filePath (mHost1State t) = h1p \<and> ueventRegex (mHost1State t) = h1r \<and>
      filePath (mHost2State t) = h2p \<and> ueventRegex (mHost2State t) = h2r \<and>
      (\<exists>ok udc. FileRead kUdcConfigfsPath ok udc \<in> set (trace t) \<and> mUdcBind t = (ok \<and> udc \<noteq> [])) \<and>
      mWarningSet t = mWarningSet s \<and> (mon_inv s \<longrightarrow> mon_inv t))) s"
  by (rule wp_UsbDataSessionMonitor)

lemma example_mon_inv: "mon_inv (example_mon k)"
  by (simp add: mon_inv_def example_mon_def all_device_ptr dev_simps dev_ok_def no_dev_def)

theorem UsbDataSessionMonitor_establishes_witness:
  "wp (UsbDataSessionMonitor eK ''d'' ''/d'' ''h1'' ''/h1'' ''h2'' ''/h2'' ''/role'')
    (\<lambda>r t. r = Inl Aborted \<or> (r = Inr () \<and> mon_inv t \<and> filePath (mHost2State t) = ''/h2''))
    (example_mon (ek0\<lparr>e_files := [(''/role'', ''host'')]\<rparr>))"
  by (rule wp_mono [OF UsbDataSessionMonitor_establishes]) (auto simp: example_mon_inv)

end
