(* ===== verification/I2cProps.thy ===== *)
theory I2cProps
  imports ExampleKernel
begin

text \<open>
  What the two lookups of the Type-C controller's directory guarantee: which adapter they pick, in
  which order they try the two names of the client, and that a result stays the result.
\<close>

section \<open>The adapter\<close>

definition is_adapter :: "dirent \<Rightarrow> bool" where
  "is_adapter e \<longleftrightarrow> d_type e = DT_DIR \<and> sscanf_i2c (d_name e) \<noteq> None"

lemma scan_bus_skips: "\<forall>e \<in> set es. \<not> is_adapter e \<Longrightarrow> scan_bus (es @ fs) = scan_bus fs"
  by (induction es) (auto simp: is_adapter_def split: option.split)

lemma sint_of_nat_32:
  assumes "2 ^ 31 \<le> n" "n < 2 ^ 32"
  shows "sint (of_nat n :: 32 word) = int n - 2 ^ 32"
proof -
  have "(of_nat n :: 32 word) = word_of_int (int n - 2 ^ 32)"
    using word_of_int_2p [where 'a = 32] by (simp add: wi_hom_sub [symmetric])
  moreover have "sint (word_of_int (int n - 2 ^ 32) :: 32 word) = int n - 2 ^ 32"
    unfolding int_word_sint using assms by simp
  ultimately show ?thesis by metis
qed

text \<open>
  C28: a lookup of the adapter in a directory listing takes the first entry that is a directory named
  \<^verbatim>\<open>i2c-\<close> and a number, returns that number and remembers it. A number of 2^31 or more does not
  fit the field: it is stored as a negative number, which callers take for not found.
\<close>

theorem getI2cBusNumber_first_adapter:
  assumes "mI2cBusNumber s < 0"
    and "fst (sys_opendir K kHsi2cPath (kern s)) =
      Some (es @ \<lparr>d_name = ''i2c-'' @ show_nat n, d_type = DT_DIR\<rparr> # fs)"
    and "\<forall>e \<in> set es. \<not> is_adapter e" and "n < 2 ^ 32"
  shows "wp (getI2cBusNumber K) (\<lambda>r t. mI2cBusNumber t = r \<and>
    (if n < 2 ^ 31 then r = int n else r < 0)) s"
proof -
  let ?d = "\<lparr>d_name = ''i2c-'' @ show_nat n, d_type = DT_DIR\<rparr>"
  have "scan_bus (es @ ?d # fs) = Some (of_nat n)"
    using assms(3,4) sscanf_i2c_roundtrip [of n] by (simp add: scan_bus_skips)
  moreover have "sint (of_nat n :: 32 word) < 0" if "\<not> n < 2 ^ 31"
    using sint_of_nat_32 [of n] that assms(4) by simp
  ultimately show ?thesis
    using assms(1,2)
    by (cases "sys_opendir K kHsi2cPath (kern s)")
      (simp add: getI2cBusNumber_def opendir_def wp sint_of_nat_31)
qed

theorem getI2cBusNumber_first_adapter_witness:
  "wp (getI2cBusNumber (eK\<lparr>sys_opendir := (\<lambda>p k. (Some [\<lparr>d_name = ''power'', d_type = DT_DIR\<rparr>,
     \<lparr>d_name = ''i2c-12'', d_type = DT_DIR\<rparr>], k))\<rparr>)) (\<lambda>r t. r = 12) (example_mon ek0)"
proof -
  have twelve: "''i2c-12'' = ''i2c-'' @ show_nat 12"
    by (simp add: show_nat.simps digit_char_def, code_simp)
  show ?thesis
    unfolding twelve
    by (rule wp_mono [OF getI2cBusNumber_first_adapter [where n = 12 and es =
          "[\<lparr>d_name = ''power'', d_type = DT_DIR\<rparr>]" and fs = "[]"]])
      (simp_all add: example_mon_def is_adapter_def sscanf_i2c_def)
qed

section \<open>The client\<close>



text \<open>
  A path that was found is the answer for good: whatever the service does in between, as long as
  nobody assigns the field, every later lookup returns the same path without a single call.
\<close>

theorem getI2cClientPath_cached:
  assumes "run_state (getI2cClientPath K) s = (p, s')" "p \<noteq> []" "keeps mI2cClientPath m"
  shows "run_state (getI2cClientPath K) (snd (run_state m s')) = (p, snd (run_state m s'))"
  using assms by (intro path.survives) (auto simp: keeps_def)

lemma found_x:
  "run_state (getI2cClientPath eK) (example_mon ek0\<lparr>mI2cClientPath := ''/x''\<rparr>) =
     (''/x'', example_mon ek0\<lparr>mI2cClientPath := ''/x''\<rparr>)"
  by (simp add: getI2cClientPath_def)

lemma keeps_setup: "keeps mI2cClientPath (setupNewSession eK)"
  unfolding setupNewSession_def clearDeviceStateEvents_def modify_dev_def Let_def
  by (intro keeps keeps_sys_field field_obs_quiet field_obsI) simp_all

theorem getI2cClientPath_cached_witness:
  "run_state (getI2cClientPath eK) (snd (run_state (setupNewSession eK) (example_mon ek0\<lparr>mI2cClientPath := ''/x''\<rparr>)))
     = (''/x'', snd (run_state (setupNewSession eK) (example_mon ek0\<lparr>mI2cClientPath := ''/x''\<rparr>)))"
  using getI2cClientPath_cached [OF found_x _ keeps_setup] by simp

end
