(* ===== verification/UsbState.thy ===== *)
theory UsbState
  imports SessionMonitor
begin

text \<open>
  The state of the USB service object (\<^verbatim>\<open>usb/usb/Usb.h\<close>) and the constants of
  \<^verbatim>\<open>Usb.cpp\<close>. The session monitor is a member of the object, so its record is extended; the
  file-scope variables \<^verbatim>\<open>enabledPath\<close> and \<^verbatim>\<open>destroyThread\<close> are fields too. A callback
  object is identified by a number. The mutexes have no value here: an operation is one run with its
  locks held, and what other threads do meanwhile is what the platform's functions allow.
\<close>

record 'k usb = "'k mon" +
  mCallback :: "nat option"
  mPartnerUp :: bool
  mUsbDataEnabled :: bool
  enabledPath :: string
  destroyThread :: bool

section \<open>Constants\<close>

definition kComplianceWarningsPath :: string where
  "kComplianceWarningsPath = ''device/non_compliant_reasons''"
definition kComplianceWarningBC12 :: string where "kComplianceWarningBC12 = ''bc12''"
definition kComplianceWarningDebugAccessory :: string where
  "kComplianceWarningDebugAccessory = ''debug-accessory''"
definition kComplianceWarningMissingRp :: string where "kComplianceWarningMissingRp = ''missing_rp''"
definition kComplianceWarningOther :: string where "kComplianceWarningOther = ''other''"
definition kComplianceWarningInputPowerLimited :: string where
  "kComplianceWarningInputPowerLimited = ''input_power_limited''"
definition kContaminantDetectionPath :: string where "kContaminantDetectionPath = ''contaminant_detection''"
definition kStatusPath :: string where "kStatusPath = ''contaminant_detection_status''"
definition kSinkLimitEnable :: string where "kSinkLimitEnable = ''usb_limit_sink_enable''"
definition kSourceLimitEnable :: string where "kSourceLimitEnable = ''usb_limit_source_enable''"
definition kSinkLimitCurrent :: string where "kSinkLimitCurrent = ''usb_limit_sink_current''"
definition kTypecPath :: string where "kTypecPath = ''/sys/class/typec''"
definition kDisableContatminantDetection :: string where
  "kDisableContatminantDetection = ''vendor.usb.contaminantdisable''"
definition kOverheatStatsPath :: string where
  "kOverheatStatsPath = ''/sys/devices/platform/google,usbc_port_cooling_dev/''"
definition kOverheatStatsDev :: string where
  "kOverheatStatsDev = ''DRIVER=google,usbc_port_cooling_dev''"
definition kPogoUsbActive :: string where
  "kPogoUsbActive = ''/sys/devices/platform/google,pogo/pogo_usb_active''"
definition KPogoMoveDataToUsb :: string where
  "KPogoMoveDataToUsb = ''/sys/devices/platform/google,pogo/move_data_to_usb''"
definition kPowerSupplyUsbType :: string where
  "kPowerSupplyUsbType = ''/sys/class/power_supply/usb/usb_type''"
definition kUdcUeventRegex :: string where
  "kUdcUeventRegex = ''/devices/platform/11110000.usb/11110000.dwc3/udc/11110000.dwc3''"
definition kUdcStatePath :: string where
  "kUdcStatePath = ''/sys/devices/platform/11110000.usb/11110000.dwc3/udc/11110000.dwc3/state''"
definition kHost1UeventRegex :: string where
  "kHost1UeventRegex =
     ''/devices/platform/11110000.usb/11110000.dwc3/xhci-hcd-exynos.[0-9].auto/usb2/2-0:1.0''"
definition kHost1StatePath :: string where
  "kHost1StatePath = ''/sys/bus/usb/devices/usb2/2-0:1.0/usb2-port1/state''"
definition kHost2UeventRegex :: string where
  "kHost2UeventRegex =
     ''/devices/platform/11110000.usb/11110000.dwc3/xhci-hcd-exynos.[0-9].auto/usb3/3-0:1.0''"
definition kHost2StatePath :: string where
  "kHost2StatePath = ''/sys/bus/usb/devices/usb3/3-0:1.0/usb3-port1/state''"
definition kDataRolePath :: string where
  "kDataRolePath = ''/sys/devices/platform/11110000.usb/new_data_role''"

definition kGadgetName :: string where "kGadgetName = ''11110000.dwc3''"
definition NEW_UDC_PATH :: string where "NEW_UDC_PATH = ''/sys/devices/platform/11110000.usb/''"
definition ID_PATH :: string where "ID_PATH = NEW_UDC_PATH @ ''dwc3_exynos_otg_id''"
definition VBUS_PATH :: string where "VBUS_PATH = NEW_UDC_PATH @ ''dwc3_exynos_otg_b_sess''"
definition USB_DATA_PATH :: string where "USB_DATA_PATH = NEW_UDC_PATH @ ''usb_data_enabled''"
definition PORT_TYPE_TIMEOUT :: int where "PORT_TYPE_TIMEOUT = 8"

section \<open>Notifications\<close>

definition notify ::
  "'k usb_platform \<Rightarrow> (nat \<Rightarrow> usb_note) \<Rightarrow> (('k, 'z) usb_scheme, unit) state" where
  \<comment> \<open>\<^verbatim>\<open>if (mCallback != NULL) mCallback->...\<close>: a failed status is only logged\<close>
  "notify K n = do {
     cb \<leftarrow> gets mCallback;
     (case cb of None \<Rightarrow> ret () | Some c \<Rightarrow> do { send K (n c); ret () })
   }"

definition told :: "(nat \<Rightarrow> usb_note) \<Rightarrow> ('k, 'z) usb_scheme \<Rightarrow> usb_note list" where
  "told n s = (case mCallback s of None \<Rightarrow> [] | Some c \<Rightarrow> [n c])"

lemma wp_notify [wp]:
  "wp (notify K n) Q = (\<lambda>s. (mCallback s = None \<longrightarrow> Q () s) \<and>
     (\<forall>c. mCallback s = Some c \<longrightarrow> (\<forall>ok k. sys_send K (n c) (kern s) = (ok, k) \<longrightarrow>
        Q () (s\<lparr>kern := k, trace := trace s @ [Sent (n c) ok]\<rparr>))))"
  by (simp add: notify_def wp fun_eq_iff send_def)

lemma keeps_notify [keeps]: "field_obs f \<Longrightarrow> keeps f (notify K n)"
  unfolding notify_def by (intro keeps)

end
