(* ===== verification/TypecPort.thy ===== *)
theory TypecPort
  imports UsbState "HOL-Library.AList"
begin

text \<open>
  The Type-C ports as the service reads them from sysfs (\<^verbatim>\<open>Usb.cpp\<close>): names and partners of
  the ports, current roles, and the fields of a \<^verbatim>\<open>PortStatus\<close>. One definition per function of
  the source. \<^verbatim>\<open>getPortStatusHelper\<close>'s loop body is \<open>port_status\<close>; a Boolean result False is
  its \<^verbatim>\<open>goto done\<close>.
\<close>

section \<open>Role names\<close>

datatype PortRole_Tag = Tag_powerRole | Tag_dataRole | Tag_mode | Tag_other

fun getTag :: "PortRole \<Rightarrow> PortRole_Tag" where
  "getTag (powerRole _) = Tag_powerRole"
| "getTag (dataRole _) = Tag_dataRole"
| "getTag (mode _) = Tag_mode"
| "getTag otherRole = Tag_other"

text \<open>\<^verbatim>\<open>get\<close> of a union: a wrong tag is a fatal assertion.\<close>

fun get_powerRole :: "PortRole \<Rightarrow> fault + PortPowerRole" where
  "get_powerRole (powerRole r) = Inr r"
| "get_powerRole _ = Inl Union_bad_tag"

fun get_dataRole :: "PortRole \<Rightarrow> fault + PortDataRole" where
  "get_dataRole (dataRole r) = Inr r"
| "get_dataRole _ = Inl Union_bad_tag"

fun get_mode :: "PortRole \<Rightarrow> fault + PortMode" where
  "get_mode (mode r) = Inr r"
| "get_mode _ = Inl Union_bad_tag"

definition appendRoleNodeHelper :: "string \<Rightarrow> PortRole_Tag \<Rightarrow> string" where
  "appendRoleNodeHelper port_name tag =
     (let node = ''/sys/class/typec/'' @ port_name
      in case tag of
           Tag_dataRole \<Rightarrow> node @ ''/data_role''
         | Tag_powerRole \<Rightarrow> node @ ''/power_role''
         | Tag_mode \<Rightarrow> node @ ''/port_type''
         | Tag_other \<Rightarrow> [])"

definition convertRoletoString :: "PortRole \<Rightarrow> string" where
  "convertRoletoString role =
     (case role of
        powerRole r \<Rightarrow> if r = SOURCE then ''source'' else if r = SINK then ''sink'' else ''none''
      | dataRole r \<Rightarrow> if r = HOST then ''host'' else if r = DEVICE then ''device'' else ''none''
      | mode r \<Rightarrow> if r = UFP then ''sink'' else if r = DFP then ''source'' else ''none''
      | otherRole \<Rightarrow> ''none'')"

definition extractRole :: "string \<Rightarrow> string" where
  \<comment> \<open>the length \<^verbatim>\<open>last - first - 1\<close> is computed on \<^verbatim>\<open>size_t\<close>\<close>
  "extractRole roleName =
     (case (find_str roleName ''['', find_str roleName '']'') of
        (Some fst_pos, Some lst_pos) \<Rightarrow>
          substr roleName (fst_pos + 1) (size_t_minus (size_t_minus lst_pos fst_pos) 1)
      | _ \<Rightarrow> roleName)"

lemma extractRole_brackets:
  assumes "CHR ''['' \<notin> set pre" "CHR '']'' \<notin> set pre" "CHR '']'' \<notin> set r"
    and "length pre + length r < 2 ^ 63"
  shows "extractRole (pre @ ''['' @ r @ '']'' @ post) = r"
proof -
  have "find_str (pre @ ''['' @ r @ '']'' @ post) ''['' = Some (length pre)"
    using find_char [OF assms(1)] by simp
  moreover have "find_str ((pre @ ''['' @ r) @ CHR '']'' # post) '']'' = Some (length (pre @ ''['' @ r))"
    using assms(2,3) by (intro find_char) simp
  ultimately show ?thesis
    using assms(4) by (simp add: extractRole_def substr_def size_t_minus_le)
qed

lemma extractRole_plain:
  "CHR ''['' \<notin> set s \<or> CHR '']'' \<notin> set s \<Longrightarrow> extractRole s = s"
  using find_char_None [of s "CHR ''[''"] find_char_None [of s "CHR '']''"]
  by (auto simp: extractRole_def split: option.split)

lemma size_t_minus_wrap:
  assumes "a < b" "b < 2 ^ 64"
  shows "size_t_minus a b = 2 ^ 64 + a - b"
proof -
  have "(int a - int b) mod 2 ^ 64 = (int a - int b + 2 ^ 64) mod 2 ^ 64"
    by simp
  also have "\<dots> = int a - int b + 2 ^ 64"
    using assms by (intro mod_pos_pos_trivial) auto
  finally show ?thesis
    using assms by (simp add: size_t_minus_def)
qed

lemma extractRole_reversed:
  assumes "CHR ''['' \<notin> set pre" "CHR '']'' \<notin> set pre" "CHR ''['' \<notin> set m"
    and "length pre + length m + length post < 2 ^ 63"
  shows "extractRole (pre @ '']'' @ m @ ''['' @ post) = post"
proof -
  have "find_str ((pre @ '']'' @ m) @ CHR ''['' # post) ''['' = Some (length (pre @ '']'' @ m))"
    using assms(1,3) by (intro find_char) simp
  moreover have "find_str (pre @ '']'' @ m @ ''['' @ post) '']'' = Some (length pre)"
    using find_char [OF assms(2)] by simp
  moreover have "length post \<le> size_t_minus (size_t_minus (length pre) (length (pre @ '']'' @ m))) 1"
    using assms(4) by (simp add: size_t_minus_wrap size_t_minus_le)
  ultimately show ?thesis
    using assms(4) by (simp add: extractRole_def substr_def)
qed

section \<open>Accessory, role and port names\<close>

definition getAccessoryConnected ::
  "'k usb_platform \<Rightarrow> string \<Rightarrow> (('k, 'z) usb_scheme, Status \<times> string) state" where
  "getAccessoryConnected K port_name = do {
     let filename = ''/sys/class/typec/'' @ port_name @ ''-partner/accessory_mode'';
     (ok, accessory) \<leftarrow> ReadFileToString K filename;
     if \<not> ok then ret (ERROR, accessory)
     else ret (SUCCESS, lib_trim K accessory)
   }"

text \<open>
  \<^verbatim>\<open>getCurrentRoleHelper\<close> in its two halves: where it looks, with the reset of the role, and
  how it takes the name found. The role argument is in and out, so it is returned with the status.
\<close>

fun role_file :: "string \<Rightarrow> PortRole \<Rightarrow> (string \<times> PortRole) option" where
  "role_file port_name (powerRole _) = Some (''/sys/class/typec/'' @ port_name @ ''/power_role'', powerRole PowerNONE)"
| "role_file port_name (dataRole _) = Some (''/sys/class/typec/'' @ port_name @ ''/data_role'', dataRole DataNONE)"
| "role_file port_name (mode _) = Some (''/sys/class/typec/'' @ port_name @ ''/data_role'', mode ModeNONE)"
| "role_file port_name otherRole = None"

definition set_role :: "string \<Rightarrow> PortRole \<Rightarrow> Status \<times> PortRole" where
  \<comment> \<open>\<^verbatim>\<open>set\<close> also switches the tag\<close>
  "set_role roleName currentRole =
     (if roleName = ''source'' then (SUCCESS, powerRole SOURCE)
      else if roleName = ''sink'' then (SUCCESS, powerRole SINK)
      else if roleName = ''host'' then
        (SUCCESS, if getTag currentRole = Tag_dataRole then dataRole HOST else mode DFP)
      else if roleName = ''device'' then
        (SUCCESS, if getTag currentRole = Tag_dataRole then dataRole DEVICE else mode UFP)
      else if roleName \<noteq> ''none'' then (UNRECOGNIZED_ROLE, currentRole)
      else (SUCCESS, currentRole))"

definition read_role ::
  "'k usb_platform \<Rightarrow> string \<Rightarrow> PortRole \<Rightarrow> (('k, 'z) usb_scheme, Status \<times> PortRole) state" where
  "read_role K filename currentRole = do {
     (ok, roleName) \<leftarrow> ReadFileToString K filename;
     if \<not> ok then ret (ERROR, currentRole)
     else ret (set_role (extractRole (lib_trim K roleName)) currentRole)
   }"

definition getCurrentRoleHelper ::
  "'k usb_platform \<Rightarrow> string \<Rightarrow> bool \<Rightarrow> PortRole \<Rightarrow> (('k, 'z) usb_scheme, Status \<times> PortRole) state" where
  "getCurrentRoleHelper K port_name connected role =
     (case role_file port_name role of
        None \<Rightarrow> ret (ERROR, role)
      | Some (filename, currentRole) \<Rightarrow>
          if \<not> connected then ret (SUCCESS, currentRole)
          else if getTag currentRole = Tag_mode then do {
            (status, accessory) \<leftarrow> getAccessoryConnected K port_name;
            if status \<noteq> SUCCESS then ret (ERROR, currentRole)
            else if accessory = ''analog_audio'' then ret (SUCCESS, mode AUDIO_ACCESSORY)
            else if accessory = ''debug'' then ret (SUCCESS, mode DEBUG_ACCESSORY)
            else read_role K filename currentRole
          } else read_role K filename currentRole)"

definition strtok_dash :: "string \<Rightarrow> string" where
  \<comment> \<open>\<^verbatim>\<open>strtok(s, "-")\<close> on a string that is not all dashes\<close>
  "strtok_dash s = takeWhile (\<lambda>c. c \<noteq> CHR ''-'') (dropWhile (\<lambda>c. c = CHR ''-'') s)"

fun typec_names :: "dirent list \<Rightarrow> (string \<times> bool) list \<Rightarrow> (string \<times> bool) list" where
  "typec_names [] names = names"
| "typec_names (ep # eps) names =
     (if d_type ep = DT_LNK then
        (if \<not> contains (d_name ep) ''-partner'' then
           (if map_of names (d_name ep) = None
            then typec_names eps (AList.update (d_name ep) False names)
            else typec_names eps names)
         else typec_names eps (AList.update (strtok_dash (d_name ep)) True names))
      else typec_names eps names)"

definition getTypeCPortNamesHelper ::
  "'k usb_platform \<Rightarrow> (('k, 'z) usb_scheme, Status \<times> (string \<times> bool) list) state" where
  "getTypeCPortNamesHelper K = do {
     dp \<leftarrow> opendir K kTypecPath;
     (case dp of
        None \<Rightarrow> ret (ERROR, [])
      | Some eps \<Rightarrow> ret (SUCCESS, typec_names eps []))
   }"

definition canSwitchRoleHelper :: "'k usb_platform \<Rightarrow> string \<Rightarrow> (('k, 'z) usb_scheme, bool) state" where
  "canSwitchRoleHelper K port_name = do {
     let filename = ''/sys/class/typec/'' @ port_name @ ''-partner/supports_usb_power_delivery'';
     (ok, supportsPD) \<leftarrow> ReadFileToString K filename;
     ret (ok \<and> lib_trim K supportsPD = ''yes'')
   }"

section \<open>The status of one port\<close>

definition port_roles ::
  "'k usb_platform \<Rightarrow> string \<Rightarrow> bool \<Rightarrow> PortStatus \<Rightarrow> (('k, 'z) usb_scheme, fault + bool \<times> PortStatus) state" where
  "port_roles K port_name connected ps = do {
     (st1, role1) \<leftarrow> getCurrentRoleHelper K port_name connected (powerRole PowerNONE);
     if st1 \<noteq> SUCCESS then ret (Inr (False, ps))
     else on_ok (get_powerRole role1) (\<lambda>pr. do {
       let ps1 = ps\<lparr>currentPowerRole := pr\<rparr>;
       (st2, role2) \<leftarrow> getCurrentRoleHelper K port_name connected (dataRole DataNONE);
       if st2 \<noteq> SUCCESS then ret (Inr (False, ps1))
       else on_ok (get_dataRole role2) (\<lambda>dr. do {
         let ps2 = ps1\<lparr>currentDataRole := dr\<rparr>;
         (st3, role3) \<leftarrow> getCurrentRoleHelper K port_name connected (mode ModeNONE);
         if st3 \<noteq> SUCCESS then ret (Inr (False, ps2))
         else on_ok (get_mode role3) (\<lambda>m. ret (Inr (True, ps2\<lparr>currentMode := m\<rparr>)))
       })
     })
   }"

definition port_changes ::
  "'k usb_platform \<Rightarrow> string \<Rightarrow> bool \<Rightarrow> PortStatus \<Rightarrow> (('k, 'z) usb_scheme, PortStatus) state" where
  "port_changes K port_name connected ps = do {
     data \<leftarrow> (if connected then canSwitchRoleHelper K port_name else ret False);
     power \<leftarrow> (if connected then canSwitchRoleHelper K port_name else ret False);
     ret (ps\<lparr>canChangeMode := True, canChangeDataRole := data, canChangePowerRole := power,
             supportedModes := supportedModes ps @ [DRP]\<rparr>)
   }"

definition data_status_flags :: "bool \<Rightarrow> bool \<Rightarrow> PortStatus \<Rightarrow> PortStatus" where
  "data_status_flags pogo_active enabled ps =
     (let ps1 = (if pogo_active
                 then ps\<lparr>usbDataStatus := usbDataStatus ps @ [DISABLED_DOCK]\<rparr> else ps);
          ps2 = (if \<not> enabled
                 then ps1\<lparr>usbDataStatus := usbDataStatus ps1 @ [DISABLED_FORCE]\<rparr> else ps1)
      in if \<not> pogo_active \<and> enabled
         then ps2\<lparr>usbDataStatus := usbDataStatus ps2 @ [ENABLED]\<rparr> else ps2)"

definition port_data_status ::
  "'k usb_platform \<Rightarrow> PortStatus \<Rightarrow> (('k, 'z) usb_scheme, fault + PortStatus) state" where
  "port_data_status K ps = do {
     (ok, pogoUsbActive) \<leftarrow> ReadFileToString K kPogoUsbActive;
     enabled \<leftarrow> gets mUsbDataEnabled;
     ret (if ok then
            (case stoi (lib_trim K pogoUsbActive) of
               Inl e \<Rightarrow> Inl e
             | Inr v \<Rightarrow> Inr (data_status_flags (v = 1) enabled ps))
          else Inr (data_status_flags False enabled ps))
   }"

definition port_brick ::
  "'k usb_platform \<Rightarrow> bool \<Rightarrow> PortStatus \<Rightarrow> (('k, 'z) usb_scheme, PortStatus) state" where
  "port_brick K connected ps =
     (if connected then
        if currentPowerRole ps = SOURCE then ret (ps\<lparr>powerBrickStatus := NOT_CONNECTED\<rparr>)
        else do {
          (ok, usbType) \<leftarrow> ReadFileToString K kPowerSupplyUsbType;
          ret (if ok then
                 if contains (c_str usbType) ''[D'' then ps\<lparr>powerBrickStatus := CONNECTED\<rparr>
                 else if contains (c_str usbType) ''[U'' then ps\<lparr>powerBrickStatus := UNKNOWN\<rparr>
                 else ps\<lparr>powerBrickStatus := NOT_CONNECTED\<rparr>
               else ps)
        }
      else ret (ps\<lparr>powerBrickStatus := NOT_CONNECTED\<rparr>))"

definition port_status ::
  "'k usb_platform \<Rightarrow> string \<Rightarrow> bool \<Rightarrow> PortStatus \<Rightarrow> (('k, 'z) usb_scheme, fault + bool \<times> PortStatus) state" where
  "port_status K port_name connected ps0 = do {
     r1 \<leftarrow> port_roles K port_name connected (ps0\<lparr>portName := port_name\<rparr>);
     on_ok r1 (\<lambda>(ok, ps1).
       if \<not> ok then ret (Inr (False, ps1))
       else do {
         ps2 \<leftarrow> port_changes K port_name connected ps1;
         r3 \<leftarrow> port_data_status K ps2;
         on_ok r3 (\<lambda>ps3. do {
           ps4 \<leftarrow> port_brick K connected ps3;
           ret (Inr (True, ps4))
         })
       })
   }"

fun port_loop ::
  "'k usb_platform \<Rightarrow> (string \<times> bool) list \<Rightarrow> nat \<Rightarrow> PortStatus list \<Rightarrow>
   (('k, 'z) usb_scheme, fault + bool \<times> PortStatus list) state" where
  "port_loop K [] i sts = ret (Inr (True, sts))"
| "port_loop K (port # ports) i sts = do {
     r \<leftarrow> port_status K (fst port) (snd port) (sts ! i);
     on_ok r (\<lambda>(ok, ps).
       if ok then port_loop K ports (Suc i) (sts[i := ps])
       else ret (Inr (False, sts[i := ps])))
   }"

definition getPortStatusHelper ::
  "'k usb_platform \<Rightarrow> (('k, 'z) usb_scheme, fault + Status \<times> PortStatus list) state" where
  \<comment> \<open>on an empty vector, as every caller passes one\<close>
  "getPortStatusHelper K = do {
     (result, names) \<leftarrow> getTypeCPortNamesHelper K;
     if result = SUCCESS then do {
       r \<leftarrow> port_loop K (names_order K names) 0 (replicate (length names) (default_PortStatus K));
       on_ok r (\<lambda>(ok, sts). ret (Inr (if ok then SUCCESS else ERROR, sts)))
     } else ret (Inr (ERROR, []))
   }"

section \<open>The rest of a status report\<close>

text \<open>\<open>(*currentPortStatus)[0].... = ...\<close>: the vector may be empty.\<close>

definition upd_first :: "(PortStatus \<Rightarrow> PortStatus) \<Rightarrow> PortStatus list \<Rightarrow> fault + PortStatus list" where
  "upd_first f sts = (case sts of [] \<Rightarrow> Inl Vector_out_of_range | p # ps \<Rightarrow> Inr (f p # ps))"

definition queryMoistureDetectionStatus ::
  "'k usb_platform \<Rightarrow> PortStatus list \<Rightarrow> (('k, 'z) usb_scheme, fault + Status \<times> PortStatus list) state" where
  "queryMoistureDetectionStatus K sts =
     on_ok (upd_first (\<lambda>p. p\<lparr>
         supportedContaminantProtectionModes :=
           supportedContaminantProtectionModes p @ [Mode_FORCE_DISABLE],
         contaminantProtectionStatus := Protection_NONE,
         contaminantDetectionStatus := DISABLED,
         supportsEnableContaminantPresenceDetection := True,
         supportsEnableContaminantPresenceProtection := False\<rparr>) sts) (\<lambda>sts1. do {
       i2cPath \<leftarrow> getI2cClientPath K;
       if i2cPath = [] then ret (Inr (ERROR, sts1))
       else do {
         let enabled_path = i2cPath @ ''/'' @ kContaminantDetectionPath;
         modify (\<lambda>s. s\<lparr>enabledPath := enabled_path\<rparr>);
         (ok, enabled) \<leftarrow> ReadFileToString K enabled_path;
         if \<not> ok then ret (Inr (ERROR, sts1))
         else if lib_trim K enabled = ''1'' then do {
           let DetectedPath = i2cPath @ ''/'' @ kStatusPath;
           (ok2, status) \<leftarrow> ReadFileToString K DetectedPath;
           if \<not> ok2 then ret (Inr (ERROR, sts1))
           else if lib_trim K status = ''1'' then
             on_ok (upd_first (\<lambda>p. p\<lparr>contaminantDetectionStatus := DETECTED,
                 contaminantProtectionStatus := Protection_FORCE_DISABLE\<rparr>) sts1)
               (\<lambda>sts2. ret (Inr (SUCCESS, sts2)))
           else
             on_ok (upd_first (\<lambda>p. p\<lparr>contaminantDetectionStatus := NOT_DETECTED\<rparr>) sts1)
               (\<lambda>sts2. ret (Inr (SUCCESS, sts2)))
         } else ret (Inr (SUCCESS, sts1))
       }
     })"

definition queryPowerTransferStatus ::
  "'k usb_platform \<Rightarrow> PortStatus list \<Rightarrow> (('k, 'z) usb_scheme, fault + Status \<times> PortStatus list) state" where
  "queryPowerTransferStatus K sts = do {
     i2cPath \<leftarrow> getI2cClientPath K;
     if i2cPath = [] then ret (Inr (ERROR, sts))
     else do {
       let limitedPath = i2cPath @ ''/'' @ kSinkLimitEnable;
       (ok, enabled) \<leftarrow> ReadFileToString K limitedPath;
       if \<not> ok then ret (Inr (ERROR, sts))
       else on_ok (upd_first (\<lambda>p. p\<lparr>powerTransferLimited := (lib_trim K enabled = ''1'')\<rparr>) sts)
         (\<lambda>sts1. ret (Inr (SUCCESS, sts1)))
     }
   }"

end
