(* ===== verification/PortReport.thy ===== *)
theory PortReport
  imports TypecPort
begin

text \<open>
  The compliance warnings of a status report, and \<^verbatim>\<open>queryVersionHelper\<close>, which builds a
  report and hands it to the callback (\<^verbatim>\<open>Usb.cpp\<close>). The second source of warnings, besides
  the charger's sysfs file, is the session monitor.
\<close>

section \<open>Warnings\<close>

definition charger_warning :: "'k usb_platform \<Rightarrow> string \<Rightarrow> ComplianceWarning option" where
  \<comment> \<open>the body of the loop over the tokens: \<^verbatim>\<open>strncmp(reason, k, strlen(k)) == 0\<close>\<close>
  "charger_warning K reason =
     (if prefix kComplianceWarningDebugAccessory (c_str reason) then Some DEBUG_ACCESSORY_WARNING
      else if prefix kComplianceWarningBC12 (c_str reason) then Some BC_1_2
      else if prefix kComplianceWarningMissingRp (c_str reason) then Some MISSING_RP
      else if prefix kComplianceWarningOther (c_str reason) \<or>
              prefix kComplianceWarningInputPowerLimited (c_str reason) then
        (if enable_usb_data_compliance_warning K \<and> enable_input_power_limited_warning K
         then Some INPUT_POWER_LIMITED else Some OTHER)
      else None)"

definition reason_delimiters :: string where
  "reason_delimiters = ''[], '' @ [newline]"

definition charger_effect :: "PortStatus \<Rightarrow> PortStatus" where
  \<comment> \<open>a warning while no power role is set: report a connected charger\<close>
  "charger_effect p =
     (if 0 < length (complianceWarnings p) \<and> currentPowerRole p = PowerNONE
      then p\<lparr>currentMode := UFP, currentPowerRole := SINK, currentDataRole := DataNONE,
             powerBrickStatus := CONNECTED\<rparr>
      else p)"

definition charger_port ::
  "'k usb_platform \<Rightarrow> PortStatus \<Rightarrow> (('k, 'z) usb_scheme, PortStatus) state" where
  \<comment> \<open>one iteration of the loop over the ports\<close>
  "charger_port K p0 = do {
     let p = p0\<lparr>supportsComplianceWarnings := True\<rparr>;
     let path = kTypecPath @ ''/'' @ portName p @ ''/'' @ kComplianceWarningsPath;
     (ok, reasons) \<leftarrow> ReadFileToString K (c_str path);
     if ok then do {
       let reasonsList = lib_tokenize K (c_str reasons) reason_delimiters;
       ret (charger_effect (p\<lparr>complianceWarnings :=
         complianceWarnings p @ List.map_filter (charger_warning K) reasonsList\<rparr>))
     } else ret p
   }"

fun queryNonCompliantChargerStatus ::
  "'k usb_platform \<Rightarrow> PortStatus list \<Rightarrow> (('k, 'z) usb_scheme, PortStatus list) state" where
  "queryNonCompliantChargerStatus K [] = ret []"
| "queryNonCompliantChargerStatus K (p # ps) = do {
     p' \<leftarrow> charger_port K p;
     ps' \<leftarrow> queryNonCompliantChargerStatus K ps;
     ret (p' # ps')
   }"

definition queryUsbDataSession ::
  "'k usb_platform \<Rightarrow> PortStatus list \<Rightarrow> (('k, 'z) usb_scheme, fault + PortStatus list) state" where
  "queryUsbDataSession K sts =
     (case sts of
        [] \<Rightarrow> ret (Inl Vector_out_of_range)
      | p # ps \<Rightarrow> do {
          warnings \<leftarrow> getComplianceWarnings K (currentDataRole p);
          ret (upd_first (\<lambda>p. p\<lparr>complianceWarnings := complianceWarnings p @ warnings\<rparr>) sts)
        })"

definition queryVersionHelper ::
  "'k usb_platform \<Rightarrow> (('k, 'z) usb_scheme, fault + PortStatus list) state" where
  \<comment> \<open>returns the vector it leaves in its out parameter; callers pass an empty one\<close>
  "queryVersionHelper K = do {
     r1 \<leftarrow> getPortStatusHelper K;
     on_ok r1 (\<lambda>(status, sts1). do {
       r2 \<leftarrow> queryMoistureDetectionStatus K sts1;
       on_ok r2 (\<lambda>(st2, sts2). do {
         r3 \<leftarrow> queryPowerTransferStatus K sts2;
         on_ok r3 (\<lambda>(st3, sts3). do {
           sts4 \<leftarrow> queryNonCompliantChargerStatus K sts3;
           r5 \<leftarrow> queryUsbDataSession K sts4;
           on_ok r5 (\<lambda>sts5. do {
             notify K (\<lambda>cb. NotifyPortStatusChange cb sts5 status);
             ret (Inr sts5)
           })
         })
       })
     })
   }"

definition updatePortStatus :: "'k usb_platform \<Rightarrow> (('k, 'z) usb_scheme, fault + unit) state" where
  "updatePortStatus K = do {
     r \<leftarrow> queryVersionHelper K;
     on_ok r (\<lambda>_. ret (Inr ()))
   }"

end
