(* ===== verification/RoleSwitch.thy ===== *)
theory RoleSwitch
  imports PortReport
begin

text \<open>
  Role switches (\<^verbatim>\<open>switchToDrp\<close>, \<^verbatim>\<open>switchMode\<close>, \<^verbatim>\<open>Usb::switchRole\<close> of
  \<^verbatim>\<open>Usb.cpp\<close>). The wait for the partner is a loop with a jump back; it takes fuel, the number
  of wake-ups it may see, and is \<open>Not_returned\<close> when they are used up. What the uevent thread does to
  \<open>mPartnerUp\<close> while the condition variable is waited on is part of the answer of \<open>sys_condwait\<close>.
\<close>

definition switchToDrp :: "'k usb_platform \<Rightarrow> string \<Rightarrow> (('k, 'z) usb_scheme, unit) state" where
  "switchToDrp K port_name = do {
     let filename = appendRoleNodeHelper (c_str port_name) Tag_mode;
     if filename \<noteq> [] then do {
       fp \<leftarrow> fopen_w K (c_str filename);
       only_if fp (do {
         fputs K ''dual'' (c_str filename);
         fclose K (c_str filename)
       })
     } else ret ()
   }"

fun wait_for_partner ::
  "'k usb_platform \<Rightarrow> nat \<Rightarrow> (('k, 'z) usb_scheme, fault + bool) state" where
  "wait_for_partner K 0 = ret (Inl Not_returned)"
| "wait_for_partner K (Suc fuel) = do {
     now \<leftarrow> mono_now K;
     (timedout, up) \<leftarrow> sys (sys_condwait K (now + PORT_TYPE_TIMEOUT))
       (\<lambda>r. [CondWait (now + PORT_TYPE_TIMEOUT) (fst r)]);
     modify (\<lambda>s. s\<lparr>mPartnerUp := mPartnerUp s \<or> up\<rparr>);
     partnerUp \<leftarrow> gets mPartnerUp;
     if timedout then ret (Inr False)
     else if \<not> partnerUp then wait_for_partner K fuel
     else ret (Inr True)
   }"

definition switchMode ::
  "'k usb_platform \<Rightarrow> nat \<Rightarrow> string \<Rightarrow> PortRole \<Rightarrow> (('k, 'z) usb_scheme, fault + bool) state" where
  "switchMode K fuel port_name in_role = do {
     let filename = appendRoleNodeHelper (c_str port_name) (getTag in_role);
     if filename = [] then ret (Inr False)
     else do {
       fp \<leftarrow> fopen_w K (c_str filename);
       r \<leftarrow> (if fp then do {
               modify (\<lambda>s. s\<lparr>mPartnerUp := False\<rparr>);
               ok \<leftarrow> fputs K (convertRoletoString in_role) (c_str filename);
               fclose K (c_str filename);
               if ok then wait_for_partner K fuel else ret (Inr False)
             } else ret (Inr False));
       on_ok r (\<lambda>roleSwitch. do {
         only_if (\<not> roleSwitch) (switchToDrp K (c_str port_name));
         ret (Inr roleSwitch)
       })
     }
   }"

definition write_role ::
  "'k usb_platform \<Rightarrow> string \<Rightarrow> PortRole \<Rightarrow> (('k, 'z) usb_scheme, bool) state" where
  \<comment> \<open>the branch of \<open>switchRole\<close> for a data or power role\<close>
  "write_role K filename in_role = do {
     fp \<leftarrow> fopen_w K (c_str filename);
     if \<not> fp then ret False
     else do {
       ok \<leftarrow> fputs K (convertRoletoString in_role) (c_str filename);
       fclose K (c_str filename);
       if \<not> ok then ret False
       else do {
         (rd, written) \<leftarrow> ReadFileToString K filename;
         if \<not> rd then ret False
         else ret (extractRole (lib_trim K written) = convertRoletoString in_role)
       }
     }
   }"

definition switchRole ::
  "'k usb_platform \<Rightarrow> nat \<Rightarrow> string \<Rightarrow> PortRole \<Rightarrow> int \<Rightarrow> (('k, 'z) usb_scheme, fault + unit) state" where
  "switchRole K fuel in_portName in_role in_transactionId = do {
     let filename = appendRoleNodeHelper (c_str in_portName) (getTag in_role);
     if filename = [] then ret (Inr ())
     else do {
       r \<leftarrow> (if getTag in_role = Tag_mode then switchMode K fuel in_portName in_role
             else do { ok \<leftarrow> write_role K filename in_role; ret (Inr ok) });
       on_ok r (\<lambda>roleSwitch. do {
         notify K (\<lambda>cb. NotifyRoleSwitchStatus cb in_portName in_role
           (if roleSwitch then SUCCESS else ERROR) in_transactionId);
         ret (Inr ())
       })
     }
   }"

end
