(* ===== verification/UsbService.thy ===== *)
theory UsbService
  imports RoleSwitch
begin

text \<open>
  The Binder interface of the service and its uevent thread (\<^verbatim>\<open>Usb.cpp\<close>): each method and
  the handler of one uevent as one operation. Faults are those of the queries the methods end with.
\<close>

section \<open>Methods\<close>

definition write_or_fail ::
  "'k usb_platform \<Rightarrow> string \<Rightarrow> string \<Rightarrow> bool \<Rightarrow> (('k, 'z) usb_scheme, bool) state" where
  \<comment> \<open>\<^verbatim>\<open>if (!WriteStringToFile(d, p)) result = false;\<close>\<close>
  "write_or_fail K d p result = do { ok \<leftarrow> WriteStringToFile K d p; ret (result \<and> ok) }"

definition enable_data :: "'k usb_platform \<Rightarrow> bool \<Rightarrow> (('k, 'z) usb_scheme, bool) state" where
  \<comment> \<open>the two branches of \<open>enableUsbData\<close>, with the value of \<^verbatim>\<open>result\<close>\<close>
  "enable_data K in_enable =
     (if in_enable then do {
        enabled \<leftarrow> gets mUsbDataEnabled;
        if enabled then ret True
        else do {
          (ok, pullup) \<leftarrow> ReadFileToString K (PULLUP_PATH K);
          result \<leftarrow> (if ok \<and> lib_trim K pullup \<noteq> kGadgetName
                    then write_or_fail K kGadgetName (PULLUP_PATH K) True else ret True);
          write_or_fail K ''1'' USB_DATA_PATH result
        }
      } else do {
        (ok, pullup) \<leftarrow> ReadFileToString K (PULLUP_PATH K);
        result1 \<leftarrow> (if ok \<and> lib_trim K pullup = kGadgetName
                   then write_or_fail K ''none'' (PULLUP_PATH K) True else ret True);
        result2 \<leftarrow> write_or_fail K ''1'' ID_PATH result1;
        result3 \<leftarrow> write_or_fail K ''0'' VBUS_PATH result2;
        write_or_fail K ''0'' USB_DATA_PATH result3
      })"

definition enableUsbData ::
  "'k usb_platform \<Rightarrow> string \<Rightarrow> bool \<Rightarrow> int \<Rightarrow> (('k, 'z) usb_scheme, fault + unit) state" where
  "enableUsbData K in_portName in_enable in_transactionId = do {
     result \<leftarrow> enable_data K in_enable;
     only_if result (modify (\<lambda>s. s\<lparr>mUsbDataEnabled := in_enable\<rparr>));
     notify K (\<lambda>cb. NotifyEnableUsbDataStatus cb in_portName in_enable
       (if result then SUCCESS else ERROR) in_transactionId);
     updatePortStatus K
   }"

definition enableUsbDataWhileDocked ::
  "'k usb_platform \<Rightarrow> string \<Rightarrow> int \<Rightarrow> (('k, 'z) usb_scheme, fault + unit) state" where
  \<comment> \<open>the descriptor opened to probe the file is closed on return\<close>
  "enableUsbDataWhileDocked K in_portName in_transactionId = do {
     f \<leftarrow> sys (sys_open K KPogoMoveDataToUsb) (\<lambda>r. [FdOpen KPogoMoveDataToUsb r]);
     (notSupported, success) \<leftarrow>
       (if f \<noteq> - 1 then do {
          ok \<leftarrow> WriteStringToFile K ''1'' KPogoMoveDataToUsb;
          ret (False, ok)
        } else ret (True, True));
     notify K (\<lambda>cb. NotifyEnableUsbDataWhileDockedStatus cb in_portName
       (if notSupported then NOT_SUPPORTED else if success then SUCCESS else ERROR)
       in_transactionId);
     r \<leftarrow> updatePortStatus K;
     on_ok r (\<lambda>_. do { ufd_assign K f; ret (Inr ()) })
   }"

definition resetUsbPort ::
  "'k usb_platform \<Rightarrow> string \<Rightarrow> int \<Rightarrow> (('k, 'z) usb_scheme, fault + unit) state" where
  "resetUsbPort K in_portName in_transactionId = do {
     result \<leftarrow> WriteStringToFile K ''none'' (PULLUP_PATH K);
     notify K (\<lambda>cb. NotifyResetUsbPortStatus cb in_portName
       (if result then SUCCESS else ERROR) in_transactionId);
     ret (Inr ())
   }"

definition limit_writes ::
  "'k usb_platform \<Rightarrow> string \<Rightarrow> bool \<Rightarrow> (('k, 'z) usb_scheme, bool) state" where
  \<comment> \<open>the branch with a client path; the result is \<^verbatim>\<open>!sessionFail\<close>\<close>
  "limit_writes K i2cPath in_limit = do {
     let sinkLimitEnablePath = i2cPath @ ''/'' @ kSinkLimitEnable;
     let sourceLimitEnablePath = i2cPath @ ''/'' @ kSourceLimitEnable;
     let currentLimitPath = i2cPath @ ''/'' @ kSinkLimitCurrent;
     r1 \<leftarrow> (if in_limit then write_or_fail K ''0'' currentLimitPath True else ret True);
     r2 \<leftarrow> write_or_fail K (if in_limit then ''1'' else ''0'') sinkLimitEnablePath r1;
     write_or_fail K (if in_limit then ''1'' else ''0'') sourceLimitEnablePath r2
   }"

definition limitPowerTransfer ::
  "'k usb_platform \<Rightarrow> string \<Rightarrow> bool \<Rightarrow> int \<Rightarrow> (('k, 'z) usb_scheme, fault + unit) state" where
  "limitPowerTransfer K in_portName in_limit in_transactionId = do {
     i2cPath \<leftarrow> getI2cClientPath K;
     success \<leftarrow> (if i2cPath \<noteq> [] then limit_writes K i2cPath in_limit else ret False);
     only_if (0 \<le> in_transactionId)
       (notify K (\<lambda>cb. NotifyLimitPowerTransferStatus cb in_portName in_limit
          (if success then SUCCESS else ERROR) in_transactionId));
     updatePortStatus K
   }"

definition queryPortStatus ::
  "'k usb_platform \<Rightarrow> int \<Rightarrow> (('k, 'z) usb_scheme, fault + unit) state" where
  "queryPortStatus K in_transactionId = do {
     r \<leftarrow> queryVersionHelper K;
     on_ok r (\<lambda>_. do {
       notify K (\<lambda>cb. NotifyQueryPortStatus cb ''all'' SUCCESS in_transactionId);
       ret (Inr ())
     })
   }"

definition enableContaminantPresenceDetection ::
  "'k usb_platform \<Rightarrow> string \<Rightarrow> bool \<Rightarrow> int \<Rightarrow> (('k, 'z) usb_scheme, fault + unit) state" where
  "enableContaminantPresenceDetection K in_portName in_enable in_transactionId = do {
     disable \<leftarrow> GetProperty K kDisableContatminantDetection [];
     success \<leftarrow> (if disable \<noteq> ''true'' then do {
                   path \<leftarrow> gets enabledPath;
                   WriteStringToFile K (if in_enable then ''1'' else ''0'') path
                 } else ret True);
     notify K (\<lambda>cb. NotifyContaminantEnabledStatus cb in_portName in_enable
       (if success then SUCCESS else ERROR) in_transactionId);
     updatePortStatus K
   }"

section \<open>The uevent thread\<close>

fun read_seconds ::
  "'k usb_platform \<Rightarrow> string list \<Rightarrow> (('k, 'z) usb_scheme, fault + int list option) state" where
  \<comment> \<open>the files read one after the other, each parsed; None for an early return\<close>
  "read_seconds K [] = ret (Inr (Some []))"
| "read_seconds K (name # names) = do {
     (ok, contents) \<leftarrow> ReadFileToString K (kOverheatStatsPath @ name);
     if \<not> ok then ret (Inr None)
     else on_ok (stoi (lib_trim K contents)) (\<lambda>v. do {
       r \<leftarrow> read_seconds K names;
       on_ok r (\<lambda>vs. ret (Inr (map_option (Cons v) vs)))
     })
   }"

definition report_overheat_event :: "'k usb_platform \<Rightarrow> (('k, 'z) usb_scheme, fault + unit) state" where
  "report_overheat_event K = do {
     (plug, most) \<leftarrow> sys (sys_overheat K) (\<lambda>_. []);
     r \<leftarrow> read_seconds K [''trip_time'', ''hysteresis_time'', ''cleared_time''];
     on_ok r (\<lambda>vs. case vs of
         None \<Rightarrow> ret (Inr ())
       | Some vs \<Rightarrow> do {
           stats_client \<leftarrow> sys (sys_stats K) (\<lambda>_. []);
           only_if stats_client (do {
             send K (ReportUsbPortOverheat \<lparr>plug_temperature_deci_c = plug,
               max_temperature_deci_c = most, time_to_overheat_secs = vs ! 0,
               time_to_hysteresis_secs = vs ! 1, time_to_inactive_secs = vs ! 2\<rparr>);
             ret ()
           });
           ret (Inr ())
         })
   }"

definition partner_added :: "string \<Rightarrow> bool" where
  \<comment> \<open>\<^verbatim>\<open>regex_match(cp, "(add)(.*)(-partner)")\<close>: the whole line, \<^verbatim>\<open>.\<close> no line terminator\<close>
  "partner_added cp \<longleftrightarrow> prefix ''add'' cp \<and> suffix ''-partner'' cp \<and> 11 \<le> length cp \<and>
     (\<forall>c \<in> set (take (length cp - 11) (drop 3 cp)). c \<noteq> CHR 0x0A \<and> c \<noteq> CHR 0x0D)"

definition typec_changed :: "string \<Rightarrow> bool" where
  "typec_changed cp \<longleftrightarrow> prefix ''DEVTYPE=typec_'' cp \<or> prefix ''DRIVER=max77759tcpc'' cp \<or>
     prefix ''DRIVER=pogo-transport'' cp \<or> prefix ''POWER_SUPPLY_NAME=usb'' cp"

definition drp_if_alone :: "'k usb_platform \<Rightarrow> PortStatus \<Rightarrow> (('k, 'z) usb_scheme, unit) state" where
  "drp_if_alone K p = do {
     dp \<leftarrow> opendir K (''/sys/class/typec/'' @ c_str (portName p) @ ''-partner'');
     only_if (dp = None) (switchToDrp K (portName p))
   }"

definition typec_uevent :: "'k usb_platform \<Rightarrow> (('k, 'z) usb_scheme, fault + unit) state" where
  "typec_uevent K = do {
     r \<leftarrow> queryVersionHelper K;
     on_ok r (\<lambda>sts. do {
       free \<leftarrow> sys (sys_trylock K) (\<lambda>_. []);
       only_if free (for_each sts (drp_if_alone K));
       ret (Inr ())
     })
   }"

fun uevent_loop :: "'k usb_platform \<Rightarrow> string list \<Rightarrow> (('k, 'z) usb_scheme, fault + unit) state" where
  \<comment> \<open>a line that reports a port ends the loop\<close>
  "uevent_loop K [] = ret (Inr ())"
| "uevent_loop K (cp # cps) =
     (if partner_added cp then do {
        modify (\<lambda>s. s\<lparr>mPartnerUp := True\<rparr>);
        uevent_loop K cps
      } else if typec_changed cp then typec_uevent K
      else if prefix kOverheatStatsDev cp then do {
        r \<leftarrow> report_overheat_event K;
        on_ok r (\<lambda>_. uevent_loop K cps)
      } else uevent_loop K cps)"

definition uevent_event :: "'k usb_platform \<Rightarrow> (('k, 'z) usb_scheme, fault + unit) state" where
  "uevent_event K = do {
     (n, msg) \<leftarrow> sys (sys_recv_uevent K) (\<lambda>_. []);
     uevent_loop K (uevent_lines n msg)
   }"

section \<open>The worker and its lifetime\<close>

text \<open>
  What one \<^verbatim>\<open>epoll_wait\<close> of the worker returns: the descriptor is ready some number of times,
  a signal interrupted it, or it failed. A run of the worker is driven by the list of these answers.
\<close>

datatype epoll_result = Ready nat | Interrupted bool | Failed   \<comment> \<open>whether the signal was SIGUSR1\<close>

definition sighandler :: "bool \<Rightarrow> (('k, 'z) usb_scheme, unit) state" where
  "sighandler is_usr1 = only_if is_usr1 (modify (\<lambda>s. s\<lparr>destroyThread := True\<rparr>))"

fun work_loop :: "'k usb_platform \<Rightarrow> epoll_result list \<Rightarrow> (('k, 'z) usb_scheme, fault + unit) state" where
  "work_loop K [] = ret (Inr ())"
| "work_loop K (e # es) = do {
     destroy \<leftarrow> gets destroyThread;
     if destroy then ret (Inr ())
     else (case e of
         Failed \<Rightarrow> ret (Inr ())
       | Interrupted is_usr1 \<Rightarrow> do { sighandler is_usr1; work_loop K es }
       | Ready n \<Rightarrow> do {
           r \<leftarrow> for_each_ok (replicate n ()) (\<lambda>_. uevent_event K);
           on_ok r (\<lambda>_. work_loop K es)
         })
   }"

definition work :: "'k usb_platform \<Rightarrow> epoll_result list \<Rightarrow> (('k, 'z) usb_scheme, fault + unit) state" where
  "work K es = do {
     uevent_fd \<leftarrow> sys (sys_newfd K UeventSocket) (\<lambda>_. []);
     if uevent_fd < 0 then ret (Inr ())
     else do {
       epoll_fd \<leftarrow> sys (sys_newfd K EpollInstance) (\<lambda>_. []);
       added \<leftarrow> (if epoll_fd = - 1 then ret False
                else sys (sys_epoll_add K uevent_fd) (\<lambda>r. [EpollAdd uevent_fd r]));
       r \<leftarrow> (if added then work_loop K es else ret (Inr ()));
       on_ok r (\<lambda>_. do {
         sys (sys_close K uevent_fd) (\<lambda>_. [FdClose uevent_fd]);
         only_if (0 \<le> epoll_fd) (sys (sys_close K epoll_fd) (\<lambda>_. [FdClose epoll_fd]));
         ret (Inr ())
       })
     }
   }"

definition setCallback ::
  "'k usb_platform \<Rightarrow> nat option \<Rightarrow> (('k, 'z) usb_scheme, unit) state" where
  \<comment> \<open>the signal runs \<open>sighandler\<close> in the worker before the worker can be joined\<close>
  "setCallback K in_callback = do {
     old \<leftarrow> gets mCallback;
     modify (\<lambda>s. s\<lparr>mCallback := in_callback\<rparr>);
     if (old = None \<and> in_callback = None) \<or> (old \<noteq> None \<and> in_callback \<noteq> None) then ret ()
     else if in_callback = None then do {
       signalled \<leftarrow> sys (sys_thread_signal K) (\<lambda>ok. [ThreadSignal ok]);
       only_if signalled (do {
         sighandler True;
         sys (sys_thread_join K) (\<lambda>_. [ThreadJoin])
       })
     } else do {
       modify (\<lambda>s. s\<lparr>destroyThread := False\<rparr>);
       created \<leftarrow> sys (sys_thread_create K) (\<lambda>ok. [ThreadCreate ok]);
       only_if (\<not> created) (modify (\<lambda>s. s\<lparr>mCallback := None\<rparr>))
     }
   }"

definition Usb :: "'k usb_platform \<Rightarrow> (('k, 'z) usb_scheme, fault + unit) state" where
  \<comment> \<open>the constructor, members in the order of their declaration: the monitor's constructor runs
     before \<open>mUsbDataEnabled\<close> and the I2C fields are set\<close>
  "Usb K = do {
     modify (\<lambda>s. s\<lparr>mCallback := None, mPartnerUp := False\<rparr>);
     r \<leftarrow> UsbDataSessionMonitor K kUdcUeventRegex kUdcStatePath kHost1UeventRegex kHost1StatePath
            kHost2UeventRegex kHost2StatePath kDataRolePath;
     on_ok r (\<lambda>_. do {
       modify (\<lambda>s. s\<lparr>mUsbDataEnabled := True\<rparr>);
       modify (\<lambda>s. s\<lparr>mI2cBusNumber := - 1\<rparr>);
       modify (\<lambda>s. s\<lparr>mI2cClientPath := []\<rparr>);
       ok \<leftarrow> sys (sys_cond_init K) (\<lambda>_. []);
       if ok then ret (Inr ()) else ret (Inl Aborted)
     })
   }"

end
