(* ===== verification/UsbFrames.thy ===== *)
theory UsbFrames
  imports UsbService SessionProofs
begin

text \<open>
  What the queries of the service leave alone. A query changes the kernel (it reads), the cached
  I2C fields and \<open>enabledPath\<close>; everything that ignores those is preserved by every query, and by
  every notification if it also ignores the trace. From this the session monitor's contract for its
  callback follows, and with it the invariant of the whole monitor thread.
\<close>

locale query_observer =
  fixes f :: "('k, 'z) usb_scheme \<Rightarrow> 'b"
  assumes quiet: "quiet_obs f"
    and no_bus: "f (s\<lparr>mI2cBusNumber := n\<rparr>) = f s"
    and no_path: "f (s\<lparr>mI2cClientPath := p\<rparr>) = f s"
    and no_enabledPath: "f (s\<lparr>enabledPath := p\<rparr>) = f s"
begin

lemmas obs = quiet no_bus no_path no_enabledPath

lemma keeps_getAccessoryConnected: "keeps f (getAccessoryConnected K p)"
  unfolding getAccessoryConnected_def Let_def by (intro keeps obs)

lemma keeps_read_role: "keeps f (read_role K p r)"
  unfolding read_role_def by (intro keeps obs)

lemma keeps_getCurrentRoleHelper: "keeps f (getCurrentRoleHelper K p c r)"
  unfolding getCurrentRoleHelper_def
  by (intro keeps keeps_getAccessoryConnected keeps_read_role)

lemma keeps_getTypeCPortNamesHelper: "keeps f (getTypeCPortNamesHelper K)"
  unfolding getTypeCPortNamesHelper_def by (intro keeps obs)

lemma keeps_canSwitchRoleHelper: "keeps f (canSwitchRoleHelper K p)"
  unfolding canSwitchRoleHelper_def Let_def by (intro keeps obs)

lemma keeps_port_status: "keeps f (port_status K p c ps)"
  unfolding port_status_def port_roles_def port_changes_def port_data_status_def port_brick_def Let_def
  by (intro keeps keeps_getCurrentRoleHelper keeps_canSwitchRoleHelper obs)

lemma keeps_port_loop: "keeps f (port_loop K ports i sts)"
  by (induction ports arbitrary: i sts) (auto intro!: keeps keeps_port_status)

lemma keeps_getPortStatusHelper: "keeps f (getPortStatusHelper K)"
  unfolding getPortStatusHelper_def
  by (intro keeps keeps_getTypeCPortNamesHelper keeps_port_loop)

lemma keeps_queryMoistureDetectionStatus: "keeps f (queryMoistureDetectionStatus K sts)"
  unfolding queryMoistureDetectionStatus_def Let_def
  by (intro keeps obs)

lemma keeps_queryPowerTransferStatus: "keeps f (queryPowerTransferStatus K sts)"
  unfolding queryPowerTransferStatus_def Let_def by (intro keeps obs)

lemma keeps_charger_port: "keeps f (charger_port K p)"
  unfolding charger_port_def Let_def by (intro keeps obs)

lemma keeps_queryNonCompliantChargerStatus: "keeps f (queryNonCompliantChargerStatus K sts)"
  by (induction sts) (auto intro!: keeps keeps_charger_port)

lemma keeps_queryUsbDataSession: "keeps f (queryUsbDataSession K sts)"
  unfolding queryUsbDataSession_def getComplianceWarnings_def by (intro keeps)

lemmas keeps_queries_all = keeps_getPortStatusHelper keeps_queryMoistureDetectionStatus
  keeps_queryPowerTransferStatus keeps_queryNonCompliantChargerStatus keeps_queryUsbDataSession

lemma keeps_queryVersionHelper:
  assumes "field_obs f"
  shows "keeps f (queryVersionHelper K)"
  unfolding queryVersionHelper_def by (intro keeps keeps_queries_all assms)

lemma keeps_updatePortStatus: "field_obs f \<Longrightarrow> keeps f (updatePortStatus K)"
  unfolding updatePortStatus_def by (intro keeps keeps_queryVersionHelper)

end

text \<open>A coarser observer: one that a notification does not disturb either.\<close>

locale service_observer = query_observer +
  assumes field: "field_obs f"
begin

lemmas keeps_queryVersionHelper' = keeps_queryVersionHelper [OF field]

lemmas keeps_updatePortStatus' = keeps_updatePortStatus [OF field]

end

interpretation monitor_part: service_observer "mon_fields :: ('k, 'z) usb_scheme \<Rightarrow> _"
  by unfold_locales (simp_all add: mon_fields_def)

definition service_fields where
  \<comment> \<open>the service's own fields that only its methods change\<close>
  "service_fields s = (mCallback s, mPartnerUp s, mUsbDataEnabled s, destroyThread s)"

lemma field_obs_service_fields [simp]: "field_obs service_fields"
  by (simp add: field_obs_def service_fields_def)

interpretation service_part: service_observer "service_fields :: ('k, 'z) usb_scheme \<Rightarrow> _"
  by unfold_locales (simp_all add: service_fields_def field_obs_quiet)

interpretation files: query_observer "stored :: ('k, 'z) usb_scheme \<Rightarrow> _"
  by unfold_locales simp_all

interpretation messages: query_observer "sent :: ('k, 'z) usb_scheme \<Rightarrow> _"
  by unfold_locales simp_all

interpretation port_update: status_callback K "Some (updatePortStatus K)"
  for K :: "'k usb_platform"
  by unfold_locales (auto intro: monitor_part.keeps_updatePortStatus')

end
