(* ===== verification/TypecProps.thy ===== *)
theory TypecProps
  imports UsbFrames "HOL-Library.Multiset"
begin

text \<open>
  What the port queries compute: the bracket format of the kernel's role files, the port names and
  partners of a listing of \<^verbatim>\<open>/sys/class/typec\<close>, and the fields of the statuses built from them.
\<close>

definition example_usb :: "ekern \<Rightarrow> ekern usb" where
  "example_usb k = \<lparr>kern = k, trace = [], mI2cBusNumber = - 1, mI2cClientPath = [],
     mEpollFd = 3, mUeventFd = 4, mTimerFd = 5, mDataRoleFd = 6,
     mDeviceState = no_dev, mHost1State = no_dev, mHost2State = no_dev,
     mWarningSet = [], mDataRole = DataNONE, mDataSessionStart = 0, mUdcBind = False,
     mCallback = Some 1, mPartnerUp = False, mUsbDataEnabled = True, enabledPath = [],
     destroyThread = False\<rparr>"

section \<open>Role files\<close>

text \<open>
  The kernel prints the roles a port can take with the current one in brackets, as in
  \<^verbatim>\<open>host [device]\<close>.
\<close>

definition mark :: "string \<Rightarrow> string \<Rightarrow> string" where
  "mark active r = (if r = active then ''['' @ r @ '']'' else r)"

fun show_roles :: "string \<Rightarrow> string list \<Rightarrow> string" where
  "show_roles active [] = []"
| "show_roles active [r] = mark active r"
| "show_roles active (r # rs) = mark active r @ '' '' @ show_roles active rs"

definition plain :: "string \<Rightarrow> bool" where
  "plain r \<longleftrightarrow> CHR ''['' \<notin> set r \<and> CHR '']'' \<notin> set r"

lemma show_roles_split:
  assumes "active \<in> set rs" "\<forall>r \<in> set rs. plain r"
  shows "\<exists>pre post. show_roles active rs = pre @ ''['' @ active @ '']'' @ post \<and> plain pre"
  using assms
proof (induction active rs rule: show_roles.induct)
  case (3 active r r' rs)
  show ?case
  proof (cases "r = active")
    case True
    then show ?thesis
      by (intro exI [of _ "[]"] exI [of _ "'' '' @ show_roles active (r' # rs)"])
        (simp add: mark_def plain_def)
  next
    case False
    then obtain pre post where "show_roles active (r' # rs) = pre @ ''['' @ active @ '']'' @ post" "plain pre"
      using 3 by auto
    then show ?thesis
      using False 3(3) by (intro exI [of _ "r @ '' '' @ pre"] exI [of _ post]) (auto simp: mark_def plain_def)
  qed
qed (auto simp: mark_def plain_def intro: exI [of _ "[]"])

lemma extractRole_shown:
  assumes "active \<in> set rs" "\<forall>r \<in> set rs. plain r" "length (show_roles active rs) < 2 ^ 63"
  shows "extractRole (show_roles active rs) = active"
proof -
  obtain pre post where split: "show_roles active rs = pre @ ''['' @ active @ '']'' @ post" "plain pre"
    using show_roles_split [OF assms(1,2)] by blast
  have "plain active" using assms(1,2) by blast
  then show ?thesis
    unfolding split(1) using split assms(3) by (intro extractRole_brackets) (auto simp: plain_def)
qed

text \<open>
  C18: reading back the kernel's list of roles gives the current one, wherever it stands in the list;
  a role that is shown alone, without brackets, is taken as it is.
\<close>

theorem extractRole_show_roles:
  assumes "active \<in> set rs" "\<forall>r \<in> set rs. plain r" "length (show_roles active rs) < 2 ^ 63"
  shows "extractRole (show_roles active rs) = active \<and> extractRole active = active"
proof -
  have "plain active" using assms(1,2) by blast
  then show ?thesis
    by (auto simp: extractRole_plain plain_def extractRole_shown [OF assms])
qed

theorem extractRole_show_roles_witness:
  "extractRole ''source [sink]'' = ''sink''"
  using extractRole_show_roles [of "''sink''" "[''source'', ''sink'']"]
  by (simp add: plain_def mark_def)

text \<open>
  C19: the current role of a connected port. If the data-role or power-role file shows one of its
  roles as the current one, that role is reported; a disconnected port has no role, and finding that
  out takes no call at all.
\<close>

theorem getCurrentRoleHelper_reads:
  assumes role: "r \<in> {dataRole HOST, dataRole DEVICE, powerRole SOURCE, powerRole SINK}"
    and old: "getTag old = getTag r"
    and path: "role_file port_name old = Some (path, none)"
    and content: "fst (sys_read K path (kern s)) = (True, content)"
    and shown: "lib_trim K content = show_roles (convertRoletoString r)
      (if getTag r = Tag_dataRole then [''host'', ''device''] else [''source'', ''sink''])"
  shows "wp (getCurrentRoleHelper K port_name True old) (\<lambda>x t. x = (SUCCESS, r)) s \<and>
    run_state (getCurrentRoleHelper K port_name False old) s = ((SUCCESS, none), s)"
proof -
  let ?rs = "if getTag r = Tag_dataRole then [''host'', ''device''] else [''source'', ''sink'']"
  have name: "extractRole (lib_trim K content) = convertRoletoString r"
    unfolding shown
    by (rule extractRole_shown) (use role in \<open>auto simp: convertRoletoString_def plain_def mark_def\<close>)
  have tag: "getTag none = getTag r" "getTag r \<noteq> Tag_mode"
    using role old path by (cases old; auto)+
  have set: "set_role (convertRoletoString r) none = (SUCCESS, r)"
    using role tag by (auto simp: set_role_def convertRoletoString_def)
  obtain k where "sys_read K path (kern s) = ((True, content), k)"
    using content by (metis prod.collapse)
  then show ?thesis
    using path tag by (simp add: getCurrentRoleHelper_def read_role_def ReadFileToString_def wp name set)
qed

theorem getCurrentRoleHelper_reads_witness:
  "wp (getCurrentRoleHelper eK ''port0'' True (dataRole DataNONE)) (\<lambda>x t. x = (SUCCESS, dataRole DEVICE))
    (example_usb (ek0\<lparr>e_files := [(''/sys/class/typec/port0/data_role'', ''host [device]'' @ [newline])]\<rparr>))"
  using getCurrentRoleHelper_reads [of "dataRole DEVICE" "dataRole DataNONE" "''port0''"
      "''/sys/class/typec/port0/data_role''" "dataRole DataNONE" eK
      "example_usb (ek0\<lparr>e_files := [(''/sys/class/typec/port0/data_role'', ''host [device]'' @ [newline])]\<rparr>)"
      "''host [device]'' @ [newline]"]
  by (simp add: eK_def e_read_def example_usb_def strip_def isspace_def newline_def
      convertRoletoString_def mark_def)

section \<open>Ports and partners\<close>

definition is_partner :: "string \<Rightarrow> dirent \<Rightarrow> bool" where
  "is_partner p e \<longleftrightarrow> d_type e = DT_LNK \<and> contains (d_name e) ''-partner'' \<and> strtok_dash (d_name e) = p"

definition is_port :: "string \<Rightarrow> dirent \<Rightarrow> bool" where
  "is_port p e \<longleftrightarrow> d_type e = DT_LNK \<and> \<not> contains (d_name e) ''-partner'' \<and> d_name e = p"

lemma map_of_typec_names:
  "map_of (typec_names eps names) p =
    (if \<exists>e \<in> set eps. is_partner p e then Some True
     else case map_of names p of
       Some b \<Rightarrow> Some b
     | None \<Rightarrow> if \<exists>e \<in> set eps. is_port p e then Some False else None)"
proof (induction eps names rule: typec_names.induct)
  case (1 names)
  then show ?case by (simp split: option.split)
next
  case (2 ep eps names)
  show ?case
  proof (cases "d_type ep = DT_LNK")
    case False
    then have "\<not> is_partner p ep" "\<not> is_port p ep" by (simp_all add: is_partner_def is_port_def)
    then show ?thesis using 2(4) False by (auto split: option.split)
  next
    case link: True
    show ?thesis
    proof (cases "contains (d_name ep) ''-partner''")
      case True
      then have "is_partner p ep \<longleftrightarrow> strtok_dash (d_name ep) = p" "\<not> is_port p ep"
        using link by (simp_all add: is_partner_def is_port_def)
      then show ?thesis
        using 2(3) [OF link] link True by (auto simp: update_conv' split: option.split)
    next
      case False
      then have "\<not> is_partner p ep" "is_port p ep \<longleftrightarrow> d_name ep = p"
        using link by (simp_all add: is_partner_def is_port_def)
      then show ?thesis
        using 2(1,2) [OF link] link False
        by (cases "map_of names (d_name ep)") (auto simp: update_conv' split: option.split)
    qed
  qed
qed

lemma distinct_typec_names:
  "distinct (map fst names) \<Longrightarrow> distinct (map fst (typec_names eps names))"
  by (induction eps names rule: typec_names.induct) (simp_all add: distinct_update)

lemma strtok_partner: "p \<noteq> [] \<Longrightarrow> CHR ''-'' \<notin> set p \<Longrightarrow> strtok_dash (p @ ''-'' @ rest) = p"
  by (cases p) (auto simp: strtok_dash_def takeWhile_append2 takeWhile_tail)

text \<open>
  C6: the ports found in a listing of the type-c class do not depend on the order of its entries: a
  port is listed once, with a partner exactly when some link names it before its first dash and holds
  \<^verbatim>\<open>-partner\<close>, and without one when only a link of its own name is there.
\<close>

theorem typec_names_spec:
  "distinct (map fst (typec_names eps [])) \<and>
   ((p, True) \<in> set (typec_names eps []) \<longleftrightarrow> (\<exists>e \<in> set eps. is_partner p e)) \<and>
   ((p, False) \<in> set (typec_names eps []) \<longleftrightarrow>
      (\<exists>e \<in> set eps. is_port p e) \<and> \<not> (\<exists>e \<in> set eps. is_partner p e))"
proof -
  have "distinct (map fst (typec_names eps []))"
    by (simp add: distinct_typec_names)
  then show ?thesis
    by (auto simp: map_of_typec_names simp flip: map_of_eq_Some_iff split: if_splits)
qed

section \<open>Statuses\<close>

definition data_flags_ok :: "bool \<Rightarrow> PortStatus \<Rightarrow> bool" where
  "data_flags_ok enabled p \<longleftrightarrow>
     (ENABLED \<in> set (usbDataStatus p) \<longleftrightarrow> usbDataStatus p = [ENABLED]) \<and>
     (DISABLED_FORCE \<in> set (usbDataStatus p) \<longleftrightarrow> \<not> enabled) \<and> usbDataStatus p \<noteq> []"

definition status_ok :: "bool \<Rightarrow> string \<times> bool \<Rightarrow> PortStatus \<Rightarrow> bool" where
  "status_ok enabled port p \<longleftrightarrow> portName p = fst port \<and> canChangeMode p \<and>
     DRP \<in> set (supportedModes p) \<and> data_flags_ok enabled p \<and>
     (\<not> snd port \<longrightarrow> currentPowerRole p = PowerNONE \<and> currentDataRole p = DataNONE \<and>
        currentMode p = ModeNONE \<and> \<not> canChangeDataRole p \<and> \<not> canChangePowerRole p \<and>
        powerBrickStatus p = NOT_CONNECTED) \<and>
     (currentPowerRole p = SOURCE \<longrightarrow> powerBrickStatus p = NOT_CONNECTED)"

lemma data_status_flags_ok:
  "usbDataStatus p = [] \<Longrightarrow> data_flags_ok enabled (data_status_flags pogo enabled p)"
  by (auto simp: data_status_flags_def data_flags_ok_def Let_def)

lemma data_status_flags_fields [simp]:
  "portName (data_status_flags a b p) = portName p"
  "canChangeMode (data_status_flags a b p) = canChangeMode p"
  "canChangeDataRole (data_status_flags a b p) = canChangeDataRole p"
  "canChangePowerRole (data_status_flags a b p) = canChangePowerRole p"
  "supportedModes (data_status_flags a b p) = supportedModes p"
  "currentPowerRole (data_status_flags a b p) = currentPowerRole p"
  "currentDataRole (data_status_flags a b p) = currentDataRole p"
  "currentMode (data_status_flags a b p) = currentMode p"
  "powerBrickStatus (data_status_flags a b p) = powerBrickStatus p"
  by (simp_all add: data_status_flags_def Let_def)

lemma wp_keep: "keeps f m \<Longrightarrow> (\<And>a t. f t = f s \<Longrightarrow> Q a t) \<Longrightarrow> wp m Q s"
  by (rule wp_mono [OF keeps_wp])

lemma port_roles_alone:
  "port_roles K n False ps =
     ret (Inr (True, ps\<lparr>currentPowerRole := PowerNONE, currentDataRole := DataNONE, currentMode := ModeNONE\<rparr>))"
  by (simp add: port_roles_def getCurrentRoleHelper_def Let_def)

definition same_identity :: "PortStatus \<Rightarrow> PortStatus \<Rightarrow> bool" where
  "same_identity ps ps' \<longleftrightarrow> portName ps' = portName ps \<and> usbDataStatus ps' = usbDataStatus ps \<and>
     supportedModes ps' = supportedModes ps"

lemma wp_port_roles:
  "wp (port_roles K n c ps) (\<lambda>r t. service_fields t = service_fields s \<and>
     (\<forall>ps'. r = Inr (True, ps') \<longrightarrow> same_identity ps ps' \<and>
        (\<not> c \<longrightarrow> currentPowerRole ps' = PowerNONE \<and> currentDataRole ps' = DataNONE \<and>
           currentMode ps' = ModeNONE))) s"
proof (cases c)
  case False
  then show ?thesis by (simp add: port_roles_alone wp same_identity_def)
next
  case True
  note keep = service_part.keeps_getCurrentRoleHelper
  show ?thesis
    using True by (auto simp: port_roles_def wp same_identity_def intro!: wp_keep [OF keep])
qed

lemma wp_port_changes:
  "wp (port_changes K n c ps) (\<lambda>p t. service_fields t = service_fields s \<and>
     (\<exists>data power. (\<not> c \<longrightarrow> \<not> data \<and> \<not> power) \<and>
        p = ps\<lparr>canChangeMode := True, canChangeDataRole := data, canChangePowerRole := power,
               supportedModes := supportedModes ps @ [DRP]\<rparr>)) s"
  by (auto simp: port_changes_def wp intro!: wp_keep [OF service_part.keeps_canSwitchRoleHelper])

lemma wp_port_data_status:
  "wp (port_data_status K ps) (\<lambda>r t. service_fields t = service_fields s \<and>
     (\<forall>p. r = Inr p \<longrightarrow> (\<exists>pogo. p = data_status_flags pogo (mUsbDataEnabled s) ps))) s"
  by (auto simp: port_data_status_def wp service_fields_def split: sum.splits)

lemma wp_port_brick:
  assumes "portName p = n" "canChangeMode p" "DRP \<in> set (supportedModes p)" "data_flags_ok b p"
    "\<not> c \<longrightarrow> currentPowerRole p = PowerNONE \<and> currentDataRole p = DataNONE \<and>
      currentMode p = ModeNONE \<and> \<not> canChangeDataRole p \<and> \<not> canChangePowerRole p"
  shows "wp (port_brick K c p) (\<lambda>p' t. service_fields t = service_fields s \<and> status_ok b (n, c) p') s"
  using assms
  by (auto simp: port_brick_def wp ReadFileToString_def status_ok_def data_flags_ok_def service_fields_def)

lemma service_enabled: "service_fields t = service_fields s \<Longrightarrow> mUsbDataEnabled t = mUsbDataEnabled s"
  by (simp add: service_fields_def)

lemma wp_port_status:
  fixes s :: "('k, 'z) usb_scheme"
  assumes "usbDataStatus ps = []"
  shows "wp (port_status K n c ps) (\<lambda>r t. service_fields t = service_fields s \<and>
     (\<forall>ps'. r = Inr (True, ps') \<longrightarrow> status_ok (mUsbDataEnabled s) (n, c) ps')) s"
proof -
  define ok :: "PortStatus \<Rightarrow> bool" where "ok p \<longleftrightarrow> portName p = n \<and> usbDataStatus p = [] \<and>
    (\<not> c \<longrightarrow> currentPowerRole p = PowerNONE \<and> currentDataRole p = DataNONE \<and> currentMode p = ModeNONE)" for p
  let ?Q = "\<lambda>r (t :: ('k, 'z) usb_scheme). service_fields t = service_fields s \<and>
     (\<forall>ps'. r = Inr (True, ps') \<longrightarrow> status_ok (mUsbDataEnabled s) (n, c) ps')"
  have brick: "wp (do { ps4 \<leftarrow> port_brick K c (data_status_flags pogo (mUsbDataEnabled s) p); ret (Inr (True, ps4)) }) ?Q t'"
    if "service_fields t' = service_fields s" "usbDataStatus p = []" "portName p = n" "canChangeMode p"
      "DRP \<in> set (supportedModes p)"
      "\<not> c \<longrightarrow> currentPowerRole p = PowerNONE \<and> currentDataRole p = DataNONE \<and>
        currentMode p = ModeNONE \<and> \<not> canChangeDataRole p \<and> \<not> canChangePowerRole p" for t' p pogo
    unfolding wp_bind wp_return
    by (rule wp_mono [OF wp_port_brick [where n = n and b = "mUsbDataEnabled s"]])
      (use that in \<open>simp_all add: data_status_flags_ok\<close>)
  have rest: "wp (do {
         ps2 \<leftarrow> port_changes K n c p;
         r3 \<leftarrow> port_data_status K ps2;
         on_ok r3 (\<lambda>ps3. do { ps4 \<leftarrow> port_brick K c ps3; ret (Inr (True, ps4)) }) }) ?Q t"
    if "ok p" "service_fields t = service_fields s" for p t
    unfolding wp_bind [of "port_changes K n c p"] wp_bind [of "port_data_status K _"]
    apply (rule wp_mono [OF wp_port_changes])
    apply (elim conjE exE)
    apply (rule wp_mono [OF wp_port_data_status])
    subgoal for p2 t2 data power r3 t3
      using that brick [of t3 p2] service_enabled [of t2 s] by (cases r3) (simp_all add: ok_def wp_return, elim conjE exE, simp)
    done
  show ?thesis
    unfolding port_status_def wp_bind [of "port_roles K n c _"]
    by (rule wp_mono [OF wp_port_roles])
      (use assms rest in \<open>auto simp: wp_on_ok wp_case_prod wp_if wp_return ok_def same_identity_def split: sum.splits\<close>)
qed

lemma wp_port_loop:
  fixes s :: "('k, 'z) usb_scheme"
  assumes "list_all2 (status_ok (mUsbDataEnabled s)) front dsts" "length rest = length ports"
    and "\<forall>p \<in> set rest. usbDataStatus p = []"
  shows "wp (port_loop K ports (length dsts) (dsts @ rest)) (\<lambda>r t. service_fields t = service_fields s \<and>
    (\<forall>sts'. r = Inr (True, sts') \<longrightarrow> list_all2 (status_ok (mUsbDataEnabled s)) (front @ ports) sts')) s"
  using assms
proof (induction ports arbitrary: s front dsts rest)
  case Nil
  then show ?case by (simp add: wp)
next
  case (Cons port ports)
  let ?Q = "\<lambda>r (t :: ('k, 'z) usb_scheme). service_fields t = service_fields s \<and>
    (\<forall>sts'. r = Inr (True, sts') \<longrightarrow>
       list_all2 (status_ok (mUsbDataEnabled s)) (front @ port # ports) sts')"
  obtain p ps where rest: "rest = p # ps" "length ps = length ports" "usbDataStatus p = []"
    using Cons.prems(2,3) by (cases rest) auto
  have loop: "wp (port_loop K ports (Suc (length dsts)) (dsts @ ps' # ps)) ?Q t"
    if "service_fields t = service_fields s" "status_ok (mUsbDataEnabled s) port ps'" for t ps'
  proof -
    have "mUsbDataEnabled t = mUsbDataEnabled s" using that(1) by (rule service_enabled)
    then show ?thesis
      using Cons.IH [of t "front @ [port]" "dsts @ [ps']" ps] Cons.prems(1,3) rest that
      by (simp add: list_all2_appendI)
  qed
  show ?case
    unfolding port_loop.simps wp_bind
    by (rule wp_mono [OF wp_port_status])
      (use rest loop in \<open>auto simp: wp_on_ok wp_case_prod wp_if wp_return nth_append list_update_append\<close>)
qed


definition example_ports :: "ekern usb" where
  "example_ports = example_usb (ek0\<lparr>e_dirs := [(kTypecPath,
     [\<lparr>d_name = ''port0'', d_type = DT_LNK\<rparr>, \<lparr>d_name = ''.'', d_type = DT_DIR\<rparr>])]\<rparr>)"

lemma example_ports_listing:
  "fst (sys_opendir eK kTypecPath (kern example_ports)) =
     Some [\<lparr>d_name = ''port0'', d_type = DT_LNK\<rparr>, \<lparr>d_name = ''.'', d_type = DT_DIR\<rparr>]"
  by (simp add: example_ports_def example_usb_def eK_def)

lemma eK_fields [simp]:
  "names_order eK xs = xs" "usbDataStatus (default_PortStatus eK) = []"
  by (simp_all add: eK_def)


end
