(* ===== verification/UsbProps.thy ===== *)
theory UsbProps
  imports TypecProps
begin

text \<open>
  What the service's operations do to the files they control, to the callback and to the service's
  own fields.
\<close>

section \<open>The monitor thread\<close>

text \<open>
  C1: whatever the kernel delivers, in whatever order, the monitor thread of the service keeps its
  invariant: every recorded state is one of the seven valid ones and has its timestamp, and at most
  one of the three warnings is up. The callback the thread runs into is the service's
  \<^verbatim>\<open>updatePortStatus\<close>.
\<close>

theorem monitor_thread_invariant:
  assumes "mon_inv s"
  shows "wp (for_each_ok batches (monitor_dispatch K (Some (updatePortStatus K)))) (\<lambda>_. mon_inv) s"
  by (rule wp_for_each_ok) (use assms in \<open>simp_all add: port_update.wp_monitor_dispatch_inv\<close>)

lemma example_usb_inv: "mon_inv (example_usb k)"
  by (simp add: mon_inv_def example_usb_def all_device_ptr dev_simps dev_ok_def no_dev_def)

theorem monitor_thread_invariant_witness:
  "wp (for_each_ok [[4, 6], [5]] (monitor_dispatch eK (Some (updatePortStatus eK)))) (\<lambda>_. mon_inv)
     (example_usb ek0)"
  by (rule monitor_thread_invariant) (rule example_usb_inv)

section \<open>Reports\<close>

lemma wp_keep_conj: "keeps f m \<Longrightarrow> wp m Q s \<Longrightarrow> wp m (\<lambda>a t. Q a t \<and> f t = f s) s"
  by (simp add: wp_conj keeps_wp)

text \<open>
  C16: with no port in \<^verbatim>\<open>/sys/class/typec\<close>, or with the directory unreadable, every status
  query crashes the process: the queries index the first element of an empty vector. Nothing has been
  sent by then.
\<close>

theorem queryVersionHelper_no_ports:
  assumes "names_order K [] = []"
    and "case fst (sys_opendir K kTypecPath (kern s)) of None \<Rightarrow> True | Some eps \<Rightarrow> typec_names eps [] = []"
  shows "wp (queryVersionHelper K) (\<lambda>r t. r = Inl Vector_out_of_range \<and> sent t = sent s) s"
  using assms
  by (cases "sys_opendir K kTypecPath (kern s)")
    (auto simp: queryVersionHelper_def getPortStatusHelper_def getTypeCPortNamesHelper_def opendir_def
      queryMoistureDetectionStatus_def upd_first_def wp split: option.splits)

theorem queryVersionHelper_no_ports_witness:
  "wp (queryVersionHelper eK) (\<lambda>r t. r = Inl Vector_out_of_range) (example_usb ek0)"
  by (rule wp_mono [OF queryVersionHelper_no_ports]) (simp_all add: eK_def example_usb_def ek0_def)

definition quiet_view where
  "quiet_view s = (stored s, sent s, mon_fields s, service_fields s)"

interpretation view: query_observer "quiet_view :: ('k, 'z) usb_scheme \<Rightarrow> _"
proof
  show "quiet_obs (quiet_view :: ('k, 'z) usb_scheme \<Rightarrow> _)"
    by (simp add: quiet_obs_def quiet_view_def quiet_def mon_fields_def service_fields_def)
qed (simp_all add: quiet_view_def mon_fields_def service_fields_def)

lemma wp_queryUsbDataSession:
  "wp (queryUsbDataSession K sts) (\<lambda>r t. quiet_view t = quiet_view s \<and> (\<forall>sts'. r = Inr sts' \<longrightarrow> sts' \<noteq> [])) s"
  by (cases sts) (auto simp: queryUsbDataSession_def getComplianceWarnings_def upd_first_def wp)

lemma quiet_view_note:
  "quiet_view t = quiet_view s \<Longrightarrow> wp (notify K n) (\<lambda>_ t'. stored t' = stored s \<and>
     mon_fields t' = mon_fields s \<and> service_fields t' = service_fields s \<and>
     sent t' = sent s @ told n s) t"
  by (auto simp: wp quiet_view_def told_def service_fields_def mon_fields_def split: option.split)

lemma wp_queryVersionHelper:
  fixes s :: "('k, 'z) usb_scheme"
  shows "wp (queryVersionHelper K) (\<lambda>r t. stored t = stored s \<and> mon_fields t = mon_fields s \<and>
     service_fields t = service_fields s \<and>
     (case r of
        Inl e \<Rightarrow> sent t = sent s
      | Inr sts \<Rightarrow> sts \<noteq> [] \<and>
          (\<exists>st. sent t = sent s @ told (\<lambda>cb. NotifyPortStatusChange cb sts st) s))) s"
proof -
  define Q where "Q r t \<longleftrightarrow> stored t = stored s \<and> mon_fields t = mon_fields s \<and> service_fields t = service_fields s \<and>
     (case r of
        Inl e \<Rightarrow> sent t = sent s
      | Inr sts \<Rightarrow> sts \<noteq> [] \<and> (\<exists>st. sent t = sent s @ told (\<lambda>cb. NotifyPortStatusChange cb sts st) s))"
    for r :: "fault + PortStatus list" and t :: "('k, 'z) usb_scheme"
  have crash: "Q (Inl e) t" if "quiet_view t = quiet_view s" for e t
    using that by (simp add: quiet_view_def Q_def)
  have last: "wp (do { notify K (\<lambda>cb. NotifyPortStatusChange cb sts st); ret (Inr sts) }) Q t"
    if "quiet_view t = quiet_view s" "sts \<noteq> []" for t sts st
    unfolding wp_bind wp_return by (rule wp_mono [OF quiet_view_note [OF that(1)]]) (use that(2) in \<open>auto simp: Q_def\<close>)
  have "wp (queryVersionHelper K) Q s"
    unfolding queryVersionHelper_def wp_bind [of "getPortStatusHelper K"]
    apply (rule wp_keep [OF view.keeps_getPortStatusHelper])
    apply (simp only: wp_on_ok wp_case_prod wp_bind, intro conjI allI impI)
     apply (rule crash, assumption)
    apply (rule wp_keep [OF view.keeps_queryMoistureDetectionStatus], intro conjI allI impI)
     apply (rule crash, simp)
    apply (rule wp_keep [OF view.keeps_queryPowerTransferStatus], intro conjI allI impI)
     apply (rule crash, simp)
    apply (rule wp_keep [OF view.keeps_queryNonCompliantChargerStatus])
    apply (rule wp_mono [OF wp_queryUsbDataSession], intro conjI allI impI)
     apply (rule crash, simp)
    apply (rule last [unfolded wp_bind], simp_all)
    done
  then show ?thesis by (simp add: Q_def [abs_def])
qed


lemma wp_updatePortStatus:
  "wp (updatePortStatus K) (\<lambda>r t. stored t = stored s \<and> mon_fields t = mon_fields s \<and>
     service_fields t = service_fields s \<and> prefix (sent s) (sent t)) s"
  unfolding updatePortStatus_def wp_bind
  by (rule wp_mono [OF wp_queryVersionHelper]) (auto simp: wp split: sum.splits)

section \<open>Switching USB data\<close>

definition all_ok :: "(string \<times> string \<times> bool) list \<Rightarrow> bool" where
  "all_ok ws \<longleftrightarrow> (\<forall>w \<in> set ws. snd (snd w))"

definition writes :: "(string \<times> string \<times> bool) list \<Rightarrow> (string \<times> string) list" where
  "writes ws = map (\<lambda>(p, d, ok). (p, d)) ws"

definition data_off_writes :: "(string \<times> string) list" where
  "data_off_writes = [(ID_PATH, ''1''), (VBUS_PATH, ''0''), (USB_DATA_PATH, ''0'')]"

lemma list_ok_simps [simp]:
  "all_ok []" "all_ok (xs @ ys) \<longleftrightarrow> all_ok xs \<and> all_ok ys" "all_ok ((p, d, ok) # ys) \<longleftrightarrow> ok \<and> all_ok ys"
  "writes [] = []" "writes (xs @ ys) = writes xs @ writes ys" "writes ((p, d, ok) # ys) = (p, d) # writes ys"
  by (auto simp: all_ok_def writes_def)

definition data_writes :: "'k usb_platform \<Rightarrow> bool \<Rightarrow> bool \<Rightarrow> string option \<Rightarrow> (string \<times> string) list" where
  \<comment> \<open>what has to be written to switch the data on or off, given the present setting and what the
     pull-up file reads\<close>
  "data_writes K enable enabled pullup =
     (if enable then
        if enabled then []
        else (if pullup \<noteq> None \<and> pullup \<noteq> Some kGadgetName then [(PULLUP_PATH K, kGadgetName)] else []) @
          [(USB_DATA_PATH, ''1'')]
      else (if pullup = Some kGadgetName then [(PULLUP_PATH K, ''none'')] else []) @ data_off_writes)"

definition pullup_read :: "'k usb_platform \<Rightarrow> 'k \<Rightarrow> string option" where
  "pullup_read K k = (case fst (sys_read K (PULLUP_PATH K) k) of
     (ok, c) \<Rightarrow> if ok then Some (lib_trim K c) else None)"

lemma wp_enable_data:
  "wp (enable_data K en) (\<lambda>r t. \<exists>ws. stored t = stored s @ ws \<and> r = all_ok ws \<and>
     writes ws = data_writes K en (mUsbDataEnabled s) (pullup_read K (kern s)) \<and>
     sent t = sent s \<and> mon_fields t = mon_fields s \<and> service_fields t = service_fields s) s"
  by (cases "sys_read K (PULLUP_PATH K) (kern s)")
    (auto simp: enable_data_def write_or_fail_def ReadFileToString_def WriteStringToFile_def wp data_writes_def pullup_read_def
      data_off_writes_def mon_fields_def service_fields_def)

lemma wp_told_then_update:
  fixes t :: "('k, 'z) usb_scheme"
  assumes "stored t = ws" "sent t = ms" "service_fields t = fs"
  shows "wp (do { notify K n; updatePortStatus K }) (\<lambda>r t'. stored t' = ws \<and> service_fields t' = fs \<and>
    prefix (ms @ told n t) (sent t')) t"
proof -
  have "wp (updatePortStatus K) (\<lambda>r t'. stored t' = ws \<and> service_fields t' = fs \<and>
    prefix (ms @ told n t) (sent t')) t1"
    if "stored t1 = ws" "service_fields t1 = fs" "sent t1 = ms @ told n t" for t1 :: "('k, 'z) usb_scheme"
    by (rule wp_mono [OF wp_updatePortStatus]) (use that in auto)
  then show ?thesis
    using assms by (auto simp: wp told_def service_fields_def)
qed

text \<open>
  C10: switching USB data on or off writes exactly the files it has to, in order: the gadget is pulled
  up or down only if the pull-up file reads something else, switching off also leaves host mode and
  drops VBUS, and switching on what is on already writes nothing. The setting is taken over exactly
  when every write succeeded, and the callback is told the same, before the status report.
\<close>

theorem enableUsbData_effect:
  "wp (enableUsbData K port en tid) (\<lambda>r t. \<exists>ws. stored t = stored s @ ws \<and>
     writes ws = data_writes K en (mUsbDataEnabled s) (pullup_read K (kern s)) \<and>
     mUsbDataEnabled t = (if all_ok ws then en else mUsbDataEnabled s) \<and>
     mCallback t = mCallback s \<and>
     prefix (sent s @ told (\<lambda>cb. NotifyEnableUsbDataStatus cb port en
       (if all_ok ws then SUCCESS else ERROR) tid) s) (sent t)) s"
proof -
  let ?n = "\<lambda>ok cb. NotifyEnableUsbDataStatus cb port en (if ok then SUCCESS else ERROR) tid"
  have tail: "wp (do { notify K (?n (all_ok ws)); updatePortStatus K }) (\<lambda>r t'. \<exists>ws. stored t' = stored s @ ws \<and>
     writes ws = data_writes K en (mUsbDataEnabled s) (pullup_read K (kern s)) \<and>
     mUsbDataEnabled t' = (if all_ok ws then en else mUsbDataEnabled s) \<and> mCallback t' = mCallback s \<and>
     prefix (sent s @ told (?n (all_ok ws)) s) (sent t'))
     (if all_ok ws then t\<lparr>mUsbDataEnabled := en\<rparr> else t)"
    if "stored t = stored s @ ws" "writes ws = data_writes K en (mUsbDataEnabled s) (pullup_read K (kern s))"
      "sent t = sent s" "service_fields t = service_fields s" for ws t
    by (rule wp_mono [OF wp_told_then_update [OF refl refl refl]])
      (use that in \<open>cases "all_ok ws"; auto simp: service_fields_def told_def intro!: exI [of _ ws]\<close>)
  show ?thesis
    unfolding enableUsbData_def wp_bind [of "enable_data K en"]
    apply (rule wp_mono [OF wp_enable_data], elim exE conjE)
    subgoal for r t ws
      using tail [of t ws] by (cases "all_ok ws") (simp_all add: wp_bind wp_modify only_if_def wp_return)
    done
qed

section \<open>Limiting the power\<close>

lemma wp_client_path:
  "wp (getI2cClientPath K) (\<lambda>p t. p = fst (run_state (getI2cClientPath K) s) \<and> quiet_view t = quiet_view s) s"
proof -
  have "keeps quiet_view (getI2cClientPath K)"
    by (intro keeps view.obs)
  then have "wp (getI2cClientPath K) (\<lambda>_ t. quiet_view t = quiet_view s) s"
    by (rule keeps_wp)
  moreover have "wp (getI2cClientPath K) (\<lambda>p t. p = fst (run_state (getI2cClientPath K) s)) s"
    by (simp add: wp_def split: prod.split)
  ultimately show ?thesis by (simp add: wp_conj)
qed

definition limit_list :: "string \<Rightarrow> bool \<Rightarrow> (string \<times> string) list" where
  "limit_list path limit =
     (if limit then [(path @ ''/usb_limit_sink_current'', ''0'')] else []) @
     [(path @ ''/usb_limit_sink_enable'', if limit then ''1'' else ''0''),
      (path @ ''/usb_limit_source_enable'', if limit then ''1'' else ''0'')]"

lemma wp_limit_writes:
  "wp (limit_writes K path limit) (\<lambda>r t. \<exists>ws. stored t = stored s @ ws \<and> r = all_ok ws \<and>
     writes ws = limit_list path limit \<and> sent t = sent s \<and> service_fields t = service_fields s) s"
  by (auto simp: limit_writes_def write_or_fail_def WriteStringToFile_def wp limit_list_def
      kSinkLimitEnable_def kSourceLimitEnable_def kSinkLimitCurrent_def service_fields_def)

lemma wp_tell_limit:
  fixes tid :: int
  assumes "stored t = stored s @ ws" "sent t = sent s" "service_fields t = service_fields s"
  shows "wp (do { only_if (0 \<le> tid) (notify K n); updatePortStatus K }) (\<lambda>r t'.
      stored t' = stored s @ ws \<and> service_fields t' = service_fields s \<and>
      prefix (sent s @ (if 0 \<le> tid then told n s else [])) (sent t')) t"
proof (cases "0 \<le> tid")
  case True
  then show ?thesis
    using wp_told_then_update [OF assms] assms(3) by (simp add: only_if_def told_def service_fields_def)
next
  case False
  then show ?thesis
    by (simp add: only_if_def wp_bind wp_return, intro wp_mono [OF wp_updatePortStatus]) (use assms in auto)
qed

text \<open>
  C11: limiting the power transfer writes the current limit (only when limiting) and the two enable
  files under the controller's directory, all of them even after a failure; without a directory it
  writes nothing and fails. The callback hears of it unless the transaction id is negative.
\<close>

theorem limitPowerTransfer_effect:
  "wp (limitPowerTransfer K port limit tid) (\<lambda>r t. \<exists>ws. stored t = stored s @ ws \<and>
     (let path = fst (run_state (getI2cClientPath K) s) in
     writes ws = (if path = [] then [] else limit_list path limit) \<and>
     service_fields t = service_fields s \<and>
     prefix (sent s @ (if 0 \<le> tid then told (\<lambda>cb. NotifyLimitPowerTransferStatus cb port limit
        (if path \<noteq> [] \<and> all_ok ws then SUCCESS else ERROR) tid) s else [])) (sent t))) s"
proof -
  define path where "path = fst (run_state (getI2cClientPath K) s)"
  define n where "n ok cb = NotifyLimitPowerTransferStatus cb port limit (if ok then SUCCESS else ERROR) tid" for ok cb
  define T where "T ok = (if 0 \<le> tid then told (n ok) s else [])" for ok
  note tail = wp_tell_limit [where tid = tid and K = K, folded T_def]
  have limited: "wp (do { success \<leftarrow> (if path \<noteq> [] then limit_writes K path limit else ret False);
        only_if (0 \<le> tid) (notify K (n success)); updatePortStatus K }) (\<lambda>r t'. \<exists>ws.
      stored t' = stored s @ ws \<and> writes ws = (if path = [] then [] else limit_list path limit) \<and>
      service_fields t' = service_fields s \<and>
      prefix (sent s @ T (path \<noteq> [] \<and> all_ok ws)) (sent t')) t"
    if "quiet_view t = quiet_view s" for t
  proof (cases "path = []")
    case True
    have "wp (do { only_if (0 \<le> tid) (notify K (n False)); updatePortStatus K }) (\<lambda>r t'. \<exists>ws.
        stored t' = stored s @ ws \<and> writes ws = [] \<and> service_fields t' = service_fields s \<and>
        prefix (sent s @ T False) (sent t')) t"
      by (rule wp_mono [OF tail [of t s "[]" "n False"]])
        (use that in \<open>auto simp: quiet_view_def T_def intro!: exI [of _ "[]"]\<close>)
    then show ?thesis
      unfolding if_not_P [OF not_not [THEN iffD2, OF True]] wp_bind [of "ret False"] wp_return
      using True by simp
  next
    case False
    then show ?thesis
      using that
      apply (simp add: wp_bind [of "limit_writes K path limit"])
      apply (rule wp_mono [OF wp_limit_writes], elim exE conjE)
      subgoal for r t' ws
        by (rule wp_mono [OF tail [of t' s ws "n r"]]) (auto simp: quiet_view_def T_def)
      done
  qed
  have path: "wp (getI2cClientPath K) (\<lambda>p t. p = path \<and> quiet_view t = quiet_view s) s"
    unfolding path_def by (rule wp_client_path)
  show ?thesis
    unfolding limitPowerTransfer_def wp_bind [of "getI2cClientPath K"] Let_def path_def [symmetric]
      n_def [symmetric] T_def [symmetric]
    by (rule wp_mono [OF path], elim conjE) (simp only: limited)
qed

end
