(* ===== verification/RoleProps.thy ===== *)
theory RoleProps
  imports UsbProps
begin

text \<open>
  Role switches, the wait for a partner, the uevents that lead to a status report, and the life of the
  worker thread.
\<close>

section \<open>Waiting for the partner\<close>

text \<open>
  The kernel's side of the wait: within \<open>n\<close> wake-ups, one that times out or during which the partner
  was seen.
\<close>

fun wait_ends :: "'k usb_platform \<Rightarrow> nat \<Rightarrow> 'k \<Rightarrow> bool" where
  "wait_ends K 0 k = False"
| "wait_ends K (Suc n) k =
     (let (now, k1) = sys_mono_now K k;
          ((timedout, up), k2) = sys_condwait K (now + PORT_TYPE_TIMEOUT) k1
      in timedout \<or> up \<or> wait_ends K n k2)"

lemma wp_wait_for_partner:
  "\<not> mPartnerUp s \<Longrightarrow> wp (wait_for_partner K n) (\<lambda>r t. stored t = stored s \<and> sent t = sent s \<and>
     mCallback t = mCallback s \<and>
     (if wait_ends K n (kern s) then (r = Inr True \<and> mPartnerUp t) \<or> r = Inr False
      else r = Inl Not_returned)) s"
proof (induction n arbitrary: s)
  case 0
  then show ?case by (simp add: wp)
next
  case (Suc n)
  obtain now k1 where now: "sys_mono_now K (kern s) = (now, k1)" by fastforce
  obtain timedout up k2 where cw: "sys_condwait K (now + PORT_TYPE_TIMEOUT) k1 = ((timedout, up), k2)"
    by (metis prod.collapse)
  show ?case
  proof (cases "timedout \<or> up")
    case True
    then show ?thesis
      using Suc.prems now cw by (cases timedout; cases up) (simp_all add: wp mono_now_def)
  next
    case False
    let ?s' = "s\<lparr>kern := k2, trace := trace s @ [CondWait (now + PORT_TYPE_TIMEOUT) False],
      mPartnerUp := False\<rparr>"
    show ?thesis
      using Suc.IH [of ?s'] False Suc.prems now cw
      by (simp add: wp mono_now_def if_bool_eq_conj)
  qed
qed

text \<open>
  C8: the wait for a partner after a mode switch returns exactly when the kernel lets it: it ends,
  with the partner seen or a timeout, if one of the wake-ups the fuel allows times out or finds a
  partner, and otherwise it is still waiting. It does nothing else meanwhile.
\<close>

theorem wait_for_partner_returns:
  assumes "\<not> mPartnerUp s"
  shows "wp (wait_for_partner K n) (\<lambda>r t. stored t = stored s \<and> sent t = sent s \<and>
     (if wait_ends K n (kern s) then (r = Inr True \<and> mPartnerUp t) \<or> r = Inr False
      else r = Inl Not_returned)) s"
  by (rule wp_mono [OF wp_wait_for_partner [OF assms]]) simp

theorem wait_for_partner_returns_witness:
  "wp (wait_for_partner eK 2) (\<lambda>r t. (r = Inr True \<and> mPartnerUp t) \<or> r = Inr False)
     (example_usb (ek0\<lparr>e_waits := [(False, False), (False, True)]\<rparr>))"
  by (rule wp_mono [OF wait_for_partner_returns])
    (simp_all add: example_usb_def eK_def ek0_def numeral_2_eq_2)

section \<open>Mode and role switches\<close>

lemma c_str_node [simp]: "c_str (appendRoleNodeHelper (c_str p) tag) = appendRoleNodeHelper (c_str p) tag"
proof (rule c_str_id)
  have "NUL \<notin> set ''/sys/class/typec/data_rolepower_roleport_type''"
    by (simp add: NUL_def)
  then show "NUL \<notin> set (appendRoleNodeHelper (c_str p) tag)"
    by (cases tag) (auto simp: appendRoleNodeHelper_def Let_def)
qed

lemma node_nonempty [simp]:
  "appendRoleNodeHelper p tag = [] \<longleftrightarrow> tag = Tag_other"
  by (cases tag) (simp_all add: appendRoleNodeHelper_def Let_def)

lemma wp_switchToDrp:
  "wp (switchToDrp K p) (\<lambda>_ t. \<exists>ws. stored t = stored s @ ws \<and>
     writes ws \<in> {[], [(appendRoleNodeHelper (c_str p) Tag_mode, ''dual'')]} \<and>
     FOpen (appendRoleNodeHelper (c_str p) Tag_mode) (ws \<noteq> []) \<in> set (trace t) \<and>
     sent t = sent s \<and> service_fields t = service_fields s) s"
  by (auto simp: switchToDrp_def wp fopen_w_def fputs_def fclose_def service_fields_def)


definition role_calls :: "string \<Rightarrow> string \<Rightarrow> string \<Rightarrow> usb_note io list \<Rightarrow> bool" where
  \<comment> \<open>open, write, close and read back, up to the first that fails\<close>
  "role_calls node name c es \<longleftrightarrow> es = [FOpen node False] \<or>
     es = [FOpen node True, FPuts node name False, FClose node] \<or>
     (\<exists>ok. es = [FOpen node True, FPuts node name True, FClose node, FileRead node ok c])"

lemma wp_write_role:
  assumes "c_str node = node"
  shows "wp (write_role K node r) (\<lambda>ok t. \<exists>es c. role_calls node (convertRoletoString r) c es \<and>
    trace t = trace s @ es \<and> service_fields t = service_fields s \<and>
    ok = (last es = FileRead node True c \<and> extractRole (lib_trim K c) = convertRoletoString r)) s"
  using assms
  by (auto simp: write_role_def wp fopen_w_def fputs_def fclose_def ReadFileToString_def role_calls_def
      service_fields_def)



section \<open>Uevents of ports\<close>

definition dull :: "string \<Rightarrow> bool" where
  \<comment> \<open>a line the loop passes over\<close>
  "dull cp \<longleftrightarrow> \<not> partner_added cp \<and> \<not> typec_changed cp \<and> \<not> prefix kOverheatStatsDev cp"

lemma wp_drp_if_alone:
  fixes s :: "('k, 'z) usb_scheme"
  shows "wp (drp_if_alone K p) (\<lambda>_ t. \<exists>ws. stored t = stored s @ ws \<and>
     set (writes ws) \<subseteq> {(appendRoleNodeHelper (c_str (portName p)) Tag_mode, ''dual'')} \<and>
     sent t = sent s) s"
proof -
  have "wp (switchToDrp K (portName p)) (\<lambda>_ t. \<exists>ws. stored t = stored s @ ws \<and>
     set (writes ws) \<subseteq> {(appendRoleNodeHelper (c_str (portName p)) Tag_mode, ''dual'')} \<and>
     sent t = sent s) t0" if "stored t0 = stored s" "sent t0 = sent s" for t0 :: "('k, 'z) usb_scheme"
    by (rule wp_mono [OF wp_switchToDrp]) (use that in auto)
  then show ?thesis
    by (auto simp: drp_if_alone_def opendir_def wp)
qed

definition dual_writes :: "PortStatus list \<Rightarrow> (string \<times> string) set" where
  "dual_writes sts = (\<lambda>p. (appendRoleNodeHelper (c_str (portName p)) Tag_mode, ''dual'')) ` set sts"

lemma wp_drp_all:
  fixes s :: "('k, 'z) usb_scheme"
  shows "wp (for_each sts (drp_if_alone K)) (\<lambda>_ t. \<exists>ws. stored t = stored s @ ws \<and>
     set (writes ws) \<subseteq> dual_writes sts \<and> sent t = sent s) s"
proof (induction sts arbitrary: s)
  case Nil
  then show ?case by (simp add: wp)
next
  case (Cons p sts)
  have "wp (for_each sts (drp_if_alone K)) (\<lambda>_ t. \<exists>ws. stored t = stored s @ ws \<and>
     set (writes ws) \<subseteq> dual_writes (p # sts) \<and> sent t = sent s) t0"
    if "stored t0 = stored s @ ws0" "set (writes ws0) \<subseteq> dual_writes [p]" "sent t0 = sent s"
    for t0 :: "('k, 'z) usb_scheme" and ws0
    apply (rule wp_mono [OF Cons.IH], elim exE conjE)
    subgoal for _ t ws
      using that by (intro exI [of _ "ws0 @ ws"]) (auto simp: dual_writes_def)
    done
  then show ?case
    unfolding for_each.simps wp_bind
    by (intro wp_mono [OF wp_drp_if_alone]) (auto simp: dual_writes_def)
qed

lemma uevent_loop_dull: "\<forall>l \<in> set ls. dull l \<Longrightarrow> uevent_loop K (ls @ rest) = uevent_loop K rest"
  by (induction ls) (simp_all add: dull_def)



section \<open>The worker's life\<close>

text \<open>How many worker threads a trace started and did not join.\<close>

fun worker_of :: "'n io \<Rightarrow> int" where
  "worker_of (ThreadCreate ok) = (if ok then 1 else 0)"
| "worker_of ThreadJoin = - 1"
| "worker_of _ = 0"

definition workers :: "'n io list \<Rightarrow> int" where
  "workers tr = sum_list (map worker_of tr)"

lemma workers_simps [simp]:
  "workers [] = 0" "workers (xs @ ys) = workers xs + workers ys" "workers (e # ys) = worker_of e + workers ys"
  by (simp_all add: workers_def)

definition workers_ok :: "('k, 'z) usb_scheme \<Rightarrow> bool" where
  \<comment> \<open>a callback is registered exactly while one worker runs\<close>
  "workers_ok s \<longleftrightarrow> workers (trace s) = (if mCallback s = None then 0 else 1)"

lemma wp_setCallback_workers:
  assumes "\<And>k. fst (sys_thread_signal K k)" "workers_ok s"
  shows "wp (setCallback K cb) (\<lambda>_. workers_ok) s"
proof -
  have sig: "b" if "sys_thread_signal K k = (b, k')" for b k k'
    using assms(1) [of k] that by simp
  show ?thesis
    using assms(2) by (auto simp: setCallback_def sighandler_def wp workers_ok_def dest: sig)
qed



end
