(* ===== verification/ReportProps.thy ===== *)
theory ReportProps
  imports RoleProps MonitorProps
begin

text \<open>
  What ends up in a report: the charger's reasons as warnings, the session's warnings behind them,
  the overheat statistics; and what the service's constructor sets up.
\<close>

section \<open>The charger's reasons\<close>

definition warning_of :: "'k usb_platform \<Rightarrow> string \<Rightarrow> ComplianceWarning" where
  \<comment> \<open>the warning each of the five documented reasons stands for\<close>
  "warning_of K r =
     (if r = ''debug-accessory'' then DEBUG_ACCESSORY_WARNING
      else if r = ''bc12'' then BC_1_2
      else if r = ''missing_rp'' then MISSING_RP
      else if enable_usb_data_compliance_warning K \<and> enable_input_power_limited_warning K
      then INPUT_POWER_LIMITED else OTHER)"

definition known_reasons :: "string set" where
  "known_reasons = {''debug-accessory'', ''bc12'', ''missing_rp'', ''other'', ''input_power_limited''}"

fun show_reasons :: "string list \<Rightarrow> string" where
  \<comment> \<open>the kernel's list, after its opening bracket\<close>
  "show_reasons [] = '']'' @ [newline]"
| "show_reasons [r] = r @ '']'' @ [newline]"
| "show_reasons (r # rs) = r @ '', '' @ show_reasons rs"

definition is_token :: "string \<Rightarrow> bool" where
  "is_token r \<longleftrightarrow> r \<noteq> [] \<and> set r \<inter> set reason_delimiters = {} \<and> NUL \<notin> set r"

lemma split_tokens_run:
  "set r \<inter> set ds = {} \<Longrightarrow> split_tokens (r @ s) ds acc = split_tokens s ds (rev r @ acc)"
  by (induction r arbitrary: acc) auto

lemma delimiter_in:
  "CHR ''['' \<in> set reason_delimiters" "CHR '']'' \<in> set reason_delimiters" "CHR '','' \<in> set reason_delimiters"
  "CHR '' '' \<in> set reason_delimiters" "newline \<in> set reason_delimiters"
  by (simp_all add: reason_delimiters_def)

lemma split_reasons:
  "\<forall>r \<in> set rs. is_token r \<Longrightarrow> split_tokens (show_reasons rs) reason_delimiters [] = rs"
proof (induction rs rule: show_reasons.induct)
  case 1
  then show ?case by (simp add: delimiter_in)
next
  case (2 r)
  then show ?case by (simp add: split_tokens_run is_token_def delimiter_in)
next
  case (3 r r' rs)
  then show ?case by (simp add: split_tokens_run is_token_def delimiter_in)
qed

lemma known_tokens: "r \<in> known_reasons \<Longrightarrow> is_token r"
  by (auto simp: known_reasons_def is_token_def reason_delimiters_def newline_def NUL_def)

lemma show_reasons_no_NUL: "\<forall>r \<in> set rs. is_token r \<Longrightarrow> NUL \<notin> set (show_reasons rs)"
  by (induction rs rule: show_reasons.induct) (auto simp: is_token_def newline_def NUL_def)

lemma charger_warning_known:
  assumes "r \<in> known_reasons"
  shows "charger_warning K r = Some (warning_of K r)"
proof -
  have r: "c_str r = r"
    using known_tokens [OF assms] by (simp add: is_token_def c_str_id)
  show ?thesis
    using assms unfolding known_reasons_def charger_warning_def warning_of_def r
      kComplianceWarningDebugAccessory_def kComplianceWarningBC12_def kComplianceWarningMissingRp_def
      kComplianceWarningOther_def kComplianceWarningInputPowerLimited_def
    by (elim insertE emptyE) simp_all
qed

lemma map_filter_known: "set rs \<subseteq> known_reasons \<Longrightarrow> List.map_filter (charger_warning K) rs = map (warning_of K) rs"
  by (induction rs) (simp_all add: charger_warning_known List.map_filter_def)

text \<open>
  C14: the reasons the kernel lists for a port come back as the warnings they stand for, one each, in
  order, behind those already there; \<open>OTHER\<close> and \<open>INPUT_POWER_LIMITED\<close> are one reason, told apart by
  the two flags. A port with a warning and no power role is shown as a charging sink; else its roles
  stay.
\<close>

theorem charger_port_warnings:
  assumes known: "set rs \<subseteq> known_reasons"
    and path: "fst (sys_read K (c_str (''/sys/class/typec/'' @ portName p @ ''/device/non_compliant_reasons'')) (kern s))
      = (True, ''['' @ show_reasons rs)"
    and tokenize: "\<And>x d. lib_tokenize K x d = split_tokens x d []"
  shows "wp (charger_port K p) (\<lambda>p' t. supportsComplianceWarnings p' \<and> portName p' = portName p \<and>
    complianceWarnings p' = complianceWarnings p @ map (warning_of K) rs \<and>
    (if currentPowerRole p = PowerNONE \<and> complianceWarnings p' \<noteq> []
     then currentMode p' = UFP \<and> currentPowerRole p' = SINK \<and> currentDataRole p' = DataNONE \<and>
       powerBrickStatus p' = CONNECTED
     else currentMode p' = currentMode p \<and> currentPowerRole p' = currentPowerRole p \<and>
       currentDataRole p' = currentDataRole p \<and> powerBrickStatus p' = powerBrickStatus p)) s"
proof -
  have tokens: "\<forall>r \<in> set rs. is_token r" using known known_tokens by blast
  then have "c_str (''['' @ show_reasons rs) = ''['' @ show_reasons rs"
    using show_reasons_no_NUL [OF tokens] by (intro c_str_id) (simp add: NUL_def)
  then have list: "lib_tokenize K (c_str (''['' @ show_reasons rs)) reason_delimiters = rs"
    using split_reasons [OF tokens] by (simp add: tokenize delimiter_in)
  define content where "content = ''['' @ show_reasons rs"
  have mf: "List.map_filter (charger_warning K) (lib_tokenize K (c_str content) reason_delimiters) =
      map (warning_of K) rs"
    unfolding content_def list by (rule map_filter_known [OF known])
  obtain k where "sys_read K (c_str (''/sys/class/typec/'' @ portName p @ ''/device/non_compliant_reasons'')) (kern s)
      = ((True, content), k)"
    using path unfolding content_def by (metis prod.collapse)
  then show ?thesis
    using mf by (simp add: charger_port_def ReadFileToString_def wp kTypecPath_def
        kComplianceWarningsPath_def charger_effect_def)
qed

theorem charger_port_warnings_witness:
  "wp (charger_port eK (default_PortStatus eK\<lparr>portName := ''port0''\<rparr>))
    (\<lambda>p' t. complianceWarnings p' = [BC_1_2, INPUT_POWER_LIMITED] \<and> currentPowerRole p' = SINK)
    (example_usb (ek0\<lparr>e_files := [(''/sys/class/typec/port0/device/non_compliant_reasons'',
       ''[bc12, other]'' @ [newline])]\<rparr>))"
  by (rule wp_mono [OF charger_port_warnings [where rs = "[''bc12'', ''other'']"]])
    (simp_all add: known_reasons_def eK_def e_read_def example_usb_def c_str_def NUL_def warning_of_def)

section \<open>Session warnings in a report\<close>


section \<open>Overheat statistics\<close>

definition overheat_file :: "string \<Rightarrow> string" where
  "overheat_file name = ''/sys/devices/platform/google,usbc_port_cooling_dev/'' @ name"

fun overheat_sent :: "usb_note \<Rightarrow> int list" where
  "overheat_sent (ReportUsbPortOverheat i) =
     [time_to_overheat_secs i, time_to_hysteresis_secs i, time_to_inactive_secs i]"
| "overheat_sent _ = []"

text \<open>The numbers a trace shows were read from the statistics files.\<close>

definition read_number :: "'k usb_platform \<Rightarrow> usb_note io list \<Rightarrow> string \<Rightarrow> int \<Rightarrow> bool" where
  "read_number K tr name v \<longleftrightarrow> (\<exists>c. FileRead (overheat_file name) True c \<in> set tr \<and> stoi (lib_trim K c) = Inr v)"

lemma wp_read_seconds:
  fixes s :: "('k, 'z) usb_scheme"
  shows "wp (read_seconds K names) (\<lambda>r t. sent t = sent s \<and> set (trace s) \<subseteq> set (trace t) \<and>
     (case r of
        Inl e \<Rightarrow> e = Stoi_invalid_argument \<or> e = Stoi_out_of_range
      | Inr None \<Rightarrow> True
      | Inr (Some vs) \<Rightarrow> list_all2 (read_number K (trace t)) names vs)) s"
proof (induction names arbitrary: s)
  case Nil
  then show ?case by (simp add: wp)
next
  case (Cons name names)
  define Q where "Q r t \<longleftrightarrow> sent t = sent s \<and> set (trace s) \<subseteq> set (trace t) \<and>
     (case r of
        Inl e \<Rightarrow> e = Stoi_invalid_argument \<or> e = Stoi_out_of_range
      | Inr None \<Rightarrow> True
      | Inr (Some vs) \<Rightarrow> list_all2 (read_number K (trace t)) (name # names) vs)"
    for r and t :: "('k, 'z) usb_scheme"
  have bad: "Q (Inl e) t" if "stoi x = Inl e" "sent t = sent s" "set (trace s) \<subseteq> set (trace t)" for x e t
    using that by (auto simp: Q_def stoi_def Let_def split: option.splits if_splits)
  have rest: "wp (read_seconds K names) (\<lambda>r. wp (on_ok r (\<lambda>vs. ret (Inr (map_option (Cons v) vs)))) Q) t"
    if "sent t = sent s" "set (trace s) \<subseteq> set (trace t)" "read_number K (trace t) name v" for t v
  proof (rule wp_mono [OF Cons.IH [of t]])
    fix r and t' :: "('k, 'z) usb_scheme"
    assume t': "sent t' = sent t \<and> set (trace t) \<subseteq> set (trace t') \<and>
     (case r of
        Inl e \<Rightarrow> e = Stoi_invalid_argument \<or> e = Stoi_out_of_range
      | Inr None \<Rightarrow> True
      | Inr (Some vs) \<Rightarrow> list_all2 (read_number K (trace t')) names vs)"
    then have "read_number K (trace t') name v"
      using that(3) by (auto simp: read_number_def)
    with t' that(1,2) show "wp (on_ok r (\<lambda>vs. ret (Inr (map_option (Cons v) vs)))) Q t'"
      by (auto simp: wp Q_def split: sum.splits option.splits)
  qed
  have "wp (read_seconds K (name # names)) Q s"
    unfolding read_seconds.simps ReadFileToString_def wp_bind wp_sys wp_case_prod wp_if wp_return wp_on_ok
    apply (intro allI impI conjI)
    subgoal by (auto simp: Q_def)
    subgoal by (rule bad) auto
    subgoal for r k ok c x
      by (rule rest [unfolded wp_on_ok wp_return])
        (auto simp: read_number_def overheat_file_def kOverheatStatsPath_def)
    done
  then show ?case by (simp add: Q_def [abs_def])
qed


section \<open>Construction\<close>

definition own_fields where
  "own_fields s = (mCallback s, mPartnerUp s)"

lemma put_dev_own:
  "mCallback (put_dev p d s) = mCallback s" "mPartnerUp (put_dev p d s) = mPartnerUp s"
  by (cases p; simp add: dev_simps)+

lemma keeps_monitor_constructor:
  "keeps (own_fields :: ('k, 'z) usb_scheme \<Rightarrow> _) (UsbDataSessionMonitor K a b c d e g h)"
  unfolding UsbDataSessionMonitor_def addEpollFile_def ufd_assign_def modify_dev_def
  by (intro keeps keeps_sys_field field_obs_quiet field_obsI)
    (simp_all add: own_fields_def put_dev_own)

text \<open>
  What the constructor leaves: no callback, USB data on, no controller directory cached, and a monitor that
  watches the role file, the gadget's and the two host ports' state files.
\<close>

definition usb_established :: "('k, 'z) usb_scheme \<Rightarrow> bool" where
  "usb_established t \<longleftrightarrow> mCallback t = None \<and> mUsbDataEnabled t \<and> \<not> mPartnerUp t \<and> i2c_inv t \<and>
     mI2cClientPath t = [] \<and> filePath (mDeviceState t) = kUdcStatePath \<and>
     filePath (mHost1State t) = kHost1StatePath \<and> filePath (mHost2State t) = kHost2StatePath"

lemma wp_Usb: "wp (Usb K) (\<lambda>r t. r = Inl Aborted \<or> (r = Inr () \<and> usb_established t)) s"
proof -
  let ?mon = "UsbDataSessionMonitor K kUdcUeventRegex kUdcStatePath kHost1UeventRegex kHost1StatePath
    kHost2UeventRegex kHost2StatePath kDataRolePath"
  have "wp ?mon (\<lambda>r t. (r = Inl Aborted \<or> (r = Inr () \<and> filePath (mDeviceState t) = kUdcStatePath \<and>
      filePath (mHost1State t) = kHost1StatePath \<and> filePath (mHost2State t) = kHost2StatePath)) \<and>
      own_fields t = own_fields (s\<lparr>mCallback := None, mPartnerUp := False\<rparr>)) (s\<lparr>mCallback := None, mPartnerUp := False\<rparr>)"
    by (rule wp_keep_conj [OF keeps_monitor_constructor], rule wp_mono [OF wp_UsbDataSessionMonitor]) auto
  then have "wp ?mon (\<lambda>r. wp (on_ok r (\<lambda>_. do {
       modify (\<lambda>s. s\<lparr>mUsbDataEnabled := True\<rparr>);
       modify (\<lambda>s. s\<lparr>mI2cBusNumber := - 1\<rparr>);
       modify (\<lambda>s. s\<lparr>mI2cClientPath := []\<rparr>);
       ok \<leftarrow> sys (sys_cond_init K) (\<lambda>_. []);
       if ok then ret (Inr ()) else ret (Inl Aborted) })) (\<lambda>r t. r = Inl Aborted \<or>
     (r = Inr () \<and> usb_established t)))
      (s\<lparr>mCallback := None, mPartnerUp := False\<rparr>)"
    by (rule wp_mono) (auto simp: wp usb_established_def i2c_inv_def own_fields_def)
  then show ?thesis
    by (simp add: Usb_def wp_bind wp_modify)
qed

text \<open>
  Constructing the service either aborts the process or ends with no callback, USB data on, no
  controller directory cached, and a monitor that watches the role file, the gadget's and the two host
  ports' state files.
\<close>

theorem Usb_establishes:
  "wp (Usb K) (\<lambda>r t. r = Inl Aborted \<or>
     (r = Inr () \<and> mCallback t = None \<and> mUsbDataEnabled t \<and> \<not> mPartnerUp t \<and> i2c_inv t \<and>
      mI2cClientPath t = [] \<and>
      filePath (mDeviceState t) = ''/sys/devices/platform/11110000.usb/11110000.dwc3/udc/11110000.dwc3/state'' \<and>
      filePath (mHost1State t) = ''/sys/bus/usb/devices/usb2/2-0:1.0/usb2-port1/state'' \<and>
      filePath (mHost2State t) = ''/sys/bus/usb/devices/usb3/3-0:1.0/usb3-port1/state'')) s"
  using wp_Usb [of K s]
  unfolding usb_established_def kUdcStatePath_def kHost1StatePath_def kHost2StatePath_def .

end
