(* ===== verification/GadgetState.thy ===== *)
theory GadgetState
  imports I2cClient
begin

text \<open>
  Data, constants and state of the USB gadget service (\<^verbatim>\<open>usb/gadget/UsbGadget.h\<close> and the
  head of \<^verbatim>\<open>UsbGadget.cpp\<close>). Names that the USB service declares too carry the suffix
  \<open>_g\<close>.

  The helpers of \<^verbatim>\<open>pixelusb\<close> (\<^verbatim>\<open>linkFunction\<close>, \<^verbatim>\<open>setVidPid\<close>,
  \<^verbatim>\<open>resetGadget\<close>, \<^verbatim>\<open>MonitorFfs\<close> and others) are not under \<^verbatim>\<open>src/\<close>: they are
  fields of \<open>gadget_platform\<close>, and their calls are events of the trace. So are the numeric values of
  \<^verbatim>\<open>GadgetFunction\<close>, which AIDL assigns; \<open>aidl_value\<close> is the documented assignment, for the
  properties that need one.
\<close>

datatype Status_g =
    SUCCESS_g | ERROR_g | FUNCTIONS_APPLIED | FUNCTIONS_NOT_APPLIED | CONFIGURATION_NOT_SUPPORTED
  | Status_other int    \<comment> \<open>a number without enumerator: the sources cast library results\<close>

datatype UsbSpeed = UNKNOWN_g | LOWSPEED | FULLSPEED | HIGHSPEED | SUPERSPEED | SUPERSPEED_10Gb

datatype GadgetFunction =
    NONE | ADB | ACCESSORY | MTP | MIDI | PTP | RNDIS | AUDIO_SOURCE | UVC | NCM

text \<open>\<^verbatim>\<open>ScopedAStatus\<close>: ok, or a service specific error with its message.\<close>

datatype aidl_status = Aidl_ok | ServiceSpecific int string

text \<open>Calls of the callback passed in (its first argument), then calls of the \<^verbatim>\<open>pixelusb\<close> library.\<close>

datatype gadget_note =
    SetCurrentUsbFunctionsCb nat "64 word" Status_g int
  | GetCurrentUsbFunctionsCb nat "64 word" Status_g int
  | GetUsbSpeedCb nat UsbSpeed int
  | ResetCb nat Status_g int
  | ResetGadget Status_g
  | SetVidPid string string Status_g
  | AddGenericAndroidFunctions "64 word" int Status_g
  | AddAdb int Status_g
  | LinkFunction string int int
  | MonitorReset
  | RegisterFunctionsApplied
  | StartMonitor
  | WaitForPullUp "64 word" bool

record 'k gadget_platform = "('k, gadget_note) platform" +
  gadget_function :: "GadgetFunction \<Rightarrow> 64 word"
  OS_DESC_PATH :: string
  PULLUP_PATH_g :: string
  kDisconnectWaitUs :: nat
  kUvcEnabled :: string
  lib_ParseUint :: "string \<Rightarrow> 32 word option"
  sys_access :: "string \<Rightarrow> 'k \<Rightarrow> int \<times> 'k"
  sys_usleep :: "nat \<Rightarrow> 'k \<Rightarrow> unit \<times> 'k"
  sys_getboolprop :: "string \<Rightarrow> bool \<Rightarrow> 'k \<Rightarrow> bool \<times> 'k"
  lib_getVendorFunctions :: "'k \<Rightarrow> string \<times> 'k"
  lib_resetGadget :: "'k \<Rightarrow> Status_g \<times> 'k"
  lib_setVidPid :: "string \<Rightarrow> string \<Rightarrow> 'k \<Rightarrow> Status_g \<times> 'k"
  lib_linkFunction :: "string \<Rightarrow> int \<Rightarrow> 'k \<Rightarrow> int \<times> 'k"
  lib_addGenericAndroidFunctions ::
    "64 word \<Rightarrow> bool \<Rightarrow> int \<Rightarrow> 'k \<Rightarrow> (Status_g \<times> bool \<times> int) \<times> 'k"
    \<comment> \<open>the status, and what it leaves in \<^verbatim>\<open>ffsEnabled\<close> and \<^verbatim>\<open>i\<close>\<close>
  lib_addAdb :: "int \<Rightarrow> 'k \<Rightarrow> (Status_g \<times> int) \<times> 'k"
  lib_isMonitorRunning :: "'k \<Rightarrow> bool \<times> 'k"
  lib_monitor_reset :: "'k \<Rightarrow> unit \<times> 'k"
  lib_registerFunctionsAppliedCallback :: "'k \<Rightarrow> unit \<times> 'k"
  lib_startMonitor :: "'k \<Rightarrow> unit \<times> 'k"
  lib_waitForPullUp :: "64 word \<Rightarrow> 'k \<Rightarrow> (bool \<times> bool list) \<times> 'k"
    \<comment> \<open>its result, and the calls of the registered callback the monitor thread made meanwhile\<close>

record 'k gadget = "('k, gadget_note) i2c_world" +
  mGadgetIrqPath :: string
  mCurrentUsbFunctions :: "64 word"
  mCurrentUsbFunctionsApplied :: bool
  mUsbSpeed :: UsbSpeed

section \<open>Constants\<close>

definition kAccessoryLimitCurrent :: string where
  "kAccessoryLimitCurrent = ''usb_limit_accessory_current''"
definition kAccessoryLimitCurrentEnable :: string where
  "kAccessoryLimitCurrentEnable = ''usb_limit_accessory_enable''"
definition kUpdateSdpEnumTimeout :: string where
  "kUpdateSdpEnumTimeout = ''update_sdp_enum_timeout''"
definition kHsi2cPath_g :: string where
  "kHsi2cPath_g = ''/sys/devices/platform/10d50000.hsi2c''"
definition kMax77759TcpcDevName_g :: string where
  "kMax77759TcpcDevName_g = ''i2c-max77759tcpc''"
definition kMax77759TcpcClientId_g :: nat where
  "kMax77759TcpcClientId_g = 0x25"

definition kGadgetName_g :: string where "kGadgetName_g = ''11110000.dwc3''"
definition kProcInterruptsPath :: string where "kProcInterruptsPath = ''/proc/interrupts''"
definition kProcIrqPath :: string where "kProcIrqPath = ''/proc/irq/''"
definition kSmpAffinityList :: string where "kSmpAffinityList = ''/smp_affinity_list''"
definition UDC_PATH :: string where "UDC_PATH = ''/sys/class/udc/11110000.dwc3/''"
definition SPEED_PATH :: string where "SPEED_PATH = UDC_PATH @ ''current_speed''"
definition BIG_CORE :: string where "BIG_CORE = ''6''"
definition MEDIUM_CORE :: string where "MEDIUM_CORE = ''4''"
definition POWER_SUPPLY_PATH :: string where "POWER_SUPPLY_PATH = ''/sys/class/power_supply/usb/''"
definition USB_PORT0_PATH :: string where "USB_PORT0_PATH = ''/sys/class/typec/port0/''"
definition CURRENT_USB_TYPE_PATH :: string where
  "CURRENT_USB_TYPE_PATH = POWER_SUPPLY_PATH @ ''usb_type''"
definition CURRENT_USB_POWER_OPERATION_MODE_PATH :: string where
  "CURRENT_USB_POWER_OPERATION_MODE_PATH = USB_PORT0_PATH @ ''power_operation_mode''"

section \<open>The values AIDL documents\<close>

primrec aidl_value :: "GadgetFunction \<Rightarrow> 64 word" where
  "aidl_value NONE = 0"
| "aidl_value ADB = 1"
| "aidl_value ACCESSORY = 2"
| "aidl_value MTP = 4"
| "aidl_value MIDI = 8"
| "aidl_value PTP = 16"
| "aidl_value RNDIS = 32"
| "aidl_value AUDIO_SOURCE = 64"
| "aidl_value UVC = 128"
| "aidl_value NCM = 1024"

section \<open>Calls of the callback\<close>

definition callback_call ::
  "'k gadget_platform \<Rightarrow> nat option \<Rightarrow> (nat \<Rightarrow> gadget_note) \<Rightarrow> (('k, 'z) gadget_scheme, bool) state" where
  \<comment> \<open>\<^verbatim>\<open>if (callback) callback->...\<close>, with \<^verbatim>\<open>isOk()\<close> of the status it returns\<close>
  "callback_call K callback n = (case callback of None \<Rightarrow> ret True | Some cb \<Rightarrow> send K (n cb))"

definition usleep :: "'k gadget_platform \<Rightarrow> nat \<Rightarrow> (('k, 'z) gadget_scheme, unit) state" where
  "usleep K n = sys (sys_usleep K n) (\<lambda>_. [Slept n])"

definition linkFunction ::
  "'k gadget_platform \<Rightarrow> string \<Rightarrow> int \<Rightarrow> (('k, 'z) gadget_scheme, int) state" where
  "linkFunction K fn i = sys (lib_linkFunction K fn i) (\<lambda>r. [LibCall (LinkFunction fn i r)])"

definition setVidPid ::
  "'k gadget_platform \<Rightarrow> string \<Rightarrow> string \<Rightarrow> (('k, 'z) gadget_scheme, Status_g) state" where
  "setVidPid K vid pid = sys (lib_setVidPid K vid pid) (\<lambda>r. [LibCall (SetVidPid vid pid r)])"

definition getVendorFunctions :: "'k gadget_platform \<Rightarrow> (('k, 'z) gadget_scheme, string) state" where
  "getVendorFunctions K = sys (lib_getVendorFunctions K) (\<lambda>_. [])"

end
