(* ===== verification/UsbGadget.thy ===== *)
theory UsbGadget
  imports GadgetState
begin

text \<open>
  The operations of \<^verbatim>\<open>usb/gadget/UsbGadget.cpp\<close>, in the order of the file but for the
  I2C lookup, which comes first because the others call it. \<open>setCurrentUsbFunctions\<close> runs with
  \<^verbatim>\<open>mLockSetCurrentFunction\<close> held; the monitor thread's calls of
  \<open>currentFunctionsAppliedCallback\<close> that arrive while it waits for the pull-up are run there, those
  at other times are runs of that operation of their own.
\<close>

unbundle bit_operations_syntax

section \<open>Construction and the I2C lookup\<close>

definition UsbGadget :: "'k gadget_platform \<Rightarrow> (('k, 'z) gadget_scheme, fault + unit) state" where
  \<comment> \<open>the constructor: \<^verbatim>\<open>mCurrentUsbFunctions\<close>, \<^verbatim>\<open>mCurrentUsbFunctionsApplied\<close> and
     \<^verbatim>\<open>mUsbSpeed\<close> keep what the memory held\<close>
  "UsbGadget K = do {
     modify (\<lambda>s. s\<lparr>mGadgetIrqPath := [], mI2cBusNumber := - 1, mI2cClientPath := []\<rparr>);
     r \<leftarrow> sys (sys_access K (OS_DESC_PATH K)) (\<lambda>_. []);
     if r \<noteq> 0 then ret (Inl Aborted) else ret (Inr ())
   }"

fun scan_bus_g :: "dirent list \<Rightarrow> 32 word option" where
  "scan_bus_g [] = None"
| "scan_bus_g (ep # eps) =
     (if d_type ep = DT_DIR then
        (if prefix ''i2c-'' (d_name ep) then
           (case sscanf_u (drop 4 (d_name ep)) of Some n \<Rightarrow> Some n | None \<Rightarrow> scan_bus_g eps)
         else scan_bus_g eps)
      else scan_bus_g eps)"

definition getI2cBusNumber_g :: "'k gadget_platform \<Rightarrow> (('k, 'z) gadget_scheme, int) state" where
  "getI2cBusNumber_g K = do {
     n \<leftarrow> gets mI2cBusNumber;
     if 0 \<le> n then ret n
     else do {
       dp \<leftarrow> opendir K kHsi2cPath_g;
       (case dp of
          None \<Rightarrow> ret ()
        | Some eps \<Rightarrow>
            (case scan_bus_g eps of
               None \<Rightarrow> ret ()
             | Some busNumber \<Rightarrow> modify (\<lambda>s. s\<lparr>mI2cBusNumber := sint busNumber\<rparr>)));
       gets mI2cBusNumber
     }
   }"

definition client_paths_g :: "int \<Rightarrow> string \<times> string" where
  \<comment> \<open>the two \<^verbatim>\<open>snprintf\<close> buffers, labelled and unlabelled\<close>
  "client_paths_g bus =
     (snprintf PATH_MAX (kHsi2cPath_g @ ''/i2c-'' @ show_int bus @ ''/'' @ kMax77759TcpcDevName_g),
      snprintf PATH_MAX (kHsi2cPath_g @ ''/i2c-'' @ show_int bus @ ''/'' @ show_int bus @ ''-''
        @ pad0 4 (show_hex kMax77759TcpcClientId_g)))"

definition getI2cClientPath_g :: "'k gadget_platform \<Rightarrow> (('k, 'z) gadget_scheme, string) state" where
  "getI2cClientPath_g K = do {
     p \<leftarrow> gets mI2cClientPath;
     if p \<noteq> [] then ret p
     else do {
       n \<leftarrow> getI2cBusNumber_g K;
       if n < 0 then ret []
       else do {
         bus \<leftarrow> gets mI2cBusNumber;
         let (i2cClientPathLabeled, i2cClientPathUnLabeled) = client_paths_g bus;
         dp \<leftarrow> opendir K i2cClientPathLabeled;
         if dp \<noteq> None then do {
           modify (\<lambda>s. s\<lparr>mI2cClientPath := i2cClientPathLabeled\<rparr>);
           gets mI2cClientPath
         } else do {
           dp2 \<leftarrow> opendir K i2cClientPathUnLabeled;
           if dp2 \<noteq> None then do {
             modify (\<lambda>s. s\<lparr>mI2cClientPath := i2cClientPathUnLabeled\<rparr>);
             gets mI2cClientPath
           } else ret []
         }
       }
     }
   }"

lemma scan_bus_g_eq: "scan_bus_g eps = scan_bus eps"
  by (induction eps) (simp_all add: sscanf_i2c_def split: option.split)

text \<open>The two copies of the lookup are one function, so its laws hold for the gadget service as well.\<close>

lemma i2c_copies:
  "getI2cBusNumber_g K = getI2cBusNumber K" "getI2cClientPath_g K = getI2cClientPath K"
proof -
  show bus: "getI2cBusNumber_g K = getI2cBusNumber K"
    unfolding getI2cBusNumber_g_def getI2cBusNumber_def scan_bus_g_eq kHsi2cPath_g_def kHsi2cPath_def
    by (rule refl)
  show "getI2cClientPath_g K = getI2cClientPath K"
    unfolding getI2cClientPath_g_def getI2cClientPath_def bus client_paths_g_def labeled_path_def
      unlabeled_path_def kHsi2cPath_g_def kHsi2cPath_def kMax77759TcpcDevName_g_def
      kMax77759TcpcDevName_def kMax77759TcpcClientId_g_def kMax77759TcpcClientId_def
      Let_def prod.case
    by (rule refl)
qed

section \<open>The interrupt of the gadget\<close>

definition newline :: string where
  "newline = [CHR 0x0A]"

definition irq_number :: "string \<Rightarrow> string" where
  \<comment> \<open>\<^verbatim>\<open>single_irq.substr(0, single_irq.find_first_of(":"))\<close>\<close>
  "irq_number single_irq = (case find_str single_irq '':'' of
       None \<Rightarrow> single_irq
     | Some dwc3_pos \<Rightarrow> substr single_irq 0 dwc3_pos)"

function find_irq :: "(string \<Rightarrow> 32 word option) \<Rightarrow> string \<Rightarrow> string option" where
  \<comment> \<open>the loop, on the text from \<^verbatim>\<open>read_pos\<close> on: the number of the first line with dwc3\<close>
  "find_irq ParseUint irqs = (case find_str irqs newline of
       None \<Rightarrow> None
     | Some found_pos \<Rightarrow>
         (let single_irq = substr irqs 0 found_pos
          in if contains single_irq ''dwc3''
             then (case ParseUint (irq_number single_irq) of
                     None \<Rightarrow> None
                   | Some dwc3_irq_number \<Rightarrow> Some (irq_number single_irq))
             else find_irq ParseUint (drop (found_pos + 1) irqs)))"
  by pat_completeness auto
termination
proof (relation "measure (length \<circ> snd)")
  fix ParseUint :: "string \<Rightarrow> 32 word option" and irqs found_pos single_irq
  assume "find_str irqs newline = Some found_pos"
  then have "irqs \<noteq> []" by (auto simp: newline_def)
  then show "((ParseUint, drop (found_pos + 1) irqs), ParseUint, irqs) \<in> measure (length \<circ> snd)"
    by simp
qed simp

declare find_irq.simps [simp del]

definition getUsbGadgetIrqPath ::
  "'k gadget_platform \<Rightarrow> (('k, 'z) gadget_scheme, Status_g) state" where
  "getUsbGadgetIrqPath K = do {
     (ok, irqs) \<leftarrow> ReadFileToString K kProcInterruptsPath;
     if \<not> ok then ret ERROR_g
     else (case find_irq (lib_ParseUint K) irqs of
         None \<Rightarrow> ret ERROR_g
       | Some n \<Rightarrow> do {
           modify (\<lambda>s. s\<lparr>mGadgetIrqPath := kProcIrqPath @ n @ kSmpAffinityList\<rparr>);
           ret SUCCESS_g
         })
   }"

section \<open>Queries and callbacks\<close>

definition updateSdpEnumTimeout :: "'k gadget_platform \<Rightarrow> (('k, 'z) gadget_scheme, unit) state" where
  "updateSdpEnumTimeout K = do {
     i2cPath \<leftarrow> getI2cClientPath_g K;
     if i2cPath = [] then ret ()
     else do {
       WriteStringToFile K ''1'' (i2cPath @ ''/'' @ kUpdateSdpEnumTimeout);
       ret ()
     }
   }"

definition currentFunctionsAppliedCallback ::
  "'k gadget_platform \<Rightarrow> bool \<Rightarrow> (('k, 'z) gadget_scheme, unit) state" where
  "currentFunctionsAppliedCallback K functionsApplied = do {
     modify (\<lambda>s. s\<lparr>mCurrentUsbFunctionsApplied := functionsApplied\<rparr>);
     updateSdpEnumTimeout K
   }"

definition getCurrentUsbFunctions ::
  "'k gadget_platform \<Rightarrow> nat option \<Rightarrow> int \<Rightarrow> (('k, 'z) gadget_scheme, fault + aidl_status) state" where
  "getCurrentUsbFunctions K callback in_transactionId = (case callback of
       None \<Rightarrow> ret (Inl Null_dereference)
     | Some cb \<Rightarrow> do {
         functions \<leftarrow> gets mCurrentUsbFunctions;
         applied \<leftarrow> gets mCurrentUsbFunctionsApplied;
         send K (GetCurrentUsbFunctionsCb cb functions
           (if applied then FUNCTIONS_APPLIED else FUNCTIONS_NOT_APPLIED) in_transactionId);
         ret (Inr Aidl_ok)
       })"

definition speed_of :: "string \<Rightarrow> UsbSpeed" where
  "speed_of current_speed =
     (if current_speed = ''low-speed'' then LOWSPEED
      else if current_speed = ''full-speed'' then FULLSPEED
      else if current_speed = ''high-speed'' then HIGHSPEED
      else if current_speed = ''super-speed'' then SUPERSPEED
      else if current_speed = ''super-speed-plus'' then SUPERSPEED_10Gb
      else if current_speed = ''UNKNOWN'' then UNKNOWN_g
      else UNKNOWN_g)"

definition getUsbSpeed ::
  "'k gadget_platform \<Rightarrow> nat option \<Rightarrow> int \<Rightarrow> (('k, 'z) gadget_scheme, aidl_status) state" where
  "getUsbSpeed K callback in_transactionId = do {
     (ok, current_speed) \<leftarrow> ReadFileToString K SPEED_PATH;
     modify (\<lambda>s. s\<lparr>mUsbSpeed := if ok then speed_of (lib_trim K current_speed) else UNKNOWN_g\<rparr>);
     speed \<leftarrow> gets mUsbSpeed;
     callback_call K callback (\<lambda>cb. GetUsbSpeedCb cb speed in_transactionId);
     ret Aidl_ok
   }"

section \<open>Taking the gadget down and up\<close>

definition tearDownGadget :: "'k gadget_platform \<Rightarrow> (('k, 'z) gadget_scheme, Status_g) state" where
  "tearDownGadget K = do {
     r \<leftarrow> sys (lib_resetGadget K) (\<lambda>r. [LibCall (ResetGadget r)]);
     if r \<noteq> SUCCESS_g then ret ERROR_g
     else do {
       running \<leftarrow> sys (lib_isMonitorRunning K) (\<lambda>_. []);
       only_if running (sys (lib_monitor_reset K) (\<lambda>_. [LibCall MonitorReset]));
       ret SUCCESS_g
     }
   }"

definition vendor_user :: "string \<Rightarrow> bool" where
  "vendor_user v \<longleftrightarrow> v = ''user'' \<or> v = ''''"

definition GetBoolProperty ::
  "'k gadget_platform \<Rightarrow> string \<Rightarrow> bool \<Rightarrow> (('k, 'z) gadget_scheme, bool) state" where
  "GetBoolProperty K p d = sys (sys_getboolprop K p d) (\<lambda>_. [])"

definition vid_pid_switch ::
  "'k gadget_platform \<Rightarrow> 64 word \<Rightarrow> string \<Rightarrow> (('k, 'z) gadget_scheme, Status_g) state" where
  \<comment> \<open>the \<^verbatim>\<open>switch\<close>; \<open>v\<close> is \<^verbatim>\<open>vendorFunctions\<close>\<close>
  "vid_pid_switch K functions v = (
     if functions = gadget_function K MTP then
       (if \<not> vendor_user v then ret CONFIGURATION_NOT_SUPPORTED else setVidPid K ''0x18d1'' ''0x4ee1'')
     else if functions = gadget_function K ADB OR gadget_function K MTP then
       (if \<not> vendor_user v then ret CONFIGURATION_NOT_SUPPORTED else setVidPid K ''0x18d1'' ''0x4ee2'')
     else if functions = gadget_function K RNDIS
       \<or> functions = gadget_function K RNDIS OR gadget_function K NCM then
       (if \<not> vendor_user v then ret CONFIGURATION_NOT_SUPPORTED else setVidPid K ''0x18d1'' ''0x4ee3'')
     else if functions = gadget_function K ADB OR gadget_function K RNDIS
       \<or> functions = gadget_function K ADB OR gadget_function K RNDIS OR gadget_function K NCM then
       (if v = ''dm'' then setVidPid K ''0x04e8'' ''0x6862''
       else if \<not> vendor_user v then ret CONFIGURATION_NOT_SUPPORTED else setVidPid K ''0x18d1'' ''0x4ee4'')
     else if functions = gadget_function K PTP then
       (if \<not> vendor_user v then ret CONFIGURATION_NOT_SUPPORTED else setVidPid K ''0x18d1'' ''0x4ee5'')
     else if functions = gadget_function K ADB OR gadget_function K PTP then
       (if \<not> vendor_user v then ret CONFIGURATION_NOT_SUPPORTED else setVidPid K ''0x18d1'' ''0x4ee6'')
     else if functions = gadget_function K ADB then
       (if v = ''dm'' then setVidPid K ''0x04e8'' ''0x6862''
       else if v = ''etr_miu'' then setVidPid K ''0x18d1'' ''0x4ee2''
       else if v = ''uwb_acm'' then setVidPid K ''0x18d1'' ''0x4ee2''
       else if \<not> vendor_user v then ret CONFIGURATION_NOT_SUPPORTED else setVidPid K ''0x18d1'' ''0x4ee7'')
     else if functions = gadget_function K MIDI then
       (if \<not> vendor_user v then ret CONFIGURATION_NOT_SUPPORTED else setVidPid K ''0x18d1'' ''0x4ee8'')
     else if functions = gadget_function K ADB OR gadget_function K MIDI then
       (if \<not> vendor_user v then ret CONFIGURATION_NOT_SUPPORTED else setVidPid K ''0x18d1'' ''0x4ee9'')
     else if functions = gadget_function K ACCESSORY then
       (setVidPid K ''0x18d1'' ''0x2d00'')
     else if functions = gadget_function K ADB OR gadget_function K ACCESSORY then
       (setVidPid K ''0x18d1'' ''0x2d01'')
     else if functions = gadget_function K AUDIO_SOURCE then
       (setVidPid K ''0x18d1'' ''0x2d02'')
     else if functions = gadget_function K ADB OR gadget_function K AUDIO_SOURCE then
       (setVidPid K ''0x18d1'' ''0x2d03'')
     else if functions = gadget_function K ACCESSORY OR gadget_function K AUDIO_SOURCE then
       (setVidPid K ''0x18d1'' ''0x2d04'')
     else if functions = gadget_function K ADB OR gadget_function K ACCESSORY OR gadget_function K AUDIO_SOURCE then
       (setVidPid K ''0x18d1'' ''0x2d05'')
     else if functions = gadget_function K NCM then
       (setVidPid K ''0x18d1'' ''0x4eeb'')
     else if functions = gadget_function K ADB OR gadget_function K NCM then
       (if v = ''dm'' then setVidPid K ''0x04e8'' ''0x6862'' else setVidPid K ''0x18d1'' ''0x4eec'')
     else if functions = gadget_function K UVC then
       (if \<not> vendor_user v then ret CONFIGURATION_NOT_SUPPORTED else do {
         uvc \<leftarrow> GetBoolProperty K (kUvcEnabled K) False;
         if \<not> uvc then ret CONFIGURATION_NOT_SUPPORTED else setVidPid K ''0x18d1'' ''0x4eed''
       })
     else if functions = gadget_function K ADB OR gadget_function K UVC then
       (if \<not> vendor_user v then ret CONFIGURATION_NOT_SUPPORTED else do {
         uvc \<leftarrow> GetBoolProperty K (kUvcEnabled K) False;
         if \<not> uvc then ret CONFIGURATION_NOT_SUPPORTED else setVidPid K ''0x18d1'' ''0x4eee''
       })
     else ret CONFIGURATION_NOT_SUPPORTED)"

definition validateAndSetVidPid ::
  "'k gadget_platform \<Rightarrow> 64 word \<Rightarrow> (('k, 'z) gadget_scheme, Status_g) state" where
  "validateAndSetVidPid K functions = do {
     vendorFunctions \<leftarrow> getVendorFunctions K;
     vid_pid_switch K functions vendorFunctions
   }"

definition reset_failed :: "'k gadget_platform \<Rightarrow> nat option \<Rightarrow> int \<Rightarrow> string \<Rightarrow>
    (('k, 'z) gadget_scheme, aidl_status) state" where
  "reset_failed K callback in_transactionId msg = do {
     callback_call K callback (\<lambda>cb. ResetCb cb ERROR_g in_transactionId);
     ret (ServiceSpecific (- 1) msg)
   }"

definition reset ::
  "'k gadget_platform \<Rightarrow> nat option \<Rightarrow> int \<Rightarrow> (('k, 'z) gadget_scheme, aidl_status) state" where
  "reset K callback in_transactionId = do {
     down \<leftarrow> WriteStringToFile K ''none'' (PULLUP_PATH_g K);
     if \<not> down then reset_failed K callback in_transactionId ''Gadget cannot be pulled down''
     else do {
       usleep K (kDisconnectWaitUs K);
       up \<leftarrow> WriteStringToFile K kGadgetName_g (PULLUP_PATH_g K);
       if \<not> up then reset_failed K callback in_transactionId ''Gadget cannot be pulled up''
       else do {
         callback_call K callback (\<lambda>cb. ResetCb cb SUCCESS_g in_transactionId);
         ret Aidl_ok
       }
     }
   }"

section \<open>Configuring the functions\<close>

fun link_all ::
  "'k gadget_platform \<Rightarrow> string list \<Rightarrow> int \<Rightarrow> (('k, 'z) gadget_scheme, int option) state" where
  \<comment> \<open>\<^verbatim>\<open>if (linkFunction(fn, i++)) return Status::ERROR;\<close> for each name in turn: None, or the next \<^verbatim>\<open>i\<close>\<close>
  "link_all K [] i = ret (Some i)"
| "link_all K (fn # fns) i = do {
     r \<leftarrow> linkFunction K fn i;
     if r \<noteq> 0 then ret None else link_all K fns (i + 1)
   }"

definition vendor_links :: "bool \<Rightarrow> string \<Rightarrow> string list" where
  \<comment> \<open>what is linked for \<^verbatim>\<open>vendorFunctions\<close>, given whether RNDIS is requested\<close>
  "vendor_links rndis v =
     (if v = ''dm'' then (if rndis then [''acm.gs6'', ''dm.gs7''] else [''dm.gs7'', ''acm.gs6''])
      else if v = ''etr_miu'' then [''etr_miu.gs11'']
      else if v = ''uwb_acm'' then [''acm.uwb0'']
      else [])"

definition add_adb ::
  "'k gadget_platform \<Rightarrow> 64 word \<Rightarrow> bool \<Rightarrow> int \<Rightarrow>
    (('k, 'z) gadget_scheme, Status_g \<times> bool \<times> int) state" where
  \<comment> \<open>the status, \<^verbatim>\<open>ffsEnabled\<close> and \<^verbatim>\<open>i\<close>\<close>
  "add_adb K functions ffsEnabled i =
     (if functions AND gadget_function K ADB \<noteq> 0 then do {
        (st, j) \<leftarrow> sys (lib_addAdb K i) (\<lambda>(st, j). [LibCall (AddAdb i st)]);
        ret (st, True, j)
      } else ret (SUCCESS_g, ffsEnabled, i))"

definition link_functions ::
  "'k gadget_platform \<Rightarrow> 64 word \<Rightarrow> (('k, 'z) gadget_scheme, bool option) state" where
  \<comment> \<open>the first part of \<open>setupFunctions\<close>: None for \<^verbatim>\<open>return Status::ERROR\<close>, else \<^verbatim>\<open>ffsEnabled\<close>\<close>
  "link_functions K functions = do {
     (st, ffs1, i1) \<leftarrow> sys (lib_addGenericAndroidFunctions K functions False 0)
       (\<lambda>(st, ffs, i). [LibCall (AddGenericAndroidFunctions functions 0 st)]);
     if st \<noteq> SUCCESS_g then ret None
     else do {
       vendorFunctions \<leftarrow> getVendorFunctions K;
       r2 \<leftarrow> link_all K (vendor_links (functions AND gadget_function K RNDIS \<noteq> 0) vendorFunctions) i1;
       (case r2 of
          None \<Rightarrow> ret None
        | Some i2 \<Rightarrow> do {
            (st3, ffs3, i3) \<leftarrow> add_adb K functions ffs1 i2;
            if st3 \<noteq> SUCCESS_g then ret None
            else do {
              r4 \<leftarrow> link_all K
                (if functions AND gadget_function K NCM \<noteq> 0 then [''ncm.gs9''] else []) i3;
              ret (map_option (\<lambda>_. ffs3) r4)
            }
          })
     }
   }"

definition pull_up_now ::
  "'k gadget_platform \<Rightarrow> 64 word \<Rightarrow> nat option \<Rightarrow> int \<Rightarrow> (('k, 'z) gadget_scheme, Status_g) state" where
  \<comment> \<open>\<open>setupFunctions\<close> when there are no ffs functions\<close>
  "pull_up_now K functions callback in_transactionId = do {
     ok \<leftarrow> WriteStringToFile K kGadgetName_g (PULLUP_PATH_g K);
     if \<not> ok then ret ERROR_g
     else do {
       modify (\<lambda>s. s\<lparr>mCurrentUsbFunctionsApplied := True\<rparr>);
       callback_call K callback
         (\<lambda>cb. SetCurrentUsbFunctionsCb cb functions SUCCESS_g in_transactionId);
       updateSdpEnumTimeout K;
       ret SUCCESS_g
     }
   }"

definition monitor_pull_up ::
  "'k gadget_platform \<Rightarrow> 64 word \<Rightarrow> nat option \<Rightarrow> 64 word \<Rightarrow> int \<Rightarrow>
    (('k, 'z) gadget_scheme, Status_g) state" where
  \<comment> \<open>\<open>setupFunctions\<close> when the ffs monitor pulls the gadget up\<close>
  "monitor_pull_up K functions callback timeout in_transactionId = do {
     sys (lib_registerFunctionsAppliedCallback K) (\<lambda>_. [LibCall RegisterFunctionsApplied]);
     sys (lib_startMonitor K) (\<lambda>_. [LibCall StartMonitor]);
     (case callback of
        None \<Rightarrow> ret SUCCESS_g
      | Some cb \<Rightarrow> do {
          (pullup, applied) \<leftarrow> sys (lib_waitForPullUp K timeout)
            (\<lambda>(r, _). [LibCall (WaitForPullUp timeout r)]);
          for_each applied (currentFunctionsAppliedCallback K);
          ok \<leftarrow> send K (SetCurrentUsbFunctionsCb cb functions
            (if pullup then SUCCESS_g else ERROR_g) in_transactionId);
          ret (if \<not> ok then ERROR_g else SUCCESS_g)
        })
   }"

definition setupFunctions ::
  "'k gadget_platform \<Rightarrow> 64 word \<Rightarrow> nat option \<Rightarrow> 64 word \<Rightarrow> int \<Rightarrow>
    (('k, 'z) gadget_scheme, Status_g) state" where
  "setupFunctions K functions callback timeout in_transactionId = do {
     r \<leftarrow> link_functions K functions;
     (case r of
        None \<Rightarrow> ret ERROR_g
      | Some ffsEnabled \<Rightarrow>
          if \<not> ffsEnabled then pull_up_now K functions callback in_transactionId
          else monitor_pull_up K functions callback timeout in_transactionId)
   }"

section \<open>The request\<close>

definition move_irq :: "'k gadget_platform \<Rightarrow> 64 word \<Rightarrow> (('k, 'z) gadget_scheme, unit) state" where
  "move_irq K functions = do {
     p \<leftarrow> gets mGadgetIrqPath;
     only_if (p \<noteq> []) (do {
       WriteStringToFile K
         (if functions AND gadget_function K NCM \<noteq> 0 then BIG_CORE else MEDIUM_CORE) p;
       ret ()
     })
   }"

definition read_trimmed ::
  "'k gadget_platform \<Rightarrow> string \<Rightarrow> (('k, 'z) gadget_scheme, string) state" where
  \<comment> \<open>\<^verbatim>\<open>if (ReadFileToString(p, &x)) x = Trim(x);\<close> for an empty \<^verbatim>\<open>x\<close>\<close>
  "read_trimmed K p = do {
     (ok, x) \<leftarrow> ReadFileToString K p;
     ret (if ok then lib_trim K x else x)
   }"

definition limit_accessory ::
  "'k gadget_platform \<Rightarrow> 64 word \<Rightarrow> string \<Rightarrow> string \<Rightarrow> (('k, 'z) gadget_scheme, unit) state" where
  "limit_accessory K functions accessoryCurrentLimitPath accessoryCurrentLimitEnablePath = do {
     current_usb_type \<leftarrow> read_trimmed K CURRENT_USB_TYPE_PATH;
     current_usb_power_operation_mode \<leftarrow> read_trimmed K CURRENT_USB_POWER_OPERATION_MODE_PATH;
     if functions AND gadget_function K ACCESSORY \<noteq> 0 \<and>
        current_usb_type = ''Unknown SDP [CDP] DCP'' \<and>
        (current_usb_power_operation_mode = ''default'' \<or> current_usb_power_operation_mode = ''1.5A'')
     then do {
       limited \<leftarrow> (if accessoryCurrentLimitPath = [] then ret False
                  else WriteStringToFile K ''1300000'' accessoryCurrentLimitPath);
       only_if (limited \<and> accessoryCurrentLimitEnablePath \<noteq> [])
         (do { WriteStringToFile K ''1'' accessoryCurrentLimitEnablePath; ret () })
     } else
       only_if (accessoryCurrentLimitEnablePath \<noteq> [])
         (do { WriteStringToFile K ''0'' accessoryCurrentLimitEnablePath; ret () })
   }"

definition set_failed ::
  "'k gadget_platform \<Rightarrow> 64 word \<Rightarrow> nat option \<Rightarrow> int \<Rightarrow> Status_g \<Rightarrow>
    (('k, 'z) gadget_scheme, aidl_status) state" where
  \<comment> \<open>the code at the label \<^verbatim>\<open>error\<close>\<close>
  "set_failed K functions callback in_transactionId status = (case callback of
       None \<Rightarrow> ret (ServiceSpecific (- 1) ''Usb Gadget setcurrent functions failed'')
     | Some cb \<Rightarrow> do {
         send K (SetCurrentUsbFunctionsCb cb functions status in_transactionId);
         ret (ServiceSpecific (- 1) ''Error while calling setCurrentUsbFunctionsCb'')
       })"

definition set_none ::
  "'k gadget_platform \<Rightarrow> 64 word \<Rightarrow> nat option \<Rightarrow> int \<Rightarrow> (('k, 'z) gadget_scheme, aidl_status) state" where
  "set_none K functions callback in_transactionId = (case callback of
       None \<Rightarrow> ret (ServiceSpecific (- 1) ''callback == NULL'')
     | Some cb \<Rightarrow> do {
         send K (SetCurrentUsbFunctionsCb cb functions SUCCESS_g in_transactionId);
         ret (ServiceSpecific (- 1) ''Error while calling setCurrentUsbFunctionsCb'')
       })"

definition configure ::
  "'k gadget_platform \<Rightarrow> 64 word \<Rightarrow> nat option \<Rightarrow> 64 word \<Rightarrow> int \<Rightarrow> string \<Rightarrow> string \<Rightarrow>
    (('k, 'z) gadget_scheme, aidl_status) state" where
  \<comment> \<open>\<open>setCurrentUsbFunctions\<close> from \<open>validateAndSetVidPid\<close> on\<close>
  "configure K functions callback timeout in_transactionId accessoryCurrentLimitPath
      accessoryCurrentLimitEnablePath = do {
     status \<leftarrow> validateAndSetVidPid K functions;
     if status \<noteq> SUCCESS_g then set_failed K functions callback in_transactionId status
     else do {
       status \<leftarrow> setupFunctions K functions callback timeout in_transactionId;
       if status \<noteq> SUCCESS_g then set_failed K functions callback in_transactionId status
       else do {
         move_irq K functions;
         limit_accessory K functions accessoryCurrentLimitPath accessoryCurrentLimitEnablePath;
         ret Aidl_ok
       }
     }
   }"

definition setCurrentUsbFunctions ::
  "'k gadget_platform \<Rightarrow> 64 word \<Rightarrow> nat option \<Rightarrow> 64 word \<Rightarrow> int \<Rightarrow>
    (('k, 'z) gadget_scheme, aidl_status) state" where
  "setCurrentUsbFunctions K functions callback timeout in_transactionId = do {
     modify (\<lambda>s. s\<lparr>mCurrentUsbFunctions := functions, mCurrentUsbFunctionsApplied := False\<rparr>);
     i2cPath \<leftarrow> getI2cClientPath_g K;
     let accessoryCurrentLimitPath =
       (if i2cPath \<noteq> [] then i2cPath @ ''/'' @ kAccessoryLimitCurrent else []);
     let accessoryCurrentLimitEnablePath =
       (if i2cPath \<noteq> [] then i2cPath @ ''/'' @ kAccessoryLimitCurrentEnable else []);
     irq \<leftarrow> gets mGadgetIrqPath;
     only_if (irq = []) (do { getUsbGadgetIrqPath K; ret () });
     status \<leftarrow> tearDownGadget K;
     if status \<noteq> SUCCESS_g then set_failed K functions callback in_transactionId status
     else do {
       usleep K (kDisconnectWaitUs K);
       if functions = gadget_function K NONE then set_none K functions callback in_transactionId
       else configure K functions callback timeout in_transactionId
         accessoryCurrentLimitPath accessoryCurrentLimitEnablePath
     }
   }"

end
