(* ===== verification/ExampleGadget.thy ===== *)
theory ExampleGadget
  imports ExampleKernel UsbGadget
begin

text \<open>
  The kernel of \<open>ExampleKernel\<close> with a \<^verbatim>\<open>pixelusb\<close> library beside it that does what its
  documentation says: used in the witnesses of the gadget service only.
\<close>

definition gK :: "ekern gadget_platform" where
  "gK = platform.extend basic_platform (gadget_platform.fields
     aidl_value ''/os_desc'' ''/UDC'' 100000 ''ro.usb.uvc.enabled'' sscanf_u
     (\<lambda>p k. (0, k)) (\<lambda>n k. ((), k)) (\<lambda>p d k. (d, k))
     (\<lambda>k. ('''', k)) (\<lambda>k. (SUCCESS_g, k)) (\<lambda>v p k. (SUCCESS_g, k)) (\<lambda>f i k. (0, k))
     (\<lambda>f b i k. ((SUCCESS_g, b, i + 1), k)) (\<lambda>i k. ((SUCCESS_g, i + 1), k))
     (\<lambda>k. (False, k)) (\<lambda>k. ((), k)) (\<lambda>k. ((), k)) (\<lambda>k. ((), k)) (\<lambda>t k. ((True, [True]), k)))"

lemma gK_simps [simp]:
  "sys_read gK = e_read" "sys_write gK = e_write" "sys_send gK = (\<lambda>n k. (True, k))"
  "gadget_function gK = aidl_value" "PULLUP_PATH_g gK = ''/UDC''"
  "lib_ParseUint gK = sscanf_u" "lib_getVendorFunctions gK = (\<lambda>k. ('''', k))"
  "sys_getboolprop gK = (\<lambda>p d k. (d, k))" "lib_resetGadget gK = (\<lambda>k. (SUCCESS_g, k))"
  by (simp_all add: gK_def basic_platform_def platform.defs gadget_platform.defs)

definition example_gadget :: "ekern \<Rightarrow> ekern gadget" where
  "example_gadget k = \<lparr>kern = k, trace = [], mI2cBusNumber = - 1, mI2cClientPath = [],
     mGadgetIrqPath = [], mCurrentUsbFunctions = 0, mCurrentUsbFunctionsApplied = False,
     mUsbSpeed = UNKNOWN_g\<rparr>"

lemma example_gadget_simps [simp]:
  "kern (example_gadget k) = k" "trace (example_gadget k) = []"
  "mGadgetIrqPath (example_gadget k) = []" "mI2cClientPath (example_gadget k) = []"
  "mI2cBusNumber (example_gadget k) = - 1"
  by (simp_all add: example_gadget_def)

end
