(* ===== verification/GadgetProps.thy ===== *)
theory GadgetProps
  imports ExampleGadget
begin

text \<open>
  What the gadget service guarantees: which line of the interrupt table it takes, the table of USB
  ids against a reference that computes them, the order in which functions are linked, and what a
  request and a reset tell the callback.
\<close>

section \<open>The interrupt table\<close>

definition text_lines :: "string list \<Rightarrow> string" where
  "text_lines ls = concat (map (\<lambda>l. l @ newline) ls)"

definition first_dwc3 :: "string list \<Rightarrow> string option" where
  "first_dwc3 ls = List.find (\<lambda>l. contains l ''dwc3'') ls"

lemma find_newline: "CHR 0x0A \<notin> set l \<Longrightarrow> find_str (l @ newline @ rest) newline = Some (length l)"
  using find_char [of "CHR 0x0A" l rest] by (simp add: newline_def)

lemma find_irq_line:
  assumes "CHR 0x0A \<notin> set l"
  shows "find_irq P (l @ newline @ rest) = (if contains l ''dwc3''
      then map_option (\<lambda>_. irq_number l) (P (irq_number l)) else find_irq P rest)"
  using find_newline [OF assms, of rest]
  by (subst find_irq.simps) (simp add: substr_def newline_def split: option.split)

lemma find_irq_lines:
  assumes "\<forall>l \<in> set (tail # ls). CHR 0x0A \<notin> set l"
  shows "find_irq P (text_lines ls @ tail) = (case first_dwc3 ls of
      None \<Rightarrow> None
    | Some l \<Rightarrow> map_option (\<lambda>_. irq_number l) (P (irq_number l)))"
  using assms
proof (induction ls)
  case Nil
  then have "find_str tail newline = None" by (simp add: newline_def find_char_None)
  then show ?case by (subst find_irq.simps) (simp add: text_lines_def first_dwc3_def)
next
  case (Cons l ls)
  then show ?case
    using find_irq_line [of l P "text_lines ls @ tail"] by (simp add: text_lines_def first_dwc3_def)
qed

lemma irq_number_colon: "CHR '':'' \<notin> set n \<Longrightarrow> irq_number (n @ '':'' @ rest) = n"
  using find_char [of "CHR '':''" n rest] by (simp add: irq_number_def substr_def)

text \<open>
  C32: the interrupt of the gadget is the one of the first complete line of the interrupt table that
  mentions dwc3: the path is made of the text before its colon as it stands there, blanks included,
  if it is a number. Without such a line the answer is an error and the path stays as it was.
\<close>

theorem getUsbGadgetIrqPath_first_line:
  assumes "sys_read K kProcInterruptsPath (kern s) = ((True, text_lines ls @ tail), k)"
    and "\<forall>l \<in> set (tail # ls). CHR 0x0A \<notin> set l"
  shows "wp (getUsbGadgetIrqPath K) (\<lambda>r t. case first_dwc3 ls of
      None \<Rightarrow> r = ERROR_g \<and> mGadgetIrqPath t = mGadgetIrqPath s
    | Some l \<Rightarrow>
        if lib_ParseUint K (irq_number l) = None then r = ERROR_g \<and> mGadgetIrqPath t = mGadgetIrqPath s
        else r = SUCCESS_g \<and> mGadgetIrqPath t = ''/proc/irq/'' @ irq_number l @ ''/smp_affinity_list'') s"
  using assms(1) find_irq_lines [OF assms(2), of "lib_ParseUint K"]
  by (auto simp: getUsbGadgetIrqPath_def wp ReadFileToString_def kProcIrqPath_def
      kSmpAffinityList_def split: option.split)

theorem getUsbGadgetIrqPath_first_line_witness:
  "wp (getUsbGadgetIrqPath gK)
     (\<lambda>r t. r = SUCCESS_g \<and> mGadgetIrqPath t = ''/proc/irq/ 97/smp_affinity_list'')
     (example_gadget (ek0\<lparr>e_files := [(kProcInterruptsPath,
        text_lines ['' 8: 0 pmu'', '' 97: 12 dwc3'', ''99: 0 dwc3''] @ ''IPI0'')]\<rparr>))"
proof -
  have lines: "first_dwc3 ['' 8: 0 pmu'', '' 97: 12 dwc3'', ''99: 0 dwc3''] = Some '' 97: 12 dwc3''"
    by (simp add: first_dwc3_def contains_def)
  have "scan_num '' 97'' = Some (False, 97)"
    by code_simp
  then have number: "irq_number '' 97: 12 dwc3'' = '' 97''" "sscanf_u '' 97'' \<noteq> None"
    by (simp_all add: irq_number_def substr_def sscanf_u_def)
  show ?thesis
    by (rule wp_mono [OF getUsbGadgetIrqPath_first_line [where tail = "''IPI0''" and
          ls = "['' 8: 0 pmu'', '' 97: 12 dwc3'', ''99: 0 dwc3'']"]])
      (simp_all add: lines number e_read_def ek0_def)
qed

section \<open>The USB ids\<close>

definition base_pid :: "64 word \<Rightarrow> nat option" where
  \<comment> \<open>the product id of a set of functions without ADB; 0 is the place of ADB alone\<close>
  "base_pid = map_of [(4, 0x4ee1), (32, 0x4ee3), (32 + 1024, 0x4ee3), (16, 0x4ee5), (0, 0x4ee6),
     (8, 0x4ee8), (2, 0x2d00), (64, 0x2d02), (2 + 64, 0x2d04), (1024, 0x4eeb), (128, 0x4eed)]"

definition user_pid :: "64 word \<Rightarrow> nat option" where
  \<comment> \<open>ADB adds one\<close>
  "user_pid f = (if f = 0 then None
     else map_option (\<lambda>p. if f AND 1 = 0 then p else p + 1) (base_pid (f AND NOT 1)))"

definition tolerant :: "64 word \<Rightarrow> bool" where
  \<comment> \<open>an unknown vendor configuration is only logged: accessory, audio and NCM without RNDIS\<close>
  "tolerant f \<longleftrightarrow> f AND (2 + 64 + 1024) \<noteq> 0 \<and> f AND 32 = 0"

definition usb_ids :: "string \<Rightarrow> bool \<Rightarrow> 64 word \<Rightarrow> (string \<times> string) option" where
  "usb_ids v uvc f =
     (if v = ''dm'' \<and> f AND 1 = 1 \<and> f AND NOT 1 \<in> {0, 32, 32 + 1024, 1024} then Some (''0x04e8'', ''0x6862'')
      else if v \<in> {''etr_miu'', ''uwb_acm''} \<and> f = 1 then Some (''0x18d1'', ''0x4ee2'')
      else if \<not> vendor_user v \<and> \<not> tolerant f then None
      else if f AND 128 \<noteq> 0 \<and> \<not> uvc then None
      else map_option (\<lambda>p. (''0x18d1'', ''0x'' @ show_hex p)) (user_pid f))"

lemma user_pid_domain:
  assumes "user_pid f \<noteq> None"
  shows "f \<in> {4, 5, 32, 1056, 33, 1057, 16, 17, 1, 8, 9, 2, 3, 64, 65, 66, 67, 1024, 1025, 128, 129}"
proof -
  let ?g = "f AND NOT 1"
  have split: "f = ?g OR (f AND 1)"
    by (simp add: bit_eq_iff bit_simps) auto
  have one: "f AND 1 = 0 \<or> f AND 1 = 1"
    by (simp add: and_one_eq mod_2_eq_odd)
  have "?g \<in> {4, 32, 1056, 16, 0, 8, 2, 64, 66, 1024, 128}" "f \<noteq> 0"
    using assms by (auto simp: user_pid_def base_pid_def split: if_splits)
  moreover have "f = ?g OR 0 \<or> f = ?g OR 1"
    using split one by metis
  ultimately show ?thesis
    by (elim insertE emptyE disjE) (simp_all only:, simp_all)
qed

text \<open>The runs the table is about: one call of \<open>setVidPid\<close>, or none.\<close>

definition answers :: "(string \<times> string) option \<Rightarrow> (('k, 'z) gadget_scheme, Status_g) state \<Rightarrow>
    ('k, 'z) gadget_scheme \<Rightarrow> bool" where
  "answers ids m s \<longleftrightarrow> wp m (\<lambda>r t. case ids of
      None \<Rightarrow> called t = called s \<and> r = CONFIGURATION_NOT_SUPPORTED
    | Some (vid, pid) \<Rightarrow> called t = called s @ [SetVidPid vid pid r]) s"

lemma answers_simps [simp]:
  "answers None (ret CONFIGURATION_NOT_SUPPORTED) s"
  "answers (Some (vid, pid)) (setVidPid K vid pid) s"
  by (simp_all add: answers_def wp setVidPid_def)

lemma answers_property:
  assumes "fst (sys_getboolprop K (kUvcEnabled K) False (kern s)) = uvc"
  shows "uvc \<Longrightarrow> answers (Some (vid, pid)) (do {
      uvc \<leftarrow> GetBoolProperty K (kUvcEnabled K) False;
      if \<not> uvc then ret CONFIGURATION_NOT_SUPPORTED else setVidPid K vid pid
    }) s"
    "\<not> uvc \<Longrightarrow> answers None (do {
      uvc \<leftarrow> GetBoolProperty K (kUvcEnabled K) False;
      if \<not> uvc then ret CONFIGURATION_NOT_SUPPORTED else setVidPid K vid pid
    }) s"
  using assms by (auto simp: answers_def wp setVidPid_def GetBoolProperty_def)

lemma pid_digits:
  "show_hex 0x4ee1 = ''4ee1''" "show_hex 0x4ee2 = ''4ee2''" "show_hex 0x4ee3 = ''4ee3''"
  "show_hex 0x4ee4 = ''4ee4''" "show_hex 0x4ee5 = ''4ee5''" "show_hex 0x4ee6 = ''4ee6''"
  "show_hex 0x4ee7 = ''4ee7''" "show_hex 0x4ee8 = ''4ee8''" "show_hex 0x4ee9 = ''4ee9''"
  "show_hex 0x2d00 = ''2d00''" "show_hex 0x2d01 = ''2d01''" "show_hex 0x2d02 = ''2d02''"
  "show_hex 0x2d03 = ''2d03''" "show_hex 0x2d04 = ''2d04''" "show_hex 0x2d05 = ''2d05''"
  "show_hex 0x4eeb = ''4eeb''" "show_hex 0x4eec = ''4eec''" "show_hex 0x4eed = ''4eed''"
  "show_hex 0x4eee = ''4eee''"
  by (simp add: show_hex.simps hex_char_def, code_simp)+

lemma user_pid_values:
  "user_pid 4 = Some 0x4ee1" "user_pid 5 = Some 0x4ee2" "user_pid 32 = Some 0x4ee3"
  "user_pid 1056 = Some 0x4ee3" "user_pid 33 = Some 0x4ee4" "user_pid 1057 = Some 0x4ee4"
  "user_pid 16 = Some 0x4ee5" "user_pid 17 = Some 0x4ee6" "user_pid 1 = Some 0x4ee7"
  "user_pid 8 = Some 0x4ee8" "user_pid 9 = Some 0x4ee9" "user_pid 2 = Some 0x2d00"
  "user_pid 3 = Some 0x2d01" "user_pid 64 = Some 0x2d02" "user_pid 65 = Some 0x2d03"
  "user_pid 66 = Some 0x2d04" "user_pid 67 = Some 0x2d05" "user_pid 1024 = Some 0x4eeb"
  "user_pid 1025 = Some 0x4eec" "user_pid 128 = Some 0x4eed" "user_pid 129 = Some 0x4eee"
  by (simp_all add: user_pid_def base_pid_def)

lemma switch_domain:
  assumes "f \<notin> {4, 5, 32, 1056, 33, 1057, 16, 17, 1, 8, 9, 2, 3, 64, 65, 66, 67, 1024, 1025, 128, 129}"
  shows "usb_ids v uvc f = None"
proof -
  have "user_pid f = None" using assms user_pid_domain by blast
  moreover have "f \<noteq> 1" using assms by simp
  moreover have "\<not> (f AND 1 = 1 \<and> f AND NOT 1 \<in> {0, 32, 32 + 1024, 1024})"
  proof
    assume a: "f AND 1 = 1 \<and> f AND NOT 1 \<in> {0, 32, 32 + 1024, 1024}"
    have "f = (f AND NOT 1) OR (f AND 1)"
      by (simp add: bit_eq_iff bit_simps) auto
    with a have "f \<in> {1, 33, 1057, 1025}" by auto
    with assms show False by simp
  qed
  ultimately show ?thesis by (simp add: usb_ids_def)
qed

lemma switch_answers:
  assumes "gadget_function K = aidl_value"
    and "fst (sys_getboolprop K (kUvcEnabled K) False (kern s)) = uvc"
  shows "answers (usb_ids v uvc f) (vid_pid_switch K f v) s"
proof (cases "f \<in> {4, 5, 32, 1056, 33, 1057, 16, 17, 1, 8, 9, 2, 3, 64, 65, 66, 67, 1024, 1025, 128, 129}")
  case True
  then show ?thesis
    using assms(1) answers_property [OF assms(2)]
    by (elim insertE emptyE) (simp_all add: vid_pid_switch_def usb_ids_def tolerant_def
        user_pid_values pid_digits vendor_user_def)
next
  case False
  then show ?thesis
    using assms(1) switch_domain [OF False] by (simp add: vid_pid_switch_def)
qed

text \<open>
  C31: with the documented values, a request sets the ids of a reference that computes the product id
  (ADB adds one to the id of the set without it), the modem debug ids for \<^verbatim>\<open>dm\<close>, and
  sets none, answering that the configuration is not supported, for every other combination, for an
  unknown vendor configuration unless accessory, audio or NCM tolerate it, and for UVC when it is
  switched off. \<^verbatim>\<open>setVidPid\<close> is called at most once and its status is the answer.
\<close>

theorem validateAndSetVidPid_table:
  assumes "gadget_function K = aidl_value"
    and "lib_getVendorFunctions K (kern s) = (v, k)"
    and "fst (sys_getboolprop K (kUvcEnabled K) False k) = uvc"
  shows "wp (validateAndSetVidPid K f) (\<lambda>r t. case usb_ids v uvc f of
      None \<Rightarrow> called t = called s \<and> r = CONFIGURATION_NOT_SUPPORTED
    | Some (vid, pid) \<Rightarrow> called t = called s @ [SetVidPid vid pid r]) s"
  using switch_answers [OF assms(1), of "s\<lparr>kern := k\<rparr>" uvc v f] assms(2,3)
  by (simp add: validateAndSetVidPid_def getVendorFunctions_def wp answers_def cong: option.case_cong)

theorem validateAndSetVidPid_table_witness:
  "usb_ids '''' False 1057 = Some (''0x18d1'', ''0x4ee4'') \<and>
   wp (validateAndSetVidPid gK 1057) (\<lambda>r t. called t = [SetVidPid ''0x18d1'' ''0x4ee4'' r])
     (example_gadget ek0)"
proof -
  have ids: "usb_ids '''' False 1057 = Some (''0x18d1'', ''0x4ee4'')"
    by (simp add: usb_ids_def vendor_user_def user_pid_values pid_digits)
  show ?thesis
    using validateAndSetVidPid_table [of gK "example_gadget ek0" "''''" ek0 False 1057]
    by (simp add: ids)
qed

end
