(* ===== verification/GadgetSetup.thy ===== *)
theory GadgetSetup
  imports ExampleGadget
begin

text \<open>
  How the gadget service sets a configuration up: the order of the calls that link the functions and
  when the gadget is pulled up; and what a reset does. The locale \<open>request_observer\<close> says which
  observations the steps of a request that send nothing leave alone.
\<close>

section \<open>Frames\<close>

locale request_observer =
  fixes f :: "('k, 'z) gadget_scheme \<Rightarrow> 'b"
  assumes call: "sends es = [] \<Longrightarrow> f (s\<lparr>kern := k, trace := trace s @ es\<rparr>) = f s"
    and fields: "f (s\<lparr>mI2cBusNumber := n\<rparr>) = f s" "f (s\<lparr>mI2cClientPath := p\<rparr>) = f s"
      "f (s\<lparr>mGadgetIrqPath := q\<rparr>) = f s" "f (s\<lparr>mCurrentUsbFunctionsApplied := b\<rparr>) = f s"
begin

lemma quiet: "quiet_obs f"
  by (simp add: quiet_obs_def quiet_def call)

lemma silent: "(\<And>r. sends (ev r) = []) \<Longrightarrow> keeps f (sys g ev)"
  by (simp add: keeps_def run_sys call)

lemma written: "keeps f (WriteStringToFile K d p)"
  unfolding WriteStringToFile_def by (rule silent) simp

lemma lookups: "keeps f (getI2cClientPath_g K)" "keeps f (getUsbGadgetIrqPath K)"
  unfolding i2c_copies getUsbGadgetIrqPath_def by (intro keeps quiet fields)+

lemma applied: "keeps f (updateSdpEnumTimeout K)" "keeps f (currentFunctionsAppliedCallback K b)"
  unfolding currentFunctionsAppliedCallback_def updateSdpEnumTimeout_def
  by (intro keeps lookups written fields)+

lemma library: "keeps f (linkFunction K fn i)" "keeps f (setVidPid K v p)"
    "keeps f (getVendorFunctions K)" "keeps f (usleep K n)" "keeps f (GetBoolProperty K q b)"
  unfolding linkFunction_def setVidPid_def getVendorFunctions_def usleep_def GetBoolProperty_def
  by (rule silent, simp)+

lemma link_all: "keeps f (link_all K fns i)"
  by (induction fns arbitrary: i) (auto intro!: keeps library)

lemma link_functions: "keeps f (link_functions K functions)"
  unfolding link_functions_def add_adb_def
  by (intro keeps silent link_all library) auto

lemma tearDownGadget: "keeps f (tearDownGadget K)"
  unfolding tearDownGadget_def by (intro keeps silent) simp_all

lemma validateAndSetVidPid: "keeps f (validateAndSetVidPid K functions)"
  unfolding validateAndSetVidPid_def vid_pid_switch_def by (intro keeps library)

lemma after: "keeps f (move_irq K functions)" "keeps f (limit_accessory K functions p q)"
  unfolding move_irq_def limit_accessory_def read_trimmed_def by (intro keeps written quiet)+

end

interpretation messages: request_observer "\<lambda>s :: ('k, 'z) gadget_scheme. sent s"
  by unfold_locales simp_all

interpretation requested: request_observer "mCurrentUsbFunctions :: ('k, 'z) gadget_scheme \<Rightarrow> _"
  by unfold_locales simp_all

section \<open>A reset\<close>

definition heard :: "nat option \<Rightarrow> (nat \<Rightarrow> gadget_note) \<Rightarrow> bool \<Rightarrow> gadget_note io list" where
  "heard callback n ok = (case callback of None \<Rightarrow> [] | Some cb \<Rightarrow> [Sent (n cb) ok])"

lemma wp_callback_call [wp]:
  "wp (callback_call K callback n) Q = (\<lambda>s. (callback = None \<longrightarrow> Q True s) \<and>
     (\<forall>cb. callback = Some cb \<longrightarrow> (\<forall>ok k. sys_send K (n cb) (kern s) = (ok, k) \<longrightarrow>
        Q ok (s\<lparr>kern := k, trace := trace s @ [Sent (n cb) ok]\<rparr>))))"
  by (simp add: callback_call_def wp fun_eq_iff send_def split: option.split)

text \<open>
  C33: a reset pulls the gadget down, leaves the host the time to notice, and pulls it up again, in this
  order and each only after the one before succeeded; the callback is told once, at the end, and
  hears success exactly when the caller gets ok.
\<close>

theorem reset_effect:
  "wp (reset K callback tid) (\<lambda>r t. \<exists>down up ok.
     let steps = (if down then [FileWrite (PULLUP_PATH_g K) ''none'' True, Slept (kDisconnectWaitUs K),
                                FileWrite (PULLUP_PATH_g K) ''11110000.dwc3'' up]
                  else [FileWrite (PULLUP_PATH_g K) ''none'' False]);
         good = (down \<and> up)
     in trace t = trace s @ steps
          @ heard callback (\<lambda>cb. ResetCb cb (if good then SUCCESS_g else ERROR_g) tid) ok \<and>
        (r = Aidl_ok) = good) s"
  by (cases callback)
    (auto simp: reset_def reset_failed_def wp WriteStringToFile_def usleep_def heard_def kGadgetName_g_def
      Let_def)

section \<open>Linking\<close>

fun link_calls :: "string list \<Rightarrow> int \<Rightarrow> gadget_note list" where
  "link_calls [] i = []"
| "link_calls (fn # fns) i = LinkFunction fn i 0 # link_calls fns (i + 1)"

fun call_failed :: "gadget_note \<Rightarrow> bool" where
  "call_failed (LinkFunction fn i e) \<longleftrightarrow> e \<noteq> 0"
| "call_failed (AddAdb i st) \<longleftrightarrow> st \<noteq> SUCCESS_g"
| "call_failed (AddGenericAndroidFunctions f i st) \<longleftrightarrow> st \<noteq> SUCCESS_g"
| "call_failed _ \<longleftrightarrow> False"

definition link_view :: "('k, 'z) gadget_scheme \<Rightarrow> (string \<times> string \<times> bool) list \<times> gadget_note list" where
  "link_view s = (stored s, sent s)"

lemma link_view_call: "quiet es \<Longrightarrow> link_view (s\<lparr>kern := k, trace := trace s @ es\<rparr>) = link_view s"
  by (simp add: link_view_def quiet_def)

lemma wp_link_all:
  fixes s :: "('k, 'z) gadget_scheme"
  shows "wp (link_all K fns i) (\<lambda>r t. link_view t = link_view s \<and>
     (case r of
        Some j \<Rightarrow> j = i + int (length fns) \<and> called t = called s @ link_calls fns i
      | None \<Rightarrow> \<exists>cs c. called t = called s @ cs @ [c] \<and> call_failed c)) s"
proof (induction fns arbitrary: i s)
  case Nil
  then show ?case by (simp add: wp)
next
  case (Cons fn fns)
  show ?case
    by (auto simp: wp linkFunction_def link_view_def intro!: wp_mono [OF Cons.IH] split: option.splits)
qed

definition link_plan :: "'k gadget_platform \<Rightarrow> 64 word \<Rightarrow> string \<Rightarrow> int \<Rightarrow> int \<Rightarrow> gadget_note list" where
  \<comment> \<open>the calls that link everything: the generic functions, the vendor's, ADB and NCM, numbered on\<close>
  "link_plan K f v i j =
     (let vs = vendor_links (f AND gadget_function K RNDIS \<noteq> 0) v
      in AddGenericAndroidFunctions f 0 SUCCESS_g # link_calls vs i
         @ (if f AND gadget_function K ADB \<noteq> 0 then [AddAdb (i + int (length vs)) SUCCESS_g] else [])
         @ link_calls (if f AND gadget_function K NCM \<noteq> 0 then [''ncm.gs9''] else []) j)"

lemma wp_add_adb:
  fixes s :: "('k, 'z) gadget_scheme"
  shows "wp (add_adb K f ffs i) (\<lambda>(st, ffs', j) t. link_view t = link_view s \<and>
     (if f AND gadget_function K ADB \<noteq> 0 then ffs' \<and> called t = called s @ [AddAdb i st]
      else called t = called s \<and> st = SUCCESS_g \<and> ffs' = ffs \<and> j = i)) s"
  by (auto simp: add_adb_def wp link_view_def)

text \<open>Where a run of \<open>link_functions\<close> stands: it stopped at a failed call, or made these calls.\<close>

definition linking :: "('k, 'z) gadget_scheme \<Rightarrow> gadget_note list option \<Rightarrow> ('k, 'z) gadget_scheme \<Rightarrow> bool" where
  "linking s p t \<longleftrightarrow> link_view t = link_view s \<and> (case p of
      None \<Rightarrow> \<exists>cs c. called t = called s @ cs @ [c] \<and> call_failed c
    | Some cs \<Rightarrow> called t = called s @ cs)"

lemma linking_trans:
  "linking s (Some cs) t \<Longrightarrow> linking t (Some ds) u \<Longrightarrow> linking s (Some (cs @ ds)) u"
  "linking s (Some cs) t \<Longrightarrow> linking t None u \<Longrightarrow> linking s None u"
  by (auto simp: linking_def)

lemma wp_link_all_linking:
  assumes "linking s (Some cs) t"
  shows "wp (link_all K fns i) (\<lambda>r u. case r of
      None \<Rightarrow> linking s None u
    | Some j \<Rightarrow> j = i + int (length fns) \<and> linking s (Some (cs @ link_calls fns i)) u) t"
  by (rule wp_mono [OF wp_link_all]) (use assms in \<open>auto simp: linking_def split: option.splits\<close>)

lemma wp_add_adb_linking:
  assumes "linking s (Some cs) t"
  shows "wp (add_adb K f ffs i) (\<lambda>(st, ffs', j) u.
     if st \<noteq> SUCCESS_g then linking s None u
     else linking s (Some (cs @ (if f AND gadget_function K ADB \<noteq> 0 then [AddAdb i SUCCESS_g] else []))) u \<and>
       (if f AND gadget_function K ADB \<noteq> 0 then ffs' else ffs' = ffs \<and> j = i)) t"
  by (rule wp_mono [OF wp_add_adb])
    (use assms in \<open>auto simp: linking_def split: option.splits if_splits\<close>)

text \<open>The outcome of \<open>link_functions\<close>: a failed call, or the whole plan and \<^verbatim>\<open>ffsEnabled\<close>.\<close>

definition linked :: "'k gadget_platform \<Rightarrow> 64 word \<Rightarrow> string \<Rightarrow> ('k, 'z) gadget_scheme \<Rightarrow> bool option \<Rightarrow>
    ('k, 'z) gadget_scheme \<Rightarrow> bool" where
  "linked K f v s r t \<longleftrightarrow> (case r of
      None \<Rightarrow> linking s None t
    | Some ffs \<Rightarrow> \<exists>i j. linking s (Some (link_plan K f v i j)) t \<and>
        (if f AND gadget_function K ADB \<noteq> 0 then ffs
         else j = i + int (length (vendor_links (f AND gadget_function K RNDIS \<noteq> 0) v))))"

lemma linked_None: "linked K f v s None t \<longleftrightarrow> linking s None t"
  by (simp add: linked_def)

lemma linked_Some:
  assumes "linking s (Some (link_plan K f v i j)) t"
    and "if f AND gadget_function K ADB \<noteq> 0 then ffs
         else j = i + int (length (vendor_links (f AND gadget_function K RNDIS \<noteq> 0) v))"
  shows "linked K f v s (Some ffs) t"
  using assms unfolding linked_def option.case by blast

lemma wp_link_ncm:
  fixes t :: "('k, 'z) gadget_scheme" and K :: "'k gadget_platform" and f :: "64 word" and v :: string
  defines "vs \<equiv> vendor_links (f AND gadget_function K RNDIS \<noteq> 0) v"
    and "ns \<equiv> if f AND gadget_function K NCM \<noteq> 0 then [''ncm.gs9''] else []"
  assumes "linking s (Some (AddGenericAndroidFunctions f 0 SUCCESS_g # link_calls vs i
      @ (if f AND gadget_function K ADB \<noteq> 0 then [AddAdb (i + int (length vs)) SUCCESS_g] else []))) t"
    and ffs: "if f AND gadget_function K ADB \<noteq> 0 then ffs else j = i + int (length vs)"
  shows "wp (link_all K ns j) (\<lambda>r. linked K f v s (map_option (\<lambda>_. ffs) r)) t"
proof (rule wp_mono [OF wp_link_all_linking [OF assms(3)]])
  fix r and u :: "('k, 'z) gadget_scheme"
  assume r: "case r of None \<Rightarrow> linking s None u
    | Some k \<Rightarrow> k = j + int (length ns) \<and> linking s (Some ((AddGenericAndroidFunctions f 0 SUCCESS_g
        # link_calls vs i @ (if f AND gadget_function K ADB \<noteq> 0
            then [AddAdb (i + int (length vs)) SUCCESS_g] else [])) @ link_calls ns j)) u"
  show "linked K f v s (map_option (\<lambda>_. ffs) r) u"
  proof (cases r)
    case None
    with r show ?thesis by (simp add: linked_None)
  next
    case (Some k)
    with r have "linking s (Some (link_plan K f v i j)) u"
      unfolding link_plan_def vs_def ns_def Let_def by (simp del: link_calls.simps)
    with Some ffs show ?thesis by (simp add: linked_Some vs_def del: if_split)
  qed
qed

lemma wp_link_rest:
  fixes t :: "('k, 'z) gadget_scheme" and K :: "'k gadget_platform" and f :: "64 word" and v :: string
  defines "vs \<equiv> vendor_links (f AND gadget_function K RNDIS \<noteq> 0) v"
    and "ns \<equiv> if f AND gadget_function K NCM \<noteq> 0 then [''ncm.gs9''] else []"
  assumes "linking s (Some (AddGenericAndroidFunctions f 0 SUCCESS_g # link_calls vs i)) t"
  shows "wp (add_adb K f ffs (i + int (length vs))) (\<lambda>(st, ffs', j) u.
      if st \<noteq> SUCCESS_g then linking s None u
      else wp (link_all K ns j) (\<lambda>r. linked K f v s (map_option (\<lambda>_. ffs') r)) u) t"
proof (rule wp_mono [OF wp_add_adb_linking [OF assms(3)]], clarify)
  fix st ffs' j and u :: "('k, 'z) gadget_scheme"
  assume u: "if st \<noteq> SUCCESS_g then linking s None u
    else linking s (Some ((AddGenericAndroidFunctions f 0 SUCCESS_g # link_calls vs i) @
        (if f AND gadget_function K ADB \<noteq> 0 then [AddAdb (i + int (length vs)) SUCCESS_g] else []))) u \<and>
      (if f AND gadget_function K ADB \<noteq> 0 then ffs' else ffs' = ffs \<and> j = i + int (length vs))"
  show "if st \<noteq> SUCCESS_g then linking s None u
    else wp (link_all K ns j) (\<lambda>r. linked K f v s (map_option (\<lambda>_. ffs') r)) u"
  proof (cases "st = SUCCESS_g")
    case True
    with u have "wp (link_all K ns j) (\<lambda>r. linked K f v s (map_option (\<lambda>_. ffs') r)) u"
      unfolding ns_def by (intro wp_link_ncm [where i = i]) (auto simp: vs_def split: if_splits)
    with True show ?thesis by simp
  qed (use u in simp)
qed

lemma wp_link_functions:
  fixes s :: "('k, 'z) gadget_scheme"
  assumes v: "\<And>k. fst (lib_getVendorFunctions K k) = v"
  shows "wp (link_functions K f) (linked K f v s) s"
proof -
  define vs where "vs = vendor_links (f AND gadget_function K RNDIS \<noteq> 0) v"
  have vendor: "wp (link_all K vs i) (\<lambda>r. wp (case r of None \<Rightarrow> ret None | Some i2 \<Rightarrow> do {
        (st3, ffs3, i3) \<leftarrow> add_adb K f ffs i2;
        if st3 \<noteq> SUCCESS_g then ret None
        else do {
          r4 \<leftarrow> link_all K (if f AND gadget_function K NCM \<noteq> 0 then [''ncm.gs9''] else []) i3;
          ret (map_option (\<lambda>_. ffs3) r4)
        } }) (linked K f v s))
      (s\<lparr>trace := trace s @ [LibCall (AddGenericAndroidFunctions f 0 SUCCESS_g)], kern := k\<rparr>)" for k i ffs
    by (rule wp_mono [OF wp_link_all_linking [where s = s and
            cs = "[AddGenericAndroidFunctions f 0 SUCCESS_g]"]])
      (auto simp: wp linked_None linking_def [of s "Some _"] link_view_def vs_def split: option.splits
        intro!: wp_mono [OF wp_link_rest])
  have failed: "linking s None (s\<lparr>kern := k, trace := trace s @ [LibCall (AddGenericAndroidFunctions f 0 st)]\<rparr>)"
    if "st \<noteq> SUCCESS_g" for st k
    using that by (auto simp: linking_def link_view_def)
  have v': "lib_getVendorFunctions K k = (r, k') \<Longrightarrow> r = v" for k r k'
    using v [of k] by simp
  show ?thesis
    using vendor failed
    by (auto simp: link_functions_def wp getVendorFunctions_def vs_def [symmetric] linked_None dest!: v')
qed

section \<open>Pulling the gadget up\<close>

definition gadget_view :: "('k, 'z) gadget_scheme \<Rightarrow>
    (string \<times> string \<times> bool) list \<times> gadget_note list \<times> gadget_note list \<times> bool" where
  "gadget_view s = (stored s, called s, sent s, mCurrentUsbFunctionsApplied s)"

lemma keeps_path_lookup:
  "keeps (gadget_view :: ('k, 'z) gadget_scheme \<Rightarrow> _) (getI2cClientPath_g K)"
proof -
  have "keeps gadget_view (opendir K p :: (('k, 'z) gadget_scheme, _) state)" for p
    by (simp add: keeps_def run_sys opendir_def gadget_view_def)
  then show ?thesis
    unfolding i2c_copies getI2cClientPath_def getI2cBusNumber_def Let_def
    by (intro keeps_return keeps_bind keeps_gets keeps_modify keeps_if keeps_case_option)
      (simp_all add: gadget_view_def)
qed

definition announced :: "('k, 'z) gadget_scheme \<Rightarrow> ('k, 'z) gadget_scheme \<Rightarrow> bool" where
  \<comment> \<open>from the first state to the second only ones were written: the SDP timeout updates\<close>
  "announced s t \<longleftrightarrow> called t = called s \<and> sent t = sent s \<and>
     (\<exists>ps. stored t = stored s @ ps \<and> set ps \<subseteq> {w. fst (snd w) = ''1''})"

lemma announced_refl [simp]: "announced s s"
  by (simp add: announced_def)

lemma announced_trans: "announced s t \<Longrightarrow> announced t u \<Longrightarrow> announced s u"
  by (force simp: announced_def)

lemma wp_updateSdpEnumTimeout:
  fixes s :: "('k, 'z) gadget_scheme"
  shows "wp (updateSdpEnumTimeout K)
    (\<lambda>_ t. announced s t \<and> mCurrentUsbFunctionsApplied t = mCurrentUsbFunctionsApplied s) s"
  unfolding updateSdpEnumTimeout_def wp
  by (rule wp_mono [OF keeps_wp [OF keeps_path_lookup]])
    (auto simp: wp announced_def gadget_view_def)

lemma wp_currentFunctionsAppliedCallback:
  fixes s :: "('k, 'z) gadget_scheme"
  shows "wp (currentFunctionsAppliedCallback K b)
    (\<lambda>_ t. announced s t \<and> mCurrentUsbFunctionsApplied t = b) s"
  unfolding currentFunctionsAppliedCallback_def wp run_modify
  by (rule wp_mono [OF wp_updateSdpEnumTimeout]) (simp add: announced_def)

lemma wp_applied_callbacks:
  fixes s :: "('k, 'z) gadget_scheme"
  shows "wp (for_each bs (currentFunctionsAppliedCallback K)) (\<lambda>_ t. announced s t) s"
  by (rule wp_for_each) (auto intro: wp_mono [OF wp_currentFunctionsAppliedCallback] announced_trans)

definition setup_reply :: "nat option \<Rightarrow> 64 word \<Rightarrow> int \<Rightarrow> Status_g \<Rightarrow> gadget_note list" where
  "setup_reply cb f tid st =
     (case cb of None \<Rightarrow> [] | Some c \<Rightarrow> [SetCurrentUsbFunctionsCb c f st tid])"

text \<open>What \<open>pull_up_now\<close> and \<open>monitor_pull_up\<close> do, from \<open>s\<close> to \<open>t\<close> with status \<open>r\<close>.\<close>

definition pulled_up :: "'k gadget_platform \<Rightarrow> 64 word \<Rightarrow> nat option \<Rightarrow> int \<Rightarrow>
    ('k, 'z) gadget_scheme \<Rightarrow> Status_g \<Rightarrow> ('k, 'z) gadget_scheme \<Rightarrow> bool" where
  "pulled_up K f cb tid s r t \<longleftrightarrow> called t = called s \<and> (\<exists>ps.
     stored t = stored s @ (PULLUP_PATH_g K, kGadgetName_g, r = SUCCESS_g) # ps \<and>
     (if r = SUCCESS_g then sent t = sent s @ setup_reply cb f tid SUCCESS_g \<and> mCurrentUsbFunctionsApplied t
      else r = ERROR_g \<and> sent t = sent s \<and> ps = [] \<and>
        mCurrentUsbFunctionsApplied t = mCurrentUsbFunctionsApplied s))"

definition monitored :: "64 word \<Rightarrow> nat option \<Rightarrow> 64 word \<Rightarrow> int \<Rightarrow>
    ('k, 'z) gadget_scheme \<Rightarrow> Status_g \<Rightarrow> ('k, 'z) gadget_scheme \<Rightarrow> bool" where
  "monitored f cb timeout tid s r t \<longleftrightarrow> (\<exists>up ps.
     called t = called s @ [RegisterFunctionsApplied, StartMonitor]
       @ (if cb = None then [] else [WaitForPullUp timeout up]) \<and>
     stored t = stored s @ ps \<and> set ps \<subseteq> {w. fst (snd w) = ''1''} \<and>
     sent t = sent s @ setup_reply cb f tid (if up then SUCCESS_g else ERROR_g) \<and>
     (r = SUCCESS_g \<or> r = ERROR_g \<and> cb \<noteq> None))"

lemma wp_pull_up_now:
  fixes s :: "('k, 'z) gadget_scheme"
  shows "wp (pull_up_now K f cb tid) (pulled_up K f cb tid s) s"
proof -
  have up: "wp (updateSdpEnumTimeout K) (\<lambda>_. pulled_up K f cb tid s SUCCESS_g) u"
    if "called u = called s" "stored u = stored s @ [(PULLUP_PATH_g K, kGadgetName_g, True)]"
      "sent u = sent s @ setup_reply cb f tid SUCCESS_g" "mCurrentUsbFunctionsApplied u"
    for u :: "('k, 'z) gadget_scheme" and cb
    by (rule wp_mono [OF wp_updateSdpEnumTimeout]) (use that in \<open>auto simp: pulled_up_def announced_def\<close>)
  have down: "pulled_up K f cb tid s ERROR_g
      (s\<lparr>kern := k, trace := trace s @ [FileWrite (PULLUP_PATH_g K) kGadgetName_g False]\<rparr>)" for k
    by (simp add: pulled_up_def)
  show ?thesis
    unfolding pull_up_now_def wp WriteStringToFile_def
    by (auto simp: setup_reply_def down intro!: up)
qed

lemma wp_monitor_reply:
  fixes u :: "('k, 'z) gadget_scheme"
  assumes "stored u = stored s" "sent u = sent s"
    and "called u = called s @ [RegisterFunctionsApplied, StartMonitor, WaitForPullUp timeout up]"
  shows "wp (for_each bs (currentFunctionsAppliedCallback K))
    (\<lambda>_. wp (send K (SetCurrentUsbFunctionsCb c f (if up then SUCCESS_g else ERROR_g) tid))
      (\<lambda>ok. monitored f (Some c) timeout tid s (if \<not> ok then ERROR_g else SUCCESS_g))) u"
proof (rule wp_mono [OF wp_applied_callbacks])
  fix t :: "('k, 'z) gadget_scheme"
  assume "announced u t"
  then obtain ps where ps: "stored t = stored s @ ps" "set ps \<subseteq> {w. fst (snd w) = ''1''}"
    and "called t = called u" "sent t = sent s"
    using assms by (auto simp: announced_def)
  then show "wp (send K (SetCurrentUsbFunctionsCb c f (if up then SUCCESS_g else ERROR_g) tid))
      (\<lambda>ok. monitored f (Some c) timeout tid s (if \<not> ok then ERROR_g else SUCCESS_g)) t"
    unfolding send_def wp_sys monitored_def setup_reply_def
    by (intro allI impI exI [of _ up] exI [of _ ps]) (simp add: assms(3))
qed

lemma wp_monitor_pull_up:
  fixes s :: "('k, 'z) gadget_scheme"
  shows "wp (monitor_pull_up K f cb timeout tid) (monitored f cb timeout tid s) s"
proof (cases cb)
  case None
  have "monitored f None timeout tid s SUCCESS_g (s\<lparr>kern := k, trace := trace s
      @ [LibCall RegisterFunctionsApplied, LibCall StartMonitor]\<rparr>)" for k
    unfolding monitored_def setup_reply_def by (intro exI [of _ True] exI [of _ "[]"]) simp
  with None show ?thesis by (simp add: monitor_pull_up_def wp)
next
  case (Some c)
  show ?thesis
    unfolding monitor_pull_up_def Some option.case wp_bind wp_sys wp_case_prod wp_return
    by (intro allI impI wp_monitor_reply) (auto split: prod.splits)
qed

lemma wp_setupFunctions:
  fixes s :: "('k, 'z) gadget_scheme"
  assumes "\<And>k. fst (lib_getVendorFunctions K k) = v"
  shows "wp (setupFunctions K f cb timeout tid) (\<lambda>r t.
     r = ERROR_g \<and> linked K f v s None t \<or>
     (\<exists>ffs u. linked K f v s (Some ffs) u \<and>
        (if ffs then monitored f cb timeout tid u r t else pulled_up K f cb tid u r t))) s"
  unfolding setupFunctions_def wp_bind
proof (rule wp_mono [OF wp_link_functions [OF assms]])
  fix r and u :: "('k, 'z) gadget_scheme"
  assume u: "linked K f v s r u"
  show "wp (case r of None \<Rightarrow> ret ERROR_g
      | Some ffsEnabled \<Rightarrow> if \<not> ffsEnabled then pull_up_now K f cb tid
          else monitor_pull_up K f cb timeout tid) (\<lambda>r t.
     r = ERROR_g \<and> linked K f v s None t \<or>
     (\<exists>ffs u. linked K f v s (Some ffs) u \<and>
        (if ffs then monitored f cb timeout tid u r t else pulled_up K f cb tid u r t))) u"
  proof (cases r)
    case None
    with u show ?thesis by (simp add: wp)
  next
    case (Some ffs)
    show ?thesis
    proof (cases ffs)
      case True
      then show ?thesis
        using u Some by (auto intro!: wp_mono [OF wp_monitor_pull_up])
    next
      case False
      then show ?thesis
        using u Some by (auto intro!: wp_mono [OF wp_pull_up_now])
    qed
  qed
qed

text \<open>
  C30: a configuration is set up in this order: the generic functions, the vendor's own, ADB and NCM are
  linked, numbered on from what the generic ones left; the first call that fails ends it with an
  error, with nothing pulled up and nothing told. After the last, the gadget is pulled up at once if
  no function needs a user process (never with ADB), and then counts as applied exactly when that
  write succeeded; otherwise the monitor is started and, for a callback, waited for. The callback is
  told once.
\<close>

theorem setupFunctions_effect:
  fixes s :: "('k, 'z) gadget_scheme"
  assumes "\<And>k. fst (lib_getVendorFunctions K k) = v"
  shows "wp (setupFunctions K f cb timeout tid) (\<lambda>r t.
     r = ERROR_g \<and> linked K f v s None t \<or>
     (\<exists>ffs u. linked K f v s (Some ffs) u \<and>
        (if ffs then monitored f cb timeout tid u r t else pulled_up K f cb tid u r t))) s"
  by (rule wp_setupFunctions [OF assms])

theorem setupFunctions_effect_witness:
  "wp (setupFunctions gK 1025 (Some 7) 1000 5) (\<lambda>r t.
     r = ERROR_g \<and> linked gK 1025 '''' (example_gadget ek0) None t \<or>
     (\<exists>ffs u. linked gK 1025 '''' (example_gadget ek0) (Some ffs) u \<and>
        (if ffs then monitored 1025 (Some 7) 1000 5 u r t else pulled_up gK 1025 (Some 7) 5 u r t)))
     (example_gadget ek0)"
  by (rule setupFunctions_effect) simp

end
