(* ===== verification/GadgetRequest.thy ===== *)
theory GadgetRequest
  imports GadgetSetup
begin

text \<open>
  What a request to the gadget service does as a whole: it takes the old configuration down first, and
  what the callback is told and what the caller gets fit together.
\<close>

section \<open>The whole request\<close>

text \<open>
  What the callback hears of a request, from \<open>s\<close> to \<open>t\<close>: at most two messages about it, the
  last of them the verdict.
\<close>

definition heard_of :: "nat option \<Rightarrow> 64 word \<Rightarrow> int \<Rightarrow> Status_g list \<Rightarrow>
    ('k, 'z) gadget_scheme \<Rightarrow> ('k, 'z) gadget_scheme \<Rightarrow> bool" where
  "heard_of cb f tid sts s t \<longleftrightarrow> sent t = sent s @ concat (map (setup_reply cb f tid) sts)"

lemma heard_nothing: "keeps sent m \<Longrightarrow> wp m (\<lambda>_ t. heard_of cb f tid [] s t) s"
  using keeps_wp [of sent m s] by (simp add: heard_of_def)

lemma heard_trans: "heard_of cb f tid xs s t \<Longrightarrow> heard_of cb f tid ys t u \<Longrightarrow> heard_of cb f tid (xs @ ys) s u"
  by (simp add: heard_of_def)

lemma wp_setup_heard:
  fixes s :: "('k, 'z) gadget_scheme"
  shows "wp (setupFunctions K f cb timeout tid) (\<lambda>r t. \<exists>sts. heard_of cb f tid sts s t \<and>
     (r = SUCCESS_g \<and> sts \<in> {[SUCCESS_g], [ERROR_g]} \<or>
      r = ERROR_g \<and> sts \<in> {[], [SUCCESS_g], [ERROR_g]})) s" (is "wp _ ?Q s")
  unfolding setupFunctions_def wp_bind
proof (rule wp_mono [OF keeps_wp [OF messages.link_functions]])
  fix r and u :: "('k, 'z) gadget_scheme"
  assume u: "sent u = sent s"
  have pulled: "wp (pull_up_now K f cb tid) ?Q u"
  proof (rule wp_mono [OF wp_pull_up_now])
    fix r and t :: "('k, 'z) gadget_scheme"
    assume "pulled_up K f cb tid u r t"
    with u show "?Q r t"
      by (intro exI [of _ "if r = SUCCESS_g then [SUCCESS_g] else []"])
        (auto simp: pulled_up_def heard_of_def split: if_splits)
  qed
  have monitored: "wp (monitor_pull_up K f cb timeout tid) ?Q u"
  proof (rule wp_mono [OF wp_monitor_pull_up])
    fix r and t :: "('k, 'z) gadget_scheme"
    assume "monitored f cb timeout tid u r t"
    then obtain up where "sent t = sent s @ setup_reply cb f tid (if up then SUCCESS_g else ERROR_g)"
      "r = SUCCESS_g \<or> r = ERROR_g"
      using u by (auto simp: monitored_def)
    then show "?Q r t"
      by (intro exI [of _ "[if up then SUCCESS_g else ERROR_g]"]) (auto simp: heard_of_def)
  qed
  show "wp (case r of None \<Rightarrow> ret ERROR_g
      | Some ffsEnabled \<Rightarrow> if \<not> ffsEnabled then pull_up_now K f cb tid
          else monitor_pull_up K f cb timeout tid) ?Q u"
  proof (cases r)
    case None
    have "?Q ERROR_g u" using u by (intro exI [of _ "[]"]) (simp add: heard_of_def)
    with None show ?thesis by (simp add: wp)
  next
    case (Some ffs)
    with pulled monitored show ?thesis by simp
  qed
qed

lemma wp_set_failed:
  fixes s :: "('k, 'z) gadget_scheme"
  shows "wp (set_failed K f cb tid st) (\<lambda>r t. r \<noteq> Aidl_ok \<and> heard_of cb f tid [st] s t \<and> called t = called s) s"
  by (cases cb) (simp_all add: set_failed_def wp heard_of_def setup_reply_def)

lemma wp_set_none:
  fixes s :: "('k, 'z) gadget_scheme"
  shows "wp (set_none K f cb tid) (\<lambda>r t. r \<noteq> Aidl_ok \<and> heard_of cb f tid [SUCCESS_g] s t) s"
  by (cases cb) (simp_all add: set_none_def wp heard_of_def setup_reply_def)

definition verdict :: "nat option \<Rightarrow> 64 word \<Rightarrow> int \<Rightarrow> ('k, 'z) gadget_scheme \<Rightarrow> aidl_status \<Rightarrow>
    ('k, 'z) gadget_scheme \<Rightarrow> bool" where
  \<comment> \<open>ok after one message; an error after one that is no success, or two if the first was not taken\<close>
  "verdict cb f tid s r t \<longleftrightarrow> (\<exists>sts. heard_of cb f tid sts s t \<and>
     (if r = Aidl_ok then sts \<in> {[SUCCESS_g], [ERROR_g]}
      else \<exists>e. e \<noteq> SUCCESS_g \<and> sts \<in> {[e], [SUCCESS_g, e], [ERROR_g, e]}))"

lemma verdict_failed:
  fixes u :: "('k, 'z) gadget_scheme"
  assumes "heard_of cb f tid sts s u" "sts \<in> {[], [SUCCESS_g], [ERROR_g]}" "st \<noteq> SUCCESS_g"
  shows "wp (set_failed K f cb tid st) (verdict cb f tid s) u"
proof (rule wp_mono [OF wp_set_failed])
  fix r and t :: "('k, 'z) gadget_scheme"
  assume "r \<noteq> Aidl_ok \<and> heard_of cb f tid [st] u t \<and> called t = called u"
  with assms show "verdict cb f tid s r t"
    unfolding verdict_def using heard_trans [of cb f tid sts s u "[st]" t]
    by (intro exI [of _ "sts @ [st]"]) auto
qed

lemma verdict_ok:
  fixes u :: "('k, 'z) gadget_scheme"
  assumes "heard_of cb f tid sts s u" "sts \<in> {[SUCCESS_g], [ERROR_g]}"
  shows "wp (do { move_irq K f; limit_accessory K f p q; ret Aidl_ok }) (verdict cb f tid s) u"
proof -
  have "keeps sent (do { move_irq K f; limit_accessory K f p q } :: (('k, 'z) gadget_scheme, unit) state)"
    by (intro keeps_bind messages.after)
  from keeps_wp [OF this, of u] show ?thesis
    unfolding wp by (rule wp_mono, elim wp_mono) (use assms in \<open>auto simp: verdict_def heard_of_def\<close>)
qed

lemma wp_configure_heard:
  fixes s :: "('k, 'z) gadget_scheme"
  shows "wp (configure K f cb timeout tid p q) (verdict cb f tid s) s"
proof -
  have linked: "wp (if st \<noteq> SUCCESS_g then set_failed K f cb tid st
      else do { move_irq K f; limit_accessory K f p q; ret Aidl_ok }) (verdict cb f tid s) t"
    if u: "heard_of cb f tid [] s u" and t: "\<exists>sts. heard_of cb f tid sts u t \<and>
      (st = SUCCESS_g \<and> sts \<in> {[SUCCESS_g], [ERROR_g]} \<or>
       st = ERROR_g \<and> sts \<in> {[], [SUCCESS_g], [ERROR_g]})"
    for st and t u :: "('k, 'z) gadget_scheme"
  proof -
    obtain sts where sts: "heard_of cb f tid sts s t" "st = SUCCESS_g \<and> sts \<in> {[SUCCESS_g], [ERROR_g]} \<or>
        st = ERROR_g \<and> sts \<in> {[], [SUCCESS_g], [ERROR_g]}"
      using t heard_trans [OF u] by (metis append_Nil)
    show ?thesis
    proof (cases "st = SUCCESS_g")
      case True
      with sts(2) show ?thesis using verdict_ok [OF sts(1)] by simp
    next
      case False
      with sts(2) show ?thesis using verdict_failed [OF sts(1)] by auto
    qed
  qed
  show ?thesis
    unfolding configure_def wp_bind
  proof (rule wp_mono [OF heard_nothing [OF messages.validateAndSetVidPid]])
    fix st and u :: "('k, 'z) gadget_scheme"
    assume u: "heard_of cb f tid [] s u"
    have "wp (setupFunctions K f cb timeout tid) (\<lambda>st. wp (if st \<noteq> SUCCESS_g
        then set_failed K f cb tid st else do { move_irq K f; limit_accessory K f p q; ret Aidl_ok })
        (verdict cb f tid s)) u"
      by (rule wp_mono [OF wp_setup_heard linked [OF u]])
    then show "wp (if st \<noteq> SUCCESS_g then set_failed K f cb tid st else do {
          status \<leftarrow> setupFunctions K f cb timeout tid;
          if status \<noteq> SUCCESS_g then set_failed K f cb tid status
          else do { move_irq K f; limit_accessory K f p q; ret Aidl_ok } }) (verdict cb f tid s) u"
      using verdict_failed [OF u] by (simp add: wp_bind)
  qed
qed

text \<open>The library is only called on, never back: every operation appends to the list of calls.\<close>

definition grows :: "(('k, 'z) gadget_scheme, 'a) state \<Rightarrow> bool" where
  "grows m \<longleftrightarrow> (\<forall>s. prefix (called s) (called (snd (run_state m s))))"

lemma grows_sys: "grows (sys g ev)"
  by (simp add: grows_def run_sys)

lemma grows_keeps: "keeps called m \<Longrightarrow> grows m"
  by (simp add: grows_def keeps_def)

lemma grows_bind: "grows m \<Longrightarrow> (\<And>a. grows (g a)) \<Longrightarrow> grows (State_Monad.bind m g)"
proof (unfold grows_def, intro allI)
  fix s
  assume m: "\<forall>s. prefix (called s) (called (snd (run_state m s)))"
    and g: "\<And>a. \<forall>s. prefix (called s) (called (snd (run_state (g a) s)))"
  obtain a t where "run_state m s = (a, t)" by fastforce
  moreover from this have "prefix (called s) (called t)" using m by (metis snd_conv)
  ultimately show "prefix (called s) (called (snd (run_state (State_Monad.bind m g) s)))"
    using g [of a] prefix_order.trans by auto
qed

lemma grows_simple: "grows (ret a)" "grows (gets h)" "(\<And>s. trace (h' s) = trace s) \<Longrightarrow> grows (modify h')"
  by (simp_all add: grows_def)

lemma grows_cases:
  "grows m \<Longrightarrow> grows n \<Longrightarrow> grows (if b then m else n)"
  "grows l \<Longrightarrow> grows (only_if b l)"
  "(\<And>x y. grows (h x y)) \<Longrightarrow> grows (case p of (x, y) \<Rightarrow> h x y)"
  "grows k \<Longrightarrow> (\<And>y. grows (h' y)) \<Longrightarrow> grows (case z of None \<Rightarrow> k | Some y \<Rightarrow> h' y)"
  by (simp_all add: only_if_def grows_simple(1) split: prod.split option.split)

lemma grows_for_each: "(\<And>x. grows (h x)) \<Longrightarrow> grows (for_each xs h)"
  by (induction xs) (simp_all add: grows_simple grows_bind)

lemmas grow_rules = grows_bind grows_simple grows_cases grows_for_each grows_sys

lemma grows_link_all: "grows (link_all K fns i)"
proof (induction fns arbitrary: i)
  case (Cons fn fns)
  show ?case
    unfolding link_all.simps linkFunction_def by (intro grow_rules Cons.IH)
qed (simp add: grow_rules)

lemma grows_path_lookup: "grows (getI2cClientPath_g K :: (('k, 'z) gadget_scheme, _) state)"
  using keeps_path_lookup by (intro grows_keeps) (auto simp: keeps_def gadget_view_def)

lemma grows_pull_up:
  "grows (updateSdpEnumTimeout K)" "grows (currentFunctionsAppliedCallback K b)"
  "grows (callback_call K cb n)"
  unfolding currentFunctionsAppliedCallback_def updateSdpEnumTimeout_def WriteStringToFile_def
    callback_call_def send_def
  by (intro grow_rules grows_path_lookup; simp)+

lemma grows_configure:
  "grows (configure K f cb timeout tid p q)" "grows (set_failed K f cb tid st)" "grows (set_none K f cb tid)"
  unfolding configure_def validateAndSetVidPid_def vid_pid_switch_def getVendorFunctions_def
    setVidPid_def GetBoolProperty_def setupFunctions_def link_functions_def add_adb_def
    pull_up_now_def monitor_pull_up_def move_irq_def limit_accessory_def read_trimmed_def
    set_failed_def set_none_def WriteStringToFile_def ReadFileToString_def send_def
  by (intro grow_rules grows_link_all grows_pull_up; simp)+

lemma keeps_request:
  fixes f :: "('k, 'z) gadget_scheme \<Rightarrow> 64 word"
  defines "f \<equiv> mCurrentUsbFunctions"
  shows "keeps f (configure K functions cb timeout tid p q)" "keeps f (set_failed K functions cb tid st)"
    "keeps f (set_none K functions cb tid)" "keeps f (tearDownGadget K)"
proof -
  have field: "field_obs f" by (rule field_obsI) (simp add: f_def)
  have f: "request_observer f" unfolding f_def by unfold_locales simp_all
  show "keeps f (tearDownGadget K)" using f by (rule request_observer.tearDownGadget)
  show failed: "keeps f (set_failed K functions cb tid st)" "keeps f (set_none K functions cb tid)" for st
    unfolding set_failed_def set_none_def by (intro keeps field)+
  have "keeps f (pull_up_now K functions cb tid)" "keeps f (monitor_pull_up K functions cb timeout tid)"
    unfolding pull_up_now_def monitor_pull_up_def callback_call_def
    by (intro keeps field request_observer.applied [OF f] request_observer.silent [OF f] keeps_sys_field; simp add: f_def)+
  then show "keeps f (configure K functions cb timeout tid p q)"
    unfolding configure_def setupFunctions_def
    by (intro keeps failed request_observer.validateAndSetVidPid [OF f] request_observer.link_functions [OF f]
        request_observer.after [OF f])
qed

lemma wp_tearDownGadget:
  fixes s :: "('k, 'z) gadget_scheme"
  shows "wp (tearDownGadget K) (\<lambda>st t. \<exists>r cs. called t = called s @ ResetGadget r # cs \<and> sent t = sent s \<and>
     (if r = SUCCESS_g then st = SUCCESS_g else st = ERROR_g \<and> cs = [])) s"
  by (auto simp: tearDownGadget_def wp)

text \<open>Everything a step after the tear-down shares: it only calls on and leaves the request as set.\<close>

definition later :: "('k, 'z) gadget_scheme \<Rightarrow> ('k, 'z) gadget_scheme \<Rightarrow> bool" where
  "later s t \<longleftrightarrow> prefix (called s) (called t) \<and> mCurrentUsbFunctions t = mCurrentUsbFunctions s"

lemma wp_later:
  assumes "grows m" "keeps mCurrentUsbFunctions m" "wp m P s"
  shows "wp m (\<lambda>r t. P r t \<and> later s t) s"
  using assms by (auto simp: wp_def grows_def keeps_def later_def split: prod.splits) (metis snd_conv)+

definition request_outcome :: "'k gadget_platform \<Rightarrow> 64 word \<Rightarrow> nat option \<Rightarrow> int \<Rightarrow>
    ('k, 'z) gadget_scheme \<Rightarrow> aidl_status \<Rightarrow> ('k, 'z) gadget_scheme \<Rightarrow> bool" where
  "request_outcome K f cb tid s r t \<longleftrightarrow> mCurrentUsbFunctions t = f \<and>
     (\<exists>st cs. called t = called s @ ResetGadget st # cs \<and>
        (if st = SUCCESS_g then True else cs = [] \<and> r \<noteq> Aidl_ok)) \<and>
     (if f = gadget_function K NONE
      then r \<noteq> Aidl_ok \<and> (\<exists>st. heard_of cb f tid [st] s t) else verdict cb f tid s r t)"

lemma heard_of_sent: "sent s' = sent s \<Longrightarrow> heard_of cb f tid sts s' t \<longleftrightarrow> heard_of cb f tid sts s t"
  by (simp add: heard_of_def)

lemma outcome_later:
  assumes u: "called u = called s @ ResetGadget SUCCESS_g # cs" "sent u = sent s" "mCurrentUsbFunctions u = f"
    and t: "later u t"
    and "if f = gadget_function K NONE then r \<noteq> Aidl_ok \<and> heard_of cb f tid [SUCCESS_g] u t
      else verdict cb f tid u r t"
  shows "request_outcome K f cb tid s r t"
proof -
  obtain ds where "called t = called s @ ResetGadget SUCCESS_g # cs @ ds"
    using u(1) t by (auto simp: later_def prefix_def)
  moreover have "mCurrentUsbFunctions t = f" using u(3) t by (simp add: later_def)
  ultimately show ?thesis
    using assms(5) heard_of_sent [OF u(2)]
    by (auto simp: request_outcome_def verdict_def split: if_splits)
qed

lemma wp_torn_down:
  fixes u :: "('k, 'z) gadget_scheme"
  assumes "called u = called s @ ResetGadget SUCCESS_g # cs" "sent u = sent s" "mCurrentUsbFunctions u = f"
  shows "wp (do {
      usleep K (kDisconnectWaitUs K);
      if f = gadget_function K NONE then set_none K f cb tid else configure K f cb timeout tid p q })
    (request_outcome K f cb tid s) u"
proof -
  have "wp (if f = gadget_function K NONE then set_none K f cb tid else configure K f cb timeout tid p q)
      (request_outcome K f cb tid s) v"
    if "called v = called u" "sent v = sent u" "mCurrentUsbFunctions v = mCurrentUsbFunctions u"
    for v :: "('k, 'z) gadget_scheme"
  proof (cases "f = gadget_function K NONE")
    case True
    have "wp (set_none K f cb tid) (request_outcome K f cb tid s) v"
      by (rule wp_mono [OF wp_later [OF grows_configure(3) keeps_request(3) wp_set_none]],
          rule outcome_later [of v s cs]) (use that assms True in auto)
    with True show ?thesis by simp
  next
    case False
    have "wp (configure K f cb timeout tid p q) (request_outcome K f cb tid s) v"
      by (rule wp_mono [OF wp_later [OF grows_configure(1) keeps_request(1) wp_configure_heard]],
          rule outcome_later [of v s cs]) (use that assms False in auto)
    with False show ?thesis by simp
  qed
  then show ?thesis by (simp add: wp_bind usleep_def wp_sys)
qed

lemma wp_take_down:
  fixes u :: "('k, 'z) gadget_scheme"
  assumes u: "called u = called s" "sent u = sent s" "mCurrentUsbFunctions u = f"
  shows "wp (tearDownGadget K) (\<lambda>st. wp (if st \<noteq> SUCCESS_g then set_failed K f cb tid st else do {
      usleep K (kDisconnectWaitUs K);
      if f = gadget_function K NONE then set_none K f cb tid else configure K f cb timeout tid p q })
    (request_outcome K f cb tid s)) u"
proof (rule wp_mono [OF wp_conj [THEN iffD2, OF conjI, OF wp_tearDownGadget keeps_wp [OF keeps_request(4)]]])
  fix st and t :: "('k, 'z) gadget_scheme"
  assume "(\<exists>r cs. called t = called u @ ResetGadget r # cs \<and> sent t = sent u \<and>
     (if r = SUCCESS_g then st = SUCCESS_g else st = ERROR_g \<and> cs = [])) \<and>
     mCurrentUsbFunctions t = mCurrentUsbFunctions u"
  then obtain r cs where t: "called t = called s @ ResetGadget r # cs" "sent t = sent s"
      "mCurrentUsbFunctions t = f"
    and st: "if r = SUCCESS_g then st = SUCCESS_g else st = ERROR_g \<and> cs = []"
    using u by auto
  show "wp (if st \<noteq> SUCCESS_g then set_failed K f cb tid st else do {
      usleep K (kDisconnectWaitUs K);
      if f = gadget_function K NONE then set_none K f cb tid else configure K f cb timeout tid p q })
    (request_outcome K f cb tid s) t"
  proof (cases "r = SUCCESS_g")
    case True
    with st t show ?thesis using wp_torn_down [of t s cs f] by simp
  next
    case False
    with st have "st = ERROR_g" "cs = []" by simp_all
    moreover have "wp (set_failed K f cb tid ERROR_g) (request_outcome K f cb tid s) t"
      by (rule wp_mono [OF wp_later [OF grows_configure(2) keeps_request(2) wp_set_failed]])
        (use t False \<open>cs = []\<close> heard_of_sent [OF t(2)] in
          \<open>auto simp: request_outcome_def later_def verdict_def\<close>)
    ultimately show ?thesis by simp
  qed
qed

text \<open>
  C29: after a request the service reports the functions requested, whatever happened. The first call
  to the library takes the old configuration down, and if that fails it is the only one. A request for
  no functions always ends with an error for the caller, even when the callback is told success.
  Any other request is answered ok after one message to the callback, or with an error after a
  message that is no success; only when the first message could not be delivered is there a second.
\<close>

theorem setCurrentUsbFunctions_outcome:
  fixes s :: "('k, 'z) gadget_scheme"
  shows "wp (setCurrentUsbFunctions K f cb timeout tid) (request_outcome K f cb tid s) s"
proof -
  define V where "V u = (called u, sent u, mCurrentUsbFunctions u)" for u :: "('k, 'z) gadget_scheme"
  have "keeps gadget_view (getI2cClientPath_g K :: (('k, 'z) gadget_scheme, _) state)"
    "keeps mCurrentUsbFunctions (getI2cClientPath_g K :: (('k, 'z) gadget_scheme, _) state)"
    by (rule keeps_path_lookup requested.lookups)+
  then have path: "keeps V (getI2cClientPath_g K)"
    by (simp add: keeps_def V_def gadget_view_def)
  have "keeps V (getUsbGadgetIrqPath K)"
    by (auto simp: getUsbGadgetIrqPath_def ReadFileToString_def keeps_def run_sys V_def
        split: prod.split option.split)
  then have irq: "keeps V (only_if b (do { getUsbGadgetIrqPath K; ret () }))" for b
    by (intro keeps)
  show ?thesis
    unfolding setCurrentUsbFunctions_def wp_bind wp_modify Let_def
    by (rule wp_mono [OF keeps_wp [OF path]], unfold wp_gets, rule wp_mono [OF keeps_wp [OF irq]],
        unfold wp_bind [symmetric], rule wp_take_down [unfolded wp_bind [symmetric]])
      (simp_all add: V_def)
qed

end
