(* ===== verification/Registration.thy ===== *)
theory Registration
  imports TypecProps
begin

text \<open>
  The threads around a callback registration, interleaved: a client inside \<open>setCallback\<close>, the worker
  thread it creates, and any other user of \<^verbatim>\<open>mLock\<close>. The operations of \<open>UsbService\<close> run
  one after the other; here their locking is spelled out as the steps of a relation, one rule per
  move between two points of the code where another thread can come in.

  The client holds \<^verbatim>\<open>mLock\<close> from \<open>CLocked\<close> on, and through \<^verbatim>\<open>pthread_join\<close>
  (\<open>CJoin\<close>). The worker is between \<^verbatim>\<open>destroyThread\<close>'s test and \<^verbatim>\<open>epoll_wait\<close>
  in \<open>WEnter\<close>, inside the latter in \<open>WWait\<close>, in \<open>uevent_event\<close> in \<open>WHandle\<close>, waits for
  \<^verbatim>\<open>mLock\<close> at the head of \<open>queryVersionHelper\<close> in \<open>WWantLock\<close> and holds it in \<open>WQuery\<close>.
\<close>

datatype lock_user = Client | Worker | Other

datatype client_pc = CIdle | CWant bool | CLocked bool | CJoin

datatype worker_pc = WNone | WStarting | WCheck | WEnter | WWait | WHandle | WWantLock | WQuery | WExited

record registration =
  holder :: "lock_user option"
  callback :: bool
  destroy :: bool
  client :: client_pc
  worker :: worker_pc

inductive reg_step :: "registration \<Rightarrow> registration \<Rightarrow> bool" where
  call: "client s = CIdle \<Longrightarrow> reg_step s (s\<lparr>client := CWant cb\<rparr>)"
    \<comment> \<open>\<open>setCallback\<close> with a callback or with NULL\<close>
| client_lock: "client s = CWant cb \<Longrightarrow> holder s = None \<Longrightarrow>
    reg_step s (s\<lparr>client := CLocked cb, holder := Some Client\<rparr>)"
| client_replace: "client s = CLocked cb \<Longrightarrow> callback s = cb \<Longrightarrow>
    reg_step s (s\<lparr>client := CIdle, holder := None\<rparr>)"
| client_signal: "client s = CLocked False \<Longrightarrow> callback s \<Longrightarrow>
    reg_step s (s\<lparr>callback := False, destroy := True, client := CJoin,
      worker := if worker s = WWait then WCheck else worker s\<rparr>)"
    \<comment> \<open>\<^verbatim>\<open>pthread_kill\<close>: the handler sets \<^verbatim>\<open>destroyThread\<close> and interrupts the wait\<close>
| client_gone: "client s = CLocked False \<Longrightarrow> callback s \<Longrightarrow> worker s = WExited \<Longrightarrow>
    reg_step s (s\<lparr>callback := False, client := CIdle, holder := None\<rparr>)"
    \<comment> \<open>\<^verbatim>\<open>pthread_kill\<close> fails: the thread has ended\<close>
| client_join: "client s = CJoin \<Longrightarrow> worker s = WExited \<Longrightarrow>
    reg_step s (s\<lparr>client := CIdle, worker := WNone, holder := None\<rparr>)"
| client_create: "client s = CLocked True \<Longrightarrow> \<not> callback s \<Longrightarrow>
    reg_step s (s\<lparr>callback := True, destroy := False, worker := WStarting, client := CIdle, holder := None\<rparr>)"
| client_no_thread: "client s = CLocked True \<Longrightarrow> \<not> callback s \<Longrightarrow>
    reg_step s (s\<lparr>destroy := False, client := CIdle, holder := None\<rparr>)"
    \<comment> \<open>\<^verbatim>\<open>pthread_create\<close> fails\<close>
| start: "worker s = WStarting \<Longrightarrow> reg_step s (s\<lparr>worker := WCheck\<rparr>)"
| start_failed: "worker s = WStarting \<Longrightarrow> reg_step s (s\<lparr>worker := WExited\<rparr>)"
| check: "worker s = WCheck \<Longrightarrow> reg_step s (s\<lparr>worker := if destroy s then WExited else WEnter\<rparr>)"
| enter: "worker s = WEnter \<Longrightarrow> reg_step s (s\<lparr>worker := WWait\<rparr>)"
| wait_failed: "worker s = WWait \<Longrightarrow> reg_step s (s\<lparr>worker := WExited\<rparr>)"
| ready: "worker s = WWait \<Longrightarrow> reg_step s (s\<lparr>worker := WHandle\<rparr>)"
| handled: "worker s = WHandle \<Longrightarrow> reg_step s (s\<lparr>worker := WCheck\<rparr>)"
    \<comment> \<open>no line of the uevent is about a port\<close>
| typec: "worker s = WHandle \<Longrightarrow> reg_step s (s\<lparr>worker := WWantLock\<rparr>)"
| worker_lock: "worker s = WWantLock \<Longrightarrow> holder s = None \<Longrightarrow>
    reg_step s (s\<lparr>worker := WQuery, holder := Some Worker\<rparr>)"
| worker_unlock: "worker s = WQuery \<Longrightarrow> reg_step s (s\<lparr>worker := WCheck, holder := None\<rparr>)"
| other_lock: "holder s = None \<Longrightarrow> reg_step s (s\<lparr>holder := Some Other\<rparr>)"
| other_unlock: "holder s = Some Other \<Longrightarrow> reg_step s (s\<lparr>holder := None\<rparr>)"

definition reg_start :: registration where
  "reg_start = \<lparr>holder = None, callback = False, destroy = False, client = CIdle, worker = WNone\<rparr>"

inductive reg_reachable :: "registration \<Rightarrow> bool" where
  initially: "reg_reachable reg_start"
| after_step: "reg_reachable s \<Longrightarrow> reg_step s t \<Longrightarrow> reg_reachable t"

definition reg_steps :: "registration \<Rightarrow> registration \<Rightarrow> bool" where
  "reg_steps = reg_step\<^sup>*\<^sup>*"

lemma reg_steps_simps: "reg_steps s s" "reg_step s t \<Longrightarrow> reg_steps t u \<Longrightarrow> reg_steps s u"
  by (simp_all add: reg_steps_def converse_rtranclp_into_rtranclp)

section \<open>The invariant of the lock\<close>

definition reg_inv :: "registration \<Rightarrow> bool" where
  "reg_inv s \<longleftrightarrow>
     (holder s = Some Client \<longleftrightarrow> client s = CJoin \<or> (\<exists>cb. client s = CLocked cb)) \<and>
     (holder s = Some Worker \<longleftrightarrow> worker s = WQuery) \<and>
     (client s = CJoin \<longrightarrow> destroy s \<and> \<not> callback s \<and> worker s \<noteq> WNone) \<and>
     (callback s \<longrightarrow> worker s \<noteq> WNone \<and> \<not> destroy s) \<and>
     (\<not> callback s \<and> client s \<noteq> CJoin \<longrightarrow> worker s \<in> {WNone, WExited})"

lemma reg_inv_start: "reg_inv reg_start"
  by (simp add: reg_inv_def reg_start_def)

lemma reg_inv_step: "reg_step s t \<Longrightarrow> reg_inv s \<Longrightarrow> reg_inv t"
  by (induction rule: reg_step.induct) (auto simp: reg_inv_def)

lemma reachable_inv: "reg_reachable s \<Longrightarrow> reg_inv s"
  by (induction rule: reg_reachable.induct) (blast intro: reg_inv_start reg_inv_step)+

section \<open>When the lock is lost\<close>

definition doomed :: "registration \<Rightarrow> bool" where
  \<comment> \<open>the worker waits for the lock of a client that joins it, or is about to\<close>
  "doomed s \<longleftrightarrow> worker s = WWantLock \<and> (client s = CJoin \<or> client s = CLocked False \<and> callback s)"

lemma doomed_step: "reg_step s t \<Longrightarrow> doomed s \<Longrightarrow> reg_inv s \<Longrightarrow> doomed t"
  by (induction rule: reg_step.induct) (auto simp: doomed_def reg_inv_def)

lemma doomed_steps: "reg_steps s t \<Longrightarrow> doomed s \<Longrightarrow> reg_inv s \<Longrightarrow> doomed t \<and> reg_inv t"
  unfolding reg_steps_def
  by (induction rule: rtranclp_induct) (auto intro: doomed_step reg_inv_step)

lemma doomed_holds: "doomed s \<Longrightarrow> reg_inv s \<Longrightarrow> holder s = Some Client"
  by (auto simp: doomed_def reg_inv_def)

lemma worker_exits:
  assumes "destroy s" "worker s \<notin> {WNone, WWantLock, WQuery}"
  shows "reg_steps s (s\<lparr>worker := WExited\<rparr>)"
proof -
  have from_check: "reg_steps (s\<lparr>worker := WCheck\<rparr>) (s\<lparr>worker := WExited\<rparr>)"
    using check [of "s\<lparr>worker := WCheck\<rparr>"] assms(1) reg_steps_simps by simp
  have from_wait: "reg_steps (s\<lparr>worker := WWait\<rparr>) (s\<lparr>worker := WExited\<rparr>)"
    using wait_failed [of "s\<lparr>worker := WWait\<rparr>"] reg_steps_simps by simp
  consider "worker s = WExited" | "worker s = WCheck" | "worker s = WWait" | "worker s = WStarting"
    | "worker s = WEnter" | "worker s = WHandle"
    using assms(2) by (cases "worker s") auto
  then show ?thesis
  proof cases
    case 1
    then have "s\<lparr>worker := WExited\<rparr> = s" by simp
    then show ?thesis by (simp add: reg_steps_simps)
  next
    case 2
    then have "s\<lparr>worker := WCheck\<rparr> = s" by simp
    with from_check show ?thesis by simp
  next
    case 3
    then have "s\<lparr>worker := WWait\<rparr> = s" by simp
    with from_wait show ?thesis by simp
  next
    case 4
    show ?thesis by (rule reg_steps_simps(2) [OF start_failed [OF 4] reg_steps_simps(1)])
  next
    case 5
    show ?thesis by (rule reg_steps_simps(2) [OF enter [OF 5] from_wait])
  next
    case 6
    show ?thesis by (rule reg_steps_simps(2) [OF handled [OF 6] from_check])
  qed
qed

lemma reg_steps_trans: "reg_steps s t \<Longrightarrow> reg_steps t u \<Longrightarrow> reg_steps s u"
  unfolding reg_steps_def by (rule rtranclp_trans)

lemma join_steps:
  assumes "client s = CJoin" "destroy s" "worker s \<notin> {WNone, WWantLock, WQuery}"
  shows "reg_steps s (s\<lparr>client := CIdle, worker := WNone, holder := None\<rparr>)"
proof -
  have "reg_step (s\<lparr>worker := WExited\<rparr>) (s\<lparr>client := CIdle, worker := WNone, holder := None\<rparr>)"
    using client_join [of "s\<lparr>worker := WExited\<rparr>"] assms(1) by simp
  with worker_exits [OF assms(2,3)] show ?thesis
    using reg_steps_simps reg_steps_trans by blast
qed

lemma join_ends:
  assumes "client s = CJoin" "destroy s" "worker s \<notin> {WNone, WWantLock, WQuery}"
  shows "\<exists>t. reg_steps s t \<and> holder t = None"
  using join_steps [OF assms] by fastforce

lemma one_step_frees: "reg_step s t \<Longrightarrow> holder t = None \<Longrightarrow> \<exists>t. reg_steps s t \<and> holder t = None"
  using reg_steps_simps by blast

lemma client_lets_go:
  assumes inv: "reg_inv s" and "holder s = Some Client" "\<not> doomed s"
  shows "\<exists>t. reg_steps s t \<and> holder t = None"
proof -
  have "client s = CJoin \<or> (\<exists>cb. client s = CLocked cb)"
    using inv assms(2) by (simp add: reg_inv_def)
  then consider "client s = CJoin" | "client s = CLocked False" "callback s"
    | cb where "client s = CLocked cb" "callback s = cb" | "client s = CLocked True" "\<not> callback s"
    by (metis (full_types))
  then show ?thesis
  proof cases
    case 1
    with assms show ?thesis by (intro join_ends) (auto simp: reg_inv_def doomed_def)
  next
    case 2
    let ?u = "s\<lparr>callback := False, destroy := True, client := CJoin,
      worker := if worker s = WWait then WCheck else worker s\<rparr>"
    have "\<exists>t. reg_steps ?u t \<and> holder t = None"
      using 2 assms by (intro join_ends) (auto simp: reg_inv_def doomed_def)
    with client_signal [OF 2] show ?thesis using reg_steps_simps(2) by blast
  next
    case 3
    then show ?thesis by (intro one_step_frees [OF client_replace]) auto
  next
    case 4
    then show ?thesis by (intro one_step_frees [OF client_no_thread]) auto
  qed
qed

text \<open>
  C34: from every reachable state of the threads \<^verbatim>\<open>mLock\<close> can become free again, except when the
  worker waits for it at the head of a status query while a client that unregisters the callback
  holds it to join the worker, or is about to: then it is never free again, and no request that
  takes the lock is ever served.
\<close>

theorem registration_lock_freed:
  assumes "reg_reachable s"
  shows "(\<exists>t. reg_steps s t \<and> holder t = None) \<longleftrightarrow> \<not> doomed s"
proof
  assume "\<exists>t. reg_steps s t \<and> holder t = None"
  then show "\<not> doomed s"
    using doomed_steps doomed_holds reachable_inv [OF assms] by fastforce
next
  assume free: "\<not> doomed s"
  have inv: "reg_inv s" using assms by (rule reachable_inv)
  consider "holder s = None" | "holder s = Some Client" | "holder s = Some Worker" | "holder s = Some Other"
    by (metis lock_user.exhaust not_Some_eq)
  then show "\<exists>t. reg_steps s t \<and> holder t = None"
  proof cases
    case 1
    then show ?thesis using reg_steps_simps(1) by blast
  next
    case 2
    then show ?thesis using client_lets_go [OF inv _ free] by blast
  next
    case 3
    with inv have "worker s = WQuery" by (simp add: reg_inv_def)
    from one_step_frees [OF worker_unlock [OF this]] show ?thesis by simp
  next
    case 4
    from one_step_frees [OF other_unlock [OF this]] show ?thesis by simp
  qed
qed

text \<open>The deadlock is reached: a port uevent arrives while the callback is being unregistered.\<close>

definition reg_deadlock :: registration where
  "reg_deadlock = \<lparr>holder = Some Client, callback = False, destroy = True, client = CJoin, worker = WWantLock\<rparr>"

lemma reg_deadlock_reachable: "reg_reachable reg_deadlock"
proof -
  let ?s = "\<lambda>h cb d c w. \<lparr>holder = h, callback = cb, destroy = d, client = c, worker = w\<rparr>"
  note step = reg_reachable.after_step
  have "reg_reachable (?s None False False (CWant True) WNone)"
    using step [OF initially call [of reg_start True]] by (simp add: reg_start_def)
  from step [OF this client_lock [of _ True]]
  have "reg_reachable (?s (Some Client) False False (CLocked True) WNone)" by simp
  from step [OF this client_create] have "reg_reachable (?s None True False CIdle WStarting)" by simp
  from step [OF this start] have "reg_reachable (?s None True False CIdle WCheck)" by simp
  from step [OF this check] have "reg_reachable (?s None True False CIdle WEnter)" by simp
  from step [OF this enter] have "reg_reachable (?s None True False CIdle WWait)" by simp
  from step [OF this ready] have "reg_reachable (?s None True False CIdle WHandle)" by simp
  from step [OF this typec] have "reg_reachable (?s None True False CIdle WWantLock)" by simp
  from step [OF this call [of _ False]] have "reg_reachable (?s None True False (CWant False) WWantLock)" by simp
  from step [OF this client_lock [of _ False]]
  have "reg_reachable (?s (Some Client) True False (CLocked False) WWantLock)" by simp
  from step [OF this client_signal] show ?thesis by (simp add: reg_deadlock_def)
qed

theorem registration_lock_freed_witness:
  "reg_reachable reg_deadlock \<and> \<not> (\<exists>t. reg_steps reg_deadlock t \<and> holder t = None)"
  using registration_lock_freed [OF reg_deadlock_reachable] reg_deadlock_reachable
  by (simp add: doomed_def reg_deadlock_def)

section \<open>The sequential operation is a run of the threads\<close>

definition threads :: "('k, 'z) usb_scheme \<Rightarrow> worker_pc \<Rightarrow> registration" where
  \<comment> \<open>what the relation sees of the service between two operations, with the worker at \<open>w\<close>\<close>
  "threads s w = \<lparr>holder = None, callback = (mCallback s \<noteq> None), destroy = destroyThread s,
     client = CIdle, worker = w\<rparr>"

definition worker_agrees :: "('k, 'z) usb_scheme \<Rightarrow> worker_pc \<Rightarrow> bool" where
  \<comment> \<open>a worker outside the lock runs while a callback is registered, and none otherwise\<close>
  "worker_agrees s w \<longleftrightarrow> (if mCallback s = None then w \<in> {WNone, WExited}
     else w \<notin> {WNone, WWantLock, WQuery} \<and> \<not> destroyThread s)"

definition follows :: "('k, 'z) usb_scheme \<Rightarrow> worker_pc \<Rightarrow> ('k, 'z) usb_scheme \<Rightarrow> bool" where
  \<comment> \<open>the threads at \<open>s\<close> and \<open>w\<close> can come to threads that agree with \<open>t\<close>\<close>
  "follows s w t \<longleftrightarrow> (\<exists>w'. reg_steps (threads s w) (threads t w') \<and> worker_agrees t w')"

definition locked :: "('k, 'z) usb_scheme \<Rightarrow> worker_pc \<Rightarrow> bool \<Rightarrow> registration" where
  "locked s w cb = (threads s w)\<lparr>client := CLocked cb, holder := Some Client\<rparr>"

lemma locked_steps: "reg_steps (locked s w cb) t \<Longrightarrow> reg_steps (threads s w) t"
  using call [of "threads s w" cb] client_lock [of "(threads s w)\<lparr>client := CWant cb\<rparr>" cb]
    reg_steps_simps(2) by (simp add: threads_def locked_def)

lemma locked_step: "reg_step (locked s w cb) t \<Longrightarrow> reg_steps (threads s w) t"
  using locked_steps reg_steps_simps by blast

lemmas thread_simps = threads_def locked_def worker_agrees_def

lemma follows_replaced:
  assumes "worker_agrees s w" "mCallback s \<noteq> None \<longleftrightarrow> cb \<noteq> None"
  shows "follows s w (s\<lparr>mCallback := cb\<rparr>)"
proof -
  have "reg_steps (threads s w) (threads (s\<lparr>mCallback := cb\<rparr>) w)"
    using locked_step [OF client_replace [of "locked s w (cb \<noteq> None)" "cb \<noteq> None"]] assms(2)
    by (simp add: thread_simps)
  moreover have "worker_agrees (s\<lparr>mCallback := cb\<rparr>) w"
    using assms by (cases "mCallback s"; cases cb) (simp_all add: worker_agrees_def)
  ultimately show ?thesis unfolding follows_def by blast
qed

lemma follows_gone:
  assumes "w = WExited" "mCallback s \<noteq> None" "mCallback t = None" "destroyThread t = destroyThread s"
  shows "follows s w t"
  using locked_step [OF client_gone [of "locked s w False"]] assms
  by (auto simp: follows_def thread_simps intro!: exI [of _ WExited])

lemma follows_joined:
  assumes "worker_agrees s w" "mCallback s \<noteq> None" "mCallback t = None" "destroyThread t"
  shows "follows s w t"
proof -
  let ?u = "(locked s w False)\<lparr>callback := False, destroy := True, client := CJoin,
    worker := if w = WWait then WCheck else w\<rparr>"
  have "worker ?u \<notin> {WNone, WWantLock, WQuery}"
    using assms(1,2) by (auto simp: worker_agrees_def)
  then have "reg_steps ?u (threads t WNone)"
    using join_steps [of ?u] assms(3,4) by (simp add: thread_simps)
  moreover have "reg_step (locked s w False) ?u"
    using client_signal [of "locked s w False"] assms(2) by (cases "w = WWait") (simp_all add: thread_simps)
  ultimately have "reg_steps (threads s w) (threads t WNone)"
    by (rule locked_steps [OF reg_steps_simps(2) [rotated]])
  then show ?thesis
    using assms(3) by (auto simp: follows_def worker_agrees_def)
qed

lemma follows_created:
  assumes "mCallback s = None" "mCallback t \<noteq> None" "\<not> destroyThread t"
  shows "follows s w t"
  using locked_step [OF client_create [of "locked s w True"]] assms
  by (auto simp: follows_def thread_simps intro!: exI [of _ WStarting])

lemma follows_not_created:
  assumes "worker_agrees s w" "mCallback s = None" "mCallback t = None" "\<not> destroyThread t"
  shows "follows s w t"
  using locked_step [OF client_no_thread [of "locked s w True"]] assms
  by (auto simp: follows_def thread_simps intro!: exI [of _ w])



end
