(* ===== verification/Health.thy ===== *)
theory Health
  imports I2cClient
begin

text \<open>
  The health service (\<^verbatim>\<open>health/Health.cpp\<close>): the storage information with its cache, the
  disk statistics, the update of the battery information and the choice \<^verbatim>\<open>main\<close> makes. The
  static variables of the file are the state.

  The stream operators are the standard library's: \<open>extract_num\<close> is \<^verbatim>\<open>>>\<close> into an integer, as
  libc++ does it, with the base chosen by the prefix (\<open>Auto\<close>, after
  \<^verbatim>\<open>unsetf(basefield)\<close>) or decimal. The classes of \<^verbatim>\<open>libpixelhealth\<close> and
  \<^verbatim>\<open>libhealth\<close> are fields of \<open>health_platform\<close>; the information they work on is of any type
  \<open>'h\<close>.
\<close>

section \<open>Reading numbers from a stream\<close>

datatype base = Auto | Decimal

definition hex_val :: "char \<Rightarrow> nat option" where
  "hex_val c = (let n = of_char c :: nat
     in if 48 \<le> n \<and> n \<le> 57 then Some (n - 48)
        else if 97 \<le> n \<and> n \<le> 102 then Some (n - 87)
        else if 65 \<le> n \<and> n \<le> 70 then Some (n - 55) else None)"

fun digits_val :: "nat \<Rightarrow> string \<Rightarrow> nat \<Rightarrow> nat option" where
  \<comment> \<open>the value of a string of digits of a base, None if another character is in it\<close>
  "digits_val b [] a = Some a"
| "digits_val b (c # cs) a = (case hex_val c of
       None \<Rightarrow> None
     | Some d \<Rightarrow> if d < b then digits_val b cs (b * a + d) else None)"

definition is_atom :: "base \<Rightarrow> char \<Rightarrow> bool" where
  \<comment> \<open>the characters \<^verbatim>\<open>num_get\<close> collects after the sign\<close>
  "is_atom b c = (case b of
       Auto \<Rightarrow> hex_val c \<noteq> None \<or> c = CHR ''x'' \<or> c = CHR ''X''
     | Decimal \<Rightarrow> is_digit c)"

definition token_val :: "base \<Rightarrow> string \<Rightarrow> nat option" where
  \<comment> \<open>\<^verbatim>\<open>strtoull\<close> of the characters collected, None unless it takes them all\<close>
  "token_val b ds =
     (if ds = [] then None
      else case b of
        Decimal \<Rightarrow> digits_val 10 ds 0
      | Auto \<Rightarrow> if prefix ''0x'' ds \<or> prefix ''0X'' ds
               then (if length ds = 2 then None else digits_val 16 (drop 2 ds) 0)
               else if prefix ''0'' ds then digits_val 8 ds 0
               else digits_val 10 ds 0)"

definition scan_token :: "base \<Rightarrow> string \<Rightarrow> bool \<times> string \<times> string" where
  \<comment> \<open>sign, the characters collected, and what is left in the stream\<close>
  "scan_token b s =
     (let (neg, u) = (case s of
            [] \<Rightarrow> (False, [])
          | c # cs \<Rightarrow> if c = CHR ''-'' then (True, cs)
                      else if c = CHR ''+'' then (False, cs) else (False, s))
      in (neg, takeWhile (is_atom b) u, dropWhile (is_atom b) u))"

definition to_unsigned :: "nat \<Rightarrow> bool \<Rightarrow> nat option \<Rightarrow> bool \<times> nat" where
  \<comment> \<open>good, and the value stored in a field of that many bits\<close>
  "to_unsigned bits neg v = (case v of
       None \<Rightarrow> (False, 0)
     | Some n \<Rightarrow> if 2 ^ bits \<le> n then (False, 2 ^ bits - 1)
                 else (True, if neg then (2 ^ bits - n) mod 2 ^ bits else n))"

definition to_signed :: "nat \<Rightarrow> bool \<Rightarrow> nat option \<Rightarrow> bool \<times> int" where
  "to_signed bits neg v = (case v of
       None \<Rightarrow> (False, 0)
     | Some n \<Rightarrow> (let i = (if neg then - int n else int n)
                  in if i < - (2 ^ (bits - 1)) then (False, - (2 ^ (bits - 1)))
                     else if 2 ^ (bits - 1) \<le> i then (False, 2 ^ (bits - 1) - 1) else (True, i)))"

definition extract_num :: "base \<Rightarrow> (bool \<Rightarrow> nat option \<Rightarrow> bool \<times> 'a) \<Rightarrow> 'a \<Rightarrow> bool \<times> string \<Rightarrow> 'a \<times> (bool \<times> string)" where
  \<comment> \<open>\<^verbatim>\<open>stream >> field\<close> for a stream that is good or not, with the text left: a stream that is not
     good, or has only blanks left, leaves the field as it is\<close>
  "extract_num b conv old st = (case st of (good, s) \<Rightarrow>
     (let t = dropWhile isspace s
      in if \<not> good \<or> t = [] then (old, False, [])
         else (case scan_token b t of (neg, ds, rest) \<Rightarrow>
           (case conv neg (token_val b ds) of (ok, x) \<Rightarrow> (x, ok, rest)))))"

fun extract_all :: "(bool \<Rightarrow> nat option \<Rightarrow> bool \<times> 'a) \<Rightarrow> 'a list \<Rightarrow> bool \<times> string \<Rightarrow> 'a list" where
  \<comment> \<open>\<^verbatim>\<open>stream >> f1 >> f2 ...\<close> in decimal\<close>
  "extract_all conv [] st = []"
| "extract_all conv (x # xs) st = (case extract_num Decimal conv x st of
       (y, st') \<Rightarrow> y # extract_all conv xs st')"

section \<open>State and constants\<close>

datatype 'h health_note =
    DeviceHealthUpdate 'h | LogBatteryProperties 'h | LogShutdownVoltage 'h
  | OnlineUpdate 'h | BatteryDefenderUpdate 'h | SetWirelessNotSupported

record ('k, 'h) health_platform = "('k, 'h health_note) platform" +
  ANDROID_RECOVERY :: bool
  uninitialised :: "64 word"
    \<comment> \<open>what a local variable without initialiser holds\<close>
  sys_system_now :: "'k \<Rightarrow> int \<times> 'k"          \<comment> \<open>\<^verbatim>\<open>system_clock::now\<close> in microseconds\<close>
  sys_stat :: "string \<Rightarrow> 'k \<Rightarrow> int \<times> 'k"
  lib_tcpmPsyName :: "'k \<Rightarrow> string \<times> 'k"
  lib_setWirelessNotSupported :: "'k \<Rightarrow> unit \<times> 'k"
  lib_deviceHealth :: "'h \<Rightarrow> 'k \<Rightarrow> 'h \<times> 'k"
  lib_logBattery :: "'h \<Rightarrow> 'k \<Rightarrow> unit \<times> 'k"
  lib_logShutdown :: "'h \<Rightarrow> 'k \<Rightarrow> unit \<times> 'k"
  lib_onlineUpdate :: "'h \<Rightarrow> 'k \<Rightarrow> 'h \<times> 'k"
  lib_battDefender :: "'h \<Rightarrow> 'k \<Rightarrow> 'h \<times> 'k"
  batteryLevel :: "'h \<Rightarrow> int"

record ('k, 'h) health = "('k, 'h health_note) world" +
  ufs_version :: string
  eol :: nat
  lifetimeA :: nat
  lifetimeB :: nat
  ufs_last_query_time :: int
  needs_wlc_updates :: bool

record StorageInfo =
  si_eol :: nat
  si_lifetimeA :: nat
  si_lifetimeB :: nat
  si_version :: string

record DiskStats =
  reads :: int
  readMerges :: int
  readSectors :: int
  readTicks :: int
  writes :: int
  writeMerges :: int
  writeSectors :: int
  writeTicks :: int
  ioInFlight :: int
  ioTicks :: int
  ioInQueue :: int

datatype service_status = Binder_ok | EX_UNSUPPORTED_OPERATION

definition WLC_DIR :: string where "WLC_DIR = ''/sys/class/power_supply/wireless''"
definition UFS_DIR :: string where "UFS_DIR = ''/dev/sys/block/bootdevice''"
definition kUfsHealthEol :: string where "kUfsHealthEol = UFS_DIR @ ''/health_descriptor/eol_info''"
definition kUfsHealthLifetimeA :: string where
  "kUfsHealthLifetimeA = UFS_DIR @ ''/health_descriptor/life_time_estimation_a''"
definition kUfsHealthLifetimeB :: string where
  "kUfsHealthLifetimeB = UFS_DIR @ ''/health_descriptor/life_time_estimation_b''"
definition kUfsVersion :: string where
  "kUfsVersion = UFS_DIR @ ''/device_descriptor/specification_version''"
definition kDiskStatsFile :: string where "kDiskStatsFile = ''/sys/block/sda/stat''"
definition kUfsQueryIntervalHours :: int where "kUfsQueryIntervalHours = 24"
definition kWlcCapacity :: string where "kWlcCapacity = WLC_DIR @ ''/capacity''"

section \<open>Storage information\<close>

definition assert_open ::
  "('k, 'h) health_platform \<Rightarrow> string \<Rightarrow> (('k, 'h, 'z) health_scheme, bool \<times> string) state" where
  \<comment> \<open>the stream: open or not, and its contents; a failure is only logged\<close>
  "assert_open K path = ReadFileToString K path"

definition read_value_from_file :: "('k, 'h) health_platform \<Rightarrow> string \<Rightarrow>
    (bool \<Rightarrow> nat option \<Rightarrow> bool \<times> 'a) \<Rightarrow> 'a \<Rightarrow> (('k, 'h, 'z) health_scheme, 'a) state" where
  \<comment> \<open>what \<^verbatim>\<open>*field\<close> holds afterwards; \<open>conv\<close> is the conversion of its type\<close>
  "read_value_from_file K path conv field = do {
     stream \<leftarrow> assert_open K path;
     ret (fst (extract_num Auto conv field stream))
   }"

definition read_ufs_version ::
  "('k, 'h) health_platform \<Rightarrow> StorageInfo \<Rightarrow> (('k, 'h, 'z) health_scheme, StorageInfo) state" where
  "read_ufs_version K info = do {
     version \<leftarrow> gets ufs_version;
     only_if (version = []) (do {
       val \<leftarrow> read_value_from_file K kUfsVersion (to_unsigned 64) (unat (uninitialised K));
       modify (\<lambda>s. s\<lparr>ufs_version := ''ufs '' @ show_hex val\<rparr>)
     });
     version \<leftarrow> gets ufs_version;
     ret (info\<lparr>si_version := version\<rparr>)
   }"

definition hours :: "int \<Rightarrow> int" where
  \<comment> \<open>\<^verbatim>\<open>duration_cast<hours>\<close> of microseconds truncates\<close>
  "hours us = sgn us * (\<bar>us\<bar> div 3600000000)"

definition private_get_storage_info ::
  "('k, 'h) health_platform \<Rightarrow> (('k, 'h, 'z) health_scheme, StorageInfo list) state" where
  "private_get_storage_info K = do {
     info \<leftarrow> read_ufs_version K \<lparr>si_eol = 0, si_lifetimeA = 0, si_lifetimeB = 0, si_version = []\<rparr>;
     time_now \<leftarrow> sys (sys_system_now K) (\<lambda>_. []);
     last_query \<leftarrow> gets ufs_last_query_time;
     let hoursElapsed = hours (time_now - last_query);
     only_if (kUfsQueryIntervalHours \<le> hoursElapsed) (do {
       modify (\<lambda>s. s\<lparr>ufs_last_query_time := time_now\<rparr>);
       old_eol \<leftarrow> gets eol;
       new_eol \<leftarrow> read_value_from_file K kUfsHealthEol (to_unsigned 16) old_eol;
       modify (\<lambda>s. s\<lparr>eol := new_eol\<rparr>);
       old_A \<leftarrow> gets lifetimeA;
       new_A \<leftarrow> read_value_from_file K kUfsHealthLifetimeA (to_unsigned 16) old_A;
       modify (\<lambda>s. s\<lparr>lifetimeA := new_A\<rparr>);
       old_B \<leftarrow> gets lifetimeB;
       new_B \<leftarrow> read_value_from_file K kUfsHealthLifetimeB (to_unsigned 16) old_B;
       modify (\<lambda>s. s\<lparr>lifetimeB := new_B\<rparr>)
     });
     e \<leftarrow> gets eol;
     a \<leftarrow> gets lifetimeA;
     b \<leftarrow> gets lifetimeB;
     ret [info\<lparr>si_eol := e, si_lifetimeA := a, si_lifetimeB := b\<rparr>]
   }"

definition getStorageInfo :: "('k, 'h) health_platform \<Rightarrow>
    (('k, 'h, 'z) health_scheme, service_status \<times> StorageInfo list) state" where
  "getStorageInfo K = do {
     out \<leftarrow> private_get_storage_info K;
     ret (if out = [] then EX_UNSUPPORTED_OPERATION else Binder_ok, out)
   }"

section \<open>Disk statistics\<close>

definition stats_of :: "int list \<Rightarrow> DiskStats" where
  \<comment> \<open>the eleven fields in the order of the stream operators\<close>
  "stats_of xs = \<lparr>reads = xs ! 0, readMerges = xs ! 1, readSectors = xs ! 2, readTicks = xs ! 3,
     writes = xs ! 4, writeMerges = xs ! 5, writeSectors = xs ! 6, writeTicks = xs ! 7,
     ioInFlight = xs ! 8, ioTicks = xs ! 9, ioInQueue = xs ! 10\<rparr>"

definition private_get_disk_stats ::
  "('k, 'h) health_platform \<Rightarrow> (('k, 'h, 'z) health_scheme, DiskStats list) state" where
  "private_get_disk_stats K = do {
     stream \<leftarrow> assert_open K kDiskStatsFile;
     ret [stats_of (extract_all (to_signed 64) (replicate 11 0) stream)]
   }"

definition getDiskStats :: "('k, 'h) health_platform \<Rightarrow>
    (('k, 'h, 'z) health_scheme, service_status \<times> DiskStats list) state" where
  "getDiskStats K = do {
     out \<leftarrow> private_get_disk_stats K;
     ret (if out = [] then EX_UNSUPPORTED_OPERATION else Binder_ok, out)
   }"

section \<open>Battery information\<close>

definition FileExists :: "('k, 'h) health_platform \<Rightarrow> string \<Rightarrow> (('k, 'h, 'z) health_scheme, bool) state" where
  "FileExists K filename = do { r \<leftarrow> sys (sys_stat K filename) (\<lambda>_. []); ret (r = 0) }"

definition private_healthd_board_init ::
  "('k, 'h) health_platform \<Rightarrow> string list \<Rightarrow> (('k, 'h, 'z) health_scheme, string list) state" where
  \<comment> \<open>\<^verbatim>\<open>hc->ignorePowerSupplyNames\<close> afterwards\<close>
  "private_healthd_board_init K ignorePowerSupplyNames =
     (if ANDROID_RECOVERY K then ret ignorePowerSupplyNames
      else do {
        tcpmPsyName \<leftarrow> sys (lib_tcpmPsyName K) (\<lambda>_. []);
        found \<leftarrow> FileExists K kWlcCapacity;
        modify (\<lambda>s. s\<lparr>needs_wlc_updates := found\<rparr>);
        only_if (\<not> found) (sys (lib_setWirelessNotSupported K) (\<lambda>_. [LibCall SetWirelessNotSupported]));
        ret (ignorePowerSupplyNames @ [c_str tcpmPsyName])
      })"

definition private_healthd_board_battery_update ::
  "('k, 'h) health_platform \<Rightarrow> 'h \<Rightarrow> (('k, 'h, 'z) health_scheme, 'h \<times> int) state" where
  \<comment> \<open>the information as it is left, and the result\<close>
  "private_healthd_board_battery_update K health_info =
     (if ANDROID_RECOVERY K then ret (health_info, 0)
      else do {
        h1 \<leftarrow> sys (lib_deviceHealth K health_info) (\<lambda>h. [LibCall (DeviceHealthUpdate h)]);
        sys (lib_logBattery K h1) (\<lambda>_. [LibCall (LogBatteryProperties h1)]);
        sys (lib_logShutdown K h1) (\<lambda>_. [LibCall (LogShutdownVoltage h1)]);
        h2 \<leftarrow> sys (lib_onlineUpdate K h1) (\<lambda>h. [LibCall (OnlineUpdate h)]);
        h3 \<leftarrow> sys (lib_battDefender K h2) (\<lambda>h. [LibCall (BatteryDefenderUpdate h)]);
        needed \<leftarrow> gets needs_wlc_updates;
        only_if needed (do {
          WriteStringToFile K (show_int (batteryLevel K h3)) kWlcCapacity;
          ret ()
        });
        ret (h3, 0)
      })"

definition UpdateHealthInfo ::
  "('k, 'h) health_platform \<Rightarrow> 'h \<Rightarrow> (('k, 'h, 'z) health_scheme, 'h) state" where
  "UpdateHealthInfo K health_info = do {
     (h, r) \<leftarrow> private_healthd_board_battery_update K health_info;
     ret h
   }"

section \<open>The process\<close>

datatype health_run = ChargerMode | HealthLoop

definition health_init :: "('k, 'h) health \<Rightarrow> bool" where
  \<comment> \<open>the static variables at the start of the process\<close>
  "health_init s \<longleftrightarrow> ufs_version s = [] \<and> eol s = 0 \<and> lifetimeA s = 0 \<and> lifetimeB s = 0 \<and>
     ufs_last_query_time s = 0 \<and> \<not> needs_wlc_updates s"

definition health_main ::
  "('k, 'h) health_platform \<Rightarrow> string list \<Rightarrow> string list \<Rightarrow>
    (('k, 'h, 'z) health_scheme, health_run \<times> string list) state" where
  \<comment> \<open>which loop \<^verbatim>\<open>main\<close> ends in, and the configuration; \<open>names\<close> is what
     \<^verbatim>\<open>InitHealthdConfig\<close> left\<close>
  "health_main K argv names = do {
     ignored \<leftarrow> private_healthd_board_init K names;
     ret (if 2 \<le> length argv \<and> argv ! 1 = ''--charger'' \<and> \<not> ANDROID_RECOVERY K
          then ChargerMode else HealthLoop, ignored)
   }"

end
