(* ===== verification/HealthProps.thy ===== *)
theory HealthProps
  imports Health ExampleKernel
begin

text \<open>
  What the health service answers: the storage values are read at most once a day and the version
  once, and the disk statistics are the numbers of the kernel's line.
\<close>

section \<open>A concrete kernel\<close>

text \<open>The kernel of \<open>ExampleKernel\<close> under the health service, for the witnesses.\<close>

definition hK :: "(ekern, int) health_platform" where
  "hK = platform.extend basic_platform (health_platform.fields
     False 0xdead (\<lambda>k. (90000000000, k)) (\<lambda>p k. (- 1, k)) (\<lambda>k. (''tcpm'', k)) (\<lambda>k. ((), k))
     (\<lambda>h k. (h, k)) (\<lambda>h k. ((), k)) (\<lambda>h k. ((), k)) (\<lambda>h k. (h, k)) (\<lambda>h k. (h, k)) (\<lambda>h. h))"

lemma hK_simps [simp]:
  "sys_read hK = e_read" "sys_system_now hK = (\<lambda>k. (90000000000, k))"
  by (simp_all add: hK_def basic_platform_def platform.defs health_platform.defs)

definition example_health :: "ekern \<Rightarrow> (ekern, int) health" where
  "example_health k = \<lparr>kern = k, trace = [], ufs_version = ''ufs 310'', eol = 1, lifetimeA = 2,
     lifetimeB = 3, ufs_last_query_time = 3600000001, needs_wlc_updates = False\<rparr>"

section \<open>Storage information\<close>

definition file_read :: "string \<Rightarrow> bool \<times> string \<Rightarrow> 'n io" where
  "file_read p st = FileRead p (fst st) (snd st)"

definition day :: int where
  "day = 24 * 60 * 60 * 1000000"

lemma le_div_iff_times: "0 < (c :: int) \<Longrightarrow> a \<le> b div c \<longleftrightarrow> a * c \<le> b"
proof
  assume "0 < c" "a \<le> b div c"
  then have "a * c \<le> b div c * c" by (simp add: mult_right_mono)
  also have "\<dots> \<le> b" using \<open>0 < c\<close> by (simp add: minus_mod_eq_div_mult [symmetric])
  finally show "a * c \<le> b" .
next
  assume "0 < c" "a * c \<le> b"
  then show "a \<le> b div c" using zdiv_mono1 [of "a * c" b c] by simp
qed

lemma hours_day: "kUfsQueryIntervalHours \<le> hours us \<longleftrightarrow> day \<le> us"
proof (cases "0 \<le> us")
  case True
  then have "hours us = us div 3600000000" by (auto simp: hours_def sgn_if)
  then show ?thesis by (simp add: kUfsQueryIntervalHours_def day_def le_div_iff_times)
next
  case False
  then have "hours us \<le> 0" by (simp add: hours_def sgn_if div_int_pos_iff)
  with False show ?thesis by (simp add: kUfsQueryIntervalHours_def day_def)
qed

lemma to_unsigned_bound: "snd (to_unsigned bits neg v) < 2 ^ bits"
  by (auto simp: to_unsigned_def split: option.split)

lemma extract_unsigned_bound: "old < 2 ^ bits \<Longrightarrow> fst (extract_num b (to_unsigned bits) old st) < 2 ^ bits"
  using to_unsigned_bound by (auto simp: extract_num_def Let_def split: prod.split) (metis snd_conv)

lemma wp_read_value:
  "wp (read_value_from_file K p conv x) Q = (\<lambda>s. \<forall>st k. sys_read K p (kern s) = (st, k) \<longrightarrow>
     Q (fst (extract_num Auto conv x st)) (s\<lparr>kern := k, trace := trace s @ [file_read p st]\<rparr>))"
  by (auto simp: read_value_from_file_def assert_open_def ReadFileToString_def wp fun_eq_iff file_read_def
      split: prod.splits)

text \<open>
  C36: a query for the storage information always answers with one entry that shows the cached values.
  The version file is read by the first query alone, whatever the outcome of that read. The three
  health files are read, once each, when a day or more has passed since the last time, and then the
  values are the ones parsed (a value too large is kept at the largest, one that is no number is 0, a
  file that cannot be opened leaves the old one); otherwise no file is touched.
\<close>

theorem getStorageInfo_cache:
  assumes now: "\<And>k. fst (sys_system_now K k) = now"
  shows "wp (getStorageInfo K) (\<lambda>(status, out) t. \<exists>v e a b.
     let fresh = now - ufs_last_query_time s < day;
         parse = (\<lambda>old st. fst (extract_num Auto (to_unsigned 16) old st))
     in status = Binder_ok \<and>
        out = [\<lparr>si_eol = eol t, si_lifetimeA = lifetimeA t, si_lifetimeB = lifetimeB t, si_version = ufs_version t\<rparr>] \<and>
        trace t = trace s @ (if ufs_version s = [] then [file_read kUfsVersion v] else []) @
          (if fresh then [] else [file_read kUfsHealthEol e, file_read kUfsHealthLifetimeA a,
             file_read kUfsHealthLifetimeB b]) \<and>
        ufs_version t \<noteq> [] \<and> (if ufs_version s = [] then True else ufs_version t = ufs_version s) \<and>
        (eol t, lifetimeA t, lifetimeB t, ufs_last_query_time t) =
          (if fresh then (eol s, lifetimeA s, lifetimeB s, ufs_last_query_time s)
           else (parse (eol s) e, parse (lifetimeA s) a, parse (lifetimeB s) b, now))) s"
proof -
  have now': "sys_system_now K k = (r, k') \<Longrightarrow> r = now" for k r k'
    using now [of k] by simp
  show ?thesis
    unfolding getStorageInfo_def private_get_storage_info_def read_ufs_version_def
    by (auto simp: wp wp_read_value Let_def hours_day file_read_def dest!: now')
qed

theorem getStorageInfo_cache_witness:
  "wp (getStorageInfo hK) (\<lambda>(status, out) t. trace t = [] \<and> status = Binder_ok) (example_health ek0)"
  by (rule wp_mono [OF getStorageInfo_cache [where now = 90000000000]])
    (auto simp: example_health_def day_def Let_def)

section \<open>Disk statistics\<close>

definition stat_line :: "(string \<times> nat) list \<Rightarrow> string" where
  \<comment> \<open>numbers, each after some blanks\<close>
  "stat_line ns = concat (map (\<lambda>(blanks, n). blanks @ show_nat n) ns)"

definition well_spaced :: "(string \<times> nat) list \<Rightarrow> bool" where
  "well_spaced ns \<longleftrightarrow> (\<forall>(blanks, n) \<in> set ns. blanks \<noteq> [] \<and> (\<forall>c \<in> set blanks. isspace c) \<and> n < 2 ^ 63)"

lemma hex_val_digit: "is_digit c \<Longrightarrow> hex_val c = Some (digit_val c) \<and> digit_val c < 10"
  by (auto simp: is_digit_def hex_val_def digit_val_def Let_def)

lemma digits_val_dec:
  "\<forall>c \<in> set ds. is_digit c \<Longrightarrow> digits_val 10 ds a = Some (foldl (\<lambda>a c. 10 * a + digit_val c) a ds)"
  by (induction ds arbitrary: a) (simp_all add: hex_val_digit)

lemma token_show_nat: "token_val Decimal (show_nat n) = Some n"
  using digits_val_dec [OF show_nat_digits, of n 0] dec_val_show_nat [of n]
  by (simp add: token_val_def dec_val_def)

lemma scan_token_number:
  assumes "rest = [] \<or> \<not> is_digit (hd rest)"
  shows "scan_token Decimal (show_nat n @ rest) = (False, show_nat n, rest)"
proof -
  obtain c cs where c: "show_nat n = c # cs" "is_digit c"
    using show_nat_digits [of n] by (cases "show_nat n") auto
  have "takeWhile is_digit (show_nat n @ rest) = show_nat n" "dropWhile is_digit (show_nat n @ rest) = rest"
    using show_nat_digits [of n] assms by (cases rest; simp add: takeWhile_append dropWhile_append)+
  moreover have "is_atom Decimal = is_digit"
    by (simp add: is_atom_def fun_eq_iff)
  ultimately show ?thesis
    using c digit_not_special [of c] by (simp add: scan_token_def)
qed

lemma extract_number:
  assumes "\<forall>c \<in> set blanks. isspace c" "n < 2 ^ 63" "rest = [] \<or> \<not> is_digit (hd rest)"
  shows "extract_num Decimal (to_signed 64) old (True, blanks @ show_nat n @ rest) = (int n, True, rest)"
proof -
  obtain c cs where "show_nat n = c # cs" "is_digit c"
    using show_nat_digits [of n] by (cases "show_nat n") auto
  then have "dropWhile isspace (blanks @ show_nat n @ rest) = show_nat n @ rest"
    using assms(1) digit_not_special(1) [of c] by (simp add: dropWhile_append)
  moreover have "int n < 2 ^ 63" using assms(2) by simp
  ultimately show ?thesis
    using assms(3) by (simp add: extract_num_def scan_token_number token_show_nat to_signed_def
        del: dropWhile_eq_Nil_conv)
qed

lemma extract_all_rest: "\<forall>c \<in> set s. isspace c \<Longrightarrow> extract_all conv xs (good, s) = xs"
proof (induction xs arbitrary: good s)
  case (Cons x xs)
  then have "extract_num Decimal conv x (good, s) = (x, False, [])"
    by (simp add: extract_num_def)
  then show ?case using Cons.IH [of "[]"] by simp
qed simp

lemma extract_all_closed: "extract_all conv xs (False, s) = xs"
proof (induction xs arbitrary: s)
  case (Cons x xs)
  then show ?case by (simp add: extract_num_def)
qed simp

lemma stat_line_start:
  assumes "well_spaced ns" "\<forall>c \<in> set tail. isspace c"
  shows "stat_line ns @ tail = [] \<or> \<not> is_digit (hd (stat_line ns @ tail))"
proof (cases ns)
  case Nil
  then show ?thesis
    using assms(2) digit_not_special(1) by (cases tail) (auto simp: stat_line_def)
next
  case (Cons p ns')
  then show ?thesis
    using assms(1) digit_not_special(1) by (cases "fst p") (auto simp: stat_line_def well_spaced_def)
qed

lemma extract_all_line:
  assumes "well_spaced ns" "\<forall>c \<in> set tail. isspace c"
  shows "extract_all (to_signed 64) xs (True, stat_line ns @ tail) =
    take (length xs) (map (int \<circ> snd) ns) @ drop (length ns) xs"
  using assms
proof (induction ns arbitrary: xs)
  case Nil
  then show ?case by (simp add: stat_line_def extract_all_rest)
next
  case (Cons p ns)
  obtain blanks n where p: "p = (blanks, n)" by fastforce
  have rest: "well_spaced ns" "\<forall>c \<in> set blanks. isspace c" "n < 2 ^ 63"
    using Cons.prems(1) by (auto simp: well_spaced_def p)
  have "stat_line (p # ns) @ tail = blanks @ show_nat n @ (stat_line ns @ tail)"
    by (simp add: stat_line_def p)
  then have "extract_num Decimal (to_signed 64) x (True, stat_line (p # ns) @ tail) =
      (int n, True, stat_line ns @ tail)" for x
    using extract_number [OF rest(2,3) stat_line_start [OF rest(1) Cons.prems(2)]] by simp
  then show ?case
    using Cons.IH [OF rest(1) Cons.prems(2)] by (cases xs) (simp_all add: p)
qed

text \<open>
  C37: the disk statistics of a line of the kernel come back field by field: for a line of numbers below
  2^63, each after one or more blanks, the eleven fields are its first eleven numbers, and the fields
  a shorter line does not have (or all of them, when the file cannot be opened) are 0.
\<close>

theorem getDiskStats_roundtrip:
  assumes "sys_read K kDiskStatsFile (kern s) = ((opened, stat_line ns @ [CHR 0x0A]), k)" "well_spaced ns"
  shows "wp (getDiskStats K) (\<lambda>(status, out) t. status = Binder_ok \<and>
     out = [stats_of (take 11 ((if opened then map (int \<circ> snd) ns else []) @ replicate 11 0))]) s"
proof -
  have "\<forall>c \<in> set [CHR 0x0A]. isspace c" by (simp add: isspace_def)
  from extract_all_line [OF assms(2) this, of "replicate 11 0"]
  have line: "extract_all (to_signed 64) (replicate 11 0) (True, stat_line ns @ [CHR 0x0A]) =
      take 11 (map (int \<circ> snd) ns @ replicate 11 0)"
    by (simp only: length_replicate drop_replicate take_append take_replicate length_map)
      (simp add: min_def)
  have closed: "extract_all (to_signed 64) (replicate 11 0) (False, stat_line ns @ [CHR 0x0A]) = replicate 11 0"
    by (rule extract_all_closed)
  show ?thesis
    using assms(1)
    by (cases opened)
      (simp_all add: getDiskStats_def private_get_disk_stats_def assert_open_def ReadFileToString_def wp line closed)
qed

theorem getDiskStats_roundtrip_witness:
  "wp (getDiskStats hK) (\<lambda>(status, out) t. out = [stats_of [17, 42, 0, 0, 0, 0, 0, 0, 0, 0, 0]])
     (example_health (ek0\<lparr>e_files := [(kDiskStatsFile, '' 17   42'' @ [CHR 0x0A])]\<rparr>))"
proof -
  have line: "'' 17   42'' @ [CHR 0x0A] = stat_line [('' '', 17), (''   '', 42)] @ [CHR 0x0A]"
    by (simp add: stat_line_def show_nat.simps digit_char_def, code_simp)
  have zeros: "replicate 9 0 = [0, 0, 0, 0, 0, 0, 0, 0, 0 :: int]"
    by (simp add: numeral_eq_Suc)
  show ?thesis
    unfolding line
    by (rule wp_mono [OF getDiskStats_roundtrip [where opened = True and ns = "[('' '', 17), (''   '', 42)]"]])
      (simp_all add: e_read_def ek0_def example_health_def well_spaced_def isspace_def zeros case_prod_beta)
qed

end
