(* ===== verification/FpTest.thy ===== *)
theory FpTest
  imports Platform
begin

text \<open>
  The fingerprint test tool (\<^verbatim>\<open>fingerprint/fpc1540/fp_tool/fp_test.cpp\<close>): its command line,
  what each command calls, and its exit code. Properties and the fingerprint service are parameters;
  what it prints is not modelled. An argument that fills the buffer completely makes
  \<^verbatim>\<open>strcpy\<close> write its NUL past the end, which is the fault \<open>Buffer_overflow\<close>.
\<close>

datatype RequestStatus = SYS_OK | RequestStatus_other int

datatype fp_note =
    PropertySet string string int
  | GetService bool
  | Authenticate "64 word" "32 word" RequestStatus
  | Cancel RequestStatus

record 'k fp_platform = "('k, fp_note) platform" +
  sys_property_set :: "string \<Rightarrow> string \<Rightarrow> 'k \<Rightarrow> int \<times> 'k"
  sys_getService :: "'k \<Rightarrow> bool \<times> 'k"
  sys_authenticate :: "64 word \<Rightarrow> 32 word \<Rightarrow> 'k \<Rightarrow> RequestStatus \<times> 'k"
  sys_cancel :: "'k \<Rightarrow> RequestStatus \<times> 'k"

type_synonym 'k fp_world = "('k, fp_note) world"

section \<open>Constants\<close>

definition STRING_SIZE :: nat where "STRING_SIZE = 32"
definition FPS_SRV_PROP :: string where "FPS_SRV_PROP = ''fps_hal''"
definition FPS_SRV_FULL_PROP :: string where "FPS_SRV_FULL_PROP = ''init.svc.fps_hal''"

text \<open>\<^verbatim>\<open>enum ErrorType\<close>, whose values the functions return, negated, as \<^verbatim>\<open>int\<close>.\<close>

datatype ErrorType = OK | ERROR

primrec error_value :: "ErrorType \<Rightarrow> int" where
  "error_value OK = 0"
| "error_value ERROR = 1"

section \<open>The command line\<close>

definition strncmp :: "string \<Rightarrow> string \<Rightarrow> nat \<Rightarrow> bool" where
  \<comment> \<open>\<^verbatim>\<open>!strncmp(a, b, n)\<close>: the first \<open>n\<close> bytes, NUL included, agree\<close>
  "strncmp a b n \<longleftrightarrow> take n (c_str a @ [NUL]) = take n (c_str b @ [NUL])"

definition checkParameter :: "string list \<Rightarrow> fault + int" where
  "checkParameter strArray =
     (if length strArray \<noteq> 2 \<or> STRING_SIZE < length (c_str (strArray ! 1)) then Inr (- error_value ERROR)
      else if STRING_SIZE < length (c_str (strArray ! 1)) + 1 then Inl Buffer_overflow
      else let parameter = c_str (strArray ! 1)
        in if strncmp parameter ''-a'' 3 then Inr (of_char CHR ''a'')
           else if strncmp parameter ''-n'' 3 then Inr (of_char CHR ''n'')
           else if strncmp parameter ''-i'' 3 then Inr (of_char CHR ''n'')
           else if strncmp parameter ''-e'' 3 then Inr (of_char CHR ''e'')
           else if strncmp parameter ''-d'' 3 then Inr (of_char CHR ''d'')
           else Inr (- error_value ERROR))"

section \<open>The commands\<close>

definition enable_disable_fps :: "'k fp_platform \<Rightarrow> bool \<Rightarrow> ('k fp_world, int) state" where
  "enable_disable_fps K set_on = do {
     let name = (if set_on then ''ctl.start'' else ''ctl.stop'');
     r \<leftarrow> sys (sys_property_set K name FPS_SRV_PROP) (\<lambda>r. [LibCall (PropertySet name FPS_SRV_PROP r)]);
     if r \<noteq> 0 then ret (- error_value ERROR) else ret r
   }"

definition run_cmd :: "'k fp_platform \<Rightarrow> ('k fp_world, RequestStatus) state \<Rightarrow> ('k fp_world, int) state" where
  \<comment> \<open>what \<open>run_auth_cmd\<close> and \<open>run_cancel_cmd\<close> share\<close>
  "run_cmd K request = do {
     tempbuf \<leftarrow> GetProperty K FPS_SRV_FULL_PROP '''';
     if strncmp tempbuf ''stopped'' 7 then ret (- error_value ERROR)
     else do {
       service \<leftarrow> sys (sys_getService K) (\<lambda>r. [LibCall (GetService r)]);
       if \<not> service then ret (- error_value ERROR)
       else do {
         hidlRet \<leftarrow> request;
         ret (if hidlRet = SYS_OK then error_value OK else - error_value ERROR)
       }
     }
   }"

definition run_auth_cmd :: "'k fp_platform \<Rightarrow> ('k fp_world, int) state" where
  "run_auth_cmd K =
     (let operationId = 0; gid = 0
      in run_cmd K (sys (sys_authenticate K operationId gid)
           (\<lambda>r. [LibCall (Authenticate operationId gid r)])))"

definition run_cancel_cmd :: "'k fp_platform \<Rightarrow> ('k fp_world, int) state" where
  "run_cancel_cmd K = run_cmd K (sys (sys_cancel K) (\<lambda>r. [LibCall (Cancel r)]))"

definition fp_main :: "'k fp_platform \<Rightarrow> string list \<Rightarrow> ('k fp_world, fault + int) state" where
  "fp_main K argv = on_ok (checkParameter argv) (\<lambda>input.
     if input = - error_value ERROR then ret (Inr (- error_value ERROR))
     else do {
       r \<leftarrow> (if input = of_char CHR ''e'' then enable_disable_fps K True
            else if input = of_char CHR ''d'' then enable_disable_fps K False
            else if input = of_char CHR ''a'' then run_auth_cmd K
            else run_cancel_cmd K);
       ret (Inr r)
     })"

section \<open>What the tool does\<close>

lemma strncmp_whole:
  assumes "NUL \<notin> set b"
  shows "strncmp a b (Suc (length b)) \<longleftrightarrow> c_str a = b"
proof -
  have "c_str a = b" if eq: "take (Suc (length b)) (c_str a @ [NUL]) = b @ [NUL]"
  proof (cases "length (c_str a) \<le> length b")
    case True
    with eq show ?thesis by simp
  next
    case False
    with eq have "take (Suc (length b)) (c_str a) = b @ [NUL]" by simp
    then have "NUL \<in> set (take (Suc (length b)) (c_str a))" by simp
    then show ?thesis using c_str_no_NUL in_set_takeD by metis
  qed
  then show ?thesis
    using assms by (auto simp: strncmp_def c_str_id)
qed

lemma strncmp_prefix:
  assumes "NUL \<notin> set b"
  shows "strncmp a b (length b) \<longleftrightarrow> prefix b (c_str a)"
proof (cases "length b \<le> length (c_str a)")
  case True
  then show ?thesis
    using assms by (auto simp: strncmp_def c_str_id prefix_def) (metis append_take_drop_id)
next
  case False
  then have "take (length b) (c_str a @ [NUL]) = c_str a @ [NUL]" by simp
  then show ?thesis
    using False assms by (auto simp: strncmp_def c_str_id dest: prefix_length_le)
qed

lemma options:
  "strncmp a ''-a'' 3 \<longleftrightarrow> c_str a = ''-a''" "strncmp a ''-n'' 3 \<longleftrightarrow> c_str a = ''-n''"
  "strncmp a ''-i'' 3 \<longleftrightarrow> c_str a = ''-i''" "strncmp a ''-e'' 3 \<longleftrightarrow> c_str a = ''-e''"
  "strncmp a ''-d'' 3 \<longleftrightarrow> c_str a = ''-d''" "strncmp a ''stopped'' 7 \<longleftrightarrow> prefix ''stopped'' (c_str a)"
  using strncmp_whole [of "''-a''" a] strncmp_whole [of "''-n''" a] strncmp_whole [of "''-i''" a]
    strncmp_whole [of "''-e''" a] strncmp_whole [of "''-d''" a] strncmp_prefix [of "''stopped''" a]
  by (simp_all add: NUL_def numeral_3_eq_3 eval_nat_numeral)

text \<open>The calls of a request to the fingerprint service, and the exit code.\<close>

definition requested_by :: "(RequestStatus \<Rightarrow> fp_note) \<Rightarrow> fp_note list \<Rightarrow> int \<Rightarrow> bool" where
  "requested_by call cs code \<longleftrightarrow>
     cs = [] \<and> code = - 1 \<or> cs = [GetService False] \<and> code = - 1 \<or>
     (\<exists>r. cs = [GetService True, call r] \<and> code = (if r = SYS_OK then 0 else - 1))"

lemma wp_run_cmd:
  assumes "\<And>Q s. wp request Q s \<longleftrightarrow> (\<forall>r k. f (kern s) = (r, k) \<longrightarrow>
      Q r (s\<lparr>kern := k, trace := trace s @ [LibCall (call r)]\<rparr>))"
  shows "wp (run_cmd K request) (\<lambda>code t. \<exists>cs. called t = called s @ cs \<and> requested_by call cs code) s"
  unfolding run_cmd_def GetProperty_def wp assms by (auto simp: requested_by_def)

lemma checkParameter_result:
  "checkParameter argv = (let arg = c_str (argv ! 1)
     in if length argv \<noteq> 2 \<or> 32 < length arg then Inr (- 1)
        else if length arg = 32 then Inl Buffer_overflow
        else if arg = ''-a'' then Inr 97 else if arg = ''-n'' \<or> arg = ''-i'' then Inr 110
        else if arg = ''-e'' then Inr 101 else if arg = ''-d'' then Inr 100 else Inr (- 1))"
  unfolding checkParameter_def STRING_SIZE_def options Let_def c_str_idem by auto

lemma fp_main_commands:
  "checkParameter argv = Inl e \<Longrightarrow> fp_main K argv = ret (Inl e)"
  "checkParameter argv = Inr (- 1) \<Longrightarrow> fp_main K argv = ret (Inr (- 1))"
  "checkParameter argv = Inr 101 \<Longrightarrow> fp_main K argv = do { r \<leftarrow> enable_disable_fps K True; ret (Inr r) }"
  "checkParameter argv = Inr 100 \<Longrightarrow> fp_main K argv = do { r \<leftarrow> enable_disable_fps K False; ret (Inr r) }"
  "checkParameter argv = Inr 97 \<Longrightarrow> fp_main K argv = do { r \<leftarrow> run_auth_cmd K; ret (Inr r) }"
  "checkParameter argv = Inr 110 \<Longrightarrow> fp_main K argv = do { r \<leftarrow> run_cancel_cmd K; ret (Inr r) }"
  by (simp_all add: fp_main_def)

text \<open>
  C39: the tool does what its usage text lists for exactly five arguments, with the exit code of that
  call: \<^verbatim>\<open>-e\<close> and \<^verbatim>\<open>-d\<close> start and stop the service, \<^verbatim>\<open>-a\<close>
  authenticates, \<^verbatim>\<open>-n\<close> and \<^verbatim>\<open>-i\<close> both cancel. Any other command line calls nothing and
  fails, but an argument of 32 characters overruns the buffer.
\<close>

theorem fp_main_effect:
  "wp (fp_main K argv) (\<lambda>r t.
     let arg = c_str (argv ! 1)
     in if length argv = 2 \<and> length arg = 32 then r = Inl Buffer_overflow \<and> called t = called s
        else \<exists>cs code. r = Inr code \<and> called t = called s @ cs \<and>
          (if length argv \<noteq> 2 then cs = [] \<and> code = - 1
           else if arg = ''-e'' then \<exists>e. cs = [PropertySet ''ctl.start'' ''fps_hal'' e] \<and>
             code = (if e = 0 then 0 else - 1)
           else if arg = ''-d'' then \<exists>e. cs = [PropertySet ''ctl.stop'' ''fps_hal'' e] \<and>
             code = (if e = 0 then 0 else - 1)
           else if arg = ''-a'' then requested_by (Authenticate 0 0) cs code
           else if arg \<in> {''-n'', ''-i''} then requested_by Cancel cs code
           else cs = [] \<and> code = - 1)) s"
proof -
  let ?arg = "c_str (argv ! 1)"
  have auth: "wp (run_auth_cmd K) (\<lambda>code t. \<exists>cs. called t = called s @ cs \<and> requested_by (Authenticate 0 0) cs code) s"
    unfolding run_auth_cmd_def Let_def by (rule wp_run_cmd) (simp add: wp)
  have cancel: "wp (run_cancel_cmd K) (\<lambda>code t. \<exists>cs. called t = called s @ cs \<and> requested_by Cancel cs code) s"
    unfolding run_cancel_cmd_def by (rule wp_run_cmd) (simp add: wp)
  show ?thesis
  proof (cases "length argv = 2 \<and> ?arg \<in> {''-a'', ''-n'', ''-i''}")
    case True
    then consider "?arg = ''-a''" | "?arg = ''-n'' \<or> ?arg = ''-i''" by blast
    then show ?thesis
    proof cases
      case 1
      then have "checkParameter argv = Inr 97" using True by (simp add: checkParameter_result)
      then show ?thesis
        using True 1 by (auto simp: fp_main_commands wp intro!: wp_mono [OF auth])
    next
      case 2
      then have "checkParameter argv = Inr 110" using True by (auto simp: checkParameter_result)
      then show ?thesis
        using True 2 by (auto simp: fp_main_commands wp intro!: wp_mono [OF cancel])
    qed
  next
    case False
    then consider "checkParameter argv = Inr (- 1)" "length argv \<noteq> 2 \<or> length ?arg \<noteq> 32 \<and> ?arg \<notin> {''-e'', ''-d''}"
      | "checkParameter argv = Inl Buffer_overflow" "length argv = 2" "length ?arg = 32"
      | "checkParameter argv = Inr 101" "length argv = 2" "?arg = ''-e''"
      | "checkParameter argv = Inr 100" "length argv = 2" "?arg = ''-d''"
      by (cases "length argv = 2"; cases "length ?arg = 32"; cases "?arg = ''-e''"; cases "?arg = ''-d''")
        (auto simp: checkParameter_result Let_def)
    then show ?thesis
      using False
      by cases (auto simp: fp_main_commands enable_disable_fps_def FPS_SRV_PROP_def wp Let_def)
  qed
qed

end
