(* ===== verification/PkvmEnabler.thy ===== *)
theory PkvmEnabler
  imports ExampleKernel
begin

text \<open>
  The pKVM enabler (\<^verbatim>\<open>pkvm/pkvm_enabler.c\<close>): one run of \<^verbatim>\<open>main\<close> up to the end of
  the process, in the parent or, when \<^verbatim>\<open>fork\<close> returns 0, in the child. The exit status of the
  child as the parent sees it is a result of \<^verbatim>\<open>waitpid\<close>.
\<close>

datatype wait_status = Exited int | Terminated int

datatype pkvm_note =
    Warned int                              \<comment> \<open>\<^verbatim>\<open>Unexpected error from access()\<close>\<close>
  | Forked int
  | Execve string "string list" "string list"
  | Waited int wait_status
  | WriterFailed wait_status                \<comment> \<open>the two messages about the writer\<close>

datatype process_end = Exit nat | Became string "string list" "string list"

record 'k pkvm_platform = "('k, pkvm_note) platform" +
  sys_access_F_OK :: "string \<Rightarrow> 'k \<Rightarrow> int \<times> 'k"
  sys_fork :: "'k \<Rightarrow> int \<times> 'k"
  sys_execve :: "string \<Rightarrow> string list \<Rightarrow> string list \<Rightarrow> 'k \<Rightarrow> bool \<times> 'k"
    \<comment> \<open>False when it returns\<close>
  sys_waitpid :: "int \<Rightarrow> 'k \<Rightarrow> wait_status \<times> 'k"

type_synonym 'k pkvm_world = "('k, pkvm_note) world"

definition KVM_DEVICE :: string where "KVM_DEVICE = ''/dev/kvm''"
definition MISC_WRITER :: string where "MISC_WRITER = ''/vendor/bin/misc_writer''"

text \<open>Numbers of the C library.\<close>

definition ENOENT :: int where "ENOENT = 2"
definition EXIT_SUCCESS :: nat where "EXIT_SUCCESS = 0"
definition EXIT_FAILURE :: nat where "EXIT_FAILURE = 1"

definition run_writer :: "'k pkvm_platform \<Rightarrow> ('k pkvm_world, process_end) state" where
  \<comment> \<open>the child\<close>
  "run_writer K = do {
     let newargv = [MISC_WRITER, ''--set-enable-pkvm''];
     let newenvp = [];
     done \<leftarrow> sys (sys_execve K MISC_WRITER newargv newenvp) (\<lambda>_. [LibCall (Execve MISC_WRITER newargv newenvp)]);
     ret (if done then Became MISC_WRITER newargv newenvp else Exit EXIT_FAILURE)
   }"

definition await_writer :: "'k pkvm_platform \<Rightarrow> int \<Rightarrow> ('k pkvm_world, process_end) state" where
  \<comment> \<open>the parent\<close>
  "await_writer K pid = do {
     wstatus \<leftarrow> sys (sys_waitpid K pid) (\<lambda>w. [LibCall (Waited pid w)]);
     only_if (wstatus \<noteq> Exited 0) (lib_call (WriterFailed wstatus));
     ret (Exit EXIT_FAILURE)
   }"

definition pkvm_main :: "'k pkvm_platform \<Rightarrow> ('k pkvm_world, process_end) state" where
  "pkvm_main K = do {
     r \<leftarrow> sys (sys_access_F_OK K KVM_DEVICE) (\<lambda>_. []);
     if r = 0 then ret (Exit EXIT_SUCCESS)
     else do {
       only_if (r \<noteq> - ENOENT) (lib_call (Warned r));
       pid \<leftarrow> sys (sys_fork K) (\<lambda>p. [LibCall (Forked p)]);
       if pid = - 1 then ret (Exit EXIT_FAILURE)
       else if pid = 0 then run_writer K
       else await_writer K pid
     }
   }"

section \<open>What a run does\<close>

text \<open>
  C40: with the KVM device there the enabler succeeds and does nothing else. Without it the boot is made to
  fail (so that the device reboots) in every case but the child's that became the writer, which was
  run once, with the flag that enables pKVM and an empty environment; the parent waits for the child
  before it exits. \<^verbatim>\<open>access\<close> answers 0 or -1, and for -1 the warning about an unexpected
  error is given, also when the device is merely missing.
\<close>

theorem pkvm_main_effect:
  assumes "sys_access_F_OK K ''/dev/kvm'' (kern s) = (r, k)" and "r \<in> {0, - 1}"
  shows "wp (pkvm_main K) (\<lambda>p t.
     if r = 0 then p = Exit 0 \<and> called t = called s
     else \<exists>pid cs. called t = called s @ [Warned (- 1), Forked pid] @ cs \<and>
       (if pid = 0 then cs = [Execve ''/vendor/bin/misc_writer'' [''/vendor/bin/misc_writer'', ''--set-enable-pkvm''] []] \<and>
           p \<in> {Exit 1, Became ''/vendor/bin/misc_writer'' [''/vendor/bin/misc_writer'', ''--set-enable-pkvm''] []}
        else p = Exit 1 \<and>
          (if pid = - 1 then cs = []
           else \<exists>w. cs = Waited pid w # (if w = Exited 0 then [] else [WriterFailed w])))) s"
proof (cases "r = 0")
  case True
  with assms(1) show ?thesis
    by (simp add: pkvm_main_def wp KVM_DEVICE_def EXIT_SUCCESS_def)
next
  case False
  with assms show ?thesis
    by (auto simp: pkvm_main_def run_writer_def await_writer_def wp KVM_DEVICE_def
        MISC_WRITER_def EXIT_FAILURE_def ENOENT_def)
qed

text \<open>A device without KVM, whose writer succeeds.\<close>

definition pK :: "ekern pkvm_platform" where
  "pK = platform.extend basic_platform (pkvm_platform.fields
     (\<lambda>p k. (- 1, k)) (\<lambda>k. (42, k)) (\<lambda>p a e k. (True, k)) (\<lambda>p k. (Exited 0, k)))"

theorem pkvm_main_effect_witness:
  "wp (pkvm_main pK) (\<lambda>p t. \<exists>pid cs. called t = [Warned (- 1), Forked pid] @ cs)
     \<lparr>kern = ek0, trace = []\<rparr>"
  by (rule wp_mono [OF pkvm_main_effect [where r = "- 1" and k = ek0]])
    (auto simp: pK_def platform.defs pkvm_platform.defs)

end
