(* ===== verification/PowerStats.thy ===== *)
theory PowerStats
  imports Platform
begin

text \<open>
  The power statistics of the platform (\<^verbatim>\<open>powerstats/Gs101CommonDataProviders.cpp\<close>): which
  data providers and energy consumers are registered, in which order, with which tables. The classes of
  the power statistics library are not under \<^verbatim>\<open>src/\<close>; a registration is a \<open>LibCall\<close> that
  holds the arguments, and \<open>generateGenericStateResidencyConfigs\<close>, which turns a configuration and its
  headers into something of any type \<open>'g\<close>, is a field of the platform.
\<close>

section \<open>What is registered\<close>

record StateResidencyConfig =
  entryCountSupported :: bool
  entryCountPrefix :: string
  totalTimeSupported :: bool
  totalTimePrefix :: string
  totalTimeTransform :: "(64 word \<Rightarrow> 64 word) option"
  lastEntrySupported :: bool
  lastEntryPrefix :: string
  lastEntryTransform :: "(64 word \<Rightarrow> 64 word) option"

type_synonym headers = "(string \<times> string) list"
type_synonym dvfs_table = "string \<times> (string \<times> string) list"

datatype 'g provider =
    AocStateResidency headers headers "64 word"
  | DvfsStateResidency string "64 word" "dvfs_table list"
  | GenericStateResidency string "('g \<times> string \<times> string) list"
  | DevfreqStateResidency string string
  | UfsStateResidency string
  | DisplayMrrStateResidency string string
  | PixelStateResidency "(string \<times> (nat \<times> string) list) list"

datatype EnergyConsumerType = OTHER | CPU_CLUSTER | GNSS | MOBILE_RADIO

datatype UidTimeAttr = UID_TIME_IN_STATE

datatype energy_consumer =
    MeterConsumer EnergyConsumerType string "string list"
  | MeterAndAttrConsumer EnergyConsumerType string "string list" "(UidTimeAttr \<times> string) list" "(string \<times> int) list"
    \<comment> \<open>the coefficients of the states as the pairs of the \<^verbatim>\<open>std::map\<close>\<close>

datatype 'g power_note =
    SetEnergyMeter "string list" bool
  | AddProvider "'g provider"
  | AddConsumer energy_consumer
  | StartPixelProvider

record ('k, 'g) power_platform = "('k, 'g power_note) platform" +
  sys_GetIntProperty :: "string \<Rightarrow> int \<Rightarrow> 'k \<Rightarrow> int \<times> 'k"
  lib_generateConfigs :: "StateResidencyConfig \<Rightarrow> headers \<Rightarrow> 'g"

type_synonym ('k, 'g) power_world = "('k, 'g power_note) world"

definition GetIntProperty ::
  "('k, 'g) power_platform \<Rightarrow> string \<Rightarrow> int \<Rightarrow> (('k, 'g) power_world, int) state" where
  "GetIntProperty K name d = sys (sys_GetIntProperty K name d) (\<lambda>_. [])"

definition addStateResidencyDataProvider :: "'g provider \<Rightarrow> (('k, 'g) power_world, unit) state" where
  "addStateResidencyDataProvider p = lib_call (AddProvider p)"

definition addEnergyConsumer :: "energy_consumer \<Rightarrow> (('k, 'g) power_world, unit) state" where
  "addEnergyConsumer c = lib_call (AddConsumer c)"

definition kBootHwSoCRev :: string where "kBootHwSoCRev = ''ro.boot.hw.soc.rev''"
definition NS_TO_MS :: int where "NS_TO_MS = 1000000"
definition US_TO_MS :: int where "US_TO_MS = 1000"
definition AOC_CLOCK :: "64 word" where "AOC_CLOCK = 4096"

definition acpmNsToMs :: "64 word \<Rightarrow> 64 word" where "acpmNsToMs a = a div of_int NS_TO_MS"
definition modemUsToMs :: "64 word \<Rightarrow> 64 word" where "modemUsToMs a = a div of_int US_TO_MS"
definition gnssUsToMs :: "64 word \<Rightarrow> 64 word" where "gnssUsToMs a = a div of_int US_TO_MS"
definition usecToMs :: "64 word \<Rightarrow> 64 word" where "usecToMs a = a div 1000"

definition supported :: "string \<Rightarrow> string \<Rightarrow> string \<Rightarrow> (64 word \<Rightarrow> 64 word) option \<Rightarrow> StateResidencyConfig" where
  \<comment> \<open>count, total time and last entry with their prefixes, both times with the same transform\<close>
  "supported count total_time last_entry f = \<lparr>entryCountSupported = True, entryCountPrefix = count,
     totalTimeSupported = True, totalTimePrefix = total_time, totalTimeTransform = f,
     lastEntrySupported = True, lastEntryPrefix = last_entry, lastEntryTransform = f\<rparr>"

section \<open>AoC\<close>

definition addAoC :: "('k, 'g) power_platform \<Rightarrow> (('k, 'g) power_world, unit) state" where
  "addAoC K = (
     let prefix = ''/sys/devices/platform/19000000.aoc/control/'';
       coreIds = [(''AoC-A32'', prefix @ ''a32_''), (''AoC-FF1'', prefix @ ''ff1_''),
         (''AoC-HF1'', prefix @ ''hf1_''), (''AoC-HF0'', prefix @ ''hf0_'')];
       coreStates = [(''DWN'', ''off''), (''RET'', ''retention''), (''WFI'', ''wfi'')];
       voltageIds = [(''AoC-Voltage'', prefix @ ''voltage_'')];
       voltageStates = [(''NOM'', ''nominal''), (''SUD'', ''super_underdrive''),
         (''UUD'', ''ultra_underdrive''), (''UD'', ''underdrive'')];
       monitorIds = [(''AoC'', prefix @ ''monitor_'')];
       monitorStates = [(''MON'', ''mode'')];
       restartCountConfig = \<lparr>entryCountSupported = True, entryCountPrefix = [],
         totalTimeSupported = False, totalTimePrefix = [], totalTimeTransform = None,
         lastEntrySupported = False, lastEntryPrefix = [], lastEntryTransform = None\<rparr>;
       restartCountHeaders = [(''RESTART'', [])];
       cfgs = [(lib_generateConfigs K restartCountConfig restartCountHeaders, ''AoC-Count'', [])]
     in do {
       addStateResidencyDataProvider (AocStateResidency coreIds coreStates AOC_CLOCK);
       addStateResidencyDataProvider (AocStateResidency voltageIds voltageStates AOC_CLOCK);
       addStateResidencyDataProvider (AocStateResidency monitorIds monitorStates AOC_CLOCK);
       addStateResidencyDataProvider (GenericStateResidency
         ''/sys/devices/platform/19000000.aoc/restart_count'' cfgs)
     })"

section \<open>Frequency tables\<close>

definition MIF_table :: dvfs_table where
  "MIF_table = (''MIF'',
     [(''3172MHz'', ''3172000''), (''2730MHz'', ''2730000''), (''2535MHz'', ''2535000''),
      (''2288MHz'', ''2288000''), (''2028MHz'', ''2028000''), (''1716MHz'', ''1716000''),
      (''1539MHz'', ''1539000''), (''1352MHz'', ''1352000''), (''1014MHz'', ''1014000''),
      (''845MHz'', ''845000''), (''676MHz'', ''676000''), (''546MHz'', ''546000''),
      (''421MHz'', ''421000''), (''0MHz'', ''0'')])"

definition CL1_table :: dvfs_table where
  "CL1_table = (''CL1'',
     [(''2466MHz'', ''2466000''), (''2393MHz'', ''2393000''), (''2348MHz'', ''2348000''),
      (''2253MHz'', ''2253000''), (''2130MHz'', ''2130000''), (''1999MHz'', ''1999000''),
      (''1836MHz'', ''1836000''), (''1663MHz'', ''1663000''), (''1491MHz'', ''1491000''),
      (''1328MHz'', ''1328000''), (''1197MHz'', ''1197000''), (''1024MHz'', ''1024000''),
      (''910MHz'', ''910000''), (''799MHz'', ''799000''), (''696MHz'', ''696000''),
      (''533MHz'', ''533000''), (''400MHz'', ''400000''), (''0MHz'', ''0'')])"

definition CL0_table_B :: dvfs_table where
  "CL0_table_B = (''CL0'',
     [(''2196MHz'', ''2196000''), (''2098MHz'', ''2098000''), (''2024MHz'', ''2024000''),
      (''1950MHz'', ''1950000''), (''1803MHz'', ''1803000''), (''1704MHz'', ''1704000''),
      (''1598MHz'', ''1598000''), (''1401MHz'', ''1401000''), (''1328MHz'', ''1328000''),
      (''1197MHz'', ''1197000''), (''1098MHz'', ''1098000''), (''930MHz'', ''930000''),
      (''738MHz'', ''738000''), (''574MHz'', ''574000''), (''300MHz'', ''300000''),
      (''0MHz'', ''0'')])"

definition CL2_table_B :: dvfs_table where
  "CL2_table_B = (''CL2'',
     [(''3195MHz'', ''3195000''), (''3097MHz'', ''3097000''), (''2950MHz'', ''2950000''),
      (''2850MHz'', ''2850000''), (''2802MHz'', ''2802000''), (''2704MHz'', ''2704000''),
      (''2630MHz'', ''2630000''), (''2507MHz'', ''2507000''), (''2401MHz'', ''2401000''),
      (''2252MHz'', ''2252000''), (''2188MHz'', ''2188000''), (''2048MHz'', ''2048000''),
      (''1826MHz'', ''1826000''), (''1745MHz'', ''1745000''), (''1582MHz'', ''1582000''),
      (''1426MHz'', ''1426000''), (''1277MHz'', ''1277000''), (''1106MHz'', ''1106000''),
      (''984MHz'', ''984000''), (''851MHz'', ''851000''), (''500MHz'', ''500000''),
      (''0MHz'', ''0'')])"

definition TPU_table_B :: dvfs_table where
  "TPU_table_B = (''TPU'',
     [(''1230MHz'', ''1230000''), (''1066MHz'', ''1066000''), (''800MHz'', ''800000''),
      (''500MHz'', ''500000''), (''226MHz'', ''226000''), (''RET_SLOW'', ''6''),
      (''S_OFF'', ''5''), (''S_SLOW'', ''4''), (''DS_FAST'', ''3''), (''DS_SLOW'', ''2''),
      (''DS_OFF'', ''1''), (''OFF'', ''0'')])"

definition CL0_table_A :: dvfs_table where
  "CL0_table_A = (''CL0'',
     [(''2196MHz'', ''2196000''), (''2098MHz'', ''2098000''), (''2024MHz'', ''2024000''),
      (''1950MHz'', ''1950000''), (''1868MHz'', ''1868000''), (''1745MHz'', ''1745000''),
      (''1598MHz'', ''1598000''), (''1459MHz'', ''1459000''), (''1328MHz'', ''1328000''),
      (''1197MHz'', ''1197000''), (''1098MHz'', ''1098000''), (''889MHz'', ''889000''),
      (''738MHz'', ''738000''), (''574MHz'', ''574000''), (''300MHz'', ''300000''),
      (''0MHz'', ''0'')])"

definition CL2_table_A :: dvfs_table where
  "CL2_table_A = (''CL2'',
     [(''3195MHz'', ''3195000''), (''3097MHz'', ''3097000''), (''2999MHz'', ''2999000''),
      (''2900MHz'', ''2900000''), (''2802MHz'', ''2802000''), (''2704MHz'', ''2704000''),
      (''2630MHz'', ''2630000''), (''2507MHz'', ''2507000''), (''2302MHz'', ''2302000''),
      (''2188MHz'', ''2188000''), (''2048MHz'', ''2048000''), (''1901MHz'', ''1901000''),
      (''1745MHz'', ''1745000''), (''1582MHz'', ''1582000''), (''1426MHz'', ''1426000''),
      (''1237MHz'', ''1237000''), (''1106MHz'', ''1106000''), (''984MHz'', ''984000''),
      (''848MHz'', ''848000''), (''500MHz'', ''500000''), (''0MHz'', ''0'')])"

definition TPU_table_A :: dvfs_table where
  "TPU_table_A = (''TPU'',
     [(''1393MHz'', ''1393000''), (''1180MHz'', ''1180000''), (''1049MHz'', ''1049000''),
      (''967MHz'', ''967000''), (''721MHz'', ''721000''), (''648MHz'', ''648000''),
      (''455MHz'', ''455000''), (''250MHz'', ''250000''), (''RET_SLOW'', ''6''),
      (''S_OFF'', ''5''), (''S_SLOW'', ''4''), (''DS_FAST'', ''3''), (''DS_SLOW'', ''2''),
      (''DS_OFF'', ''1''), (''OFF'', ''0'')])"

definition dvfs_tables :: "int \<Rightarrow> dvfs_table list" where
  \<comment> \<open>B0 and B1 chips have other operating points than A0 and A1\<close>
  "dvfs_tables socRev = [MIF_table, CL1_table] @
     (if 2 \<le> socRev then [CL0_table_B, CL2_table_B, TPU_table_B]
      else [CL0_table_A, CL2_table_A, TPU_table_A])"

definition addDvfsStats :: "('k, 'g) power_platform \<Rightarrow> (('k, 'g) power_world, unit) state" where
  "addDvfsStats K = do {
     socRev \<leftarrow> GetIntProperty K kBootHwSoCRev 0;
     addStateResidencyDataProvider (DvfsStateResidency
       ''/sys/devices/platform/acpm_stats/fvp_stats'' (of_int NS_TO_MS) (dvfs_tables socRev))
   }"

section \<open>SoC, CPU and GPU\<close>

definition addSoC :: "('k, 'g) power_platform \<Rightarrow> (('k, 'g) power_world, unit) state" where
  "addSoC K = (
     let lpmStateConfig = supported ''success_count:'' ''total_time_ns:'' ''last_entry_time_ns:'' (Some acpmNsToMs);
       downStateConfig = supported ''down_count:'' ''total_down_time_ns:'' ''last_down_time_ns:'' (Some acpmNsToMs);
       reqStateConfig = supported ''req_up_count:'' ''total_req_up_time_ns:'' ''last_req_up_time_ns:'' (Some acpmNsToMs);
       powerStateHeaders = [(''SICD'', ''SICD''), (''SLEEP'', ''SLEEP''),
         (''SLEEP_SLCMON'', ''SLEEP_SLCMON''), (''STOP'', ''STOP'')];
       mifReqStateHeaders = [(''AOC'', ''AOC''), (''GSA'', ''GSA'')];
       slcReqStateHeaders = [(''AOC'', ''AOC'')];
       cfgs = [(lib_generateConfigs K lpmStateConfig powerStateHeaders, ''LPM'', ''LPM:''),
         (lib_generateConfigs K downStateConfig powerStateHeaders, ''MIF'', ''MIF:''),
         (lib_generateConfigs K reqStateConfig mifReqStateHeaders, ''MIF-REQ'', ''MIF_REQ:''),
         (lib_generateConfigs K downStateConfig powerStateHeaders, ''SLC'', ''SLC:''),
         (lib_generateConfigs K reqStateConfig slcReqStateHeaders, ''SLC-REQ'', ''SLC_REQ:'')]
     in addStateResidencyDataProvider (GenericStateResidency
          ''/sys/devices/platform/acpm_stats/soc_stats'' cfgs))"

definition setEnergyMeter :: "(('k, 'g) power_world, unit) state" where
  "setEnergyMeter = lib_call (SetEnergyMeter [''s2mpg10-odpm'', ''s2mpg11-odpm''] True)"

definition addCPUclusters :: "('k, 'g) power_platform \<Rightarrow> (('k, 'g) power_world, unit) state" where
  "addCPUclusters K = (
     let cpuStateConfig = supported ''down_count:'' ''total_down_time_ns:'' ''last_down_time_ns:'' (Some acpmNsToMs);
       cpuStateHeaders = [(''DOWN'', [])];
       cfgs = map (\<lambda>name. (lib_generateConfigs K cpuStateConfig cpuStateHeaders, name, name))
         [''CORE00'', ''CORE01'', ''CORE02'', ''CORE03'', ''CORE10'', ''CORE11'', ''CORE20'', ''CORE21'',
          ''CLUSTER0'', ''CLUSTER1'', ''CLUSTER2'']
     in do {
       addStateResidencyDataProvider (GenericStateResidency
         ''/sys/devices/platform/acpm_stats/core_stats'' cfgs);
       addEnergyConsumer (MeterConsumer CPU_CLUSTER ''CPUCL0'' [''S4M_VDD_CPUCL0'']);
       addEnergyConsumer (MeterConsumer CPU_CLUSTER ''CPUCL1'' [''S3M_VDD_CPUCL1'']);
       addEnergyConsumer (MeterConsumer CPU_CLUSTER ''CPUCL2'' [''S2M_VDD_CPUCL2''])
     })"

definition gpu_coeffs :: "int \<Rightarrow> (string \<times> int) list" where
  "gpu_coeffs socRev =
     (if 2 \<le> socRev
      then [(''151000'', 642), (''202000'', 890), (''251000'', 1102), (''302000'', 1308),
        (''351000'', 1522), (''400000'', 1772), (''471000'', 2105), (''510000'', 2292),
        (''572000'', 2528), (''701000'', 3127), (''762000'', 3452), (''848000'', 4044)]
      else [(''151000'', 843), (''302000'', 1529), (''455000'', 2298), (''572000'', 2866),
        (''670000'', 3191)])"

definition addGPU :: "('k, 'g) power_platform \<Rightarrow> (('k, 'g) power_world, unit) state" where
  "addGPU K = do {
     socRev \<leftarrow> GetIntProperty K kBootHwSoCRev 0;
     let stateCoeffs = gpu_coeffs socRev;
     addEnergyConsumer (MeterAndAttrConsumer OTHER ''GPU'' [''S2S_VDD_G3D'']
       [(UID_TIME_IN_STATE, ''/sys/devices/platform/1c500000.mali/uid_time_in_state'')] stateCoeffs);
     addStateResidencyDataProvider (DevfreqStateResidency ''GPU'' ''/sys/bus/platform/devices/1c500000.mali'')
   }"

section \<open>Radios and buses\<close>

definition addMobileRadio :: "('k, 'g) power_platform \<Rightarrow> (('k, 'g) power_world, unit) state" where
  "addMobileRadio K = (
     let powerStateConfig = supported ''count:'' ''duration_usec:'' ''last_entry_timestamp_usec:'' (Some modemUsToMs);
       powerStateHeaders = [(''SLEEP'', ''SLEEP:'')];
       cfgs = [(lib_generateConfigs K powerStateConfig powerStateHeaders, ''MODEM'', [])]
     in do {
       addStateResidencyDataProvider (GenericStateResidency
         ''/sys/devices/platform/cpif/modem/power_stats'' cfgs);
       addEnergyConsumer (MeterConsumer MOBILE_RADIO ''MODEM'' [''VSYS_PWR_MODEM'', ''VSYS_PWR_RFFE''])
     })"

definition addGNSS :: "('k, 'g) power_platform \<Rightarrow> (('k, 'g) power_world, unit) state" where
  "addGNSS K = (
     let gnssStateConfig = supported ''count:'' ''duration_usec:'' ''last_entry_timestamp_usec:'' (Some gnssUsToMs);
       gnssStateHeaders = [(''ON'', ''GPS_ON:''), (''OFF'', ''GPS_OFF:'')];
       cfgs = [(lib_generateConfigs K gnssStateConfig gnssStateHeaders, ''GPS'', [])]
     in do {
       addStateResidencyDataProvider (GenericStateResidency ''/dev/bbd_pwrstat'' cfgs);
       addEnergyConsumer (MeterConsumer GNSS ''GPS'' [''L9S_GNSS_CORE''])
     })"

definition addPCIe :: "('k, 'g) power_platform \<Rightarrow> (('k, 'g) power_world, unit) state" where
  "addPCIe K = (
     let pcieStateConfig = supported ''Cumulative count:'' ''Cumulative duration msec:'' ''Last entry timestamp msec:'' None;
       pcieStateHeaders = [(''UP'', ''Link up:''), (''DOWN'', ''Link down:'')];
       pcieModemCfgs = [(lib_generateConfigs K pcieStateConfig pcieStateHeaders, ''PCIe-Modem'', ''Version: 1'')];
       pcieWifiCfgs = [(lib_generateConfigs K pcieStateConfig pcieStateHeaders, ''PCIe-WiFi'', ''Version: 1'')]
     in do {
       addStateResidencyDataProvider (GenericStateResidency
         ''/sys/devices/platform/11920000.pcie/power_stats'' pcieModemCfgs);
       addStateResidencyDataProvider (GenericStateResidency
         ''/sys/devices/platform/14520000.pcie/power_stats'' pcieWifiCfgs)
     })"

definition addWifi :: "('k, 'g) power_platform \<Rightarrow> (('k, 'g) power_world, unit) state" where
  "addWifi K = (
     let stateConfig = supported ''count:'' ''duration_usec:'' ''last_entry_timestamp_usec:'' (Some usecToMs);
       pcieStateConfig = \<lparr>entryCountSupported = True, entryCountPrefix = ''count:'',
         totalTimeSupported = True, totalTimePrefix = ''duration_usec:'', totalTimeTransform = Some usecToMs,
         lastEntrySupported = False, lastEntryPrefix = [], lastEntryTransform = None\<rparr>;
       stateHeaders = [(''AWAKE'', ''AWAKE:''), (''ASLEEP'', ''ASLEEP:'')];
       pcieStateHeaders = [(''L0'', ''L0:''), (''L1'', ''L1:''), (''L1_1'', ''L1_1:''),
         (''L1_2'', ''L1_2:''), (''L2'', ''L2:'')];
       cfgs = [(lib_generateConfigs K stateConfig stateHeaders, ''WIFI'', ''WIFI''),
         (lib_generateConfigs K pcieStateConfig pcieStateHeaders, ''WIFI-PCIE'', ''WIFI-PCIE'')]
     in addStateResidencyDataProvider (GenericStateResidency ''/sys/wifi/power_stats'' cfgs))"

definition addUfs :: "(('k, 'g) power_world, unit) state" where
  "addUfs = addStateResidencyDataProvider (UfsStateResidency
     ''/sys/bus/platform/devices/14700000.ufs/ufs_stats/'')"

definition addPowerDomains :: "('k, 'g) power_platform \<Rightarrow> (('k, 'g) power_world, unit) state" where
  "addPowerDomains K = (
     let cpuStateConfig = supported ''on_count:'' ''total_on_time_ns:'' ''last_on_time_ns:'' (Some acpmNsToMs);
       cpuStateHeaders = [(''ON'', [])];
       cfgs = map (\<lambda>name. (lib_generateConfigs K cpuStateConfig cpuStateHeaders, name, name @ '':''))
         [''pd-tpu'', ''pd-bo'', ''pd-tnr'', ''pd-gdc'', ''pd-mcsc'', ''pd-ipp'', ''pd-g3aa'', ''pd-dns'',
          ''pd-itp'', ''pd-pdp'', ''pd-csis'', ''pd-mfc'', ''pd-g2d'', ''pd-dpu'', ''pd-disp'', ''pd-hsi0'',
          ''pd-embedded_g3d'', ''pd-g3d'', ''pd-eh'']
     in addStateResidencyDataProvider (GenericStateResidency
          ''/sys/devices/platform/acpm_stats/pd_stats'' cfgs))"

definition addDevfreq :: "(('k, 'g) power_world, unit) state" where
  "addDevfreq = do {
     addStateResidencyDataProvider (DevfreqStateResidency ''INT''
       ''/sys/devices/platform/17000020.devfreq_int/devfreq/17000020.devfreq_int'');
     addStateResidencyDataProvider (DevfreqStateResidency ''INTCAM''
       ''/sys/devices/platform/17000030.devfreq_intcam/devfreq/17000030.devfreq_intcam'');
     addStateResidencyDataProvider (DevfreqStateResidency ''DISP''
       ''/sys/devices/platform/17000040.devfreq_disp/devfreq/17000040.devfreq_disp'');
     addStateResidencyDataProvider (DevfreqStateResidency ''CAM''
       ''/sys/devices/platform/17000050.devfreq_cam/devfreq/17000050.devfreq_cam'');
     addStateResidencyDataProvider (DevfreqStateResidency ''TNR''
       ''/sys/devices/platform/17000060.devfreq_tnr/devfreq/17000060.devfreq_tnr'');
     addStateResidencyDataProvider (DevfreqStateResidency ''MFC''
       ''/sys/devices/platform/17000070.devfreq_mfc/devfreq/17000070.devfreq_mfc'');
     addStateResidencyDataProvider (DevfreqStateResidency ''BO''
       ''/sys/devices/platform/17000080.devfreq_bo/devfreq/17000080.devfreq_bo'')
   }"

section \<open>TPU, user space, display and NFC\<close>

definition int32_of_double :: "int \<Rightarrow> int" where
  \<comment> \<open>a double given in hundredths, converted to \<^verbatim>\<open>int32_t\<close>: the fraction is cut off\<close>
  "int32_of_double hundredths = sgn hundredths * (\<bar>hundredths\<bar> div 100)"

definition tpu_coeffs :: "(string \<times> int) list" where
  "tpu_coeffs = [(''226000'', int32_of_double 4925), (''500000'', int32_of_double 7380),
     (''800000'', int32_of_double 8699), (''1066000'', int32_of_double 10393),
     (''1230000'', int32_of_double 10810)]"

definition addTPU :: "(('k, 'g) power_world, unit) state" where
  "addTPU = addEnergyConsumer (MeterAndAttrConsumer OTHER ''TPU'' [''S10M_VDD_TPU'']
     [(UID_TIME_IN_STATE, ''/sys/class/edgetpu/edgetpu-soc/device/tpu_usage'')] tpu_coeffs)"

definition addPixelStateResidencyDataProvider :: "(('k, 'g) power_world, unit) state" where
  "addPixelStateResidencyDataProvider = do {
     let pixelSdp = PixelStateResidency [(''Bluetooth'', [(0, ''Idle''), (1, ''Active''), (2, ''Tx''), (3, ''Rx'')])];
     lib_call StartPixelProvider;
     addStateResidencyDataProvider pixelSdp
   }"

definition addDisplayMrr :: "(('k, 'g) power_world, unit) state" where
  "addDisplayMrr = addStateResidencyDataProvider (DisplayMrrStateResidency ''Display''
     ''/sys/class/drm/card0/device/primary-panel/'')"

definition addNFC :: "('k, 'g) power_platform \<Rightarrow> string \<Rightarrow> (('k, 'g) power_world, unit) state" where
  "addNFC K path = (
     let nfcStateConfig = supported ''Cumulative count:'' ''Cumulative duration msec:'' ''Last entry timestamp msec:'' None;
       nfcStateHeaders = [(''IDLE'', ''Idle mode:''), (''ACTIVE'', ''Active mode:''),
         (''ACTIVE-RW'', ''Active Reader/Writer mode:'')];
       cfgs = [(lib_generateConfigs K nfcStateConfig nfcStateHeaders, ''NFC'', ''NFC subsystem'')]
     in addStateResidencyDataProvider (GenericStateResidency path cfgs))"

definition addGs101CommonDataProviders :: "('k, 'g) power_platform \<Rightarrow> (('k, 'g) power_world, unit) state" where
  "addGs101CommonDataProviders K = do {
     setEnergyMeter;
     addPixelStateResidencyDataProvider;
     addAoC K;
     addDvfsStats K;
     addSoC K;
     addCPUclusters K;
     addGPU K;
     addMobileRadio K;
     addGNSS K;
     addPCIe K;
     addWifi K;
     addUfs;
     addPowerDomains K;
     addDevfreq;
     addTPU
   }"

end
