(* ===== verification/PowerProps.thy ===== *)
theory PowerProps
  imports PowerStats
begin

text \<open>
  What the registered power statistics satisfy: units that fit the prefixes of the statistics files,
  frequency tables that are in order and whose labels say what the values are, names that identify one
  entity, and coefficients for the operating points there are.
\<close>

section \<open>The specification\<close>

definition divides_by :: "nat \<Rightarrow> (64 word \<Rightarrow> 64 word) option \<Rightarrow> bool" where
  "divides_by n f \<longleftrightarrow> (\<exists>g. f = Some g \<and> (\<forall>a. unat (g a) = unat a div n))"

definition unit_fits :: "string \<Rightarrow> (64 word \<Rightarrow> 64 word) option \<Rightarrow> bool" where
  \<comment> \<open>the transform makes milliseconds of the unit the prefix ends with\<close>
  "unit_fits pre f =
     (if suffix ''_ns:'' pre then divides_by 1000000 f
      else if suffix ''_usec:'' pre then divides_by 1000 f
      else suffix ''msec:'' pre \<and> f = None)"

definition units_fit :: "StateResidencyConfig \<Rightarrow> bool" where
  "units_fit c \<longleftrightarrow>
     (\<not> totalTimeSupported c \<or> unit_fits (totalTimePrefix c) (totalTimeTransform c)) \<and>
     (\<not> lastEntrySupported c \<or> unit_fits (lastEntryPrefix c) (lastEntryTransform c))"

definition generated :: "('k, 'g) power_platform \<Rightarrow> 'g \<Rightarrow> bool" where
  \<comment> \<open>made from a configuration in milliseconds and headers of different names\<close>
  "generated K g \<longleftrightarrow> (\<exists>c hs. g = lib_generateConfigs K c hs \<and> units_fit c \<and> distinct (map fst hs))"

definition number :: "string \<Rightarrow> int" where
  "number ds = foldl (\<lambda>a c. 10 * a + (of_char c - 48)) 0 ds"

definition khz_of_label :: "string \<Rightarrow> string" where
  "khz_of_label l = (if l = ''0MHz'' then ''0'' else take (length l - 3) l @ ''000'')"

definition table_ok :: "dvfs_table \<Rightarrow> bool" where
  \<comment> \<open>the states from fast to slow, and an operating point named after its frequency in kHz\<close>
  "table_ok tab \<longleftrightarrow> sorted_wrt (>) (map (number \<circ> snd) (snd tab)) \<and> distinct (map fst (snd tab)) \<and>
     list_all (\<lambda>(l, v). \<not> suffix ''MHz'' l \<or> v = khz_of_label l) (snd tab)"

definition coeffs_ok :: "(string \<times> int) list \<Rightarrow> bool" where
  \<comment> \<open>a faster state costs more\<close>
  "coeffs_ok cs \<longleftrightarrow> sorted_wrt (<) (map (number \<circ> fst) cs) \<and> sorted_wrt (<) (map snd cs) \<and>
     list_all (\<lambda>(_, c). 0 < c) cs"

fun sound_provider :: "('k, 'g) power_platform \<Rightarrow> 'g provider \<Rightarrow> bool" where
  "sound_provider K (GenericStateResidency path cfgs) = list_all (\<lambda>(g, _, _). generated K g) cfgs"
| "sound_provider K (DvfsStateResidency path scale tables) =
     (unat scale = 1000000 \<and> list_all table_ok tables)"
| "sound_provider K (AocStateResidency ids states clock) =
     (distinct (map snd ids) \<and> distinct (map fst states) \<and> unat clock = 4096)"
| "sound_provider K _ = True"

fun sound_note :: "('k, 'g) power_platform \<Rightarrow> 'g power_note \<Rightarrow> bool" where
  "sound_note K (AddProvider p) = sound_provider K p"
| "sound_note K (AddConsumer (MeterAndAttrConsumer _ _ _ _ coeffs)) = coeffs_ok coeffs"
| "sound_note K _ = True"

fun residency_names :: "'g power_note \<Rightarrow> string list" where
  "residency_names (AddProvider (GenericStateResidency _ cfgs)) = map (\<lambda>(_, name, _). name) cfgs"
| "residency_names (AddProvider (AocStateResidency ids _ _)) = map fst ids"
| "residency_names (AddProvider (PixelStateResidency entities)) = map fst entities"
| "residency_names _ = []"

fun frequency_names :: "'g power_note \<Rightarrow> string list" where
  "frequency_names (AddProvider (DvfsStateResidency _ _ tables)) = map fst tables"
| "frequency_names (AddProvider (DevfreqStateResidency name _)) = [name]"
| "frequency_names _ = []"

fun consumer_names :: "'g power_note \<Rightarrow> string list" where
  "consumer_names (AddConsumer (MeterConsumer _ name _)) = [name]"
| "consumer_names (AddConsumer (MeterAndAttrConsumer _ name _ _ _)) = [name]"
| "consumer_names _ = []"

fun operating_points :: "string \<Rightarrow> 'g power_note \<Rightarrow> string list" where
  "operating_points dev (AddProvider (DvfsStateResidency _ _ tables)) =
     map snd (filter (\<lambda>(l, _). suffix ''MHz'' l) (concat (map snd (filter (\<lambda>(n, _). n = dev) tables))))"
| "operating_points dev _ = []"

fun priced_points :: "string \<Rightarrow> 'g power_note \<Rightarrow> string list" where
  "priced_points dev (AddConsumer (MeterAndAttrConsumer _ name _ _ coeffs)) =
     (if name = dev then map fst coeffs else [])"
| "priced_points dev _ = []"

section \<open>The tables\<close>

lemma unit_transforms:
  "divides_by 1000000 (Some acpmNsToMs)" "divides_by 1000 (Some modemUsToMs)"
  "divides_by 1000 (Some gnssUsToMs)" "divides_by 1000 (Some usecToMs)"
  by (simp_all add: divides_by_def acpmNsToMs_def modemUsToMs_def gnssUsToMs_def usecToMs_def
      NS_TO_MS_def US_TO_MS_def unat_div)

lemmas tables = MIF_table_def CL1_table_def CL0_table_A_def CL0_table_B_def CL2_table_A_def CL2_table_B_def
  TPU_table_A_def TPU_table_B_def

lemma table_checks:
  "table_ok MIF_table" "table_ok CL1_table" "table_ok CL0_table_A" "table_ok CL0_table_B"
  "table_ok CL2_table_A" "table_ok CL2_table_B" "table_ok TPU_table_A" "table_ok TPU_table_B"
  by (simp_all add: table_ok_def tables number_def khz_of_label_def suffix_to_prefix)

lemma dvfs_tables_ok: "list_all table_ok (dvfs_tables soc)"
  by (simp add: dvfs_tables_def table_checks)

lemma coeffs_checks: "coeffs_ok (gpu_coeffs soc)" "coeffs_ok tpu_coeffs"
  by (simp_all add: coeffs_ok_def number_def gpu_coeffs_def tpu_coeffs_def int32_of_double_def)

lemma generated_supported:
  assumes "unit_fits total_time f" "unit_fits last_entry f" "distinct (map fst hs)"
  shows "generated K (lib_generateConfigs K (supported count total_time last_entry f) hs)"
  unfolding generated_def
  by (rule exI [of _ "supported count total_time last_entry f"])
    (use assms in \<open>auto simp: units_fit_def supported_def\<close>)

lemma generated_others:
  "generated K (lib_generateConfigs K \<lparr>entryCountSupported = e, entryCountPrefix = p,
     totalTimeSupported = False, totalTimePrefix = p', totalTimeTransform = f,
     lastEntrySupported = False, lastEntryPrefix = q, lastEntryTransform = g\<rparr> [h])"
  "unit_fits p' f \<Longrightarrow> distinct (map fst hs) \<Longrightarrow>
   generated K (lib_generateConfigs K \<lparr>entryCountSupported = e, entryCountPrefix = p,
     totalTimeSupported = True, totalTimePrefix = p', totalTimeTransform = f,
     lastEntrySupported = False, lastEntryPrefix = q, lastEntryTransform = g\<rparr> hs)"
  unfolding generated_def
  by (intro exI conjI, rule refl, simp_all add: units_fit_def)+

lemma prefixes_fit:
  "suffix ''_ns:'' p \<Longrightarrow> unit_fits p (Some acpmNsToMs)"
  "\<not> suffix ''_ns:'' p \<Longrightarrow> suffix ''_usec:'' p \<Longrightarrow> unit_fits p (Some modemUsToMs)"
  "\<not> suffix ''_ns:'' p \<Longrightarrow> suffix ''_usec:'' p \<Longrightarrow> unit_fits p (Some gnssUsToMs)"
  "\<not> suffix ''_ns:'' p \<Longrightarrow> suffix ''_usec:'' p \<Longrightarrow> unit_fits p (Some usecToMs)"
  "\<not> suffix ''_ns:'' p \<Longrightarrow> \<not> suffix ''_usec:'' p \<Longrightarrow> suffix ''msec:'' p \<Longrightarrow> unit_fits p None"
  by (simp_all add: unit_fits_def unit_transforms)

section \<open>The registrations\<close>

definition gathered :: "('a \<Rightarrow> 'b list) \<Rightarrow> 'a list \<Rightarrow> 'b list" where
  "gathered f xs = concat (map f xs)"

lemma gathered_simps [simp]:
  "gathered f [] = []" "gathered f (x # xs) = f x @ gathered f xs"
  "gathered f (xs @ ys) = gathered f xs @ gathered f ys"
  by (simp_all add: gathered_def)

definition registers :: "('k, 'g) power_platform \<Rightarrow> ('k, 'g) power_world \<Rightarrow> ('k, 'g) power_world \<Rightarrow>
    string list \<Rightarrow> string list \<Rightarrow> string list \<Rightarrow> string list \<Rightarrow> string list \<Rightarrow> bool" where
  \<comment> \<open>between two states sound calls are made, with these entities, frequency tables, consumers and
     operating points of the TPU and coefficients for it\<close>
  "registers K s t R F C P E \<longleftrightarrow> (\<exists>cs. called t = called s @ cs \<and> list_all (sound_note K) cs \<and>
     gathered residency_names cs = R \<and> gathered frequency_names cs = F \<and> gathered consumer_names cs = C \<and>
     gathered (operating_points ''TPU'') cs = P \<and> gathered (priced_points ''TPU'') cs = E)"

lemma registers_trans:
  "registers K s t R F C P E \<Longrightarrow> registers K t u R' F' C' P' E' \<Longrightarrow>
   registers K s u (R @ R') (F @ F') (C @ C') (P @ P') (E @ E')"
  unfolding registers_def by (elim exE conjE) (rule exI, (rule conjI)?, auto)

definition adds :: "('k, 'g) power_platform \<Rightarrow> (('k, 'g) power_world, unit) state \<Rightarrow> ('k, 'g) power_world \<Rightarrow>
    string list \<Rightarrow> string list \<Rightarrow> string list \<Rightarrow> string list \<Rightarrow> string list \<Rightarrow> bool" where
  "adds K op s R F C P E \<longleftrightarrow> wp op (\<lambda>_ t. registers K s t R F C P E) s"

lemma adds_bind:
  "adds K op s R F C P E \<Longrightarrow> (\<And>t. adds K op' t R' F' C' P' E') \<Longrightarrow>
   adds K (State_Monad.bind op (\<lambda>_. op')) s (R @ R') (F @ F') (C @ C') (P @ P') (E @ E')"
  unfolding adds_def wp_bind by (elim wp_mono) (blast intro: registers_trans wp_mono)

lemmas registration = addStateResidencyDataProvider_def addEnergyConsumer_def adds_def registers_def wp Let_def

lemmas sound_config = generated_supported generated_others prefixes_fit suffix_to_prefix

lemma adds_setEnergyMeter: "adds K setEnergyMeter s [] [] [] [] []"
  by (simp add: setEnergyMeter_def registration)

lemma adds_pixel: "adds K addPixelStateResidencyDataProvider s [''Bluetooth''] [] [] [] []"
  by (simp add: addPixelStateResidencyDataProvider_def registration)

lemma adds_aoc: "adds K (addAoC K) s
    [''AoC-A32'', ''AoC-FF1'', ''AoC-HF1'', ''AoC-HF0'', ''AoC-Voltage'', ''AoC'', ''AoC-Count''] [] [] [] []"
  by (simp add: addAoC_def registration AOC_CLOCK_def sound_config)

lemma adds_dvfs:
  "kern s = k \<Longrightarrow> adds K (addDvfsStats K) s [] [''MIF'', ''CL1'', ''CL0'', ''CL2'', ''TPU''] []
     (if 2 \<le> fst (sys_GetIntProperty K kBootHwSoCRev 0 k)
      then [''1230000'', ''1066000'', ''800000'', ''500000'', ''226000'']
      else [''1393000'', ''1180000'', ''1049000'', ''967000'', ''721000'', ''648000'', ''455000'', ''250000'']) []"
  by (auto simp: addDvfsStats_def registration GetIntProperty_def NS_TO_MS_def dvfs_tables_ok)
    (auto simp: dvfs_tables_def tables suffix_to_prefix)

lemma adds_soc: "adds K (addSoC K) s [''LPM'', ''MIF'', ''MIF-REQ'', ''SLC'', ''SLC-REQ''] [] [] [] []"
  by (simp add: addSoC_def registration sound_config)

lemma adds_cpu: "adds K (addCPUclusters K) s
    [''CORE00'', ''CORE01'', ''CORE02'', ''CORE03'', ''CORE10'', ''CORE11'', ''CORE20'', ''CORE21'',
     ''CLUSTER0'', ''CLUSTER1'', ''CLUSTER2''] [] [''CPUCL0'', ''CPUCL1'', ''CPUCL2''] [] []"
  by (simp add: addCPUclusters_def registration sound_config)

lemma adds_gpu: "adds K (addGPU K) s [] [''GPU''] [''GPU''] [] []"
  by (simp add: addGPU_def registration GetIntProperty_def coeffs_checks)

lemma adds_radio: "adds K (addMobileRadio K) s [''MODEM''] [] [''MODEM''] [] []"
  by (simp add: addMobileRadio_def registration sound_config)

lemma adds_gnss: "adds K (addGNSS K) s [''GPS''] [] [''GPS''] [] []"
  by (simp add: addGNSS_def registration sound_config)

lemma adds_pcie: "adds K (addPCIe K) s [''PCIe-Modem'', ''PCIe-WiFi''] [] [] [] []"
  by (simp add: addPCIe_def registration sound_config)

lemma adds_wifi: "adds K (addWifi K) s [''WIFI'', ''WIFI-PCIE''] [] [] [] []"
  by (simp add: addWifi_def registration sound_config)

lemma adds_ufs: "adds K addUfs s [] [] [] [] []"
  by (simp add: addUfs_def registration)

lemma adds_domains: "adds K (addPowerDomains K) s
    [''pd-tpu'', ''pd-bo'', ''pd-tnr'', ''pd-gdc'', ''pd-mcsc'', ''pd-ipp'', ''pd-g3aa'', ''pd-dns'',
     ''pd-itp'', ''pd-pdp'', ''pd-csis'', ''pd-mfc'', ''pd-g2d'', ''pd-dpu'', ''pd-disp'', ''pd-hsi0'',
     ''pd-embedded_g3d'', ''pd-g3d'', ''pd-eh''] [] [] [] []"
  by (simp add: addPowerDomains_def registration sound_config)

lemma adds_devfreq: "adds K addDevfreq s [] [''INT'', ''INTCAM'', ''DISP'', ''CAM'', ''TNR'', ''MFC'', ''BO''] [] [] []"
  by (simp add: addDevfreq_def registration)

lemma adds_tpu: "adds K addTPU s [] [] [''TPU''] []
    [''226000'', ''500000'', ''800000'', ''1066000'', ''1230000'']"
  by (simp add: addTPU_def registration coeffs_checks) (simp add: tpu_coeffs_def)

section \<open>All of them\<close>

lemma keeps_kern:
  "keeps kern (setEnergyMeter :: (('k, 'g) power_world, unit) state)"
  "keeps kern (addPixelStateResidencyDataProvider :: (('k, 'g) power_world, unit) state)"
  "keeps kern (addAoC K :: (('k, 'g) power_world, unit) state)"
  by (simp_all add: keeps_def setEnergyMeter_def addPixelStateResidencyDataProvider_def addAoC_def
      addStateResidencyDataProvider_def lib_call_def Let_def)

lemma adds_bind_still:
  "kern s = k \<Longrightarrow> adds K op s R F C P E \<Longrightarrow> keeps kern op \<Longrightarrow>
   (\<And>t. kern t = k \<Longrightarrow> adds K op' t R' F' C' P' E') \<Longrightarrow>
   adds K (State_Monad.bind op (\<lambda>_. op')) s (R @ R') (F @ F') (C @ C') (P @ P') (E @ E')"
  unfolding adds_def wp_bind
  by (subgoal_tac "wp op (\<lambda>_ t. registers K s t R F C P E \<and> kern t = k) s")
    (erule wp_mono, blast intro: registers_trans wp_mono, simp add: wp_conj wp_def keeps_def case_prod_beta)

lemmas adds_after_dvfs = adds_bind [OF adds_soc adds_bind [OF adds_cpu adds_bind [OF adds_gpu
  adds_bind [OF adds_radio adds_bind [OF adds_gnss adds_bind [OF adds_pcie adds_bind [OF adds_wifi
  adds_bind [OF adds_ufs adds_bind [OF adds_domains adds_bind [OF adds_devfreq adds_tpu]]]]]]]]]]

lemma adds_all:
  "\<exists>R F C P E. adds K (addGs101CommonDataProviders K) s R F C P E \<and> distinct R \<and> distinct F \<and> distinct C \<and>
     (if 2 \<le> fst (sys_GetIntProperty K ''ro.boot.hw.soc.rev'' 0 (kern s)) then set E = set P
      else set E \<inter> set P = {})"
  unfolding addGs101CommonDataProviders_def
  apply (intro exI, rule conjI)
   apply (rule adds_bind_still [OF refl adds_setEnergyMeter keeps_kern(1)])
   apply (erule adds_bind_still [OF _ adds_pixel keeps_kern(2)])
   apply (erule adds_bind_still [OF _ adds_aoc keeps_kern(3)])
   apply (erule adds_bind [OF adds_dvfs adds_after_dvfs])
  apply (auto simp: kBootHwSoCRev_def)
  done

text \<open>
  C38: everything \<open>addGs101CommonDataProviders\<close> registers is in order, whatever the revision of the chip: each
  time is converted to milliseconds from the unit its prefix names; the frequency tables descend, with
  labels that say the frequency; no two entities, tables or consumers share a name; a faster state has a
  higher coefficient. The coefficients of the TPU are for exactly the operating points of the chips
  from revision 2 on; on an older chip not one of its operating points has a coefficient.
\<close>

theorem power_statistics_sound:
  "wp (addGs101CommonDataProviders K) (\<lambda>_ t. \<exists>cs. called t = called s @ cs \<and>
     list_all (sound_note K) cs \<and>
     distinct (gathered residency_names cs) \<and> distinct (gathered frequency_names cs) \<and>
     distinct (gathered consumer_names cs) \<and>
     (let points = set (gathered (operating_points ''TPU'') cs);
          priced = set (gathered (priced_points ''TPU'') cs)
      in if 2 \<le> fst (sys_GetIntProperty K ''ro.boot.hw.soc.rev'' 0 (kern s)) then priced = points
         else priced \<inter> points = {})) s"
proof -
  from adds_all obtain R F C P E where "adds K (addGs101CommonDataProviders K) s R F C P E"
    and facts: "distinct R" "distinct F" "distinct C"
      "if 2 \<le> fst (sys_GetIntProperty K ''ro.boot.hw.soc.rev'' 0 (kern s)) then set E = set P else set E \<inter> set P = {}"
    by blast
  then show ?thesis
    unfolding adds_def registers_def Let_def by (elim wp_mono) (use facts in blast)
qed

end
