(* ===== verification/PixelStats.thy ===== *)
theory PixelStats
  imports Health
begin

text \<open>
  The configuration of the pixel statistics service (\<^verbatim>\<open>pixelstats/service.cpp\<close>): the paths its
  collector and its uevent listener are given, and \<^verbatim>\<open>main\<close>, which starts the listener in a
  thread of its own and then runs the collector. Both are classes of a library and appear as calls.
\<close>

record SysfsPaths =
  SlowioReadCntPath :: string
  SlowioWriteCntPath :: string
  SlowioUnmapCntPath :: string
  SlowioSyncCntPath :: string
  CycleCountBinsPath :: string
  UFSLifetimeA :: string
  UFSLifetimeB :: string
  UFSLifetimeC :: string
  F2fsStatsPath :: string
  ImpedancePath :: string
  CodecPath :: string
  EEPROMPath :: string
  MitigationPath :: string
  SpeakerTemperaturePath :: string
  SpeakerExcursionPath :: string
  SpeakerHeartBeatPath :: string
  ResumeLatencyMetricsPath :: string
  LongIRQMetricsPath :: string
  StormIRQMetricsPath :: string
  IRQStatsResetPath :: string
  UFSErrStatsPath :: "string list"
  AmsRatePath :: string
  TempResidencyAndResetPaths :: "(string \<times> string) list"
  GMSRPath :: "string list"

record UeventPaths =
  AudioUevent :: string
  TypeCPartnerUevent :: string
  FGLearningPath :: "string list"
  FwUpdatePath :: string
  FGModelLoadingPath :: "string list"

datatype pixelstats_note = ListenForever UeventPaths | Collect SysfsPaths

definition BLOCK_STATS_LENGTH :: nat where "BLOCK_STATS_LENGTH = 17"

definition UFSHC_PATH :: "string \<Rightarrow> string" where
  "UFSHC_PATH filename = ''/dev/sys/block/bootdevice/'' @ filename"

definition UFS_ERR_PATH :: "string \<Rightarrow> string" where
  "UFS_ERR_PATH err_type = UFSHC_PATH ''err_stats/'' @ err_type"

definition sysfs_paths :: SysfsPaths where
  "sysfs_paths = \<lparr>
     SlowioReadCntPath = UFSHC_PATH ''slowio_read_cnt'',
     SlowioWriteCntPath = UFSHC_PATH ''slowio_write_cnt'',
     SlowioUnmapCntPath = UFSHC_PATH ''slowio_unmap_cnt'',
     SlowioSyncCntPath = UFSHC_PATH ''slowio_sync_cnt'',
     CycleCountBinsPath = ''/sys/class/power_supply/battery/cycle_counts'',
     UFSLifetimeA = UFSHC_PATH ''health_descriptor/life_time_estimation_a'',
     UFSLifetimeB = UFSHC_PATH ''health_descriptor/life_time_estimation_b'',
     UFSLifetimeC = UFSHC_PATH ''health_descriptor/life_time_estimation_c'',
     F2fsStatsPath = ''/sys/fs/f2fs/'',
     ImpedancePath = ''/sys/devices/platform/audiometrics/speaker_impedance'',
     CodecPath = ''/sys/devices/platform/audiometrics/codec_state'',
     EEPROMPath = ''/dev/battery_history'',
     MitigationPath = ''/sys/devices/virtual/pmic/mitigation'',
     SpeakerTemperaturePath = ''/sys/devices/platform/audiometrics/speaker_temp'',
     SpeakerExcursionPath = ''/sys/devices/platform/audiometrics/speaker_excursion'',
     SpeakerHeartBeatPath = ''/sys/devices/platform/audiometrics/speaker_heartbeat'',
     ResumeLatencyMetricsPath = ''/sys/kernel/metrics/resume_latency/resume_latency_metrics'',
     LongIRQMetricsPath = ''/sys/kernel/metrics/irq/long_irq_metrics'',
     StormIRQMetricsPath = ''/sys/kernel/metrics/irq/storm_irq_metrics'',
     IRQStatsResetPath = ''/sys/kernel/metrics/irq/stats_reset'',
     UFSErrStatsPath = map UFS_ERR_PATH
       [''pa_err_count'', ''dl_err_count'', ''nl_err_count'', ''tl_err_count'', ''dme_err_count'',
        ''fatal_err_count'', ''auto_hibern8_err_count''],
     AmsRatePath = ''/sys/devices/platform/audiometrics/ams_rate_read_once'',
     TempResidencyAndResetPaths =
       [(''/sys/kernel/metrics/thermal/tr_by_group/tmu/stats'',
         ''/sys/kernel/metrics/thermal/tr_by_group/tmu/stats_reset''),
        (''/sys/kernel/metrics/thermal/tr_by_group/spmic/stats'',
         ''/sys/kernel/metrics/thermal/tr_by_group/spmic/stats_reset'')],
     GMSRPath = [''/sys/class/power_supply/maxfg/gmsr'', ''/sys/class/power_supply/maxfg_base/gmsr'']\<rparr>"

definition ueventPaths :: UeventPaths where
  "ueventPaths = \<lparr>
     AudioUevent = ''/devices/virtual/amcs/amcs'',
     TypeCPartnerUevent = ''PRODUCT_TYPE='',
     FGLearningPath = [''/sys/class/power_supply/maxfg/fg_learning_events''],
     FwUpdatePath = [],
     FGModelLoadingPath = [''/sys/class/power_supply/maxfg/m5_model_state'']\<rparr>"

definition pixelstats_main :: "(('k, pixelstats_note) world, int) state" where
  "pixelstats_main = do {
     lib_call (ListenForever ueventPaths);
     lib_call (Collect sysfs_paths);
     ret 0
   }"

text \<open>The two services that report the wear of the storage read the same files.\<close>

lemma same_lifetime_files:
  "UFSLifetimeA sysfs_paths = kUfsHealthLifetimeA" "UFSLifetimeB sysfs_paths = kUfsHealthLifetimeB"
  by (simp_all add: sysfs_paths_def UFSHC_PATH_def kUfsHealthLifetimeA_def kUfsHealthLifetimeB_def UFS_DIR_def)

text \<open>Every residency file comes with the file beside it that resets it.\<close>

lemma reset_beside:
  "list_all (\<lambda>(stats, reset). reset = stats @ ''_reset'') (TempResidencyAndResetPaths sysfs_paths)"
  by (simp add: sysfs_paths_def)

end
