(* ===== verification/SoundTrigger.thy ===== *)
theory SoundTrigger
  imports Prelude
begin

text \<open>
  The configuration of the sound trigger HAL (\<^verbatim>\<open>conf/soundtrigger_conf.h\<close>): card and device
  numbers, the capture format, and the mixer controls of the two microphones with their values and the
  counts the header declares for them.
\<close>

definition VTS_SOUND_CARD :: nat where "VTS_SOUND_CARD = 0"
definition VTS_MIXER_CARD :: nat where "VTS_MIXER_CARD = 0"
definition VTS_TRICAP_DEVICE_NODE :: nat where "VTS_TRICAP_DEVICE_NODE = 13"
definition VTS_RECORD_DEVICE_NODE :: nat where "VTS_RECORD_DEVICE_NODE = 14"
definition VTS_HOTWORD_MODEL :: string where
  "VTS_HOTWORD_MODEL = ''/sys/devices/platform/13810000.vts/vts_google_model''"
definition VTS_SVOICE_MODEL :: string where
  "VTS_SVOICE_MODEL = ''/sys/devices/platform/13810000.vts/vts_svoice_model''"
definition AUDIO_PRIMARY_HAL_LIBRARY_PATH :: string where
  "AUDIO_PRIMARY_HAL_LIBRARY_PATH = ''/vendor/lib/libaudioproxy.so''"
definition DEFAULT_VTS_CHANNELS :: nat where "DEFAULT_VTS_CHANNELS = 1"
definition DEFAULT_VTS_SAMPLING_RATE :: nat where "DEFAULT_VTS_SAMPLING_RATE = 16000"
definition PRIMARY_VTS_PERIOD_SIZE :: nat where "PRIMARY_VTS_PERIOD_SIZE = 160"
definition PRIMARY_VTS_PERIOD_COUNT :: nat where "PRIMARY_VTS_PERIOD_COUNT = 1024"
definition VTS_ACTIVE_KEYPHRASE_CTL_NAME :: string where
  "VTS_ACTIVE_KEYPHRASE_CTL_NAME = ''VTS Active Keyphrase''"
definition VTS_EXECUTION_MODE_CTL_NAME :: string where
  "VTS_EXECUTION_MODE_CTL_NAME = ''VTS Execution Mode''"
definition VTS_VOICERECOGNIZE_START_CTL_NAME :: string where
  "VTS_VOICERECOGNIZE_START_CTL_NAME = ''VTS VoiceRecognize Start''"
definition VTS_VOICETRIGGER_VALUE_CTL_NAME :: string where
  "VTS_VOICETRIGGER_VALUE_CTL_NAME = ''VTS VoiceTrigger Value''"
definition MAIN_MIC_CONTROL_COUNT :: nat where "MAIN_MIC_CONTROL_COUNT = 8"
definition HEADSET_MIC_CONTROL_COUNT :: nat where "HEADSET_MIC_CONTROL_COUNT = 8"
definition MODEL_RECOGNIZE_CONTROL_COUNT :: nat where "MODEL_RECOGNIZE_CONTROL_COUNT = 4"

definition main_mic_ctlname :: "string list" where
  "main_mic_ctlname = [''VTS DMIC SEL'', ''VTS DMIC IF RCH EN'', ''VTS DMIC IF LCH EN'', ''VTS SYS SEL'',
     ''VTS HPF EN'', ''VTS HPF SEL'', ''DMIC1 Switch'', ''VTS Virtual Output Mux'']"

definition headset_mic_ctlname :: "string list" where
  "headset_mic_ctlname = [''AUXPDM1 Rate'', ''AUXPDM1 Input'', ''AUXPDM1 Output Switch'', ''AUXPDM Switch'',
     ''VTS DMIC SEL'', ''VTS DMIC IF RCH EN'', ''VTS DMIC IF LCH EN'', ''VTS SYS SEL'', ''VTS HPF EN'',
     ''VTS HPF SEL'']"

definition main_mic_ctlvalue :: "int list" where
  "main_mic_ctlvalue = [0, 1, 1, 1, 1, 1, 1, 1]"

definition headset_mic_ctlvalue :: "int list" where
  "headset_mic_ctlvalue = [3, 0, 1, 1, 1, 1, 1, 1, 1, 1]"

text \<open>
  The names and the values of each microphone belong together. The count of the headset's controls leaves
  out the last two of its ten: a loop up to it does not set the high-pass filter.
\<close>

lemma mic_tables:
  "length main_mic_ctlname = MAIN_MIC_CONTROL_COUNT" "length main_mic_ctlvalue = MAIN_MIC_CONTROL_COUNT"
  "length headset_mic_ctlname = length headset_mic_ctlvalue"
  "drop HEADSET_MIC_CONTROL_COUNT headset_mic_ctlname = [''VTS HPF EN'', ''VTS HPF SEL'']"
  by (simp_all add: main_mic_ctlname_def main_mic_ctlvalue_def headset_mic_ctlname_def
      headset_mic_ctlvalue_def MAIN_MIC_CONTROL_COUNT_def HEADSET_MIC_CONTROL_COUNT_def)

end
