(* ===== verification/ServiceMain.thy ===== *)
theory ServiceMain
  imports ReportProps UsbGadget
begin

text \<open>
  The entry points of the two USB processes (\<^verbatim>\<open>usb/usb/service.cpp\<close>,
  \<^verbatim>\<open>usb/gadget/service_gadget.cpp\<close>): the service object is constructed, registered under its
  descriptor's default instance, and the main thread joins the pool. Binder's functions are the record
  \<open>binder\<close>; a failed registration is fatal.
\<close>

record 'k service_manager =
  descriptor :: string
  lib_setThreadPoolMaxThreadCount :: "nat \<Rightarrow> 'k \<Rightarrow> unit \<times> 'k"
  lib_addService :: "string \<Rightarrow> 'k \<Rightarrow> bool \<times> 'k"     \<comment> \<open>whether the status is \<^verbatim>\<open>STATUS_OK\<close>\<close>
  lib_joinThreadPool :: "'k \<Rightarrow> unit \<times> 'k"

definition serve ::
  "'k service_manager \<Rightarrow> (('k, 'n, 'z) world_scheme, fault + unit) state \<Rightarrow> (('k, 'n, 'z) world_scheme, fault + int) state" where
  \<comment> \<open>the body the two functions share, with the constructor of the service\<close>
  "serve B construct = do {
     sys (lib_setThreadPoolMaxThreadCount B 0) (\<lambda>_. []);
     r \<leftarrow> construct;
     on_ok r (\<lambda>_. do {
       let inst = descriptor B @ ''/default'';
       ok \<leftarrow> sys (lib_addService B (c_str inst)) (\<lambda>_. []);
       if \<not> ok then ret (Inl Aborted)
       else do {
         sys (lib_joinThreadPool B) (\<lambda>_. []);
         ret (Inr (- 1))
       }
     })
   }"

definition usb_main :: "'k service_manager \<Rightarrow> 'k usb_platform \<Rightarrow> (('k, 'z) usb_scheme, fault + int) state" where
  "usb_main B K = serve B (Usb K)"

definition gadget_main :: "'k service_manager \<Rightarrow> 'k gadget_platform \<Rightarrow> (('k, 'z) gadget_scheme, fault + int) state" where
  "gadget_main B K = serve B (UsbGadget K)"

text \<open>A service that is served has been constructed: what its constructor leaves holds then.\<close>

lemma wp_serve:
  fixes construct :: "(('k, 'n, 'z) world_scheme, fault + unit) state"
  assumes construct: "\<And>s. wp construct (\<lambda>r t. case r of Inl f \<Rightarrow> f = Aborted | Inr _ \<Rightarrow> P t) s"
    and P: "\<And>t k. P t \<Longrightarrow> P (t\<lparr>kern := k\<rparr>)"
  shows "wp (serve B construct) (\<lambda>r t. r = Inl Aborted \<or> r = Inr (- 1) \<and> P t) s"
  unfolding serve_def wp
  by (intro allI impI) (rule wp_mono [OF construct], auto simp: wp P split: sum.splits)

lemma usb_established_kern: "usb_established t \<Longrightarrow> usb_established (t\<lparr>kern := k\<rparr>)"
  by (simp add: usb_established_def i2c_inv_def)


end
