(* ===== verification/Spec2Isabelle.thy ===== *)
theory Spec2Isabelle
  imports MonitorProps I2cProps ReportProps GadgetProps GadgetRequest Registration HealthProps FpTest
    PkvmEnabler PowerProps PixelStats SoundTrigger ServiceMain
begin

text \<open>
  A verification development for the device services of the gs101 platform.

  \<^bold>\<open>The program.\<close> The repository holds a handful of independent processes. The USB service
  (\<^verbatim>\<open>usb/usb\<close>) reports the state of the Type-C ports to a callback and changes roles, power and
  data of the ports by writing sysfs files. Three threads work on its object: Binder calls, a worker that
  waits for uevents while a callback is registered, and the thread of its session monitor, which follows
  the state files of the device controller and of two host ports, derives compliance warnings and uploads
  metrics. The monitor calls back into the service (\<open>updatePortStatus\<close>), the service asks the monitor for
  its warnings when it builds a report. The USB gadget service (\<^verbatim>\<open>usb/gadget\<close>) sets the device's USB
  functions up through configfs with the \<^verbatim>\<open>pixelusb\<close> library and looks the Type-C controller up
  in the same way as the USB service. The health service (\<^verbatim>\<open>health\<close>), the power statistics
  (\<^verbatim>\<open>powerstats\<close>), the pixel statistics (\<^verbatim>\<open>pixelstats\<close>), the pKVM enabler
  (\<^verbatim>\<open>pkvm\<close>), the fingerprint test tool (\<^verbatim>\<open>fingerprint\<close>) and the sound trigger
  tables (\<^verbatim>\<open>conf\<close>) are small and stand alone.

  \<^bold>\<open>How code becomes definitions.\<close> A function of the sources is a definition of the same name. A
  function with effects is a value of the state monad; its state is a record that extends \<open>world\<close> (the
  kernel state and the trace of calls, theory \<open>Platform\<close>) by the fields of the object. What is not under
  \<^verbatim>\<open>src/\<close> (kernel, C library files, Binder, \<^verbatim>\<open>libbase\<close>, \<^verbatim>\<open>pixelusb\<close>,
  \<^verbatim>\<open>pixelhealth\<close>, the power statistics library) is a record of functions \<open>K\<close>, an argument of every
  definition that uses it; each call may change the kernel state in any way and fail in any way. Uncaught
  exceptions, aborts and undefined behaviour are values of \<open>fault\<close>; a function that can meet one returns
  \<open>fault + 'a\<close>. C strings, \<^verbatim>\<open>stoi\<close>, \<^verbatim>\<open>sscanf\<close>, \<^verbatim>\<open>strtok\<close>,
  \<^verbatim>\<open>snprintf\<close> and the stream operators are written out as the standard has them (theories
  \<open>Prelude\<close>, \<open>TypecPort\<close>, \<open>Health\<close>). Fields of fixed width are words or carry their range in the
  invariant.

  \<^bold>\<open>The theories.\<close>
  \<^item> \<open>Prelude\<close>, \<open>Platform\<close>: strings and numbers, the calculus of \<open>wp\<close> and \<open>keeps\<close> with its two
    collections, the boundary to the system. \<open>ExampleKernel\<close>, \<open>ExampleGadget\<close>: one concrete system for
    the witnesses.
  \<^item> \<open>I2cClient\<close>, \<open>I2cProps\<close>: \<^verbatim>\<open>getI2cBusNumber\<close>, \<^verbatim>\<open>getI2cClientPath\<close>; the locale
    \<open>cached_lookup\<close> is the contract of the two caches.
  \<^item> \<open>UsbTypes\<close>, \<open>UsbState\<close>: data, constants and object of the USB service. \<open>SessionMonitor\<close>,
    \<open>SessionProofs\<close>, \<open>MonitorProps\<close>: \<^verbatim>\<open>UsbDataSessionMonitor.cpp\<close>; the locale
    \<open>status_callback\<close> is what the monitor asks of the service.
  \<^item> \<open>TypecPort\<close>, \<open>PortReport\<close>, \<open>RoleSwitch\<close>, \<open>UsbService\<close>: \<^verbatim>\<open>Usb.cpp\<close> in the order ports,
    reports, role switches, methods and worker. \<open>UsbFrames\<close> (the locales \<open>query_observer\<close> and
    \<open>service_observer\<close>: what queries and notifications leave alone, and the interpretation that gives the
    monitor its callback), \<open>TypecProps\<close>, \<open>ReportProps\<close>, \<open>RoleProps\<close>, \<open>UsbProps\<close>: its properties.
  \<^item> \<open>Registration\<close>: \<^verbatim>\<open>setCallback\<close>, the worker and \<^verbatim>\<open>mLock\<close> as interleaved steps.
  \<^item> \<open>GadgetState\<close>, \<open>UsbGadget\<close>, \<open>GadgetProps\<close>, \<open>GadgetSetup\<close>, \<open>GadgetRequest\<close>: the gadget service; the
    locale \<open>request_observer\<close> says what the silent steps of a request leave alone.
  \<^item> \<open>ServiceMain\<close>: \<^verbatim>\<open>main\<close> of both USB processes.
  \<^item> \<open>Health\<close>, \<open>HealthProps\<close>; \<open>PowerStats\<close>, \<open>PowerProps\<close>; \<open>FpTest\<close>; \<open>PkvmEnabler\<close>; \<open>PixelStats\<close>;
    \<open>SoundTrigger\<close>: one component each.

  \<^bold>\<open>What the theorems show.\<close> For the monitor: an invariant of its thread over all event sequences, the exact
  conditions of the warnings, what a session end uploads and a new session clears, the decoding of uevents,
  and the descriptors it loses. For the ports: names and roles read back from the kernel's formats, every
  field of a report, one report per query and none after a crash. For the operations: the files written, in
  order, with the messages the callback gets, on every failure path. For the threads: one worker while a
  callback is registered, when \<^verbatim>\<open>mLock\<close> can become free again (and the deadlock in which it
  never does), and that \<open>setCallback\<close> as one operation is a run of the interleaved threads. For the gadget:
  order of tear-down and set-up, linking, the id table against a reference, the interrupt line taken. For
  the rest: the caches and round trips of the health service, the consistency of all power tables, the
  commands of the tool, the outcome of the enabler.

  \<^bold>\<open>Fuel.\<close> Only the wait for a partner in \<open>switchMode\<close> may not end: it takes the number of wake-ups it may see,
  and \<open>wait_for_partner_returns\<close> says which fuel is enough, namely one that includes a wake-up that times
  out or finds the partner. All other loops are over finite data; the thread loops take the list of the
  events they get.

  \<^bold>\<open>Not modelled.\<close> Log output, and \<^verbatim>\<open>printf\<close> of the tool. Regular expressions beyond the two operators
  the patterns use. Mutexes inside one operation: a run has its locks held, and what another thread does
  meanwhile is what the platform allows, except in \<open>Registration\<close>, where \<^verbatim>\<open>mLock\<close> is a value.
  Unsynchronised accesses (\<^verbatim>\<open>mWarningSet\<close> is read by the worker and written by the monitor
  thread without a lock) are runs one after the other. The Java settings parts, overlays, SELinux
  policy, init scripts, build files and audio tables carry no C++ code.
\<close>

end
